(* ===== verification/Prelude.thy ===== *)
theory Prelude
  imports Complex_Main "HOL-Library.Word" "HOL-Library.Signed_Division"
    "HOL-Library.Multiset" "HOL-Library.Char_ord" "HOL-Library.List_Lexorder"
begin

text \<open>
  What every theory of the development shares.
  \<^item> The effect type of the Go functions: a state goes in, an error value or a result comes
    out together with the new state. \<open>bindE\<close> is the \<open>x, err := f(); if err != nil
    { return nil, err }\<close> of the source, \<open>tryE\<close> a call whose error the caller inspects,
    \<open>wrapE\<close> is \<open>fmt.Errorf("...: %w", err)\<close> and \<open>deferE\<close> is \<open>defer\<close>.
  \<^item> The collections \<open>succ\<close> (when does a step return a value) and \<open>fails\<close>
    (when does it return an error), with which the component proofs invert a run.
  \<^item> The interface \<open>step_order\<close>: a preorder on states that every primitive step
    respects is respected by every function composed of them.
  \<^item> Machine integers of Go (\<open>int\<close> is 64 bits wide), and lemmas on association of rows
    with keys that the tables share.
\<close>

section \<open>Results with effects\<close>

type_synonym ('s, 'e, 'a) prog = "'s \<Rightarrow> ('e + 'a) \<times> 's"

named_theorems succ \<open>when a step returns a value\<close>
named_theorems fails \<open>when a step returns an error\<close>

definition returnE :: "'a \<Rightarrow> ('s, 'e, 'a) prog" where
  "returnE x = (\<lambda>s. (Inr x, s))"

definition throwE :: "'e \<Rightarrow> ('s, 'e, 'a) prog" where
  "throwE e = (\<lambda>s. (Inl e, s))"

definition bindE :: "('s, 'e, 'a) prog \<Rightarrow> ('a \<Rightarrow> ('s, 'e, 'b) prog) \<Rightarrow> ('s, 'e, 'b) prog" where
  "bindE m f = (\<lambda>s. case m s of (Inl e, t) \<Rightarrow> (Inl e, t) | (Inr x, t) \<Rightarrow> f x t)"

definition tryE :: "('s, 'e, 'a) prog \<Rightarrow> ('e + 'a \<Rightarrow> ('s, 'f, 'b) prog) \<Rightarrow> ('s, 'f, 'b) prog" where
  "tryE m f = (\<lambda>s. case m s of (r, t) \<Rightarrow> f r t)"

definition wrapE :: "('e \<Rightarrow> 'f) \<Rightarrow> ('s, 'e, 'a) prog \<Rightarrow> ('s, 'f, 'a) prog" where
  "wrapE g m = (\<lambda>s. case m s of (Inl e, t) \<Rightarrow> (Inl (g e), t) | (Inr x, t) \<Rightarrow> (Inr x, t))"

text \<open>\<open>defer c\<close>: the cleanup runs when the body has returned, whatever it returned.\<close>

definition deferE :: "('s \<Rightarrow> 's) \<Rightarrow> ('s, 'e, 'a) prog \<Rightarrow> ('s, 'e, 'a) prog" where
  "deferE c m = (\<lambda>s. case m s of (r, t) \<Rightarrow> (r, c t))"

text \<open>A list of checks, each with the error it reports, in the order they are made.\<close>

fun checkE :: "(bool \<times> 'e) list \<Rightarrow> ('s, 'e, unit) prog" where
  "checkE [] = returnE ()"
| "checkE ((c, e) # cs) = (if c then checkE cs else throwE e)"

lemma returnE_Inr [succ]: "returnE x s = (Inr y, t) \<longleftrightarrow> y = x \<and> t = s"
  by (auto simp: returnE_def)

lemma throwE_Inr [succ]: "\<not> throwE e s = (Inr y, t)"
  by (simp add: throwE_def)

lemma bindE_Inr [succ]:
  "bindE m f s = (Inr y, t) \<longleftrightarrow> (\<exists>x u. m s = (Inr x, u) \<and> f x u = (Inr y, t))"
  by (auto simp: bindE_def split: prod.splits sum.splits)

lemma wrapE_Inr [succ]: "wrapE g m s = (Inr y, t) \<longleftrightarrow> m s = (Inr y, t)"
  by (auto simp: wrapE_def split: prod.splits sum.splits)

lemma deferE_Inr [succ]: "deferE c m s = (Inr y, t) \<longleftrightarrow> (\<exists>u. m s = (Inr y, u) \<and> t = c u)"
  by (auto simp: deferE_def split: prod.splits)

lemma checkE_Inr [succ]: "checkE cs s = (Inr y, t) \<longleftrightarrow> list_all fst cs \<and> t = s"
  by (induction cs) (auto simp: succ split: if_splits)

lemma returnE_Inl [fails]: "\<not> returnE x s = (Inl e, t)"
  by (simp add: returnE_def)

lemma throwE_Inl [fails]: "throwE e s = (Inl e', t) \<longleftrightarrow> e' = e \<and> t = s"
  by (auto simp: throwE_def)

lemma bindE_Inl [fails]:
  "bindE m f s = (Inl e, t) \<longleftrightarrow>
     m s = (Inl e, t) \<or> (\<exists>x u. m s = (Inr x, u) \<and> f x u = (Inl e, t))"
  by (auto simp: bindE_def split: prod.splits sum.splits)

lemma wrapE_Inl [fails]: "wrapE g m s = (Inl e, t) \<longleftrightarrow> (\<exists>e'. m s = (Inl e', t) \<and> e = g e')"
  by (auto simp: wrapE_def split: prod.splits sum.splits)

lemma deferE_Inl [fails]: "deferE c m s = (Inl e, t) \<longleftrightarrow> (\<exists>u. m s = (Inl e, u) \<and> t = c u)"
  by (auto simp: deferE_def split: prod.splits)

text \<open>Running forward: a step whose outcome is known.\<close>

lemma bindE_run: "m s = (Inr x, u) \<Longrightarrow> bindE m f s = f x u"
  by (simp add: bindE_def)

lemma bindE_stop: "m s = (Inl e, u) \<Longrightarrow> bindE m f s = (Inl e, u)"
  by (simp add: bindE_def)

lemma wrapE_run: "m s = (Inr x, u) \<Longrightarrow> wrapE g m s = (Inr x, u)"
  by (simp add: wrapE_def)

lemma tryE_run: "m s = (r, u) \<Longrightarrow> tryE m f s = f r u"
  by (simp add: tryE_def)

lemma checkE_run: "list_all fst cs \<Longrightarrow> checkE cs s = (Inr (), s)"
  by (simp add: checkE_Inr)

lemma checkE_state: "snd (checkE cs s) = s"
  by (induction cs rule: checkE.induct) (auto simp: returnE_def throwE_def)

declare checkE.simps [simp del]

section \<open>Relations every step respects\<close>

definition steps :: "('s \<Rightarrow> 's \<Rightarrow> bool) \<Rightarrow> ('s, 'e, 'a) prog \<Rightarrow> bool" where
  "steps R m \<longleftrightarrow> (\<forall>s. R s (snd (m s)))"

lemma stepsD: "steps R m \<Longrightarrow> m s = (r, t) \<Longrightarrow> R s t"
  by (metis steps_def snd_conv)

text \<open>
  The contract of a preorder on states. Its client lemmas close \<open>steps\<close> under the
  combinators; the component theories interpret it with the relations they need.
\<close>

locale step_order =
  fixes R :: "'s \<Rightarrow> 's \<Rightarrow> bool"
  assumes R_refl: "R s s"
    and R_trans: "R s t \<Longrightarrow> R t u \<Longrightarrow> R s u"
begin

lemma steps_returnE: "steps R (returnE x)"
  by (simp add: steps_def returnE_def R_refl)

lemma steps_throwE: "steps R (throwE e)"
  by (simp add: steps_def throwE_def R_refl)

lemma steps_bindE: "steps R m \<Longrightarrow> (\<And>x. steps R (f x)) \<Longrightarrow> steps R (bindE m f)"
  unfolding steps_def bindE_def
  by (auto split: prod.splits sum.splits) (metis R_trans snd_conv)+

lemma steps_tryE: "steps R m \<Longrightarrow> (\<And>r. steps R (f r)) \<Longrightarrow> steps R (tryE m f)"
  unfolding steps_def tryE_def
  by (auto split: prod.splits) (metis R_trans snd_conv)

lemma steps_wrapE: "steps R m \<Longrightarrow> steps R (wrapE g m)"
  unfolding steps_def wrapE_def by (auto split: prod.splits sum.splits) (metis snd_conv)+

lemma steps_deferE: "steps R m \<Longrightarrow> (\<And>s. R s (c s)) \<Longrightarrow> steps R (deferE c m)"
  unfolding steps_def deferE_def
  by (auto split: prod.splits) (metis R_trans snd_conv)

lemma steps_checkE: "steps R (checkE cs)"
  by (simp add: steps_def checkE_state R_refl)

lemma steps_if: "steps R m \<Longrightarrow> steps R n \<Longrightarrow> steps R (if b then m else n)"
  by simp

lemma steps_option: "steps R m \<Longrightarrow> (\<And>x. steps R (f x)) \<Longrightarrow>
    steps R (case v of None \<Rightarrow> m | Some x \<Rightarrow> f x)"
  by (cases v) auto

lemma steps_sum: "(\<And>x. steps R (m x)) \<Longrightarrow> (\<And>x. steps R (f x)) \<Longrightarrow>
    steps R (case v of Inl x \<Rightarrow> m x | Inr x \<Rightarrow> f x)"
  by (cases v) auto

lemma steps_prod: "(\<And>x y. steps R (f x y)) \<Longrightarrow> steps R (case v of (x, y) \<Rightarrow> f x y)"
  by (cases v) auto

lemma steps_let: "(\<And>x. steps R (f x)) \<Longrightarrow> steps R (let x = v in f x)"
  by simp

lemmas steps_intros = steps_returnE steps_throwE steps_bindE steps_tryE steps_wrapE
  steps_deferE steps_checkE steps_if steps_option steps_sum steps_prod steps_let

end

section \<open>Go integers\<close>

text \<open>
  \<open>int\<close> is 64 bits wide and wraps. \<open>int32(x)\<close> keeps the low 32 bits. Division
  truncates towards zero and panics on zero: \<open>None\<close>.
\<close>

type_synonym goint = "64 word"
type_synonym goint32 = "32 word"

definition int32 :: "goint \<Rightarrow> goint32" where
  "int32 x = word_of_int (sint x)"

definition go_len :: "'a list \<Rightarrow> goint" where
  "go_len xs = word_of_int (int (length xs))"

definition go_div :: "goint \<Rightarrow> goint \<Rightarrow> goint option" where
  "go_div a b = (if b = 0 then None else Some (word_of_int (sint a sdiv sint b)))"

lemma sint_word_of_int_64: "- (2 ^ 63) \<le> k \<Longrightarrow> k < 2 ^ 63 \<Longrightarrow> sint (word_of_int k :: goint) = k"
  by (simp add: signed_of_int signed_take_bit_int_eq_self)

lemma sint_int32: "- (2 ^ 31) \<le> sint x \<Longrightarrow> sint x < 2 ^ 31 \<Longrightarrow> sint (int32 x) = sint x"
  unfolding int32_def by (subst signed_of_int) (simp add: signed_take_bit_int_eq_self)

lemma sdiv_nonneg: "0 \<le> a \<Longrightarrow> 0 < b \<Longrightarrow> (a::int) sdiv b = a div b"
  by (cases "a = 0") (simp_all add: signed_divide_int_def)

end
