(* ===== verification/Model.thy ===== *)
theory Model
  imports Prelude
begin

text \<open>
  The domain entities of \<open>internal/model\<close>, the request and response types of
  \<open>internal/dto\<close>, the error values of the services, and the third-party functions the
  code calls, gathered in the record \<open>lib\<close> that the definitions take as an argument.
  Money is the type variable \<open>'d\<close>: \<open>shopspring/decimal\<close> is not part of the
  repository, so its type and its functions are parameters. What the code relies on of it
  is the predicate \<open>decimal_laws\<close>: the operations compute exactly on the rational
  number a decimal denotes.
\<close>

section \<open>Basic types\<close>

type_synonym uuid = "128 word"  \<comment> \<open>\<open>uuid.Nil\<close> is 0\<close>
type_synonym time = int  \<comment> \<open>microseconds; the zero \<open>time.Time\<close> is 0\<close>

datatype json = JNull | JBool bool | JNum string | JStr string | JArr "json list"
  | JObj "(string \<times> json) list"

text \<open>\<open>pgtype.Numeric\<close>: the fields \<open>Int\<close> (a nullable big integer), \<open>Exp\<close>, \<open>Valid\<close>.\<close>

record numeric =
  Numeric_Int :: "int option"
  Numeric_Exp :: int
  Numeric_Valid :: bool

definition numeric_value :: "numeric \<Rightarrow> rat option" where
  "numeric_value n =
     (if Numeric_Valid n
      then map_option (\<lambda>i. of_int i * 10 powi Numeric_Exp n) (Numeric_Int n) else None)"

record Claims =
  Claims_UserID :: uuid
  Claims_Email :: string
  Claims_Role :: string
  Claims_ExpiresAt :: time
  Claims_IssuedAt :: time

section \<open>Third-party functions\<close>

text \<open>
  \<^item> \<open>Decimal_...\<close>: \<open>github.com/shopspring/decimal\<close>;
  \<^item> \<open>Numeric_Scan\<close>: \<open>pgtype.Numeric.Scan\<close> on a string (\<open>None\<close>: it failed);
    \<open>Numeric_decode\<close>: what the driver hands back for a stored \<open>NUMERIC(18,2)\<close>, given in
    hundredths;
  \<^item> \<open>UUID_...\<close>: \<open>github.com/google/uuid\<close>;
  \<^item> \<open>Bcrypt_...\<close>: \<open>golang.org/x/crypto/bcrypt\<close>; generating takes a salt;
  \<^item> \<open>Jwt_...\<close>: \<open>github.com/golang-jwt/jwt/v5\<close>, signing with HS256; parsing gets the key
    function (which sees the name of the signing method) and the current time, and returns the
    claims and the token's \<open>Valid\<close> flag;
  \<^item> \<open>Time_...\<close>: the RFC 3339 text of a \<open>time.Time\<close>.
\<close>

record 'd lib =
  Decimal_Add :: "'d \<Rightarrow> 'd \<Rightarrow> 'd"
  Decimal_Sub :: "'d \<Rightarrow> 'd \<Rightarrow> 'd"
  Decimal_LessThan :: "'d \<Rightarrow> 'd \<Rightarrow> bool"
  Decimal_Zero :: 'd
  Decimal_String :: "'d \<Rightarrow> string"
  Decimal_NewFromBigInt :: "int \<Rightarrow> int \<Rightarrow> 'd"
  Decimal_MarshalJSON :: "'d \<Rightarrow> json"
  Decimal_UnmarshalJSON :: "json \<Rightarrow> 'd option"
  Numeric_Scan :: "string \<Rightarrow> numeric option"
  Numeric_decode :: "int \<Rightarrow> numeric"
  UUID_String :: "uuid \<Rightarrow> string"
  UUID_Parse :: "string \<Rightarrow> uuid option"
  Bcrypt_Generate :: "nat \<Rightarrow> string \<Rightarrow> string option"
  Bcrypt_Compare :: "string \<Rightarrow> string \<Rightarrow> bool"
  Jwt_NewNumericDate :: "time \<Rightarrow> time"
  Jwt_SignedString :: "Claims \<Rightarrow> string \<Rightarrow> string option"
  Jwt_ParseWithClaims :: "string \<Rightarrow> (string \<Rightarrow> string option) \<Rightarrow> time \<Rightarrow> (Claims \<times> bool) option"
  Time_MarshalJSON :: "time \<Rightarrow> json"
  Time_UnmarshalJSON :: "json \<Rightarrow> time option"

text \<open>
  The documented behaviour of decimals and of the driver's numeric type that the code relies
  on: \<open>v\<close> is the number a decimal denotes.
\<close>

definition decimal_laws :: "'d lib \<Rightarrow> ('d \<Rightarrow> rat) \<Rightarrow> bool" where
  "decimal_laws L v \<longleftrightarrow>
     (\<forall>x y. v (Decimal_Add L x y) = v x + v y) \<and>
     (\<forall>x y. v (Decimal_Sub L x y) = v x - v y) \<and>
     (\<forall>x y. Decimal_LessThan L x y \<longleftrightarrow> v x < v y) \<and>
     v (Decimal_Zero L) = 0 \<and>
     (\<forall>i e. v (Decimal_NewFromBigInt L i e) = of_int i * 10 powi e) \<and>
     (\<forall>x. \<exists>n. Numeric_Scan L (Decimal_String L x) = Some n \<and> numeric_value n = Some (v x)) \<and>
     (\<forall>c. numeric_value (Numeric_decode L c) = Some (of_int c / 100))"

lemma decimal_laws_simps:
  assumes "decimal_laws L v"
  shows "v (Decimal_Add L x y) = v x + v y"
    and "v (Decimal_Sub L x y) = v x - v y"
    and "Decimal_LessThan L x y \<longleftrightarrow> v x < v y"
    and "v (Decimal_Zero L) = 0"
    and "v (Decimal_NewFromBigInt L i e) = of_int i * 10 powi e"
    and "numeric_value (Numeric_decode L c) = Some (of_int c / 100)"
  using assms by (auto simp: decimal_laws_def)

lemma decimal_laws_scan:
  assumes "decimal_laws L v"
  obtains n where "Numeric_Scan L (Decimal_String L x) = Some n" "numeric_value n = Some (v x)"
  using assms unfolding decimal_laws_def by blast

definition uuid_laws :: "'d lib \<Rightarrow> bool" where
  "uuid_laws L \<longleftrightarrow> (\<forall>u. UUID_Parse L (UUID_String L u) = Some u)"

definition bcrypt_laws :: "'d lib \<Rightarrow> bool" where
  "bcrypt_laws L \<longleftrightarrow>
     (\<forall>salt p h. Bcrypt_Generate L salt p = Some h \<longrightarrow> Bcrypt_Compare L h p)"

text \<open>
  A date of a token is a time truncated to whole seconds. Signing with HMAC does not fail, and
  a token signed with a secret parses under that secret, to the same claims, until it expires.
\<close>

definition jwt_laws :: "'d lib \<Rightarrow> bool" where
  "jwt_laws L \<longleftrightarrow>
     (\<forall>t. t - 1000000 < Jwt_NewNumericDate L t \<and> Jwt_NewNumericDate L t \<le> t) \<and>
     (\<forall>t. Jwt_NewNumericDate L (Jwt_NewNumericDate L t) = Jwt_NewNumericDate L t) \<and>
     (\<forall>c secret. Jwt_SignedString L c secret \<noteq> None) \<and>
     (\<forall>c secret tok keyfunc now. Jwt_SignedString L c secret = Some tok \<longrightarrow>
        keyfunc ''HS256'' = Some secret \<longrightarrow> now < Claims_ExpiresAt c \<longrightarrow>
        Jwt_NewNumericDate L (Claims_ExpiresAt c) = Claims_ExpiresAt c \<longrightarrow>
        Jwt_NewNumericDate L (Claims_IssuedAt c) = Claims_IssuedAt c \<longrightarrow>
        Jwt_ParseWithClaims L tok keyfunc now = Some (c, True))"

section \<open>Domain entities (\<open>internal/model\<close>)\<close>

text \<open>The string types of the source are open: a value read back from a table is any string.\<close>

type_synonym TransactionType = string
type_synonym TransactionStatus = string
type_synonym EntryType = string
type_synonym UserRole = string

definition TransactionTypeTopUp :: TransactionType where
  "TransactionTypeTopUp = ''TOPUP''"

definition TransactionTypeTransfer :: TransactionType where
  "TransactionTypeTransfer = ''TRANSFER''"

definition TransactionStatusPending :: TransactionStatus where
  "TransactionStatusPending = ''PENDING''"

definition TransactionStatusCompleted :: TransactionStatus where
  "TransactionStatusCompleted = ''COMPLETED''"

definition EntryTypeDebit :: EntryType where
  "EntryTypeDebit = ''DEBIT''"

definition EntryTypeCredit :: EntryType where
  "EntryTypeCredit = ''CREDIT''"

definition UserRoleUser :: UserRole where
  "UserRoleUser = ''USER''"

definition UserRoleAdmin :: UserRole where
  "UserRoleAdmin = ''ADMIN''"

lemmas model_constants = TransactionTypeTopUp_def TransactionTypeTransfer_def
  TransactionStatusPending_def TransactionStatusCompleted_def EntryTypeDebit_def
  EntryTypeCredit_def UserRoleUser_def UserRoleAdmin_def

record 'd Wallet =
  Wallet_ID :: string
  Wallet_UserID :: uuid
  Wallet_Balance :: 'd
  Wallet_Currency :: string
  Wallet_CreatedAt :: time
  Wallet_UpdatedAt :: time

record 'd Transaction =
  Transaction_ID :: uuid
  Transaction_ReferenceNo :: string
  Transaction_Type :: TransactionType
  Transaction_Status :: TransactionStatus
  Transaction_Amount :: 'd
  Transaction_SourceWalletID :: "string option"
  Transaction_TargetWalletID :: string
  Transaction_CreatedAt :: time

record 'd LedgerEntry =
  LedgerEntry_ID :: string
  LedgerEntry_TransactionID :: uuid
  LedgerEntry_WalletID :: string
  LedgerEntry_EntryType :: EntryType
  LedgerEntry_Amount :: 'd
  LedgerEntry_CreatedAt :: time

record User =
  User_ID :: uuid
  User_Email :: string
  User_PasswordHash :: string
  User_Role :: UserRole
  User_CreatedAt :: time
  User_UpdatedAt :: time

record 'd UserWithWallet =
  UserWithWallet_User :: User
  UserWithWallet_WalletID :: string
  UserWithWallet_WalletBalance :: 'd

record AuditLog =
  AuditLog_ID :: string
  AuditLog_UserID :: uuid
  AuditLog_Action :: string
  AuditLog_IPAddress :: string
  AuditLog_Endpoint :: string
  AuditLog_CreatedAt :: time

record Notification =
  Notification_ID :: uuid
  Notification_UserID :: uuid
  Notification_Title :: string
  Notification_Message :: string
  Notification_IsRead :: bool
  Notification_CreatedAt :: time

end
