(* ===== verification/Database.thy ===== *)
theory Database
  imports Model
begin

text \<open>
  The tables of \<open>database/migrations\<close> and the statements of \<open>database/queries\<close>.
  A table is the list of its rows; a statement is a step on the database that returns its
  result or an SQL error, and an error leaves the database as it was. The checks of an
  insert are the constraints the migrations declare: NOT NULL, VARCHAR lengths (in
  characters), \<open>DECIMAL(18,2)\<close> (rounded half away from zero to hundredths, at most 16
  digits before the point), CHECK, UNIQUE and REFERENCES. \<open>select_page\<close> is \<open>WHERE ...
  ORDER BY created_at DESC LIMIT l OFFSET o\<close>: SQL leaves the order of rows with equal
  keys open, so a statement's context holds the order in which its scan meets the rows.
\<close>

section \<open>Rows\<close>

record user_row =
  ur_id :: uuid
  ur_email :: string
  ur_password_hash :: string
  ur_role :: string
  ur_created_at :: time
  ur_updated_at :: time

record wallet_row =
  wr_id :: string
  wr_user_id :: uuid
  wr_balance :: int  \<comment> \<open>hundredths\<close>
  wr_currency :: string
  wr_created_at :: time
  wr_updated_at :: time

record transaction_row =
  tr_id :: uuid
  tr_reference_no :: string
  tr_type :: string
  tr_status :: string
  tr_amount :: int
  tr_source_wallet_id :: "string option"
  tr_target_wallet_id :: "string option"
  tr_created_at :: time

record ledger_row =
  lr_id :: string
  lr_transaction_id :: uuid
  lr_wallet_id :: string
  lr_entry_type :: string
  lr_amount :: int
  lr_created_at :: time

record audit_row =
  ar_id :: string
  ar_user_id :: uuid
  ar_action :: string
  ar_ip_address :: string
  ar_endpoint :: string
  ar_created_at :: time

record notification_row =
  nr_id :: uuid
  nr_user_id :: uuid
  nr_title :: string
  nr_message :: string
  nr_is_read :: bool
  nr_created_at :: time

record db =
  users :: "user_row list"
  wallets :: "wallet_row list"
  transactions :: "transaction_row list"
  ledger_entries :: "ledger_row list"
  audit_logs :: "audit_row list"
  notifications :: "notification_row list"

definition empty_db :: db where
  "empty_db = \<lparr>users = [], wallets = [], transactions = [], ledger_entries = [],
     audit_logs = [], notifications = []\<rparr>"

section \<open>Statements\<close>

datatype sql_error = ErrNoRows | ErrTxClosed | ConnFailed | NotNullViolation string
  | UniqueViolation string | ForeignKeyViolation string | CheckViolation string
  | ValueTooLong string | NumericOverflow | NegativeLimit | NegativeOffset

text \<open>
  What a statement sees beside the tables: \<open>NOW()\<close> (the start of its transaction), the
  value of \<open>gen_random_uuid()\<close>, and the rank of each position in its scan.
\<close>

record stmt_ctx =
  sc_now :: time
  sc_uuid :: uuid
  sc_plan :: "nat \<Rightarrow> nat"

type_synonym 'a stmt = "stmt_ctx \<Rightarrow> (db, sql_error, 'a) prog"

text \<open>Characters of a UTF-8 string: the bytes that do not continue one.\<close>

definition characters :: "string \<Rightarrow> nat" where
  "characters s = length (filter (\<lambda>c. \<not> (128 \<le> (of_char c :: nat) \<and> (of_char c :: nat) < 192)) s)"

definition varchar :: "nat \<Rightarrow> string \<Rightarrow> bool" where
  "varchar n s \<longleftrightarrow> characters s \<le> n"

text \<open>The coercion to \<open>DECIMAL(18,2)\<close>, in hundredths.\<close>

definition round_half_away :: "rat \<Rightarrow> int" where
  "round_half_away x = (if x < 0 then - \<lfloor>1 / 2 - x\<rfloor> else \<lfloor>x + 1 / 2\<rfloor>)"

definition decimal_18_2 :: "rat \<Rightarrow> (db, sql_error, int) prog" where
  "decimal_18_2 x =
     (let c = round_half_away (x * 100)
      in if \<bar>c\<bar> < 10 ^ 18 then returnE c else throwE NumericOverflow)"

definition not_null :: "string \<Rightarrow> 'a option \<Rightarrow> (db, sql_error, 'a) prog" where
  "not_null column v = (case v of None \<Rightarrow> throwE (NotNullViolation column) | Some x \<Rightarrow> returnE x)"

definition read :: "(db \<Rightarrow> 'a) \<Rightarrow> (db, sql_error, 'a) prog" where
  "read f = (\<lambda>d. (Inr (f d), d))"

definition modify :: "(db \<Rightarrow> db) \<Rightarrow> (db, sql_error, unit) prog" where
  "modify f = (\<lambda>d. (Inr (), f d))"

lemma read_Inr [succ]: "read f d = (Inr x, d') \<longleftrightarrow> x = f d \<and> d' = d"
  by (auto simp: read_def)

lemma read_Inl [fails]: "\<not> read f d = (Inl e, d')"
  by (simp add: read_def)

lemma modify_Inr [succ]: "modify f d = (Inr x, d') \<longleftrightarrow> d' = f d"
  by (auto simp: modify_def)

lemma modify_Inl [fails]: "\<not> modify f d = (Inl e, d')"
  by (simp add: modify_def)

lemma not_null_Inr [succ]: "not_null c v d = (Inr x, d') \<longleftrightarrow> v = Some x \<and> d' = d"
  by (auto simp: not_null_def succ split: option.splits)

lemma decimal_18_2_Inr [succ]:
  "decimal_18_2 x d = (Inr c, d') \<longleftrightarrow>
     c = round_half_away (x * 100) \<and> \<bar>c\<bar> < 10 ^ 18 \<and> d' = d"
  by (auto simp: decimal_18_2_def Let_def succ)

subsection \<open>Selecting\<close>

definition select_one :: "('r \<Rightarrow> bool) \<Rightarrow> 'r list \<Rightarrow> (db, sql_error, 'r) prog" where
  "select_one p rows = (case find p rows of None \<Rightarrow> throwE ErrNoRows | Some r \<Rightarrow> returnE r)"

definition count_rows :: "('r \<Rightarrow> bool) \<Rightarrow> 'r list \<Rightarrow> goint" where
  "count_rows p rows = go_len (filter p rows)"

definition scan :: "(nat \<Rightarrow> nat) \<Rightarrow> 'r list \<Rightarrow> 'r list" where
  "scan plan rows = map snd (sort_key (\<lambda>(i, r). plan i) (enumerate 0 rows))"

definition order_desc :: "('r \<Rightarrow> time) \<Rightarrow> 'r list \<Rightarrow> 'r list" where
  "order_desc key rows = sort_key (\<lambda>r. - key r) rows"

definition select_all_desc :: "stmt_ctx \<Rightarrow> ('r \<Rightarrow> time) \<Rightarrow> ('r \<Rightarrow> bool) \<Rightarrow> 'r list \<Rightarrow> 'r list" where
  "select_all_desc c key p rows = order_desc key (scan (sc_plan c) (filter p rows))"

definition select_page ::
  "stmt_ctx \<Rightarrow> ('r \<Rightarrow> time) \<Rightarrow> ('r \<Rightarrow> bool) \<Rightarrow> goint32 \<Rightarrow> goint32 \<Rightarrow> 'r list \<Rightarrow>
     (db, sql_error, 'r list) prog" where
  "select_page c key p lmt ofs rows =
     bindE (checkE [(0 \<le> sint ofs, NegativeOffset), (0 \<le> sint lmt, NegativeLimit)]) (\<lambda>_.
     returnE (take (nat (sint lmt)) (drop (nat (sint ofs)) (select_all_desc c key p rows))))"

lemma select_one_Inr [succ]: "select_one p rows d = (Inr r, d') \<longleftrightarrow> find p rows = Some r \<and> d' = d"
  by (auto simp: select_one_def succ split: option.splits)

lemma select_one_Inl [fails]:
  "select_one p rows d = (Inl e, d') \<longleftrightarrow> find p rows = None \<and> e = ErrNoRows \<and> d' = d"
  by (auto simp: select_one_def fails split: option.splits)

lemma mset_scan [simp]: "mset (scan plan rows) = mset rows"
proof -
  have "mset (scan plan rows) = image_mset snd (mset (enumerate 0 rows))"
    by (simp add: scan_def)
  also have "\<dots> = mset (map snd (enumerate 0 rows))"
    by (simp only: mset_map)
  finally show ?thesis by simp
qed

lemma mset_select_all_desc [simp]: "mset (select_all_desc c key p rows) = mset (filter p rows)"
  by (simp add: select_all_desc_def order_desc_def)

lemma set_select_all_desc [simp]: "set (select_all_desc c key p rows) = {r \<in> set rows. p r}"
  by (metis mset_select_all_desc set_filter set_mset_mset)

lemma length_select_all_desc [simp]: "length (select_all_desc c key p rows) = length (filter p rows)"
  by (metis mset_select_all_desc size_mset)

lemma sorted_select_all_desc: "sorted (map (\<lambda>r. - key r) (select_all_desc c key p rows))"
  by (simp add: select_all_desc_def order_desc_def)

text \<open>
  When no two rows share a key, the order is determined: the plan of the scan is immaterial.
\<close>

lemma select_all_desc_plan:
  assumes "distinct (map key (filter p rows))"
  shows "select_all_desc c key p rows = select_all_desc c' key p rows"
proof (rule map_inj_on [where f = "\<lambda>r. - key r"])
  show "inj_on (\<lambda>r. - key r)
      (set (select_all_desc c key p rows) \<union> set (select_all_desc c' key p rows))"
    using assms by (auto simp: distinct_map inj_on_def)
  have "mset (map (\<lambda>r. - key r) (select_all_desc c key p rows))
      = mset (map (\<lambda>r. - key r) (select_all_desc c' key p rows))"
    by simp
  then show "map (\<lambda>r. - key r) (select_all_desc c key p rows)
      = map (\<lambda>r. - key r) (select_all_desc c' key p rows)"
    by (metis properties_for_sort sorted_select_all_desc)
qed

end
