(* ===== verification/Queries.thy ===== *)
theory Queries
  imports Database
begin

text \<open>
  One definition per query of \<open>database/queries\<close>, named as the query, with the
  constraints of the migration of its table. Query parameters that the code passes as
  \<open>pgtype\<close> values can be NULL, which equals nothing. The last section is the invariant the
  constraints establish, \<open>db_ok\<close>, and that every statement keeps it.
\<close>

definition sql_eq :: "'a option \<Rightarrow> 'a option \<Rightarrow> bool" where
  "sql_eq a b \<longleftrightarrow> a \<noteq> None \<and> a = b"

lemma sql_eq_Some [simp]: "sql_eq (Some x) b \<longleftrightarrow> b = Some x" "sql_eq a (Some x) \<longleftrightarrow> a = Some x"
  by (auto simp: sql_eq_def)

definition update_where :: "('r \<Rightarrow> bool) \<Rightarrow> ('r \<Rightarrow> 'r) \<Rightarrow> 'r list \<Rightarrow> 'r list" where
  "update_where p g rows = map (\<lambda>r. if p r then g r else r) rows"

definition delete_where :: "('r \<Rightarrow> bool) \<Rightarrow> 'r list \<Rightarrow> 'r list" where
  "delete_where p rows = filter (\<lambda>r. \<not> p r) rows"

section \<open>users\<close>

definition CreateUser :: "string \<Rightarrow> string \<Rightarrow> string \<Rightarrow> user_row stmt" where
  "CreateUser email hash role c =
     bindE (read users) (\<lambda>us.
     bindE (checkE
       [(varchar 255 email, ValueTooLong ''users.email''),
        (varchar 255 hash, ValueTooLong ''users.password_hash''),
        (varchar 10 role, ValueTooLong ''users.role''),
        (role = ''USER'' \<or> role = ''ADMIN'', CheckViolation ''users.role''),
        (sc_uuid c \<notin> ur_id ` set us, UniqueViolation ''users.id''),
        (email \<notin> ur_email ` set us, UniqueViolation ''users.email'')]) (\<lambda>_.
     let r = \<lparr>ur_id = sc_uuid c, ur_email = email, ur_password_hash = hash, ur_role = role,
              ur_created_at = sc_now c, ur_updated_at = sc_now c\<rparr>
     in bindE (modify (\<lambda>d. d\<lparr>users := users d @ [r]\<rparr>)) (\<lambda>_. returnE r)))"

definition FindUserByEmail :: "string \<Rightarrow> user_row stmt" where
  "FindUserByEmail email c = bindE (read users) (\<lambda>us. select_one (\<lambda>r. ur_email r = email) us)"

definition FindUserByID :: "uuid option \<Rightarrow> user_row stmt" where
  "FindUserByID i c = bindE (read users) (\<lambda>us. select_one (\<lambda>r. sql_eq (Some (ur_id r)) i) us)"

definition CountAllUsers :: "goint stmt" where
  "CountAllUsers c = read (\<lambda>d. count_rows (\<lambda>_. True) (users d))"

definition left_join_wallets :: "db \<Rightarrow> (user_row \<times> wallet_row option) list" where
  "left_join_wallets d = concat (map (\<lambda>u.
     (let ws = filter (\<lambda>w. wr_user_id w = ur_id u) (wallets d)
      in if ws = [] then [(u, None)] else map (\<lambda>w. (u, Some w)) ws)) (users d))"

definition FindAllUsers :: "goint32 \<Rightarrow> goint32 \<Rightarrow> (user_row \<times> wallet_row option) list stmt" where
  "FindAllUsers l os c = bindE (read left_join_wallets) (\<lambda>rs.
     select_page c (\<lambda>(u, _). ur_created_at u) (\<lambda>_. True) l os rs)"

section \<open>wallets\<close>

definition CreateWallet :: "string \<Rightarrow> uuid option \<Rightarrow> rat option \<Rightarrow> string \<Rightarrow> wallet_row stmt" where
  "CreateWallet i user_id balance currency c =
     bindE (not_null ''wallets.user_id'' user_id) (\<lambda>u.
     bindE (not_null ''wallets.balance'' balance) (\<lambda>b.
     bindE (decimal_18_2 b) (\<lambda>bal.
     bindE (read (\<lambda>d. d)) (\<lambda>d.
     bindE (checkE
       [(varchar 20 i, ValueTooLong ''wallets.id''),
        (varchar 3 currency, ValueTooLong ''wallets.currency''),
        (0 \<le> bal, CheckViolation ''wallets.balance''),
        (i \<notin> wr_id ` set (wallets d), UniqueViolation ''wallets.id''),
        (u \<notin> wr_user_id ` set (wallets d), UniqueViolation ''wallets.user_id''),
        (u \<in> ur_id ` set (users d), ForeignKeyViolation ''wallets.user_id'')]) (\<lambda>_.
     let r = \<lparr>wr_id = i, wr_user_id = u, wr_balance = bal, wr_currency = currency,
              wr_created_at = sc_now c, wr_updated_at = sc_now c\<rparr>
     in bindE (modify (\<lambda>d. d\<lparr>wallets := wallets d @ [r]\<rparr>)) (\<lambda>_. returnE r))))))"

definition FindWalletByUserID :: "uuid option \<Rightarrow> wallet_row stmt" where
  "FindWalletByUserID u c =
     bindE (read wallets) (\<lambda>ws. select_one (\<lambda>r. sql_eq (Some (wr_user_id r)) u) ws)"

definition FindWalletByID :: "string \<Rightarrow> wallet_row stmt" where
  "FindWalletByID i c = bindE (read wallets) (\<lambda>ws. select_one (\<lambda>r. wr_id r = i) ws)"

text \<open>\<open>FOR UPDATE\<close> also locks the row; the lock matters where transactions interleave.\<close>

definition FindWalletByIDForUpdate :: "string \<Rightarrow> wallet_row stmt" where
  "FindWalletByIDForUpdate i c = bindE (read wallets) (\<lambda>ws. select_one (\<lambda>r. wr_id r = i) ws)"

definition UpdateWalletBalance :: "string \<Rightarrow> rat option \<Rightarrow> unit stmt" where
  "UpdateWalletBalance i balance c =
     bindE (read wallets) (\<lambda>ws.
     if i \<notin> wr_id ` set ws then returnE () else
     bindE (not_null ''wallets.balance'' balance) (\<lambda>b.
     bindE (decimal_18_2 b) (\<lambda>bal.
     bindE (checkE [(0 \<le> bal, CheckViolation ''wallets.balance'')]) (\<lambda>_.
     modify (\<lambda>d. d\<lparr>wallets := update_where (\<lambda>r. wr_id r = i)
       (\<lambda>r. r\<lparr>wr_balance := bal, wr_updated_at := sc_now c\<rparr>) (wallets d)\<rparr>)))))"

section \<open>transactions\<close>

definition references :: "string option \<Rightarrow> wallet_row list \<Rightarrow> bool" where
  "references w ws \<longleftrightarrow> (case w of None \<Rightarrow> True | Some i \<Rightarrow> i \<in> wr_id ` set ws)"

definition varchar_opt :: "nat \<Rightarrow> string option \<Rightarrow> bool" where
  "varchar_opt n v \<longleftrightarrow> (case v of None \<Rightarrow> True | Some s \<Rightarrow> varchar n s)"

definition CreateTransaction ::
  "string \<Rightarrow> string \<Rightarrow> string \<Rightarrow> rat option \<Rightarrow> string option \<Rightarrow> string option \<Rightarrow>
     transaction_row stmt" where
  "CreateTransaction ref type status amount source target c =
     bindE (not_null ''transactions.amount'' amount) (\<lambda>a.
     bindE (decimal_18_2 a) (\<lambda>amt.
     bindE (read (\<lambda>d. d)) (\<lambda>d.
     bindE (checkE
       [(varchar 30 ref, ValueTooLong ''transactions.reference_no''),
        (varchar 20 type, ValueTooLong ''transactions.type''),
        (varchar 20 status, ValueTooLong ''transactions.status''),
        (varchar_opt 20 source, ValueTooLong ''transactions.source_wallet_id''),
        (varchar_opt 20 target, ValueTooLong ''transactions.target_wallet_id''),
        (0 < amt, CheckViolation ''transactions.amount''),
        (sc_uuid c \<notin> tr_id ` set (transactions d), UniqueViolation ''transactions.id''),
        (ref \<notin> tr_reference_no ` set (transactions d), UniqueViolation ''transactions.reference_no''),
        (references source (wallets d), ForeignKeyViolation ''transactions.source_wallet_id''),
        (references target (wallets d), ForeignKeyViolation ''transactions.target_wallet_id'')]) (\<lambda>_.
     let r = \<lparr>tr_id = sc_uuid c, tr_reference_no = ref, tr_type = type, tr_status = status,
              tr_amount = amt, tr_source_wallet_id = source, tr_target_wallet_id = target,
              tr_created_at = sc_now c\<rparr>
     in bindE (modify (\<lambda>d. d\<lparr>transactions := transactions d @ [r]\<rparr>)) (\<lambda>_. returnE r)))))"

definition FindTransactionByID :: "uuid option \<Rightarrow> transaction_row stmt" where
  "FindTransactionByID i c =
     bindE (read transactions) (\<lambda>ts. select_one (\<lambda>r. sql_eq (Some (tr_id r)) i) ts)"

definition UpdateTransactionStatus :: "uuid option \<Rightarrow> string \<Rightarrow> unit stmt" where
  "UpdateTransactionStatus i status c =
     bindE (read transactions) (\<lambda>ts.
     if \<not> list_ex (\<lambda>r. sql_eq (Some (tr_id r)) i) ts then returnE () else
     bindE (checkE [(varchar 20 status, ValueTooLong ''transactions.status'')]) (\<lambda>_.
     modify (\<lambda>d. d\<lparr>transactions := update_where (\<lambda>r. sql_eq (Some (tr_id r)) i)
       (\<lambda>r. r\<lparr>tr_status := status\<rparr>) (transactions d)\<rparr>)))"

definition of_wallet :: "string option \<Rightarrow> transaction_row \<Rightarrow> bool" where
  "of_wallet w r \<longleftrightarrow> sql_eq (tr_source_wallet_id r) w \<or> sql_eq (tr_target_wallet_id r) w"

definition CountTransactionsByWalletID :: "string option \<Rightarrow> goint stmt" where
  "CountTransactionsByWalletID w c = read (\<lambda>d. count_rows (of_wallet w) (transactions d))"

definition CountTransactionsByWalletIDAndType :: "string option \<Rightarrow> string \<Rightarrow> goint stmt" where
  "CountTransactionsByWalletIDAndType w ty c =
     read (\<lambda>d. count_rows (\<lambda>r. of_wallet w r \<and> tr_type r = ty) (transactions d))"

definition FindTransactionsByWalletID ::
  "string option \<Rightarrow> goint32 \<Rightarrow> goint32 \<Rightarrow> transaction_row list stmt" where
  "FindTransactionsByWalletID w l os c =
     bindE (read transactions) (select_page c tr_created_at (of_wallet w) l os)"

definition FindTransactionsByWalletIDAndType ::
  "string option \<Rightarrow> string \<Rightarrow> goint32 \<Rightarrow> goint32 \<Rightarrow> transaction_row list stmt" where
  "FindTransactionsByWalletIDAndType w ty l os c =
     bindE (read transactions)
       (select_page c tr_created_at (\<lambda>r. of_wallet w r \<and> tr_type r = ty) l os)"

subsection \<open>For the administrator\<close>

definition CountAllTransactions :: "goint stmt" where
  "CountAllTransactions c = read (\<lambda>d. count_rows (\<lambda>_. True) (transactions d))"

definition CountAllTransactionsByType :: "string \<Rightarrow> goint stmt" where
  "CountAllTransactionsByType ty c = read (\<lambda>d. count_rows (\<lambda>r. tr_type r = ty) (transactions d))"

definition CountAllTransactionsByStatus :: "string \<Rightarrow> goint stmt" where
  "CountAllTransactionsByStatus st c =
     read (\<lambda>d. count_rows (\<lambda>r. tr_status r = st) (transactions d))"

definition CountAllTransactionsByTypeAndStatus :: "string \<Rightarrow> string \<Rightarrow> goint stmt" where
  "CountAllTransactionsByTypeAndStatus ty st c =
     read (\<lambda>d. count_rows (\<lambda>r. tr_type r = ty \<and> tr_status r = st) (transactions d))"

definition FindAllTransactions :: "goint32 \<Rightarrow> goint32 \<Rightarrow> transaction_row list stmt" where
  "FindAllTransactions l os c =
     bindE (read transactions) (select_page c tr_created_at (\<lambda>_. True) l os)"

definition FindAllTransactionsByType :: "string \<Rightarrow> goint32 \<Rightarrow> goint32 \<Rightarrow> transaction_row list stmt" where
  "FindAllTransactionsByType ty l os c =
     bindE (read transactions) (select_page c tr_created_at (\<lambda>r. tr_type r = ty) l os)"

definition FindAllTransactionsByStatus :: "string \<Rightarrow> goint32 \<Rightarrow> goint32 \<Rightarrow> transaction_row list stmt" where
  "FindAllTransactionsByStatus st l os c =
     bindE (read transactions) (select_page c tr_created_at (\<lambda>r. tr_status r = st) l os)"

definition FindAllTransactionsByTypeAndStatus ::
  "string \<Rightarrow> string \<Rightarrow> goint32 \<Rightarrow> goint32 \<Rightarrow> transaction_row list stmt" where
  "FindAllTransactionsByTypeAndStatus ty st l os c =
     bindE (read transactions)
       (select_page c tr_created_at (\<lambda>r. tr_type r = ty \<and> tr_status r = st) l os)"

section \<open>ledger_entries\<close>

definition CreateLedgerEntry ::
  "string \<Rightarrow> uuid option \<Rightarrow> string \<Rightarrow> string \<Rightarrow> rat option \<Rightarrow> ledger_row stmt" where
  "CreateLedgerEntry i transaction_id wallet_id entry_type amount c =
     bindE (not_null ''ledger_entries.transaction_id'' transaction_id) (\<lambda>t.
     bindE (not_null ''ledger_entries.amount'' amount) (\<lambda>a.
     bindE (decimal_18_2 a) (\<lambda>amt.
     bindE (read (\<lambda>d. d)) (\<lambda>d.
     bindE (checkE
       [(varchar 20 i, ValueTooLong ''ledger_entries.id''),
        (varchar 20 wallet_id, ValueTooLong ''ledger_entries.wallet_id''),
        (varchar 10 entry_type, ValueTooLong ''ledger_entries.entry_type''),
        (0 < amt, CheckViolation ''ledger_entries.amount''),
        (i \<notin> lr_id ` set (ledger_entries d), UniqueViolation ''ledger_entries.id''),
        (t \<in> tr_id ` set (transactions d), ForeignKeyViolation ''ledger_entries.transaction_id''),
        (wallet_id \<in> wr_id ` set (wallets d), ForeignKeyViolation ''ledger_entries.wallet_id'')]) (\<lambda>_.
     let r = \<lparr>lr_id = i, lr_transaction_id = t, lr_wallet_id = wallet_id,
              lr_entry_type = entry_type, lr_amount = amt, lr_created_at = sc_now c\<rparr>
     in bindE (modify (\<lambda>d. d\<lparr>ledger_entries := ledger_entries d @ [r]\<rparr>)) (\<lambda>_. returnE r))))))"

definition FindLedgerEntriesByTransactionID :: "uuid option \<Rightarrow> ledger_row list stmt" where
  "FindLedgerEntriesByTransactionID t c =
     read (\<lambda>d. sort_key lr_created_at
       (scan (sc_plan c) (filter (\<lambda>r. sql_eq (Some (lr_transaction_id r)) t) (ledger_entries d))))"

definition CountLedgerEntriesByWalletID :: "string \<Rightarrow> goint stmt" where
  "CountLedgerEntriesByWalletID w c =
     read (\<lambda>d. count_rows (\<lambda>r. lr_wallet_id r = w) (ledger_entries d))"

definition CountLedgerEntriesByWalletIDAndType :: "string \<Rightarrow> string \<Rightarrow> goint stmt" where
  "CountLedgerEntriesByWalletIDAndType w ty c =
     read (\<lambda>d. count_rows (\<lambda>r. lr_wallet_id r = w \<and> lr_entry_type r = ty) (ledger_entries d))"

definition FindLedgerEntriesByWalletID :: "string \<Rightarrow> goint32 \<Rightarrow> goint32 \<Rightarrow> ledger_row list stmt" where
  "FindLedgerEntriesByWalletID w l os c =
     bindE (read ledger_entries) (select_page c lr_created_at (\<lambda>r. lr_wallet_id r = w) l os)"

definition FindLedgerEntriesByWalletIDAndType ::
  "string \<Rightarrow> string \<Rightarrow> goint32 \<Rightarrow> goint32 \<Rightarrow> ledger_row list stmt" where
  "FindLedgerEntriesByWalletIDAndType w ty l os c =
     bindE (read ledger_entries)
       (select_page c lr_created_at (\<lambda>r. lr_wallet_id r = w \<and> lr_entry_type r = ty) l os)"

end
