(* ===== verification/AuditQueries.thy ===== *)
theory AuditQueries
  imports Queries
begin

text \<open>The statements of \<open>audit_logs.sql\<close> and \<open>notifications.sql\<close>.\<close>

section \<open>audit_logs\<close>

definition CreateAuditLog ::
  "string \<Rightarrow> uuid option \<Rightarrow> string \<Rightarrow> string \<Rightarrow> string \<Rightarrow> audit_row stmt" where
  "CreateAuditLog i user_id action ip_address endpoint c =
     bindE (not_null ''audit_logs.user_id'' user_id) (\<lambda>u.
     bindE (read (\<lambda>d. d)) (\<lambda>d.
     bindE (checkE
       [(varchar 20 i, ValueTooLong ''audit_logs.id''),
        (varchar 255 action, ValueTooLong ''audit_logs.action''),
        (varchar 45 ip_address, ValueTooLong ''audit_logs.ip_address''),
        (varchar 255 endpoint, ValueTooLong ''audit_logs.endpoint''),
        (i \<notin> ar_id ` set (audit_logs d), UniqueViolation ''audit_logs.id''),
        (u \<in> ur_id ` set (users d), ForeignKeyViolation ''audit_logs.user_id'')]) (\<lambda>_.
     let r = \<lparr>ar_id = i, ar_user_id = u, ar_action = action, ar_ip_address = ip_address,
              ar_endpoint = endpoint, ar_created_at = sc_now c\<rparr>
     in bindE (modify (\<lambda>d. d\<lparr>audit_logs := audit_logs d @ [r]\<rparr>)) (\<lambda>_. returnE r))))"

definition audit_of :: "uuid option \<Rightarrow> audit_row \<Rightarrow> bool" where
  "audit_of u r \<longleftrightarrow> sql_eq (Some (ar_user_id r)) u"

definition CountAuditLogsByUserID :: "uuid option \<Rightarrow> goint stmt" where
  "CountAuditLogsByUserID u c = read (\<lambda>d. count_rows (audit_of u) (audit_logs d))"

definition FindAuditLogsByUserID :: "uuid option \<Rightarrow> goint32 \<Rightarrow> goint32 \<Rightarrow> audit_row list stmt" where
  "FindAuditLogsByUserID u l os c =
     bindE (read audit_logs) (select_page c ar_created_at (audit_of u) l os)"

definition CountAllAuditLogs :: "goint stmt" where
  "CountAllAuditLogs c = read (\<lambda>d. count_rows (\<lambda>_. True) (audit_logs d))"

definition CountAllAuditLogsByUserID :: "uuid option \<Rightarrow> goint stmt" where
  "CountAllAuditLogsByUserID u c = read (\<lambda>d. count_rows (audit_of u) (audit_logs d))"

definition CountAllAuditLogsByAction :: "string \<Rightarrow> goint stmt" where
  "CountAllAuditLogsByAction a c = read (\<lambda>d. count_rows (\<lambda>r. ar_action r = a) (audit_logs d))"

definition CountAllAuditLogsByUserIDAndAction :: "uuid option \<Rightarrow> string \<Rightarrow> goint stmt" where
  "CountAllAuditLogsByUserIDAndAction u a c =
     read (\<lambda>d. count_rows (\<lambda>r. audit_of u r \<and> ar_action r = a) (audit_logs d))"

definition FindAllAuditLogs :: "goint32 \<Rightarrow> goint32 \<Rightarrow> audit_row list stmt" where
  "FindAllAuditLogs l os c =
     bindE (read audit_logs) (select_page c ar_created_at (\<lambda>_. True) l os)"

definition FindAllAuditLogsByUserID :: "uuid option \<Rightarrow> goint32 \<Rightarrow> goint32 \<Rightarrow> audit_row list stmt" where
  "FindAllAuditLogsByUserID u l os c =
     bindE (read audit_logs) (select_page c ar_created_at (audit_of u) l os)"

definition FindAllAuditLogsByAction :: "string \<Rightarrow> goint32 \<Rightarrow> goint32 \<Rightarrow> audit_row list stmt" where
  "FindAllAuditLogsByAction a l os c =
     bindE (read audit_logs) (select_page c ar_created_at (\<lambda>r. ar_action r = a) l os)"

definition FindAllAuditLogsByUserIDAndAction ::
  "uuid option \<Rightarrow> string \<Rightarrow> goint32 \<Rightarrow> goint32 \<Rightarrow> audit_row list stmt" where
  "FindAllAuditLogsByUserIDAndAction u a l os c =
     bindE (read audit_logs) (select_page c ar_created_at (\<lambda>r. audit_of u r \<and> ar_action r = a) l os)"

section \<open>notifications\<close>

definition CreateNotification :: "uuid option \<Rightarrow> string \<Rightarrow> string \<Rightarrow> notification_row stmt" where
  "CreateNotification user_id title message c =
     bindE (not_null ''notifications.user_id'' user_id) (\<lambda>u.
     bindE (read (\<lambda>d. d)) (\<lambda>d.
     bindE (checkE
       [(varchar 100 title, ValueTooLong ''notifications.title''),
        (sc_uuid c \<notin> nr_id ` set (notifications d), UniqueViolation ''notifications.id''),
        (u \<in> ur_id ` set (users d), ForeignKeyViolation ''notifications.user_id'')]) (\<lambda>_.
     let r = \<lparr>nr_id = sc_uuid c, nr_user_id = u, nr_title = title, nr_message = message,
              nr_is_read = False, nr_created_at = sc_now c\<rparr>
     in bindE (modify (\<lambda>d. d\<lparr>notifications := notifications d @ [r]\<rparr>)) (\<lambda>_. returnE r))))"

definition notification_of :: "uuid option \<Rightarrow> notification_row \<Rightarrow> bool" where
  "notification_of u r \<longleftrightarrow> sql_eq (Some (nr_user_id r)) u"

definition FindNotificationsByUserID ::
  "uuid option \<Rightarrow> goint32 \<Rightarrow> goint32 \<Rightarrow> notification_row list stmt" where
  "FindNotificationsByUserID u l os c =
     bindE (read notifications) (select_page c nr_created_at (notification_of u) l os)"

definition CountNotificationsByUserID :: "uuid option \<Rightarrow> goint stmt" where
  "CountNotificationsByUserID u c =
     read (\<lambda>d. count_rows (notification_of u) (notifications d))"

definition MarkNotificationAsRead :: "uuid option \<Rightarrow> uuid option \<Rightarrow> unit stmt" where
  "MarkNotificationAsRead i u c =
     modify (\<lambda>d. d\<lparr>notifications := update_where
       (\<lambda>r. sql_eq (Some (nr_id r)) i \<and> notification_of u r)
       (\<lambda>r. r\<lparr>nr_is_read := True\<rparr>) (notifications d)\<rparr>)"

definition ClearNotificationsByUserID :: "uuid option \<Rightarrow> unit stmt" where
  "ClearNotificationsByUserID u c =
     modify (\<lambda>d. d\<lparr>notifications := delete_where (notification_of u) (notifications d)\<rparr>)"

end
