(* ===== verification/World.thy ===== *)
theory World
  imports AuditQueries
begin

text \<open>
  What a request handler runs in: the committed database, the transaction it has open (its
  working copy and start time), the goroutines it has started, the messages it has published
  to Redis, the keys of Redis, the row locks it has taken, and an environment that decides everything the code does not:
  whether the n-th interaction fails, random numbers, fresh UUIDs, the clock, the order of a
  table scan. Each interaction takes the next number (\<open>tick\<close>), so the environment is a
  parameter of every theorem and a theorem for all environments covers every combination of
  failures.

  A database interaction fails in two ways: \<open>Refused\<close>, before it had an effect, or
  \<open>Lost\<close>, when the server carried it out and only the answer was lost.
\<close>

section \<open>Errors\<close>

datatype error = ErrSelfTransfer | ErrInsufficientBalance | ErrUnauthorized
  | ErrTransactionNotFound | ErrTargetWalletNotFound | ErrWalletNotFound
  | ErrEmailConflict | ErrInvalidCredentials
  | SQL sql_error | Failed string | Wrap string error | Panic string

text \<open>\<open>errors.Is\<close>: along the chain of wrapped errors.\<close>

fun errors_is :: "error \<Rightarrow> error \<Rightarrow> bool" where
  "errors_is (Wrap m e) t = (Wrap m e = t \<or> errors_is e t)"
| "errors_is e t = (e = t)"

section \<open>The environment and the state\<close>

datatype fault = NoFault | Refused | Lost

record env =
  fault :: "nat \<Rightarrow> fault"
  rand :: "nat \<Rightarrow> nat option"
  uuids :: "nat \<Rightarrow> uuid"
  clock :: "nat \<Rightarrow> time"
  plan :: "nat \<Rightarrow> nat \<Rightarrow> nat"
  local_date :: "time \<Rightarrow> nat \<times> nat \<times> nat"  \<comment> \<open>year, month, day in the local zone\<close>

text \<open>A goroutine that publishes an event: the arguments of \<open>publishEvent\<close>.\<close>

record spawn =
  spawn_EventType :: string
  spawn_UserID :: string
  spawn_Data :: json

text \<open>A goroutine of the audit middleware.\<close>

record audit_spawn =
  as_UserID :: uuid
  as_Action :: string
  as_IPAddress :: string
  as_Endpoint :: string

text \<open>
  The keys of Redis: a cached response (its body by the value it denotes, \<open>None\<close> when empty) or
  a counter, with the time it expires.
\<close>

record cachedResponse =
  cachedResponse_StatusCode :: nat
  cachedResponse_Body :: "json option"

datatype redis_value = RCached cachedResponse | RCounter int

record world =
  env :: env
  tick :: nat
  committed :: db
  work :: "(db \<times> time) option"
  spawned :: "spawn list"
  published :: "(string \<times> json) list"
  redis :: "string \<Rightarrow> (redis_value \<times> time option) option"
  audited :: "audit_spawn list"
  row_locks :: "string list"

text \<open>
  \<open>row_locks\<close> is the history of the row locks: the wallets that \<open>SELECT ... FOR UPDATE\<close> has locked, in
  the order in which it locked them. Nothing reads it; it makes the order observable.
\<close>

type_synonym 'a go = "(world, error, 'a) prog"

text \<open>
  A healthy environment: no interaction fails.
\<close>

definition healthy :: "env \<Rightarrow> bool" where
  "healthy e \<longleftrightarrow> (\<forall>n. fault e n = NoFault) \<and> (\<forall>n. rand e n \<noteq> None)"

section \<open>Primitive steps\<close>

definition next_tick :: "world \<Rightarrow> world" where
  "next_tick w = w\<lparr>tick := Suc (tick w)\<rparr>"

definition time_Now :: "time go" where
  "time_Now w = (Inr (clock (env w) (tick w)), next_tick w)"

definition uuid_New :: "uuid go" where
  "uuid_New w = (Inr (uuids (env w) (tick w)), next_tick w)"

text \<open>\<open>rand.Int(rand.Reader, max)\<close>: a number below \<open>max\<close>, or an error of the reader.\<close>

definition rand_Int :: "nat \<Rightarrow> nat go" where
  "rand_Int m w =
     (case rand (env w) (tick w) of
        None \<Rightarrow> (Inl (Failed ''rand''), next_tick w)
      | Some r \<Rightarrow> (Inr (r mod m), next_tick w))"

definition go_publish :: "string \<Rightarrow> string \<Rightarrow> json \<Rightarrow> unit go" where
  "go_publish ty user data w =
     (Inr (), w\<lparr>spawned := spawned w @
        [\<lparr>spawn_EventType = ty, spawn_UserID = user, spawn_Data = data\<rparr>]\<rparr>)"

definition locking :: "string \<Rightarrow> 'r option \<Rightarrow> world \<Rightarrow> world" where
  "locking i row w = w\<lparr>row_locks := row_locks w @ (if row = None then [] else [i])\<rparr>"

definition note_lock :: "string \<Rightarrow> 'r option \<Rightarrow> 'r option go" where
  "note_lock i row w = (Inr row, locking i row w)"

lemma locking_simps [simp]:
  "env (locking i row w) = env w" "tick (locking i row w) = tick w" "committed (locking i row w) = committed w"
  "work (locking i row w) = work w" "spawned (locking i row w) = spawned w"
  "published (locking i row w) = published w" "redis (locking i row w) = redis w"
  "audited (locking i row w) = audited w"
  "row_locks (locking i row w) = row_locks w @ (if row = None then [] else [i])"
  by (simp_all add: locking_def)

subsection \<open>Transactions and statements\<close>

text \<open>A statement runs in the open transaction or, on its own, on the pool.\<close>

datatype conn = Pool | Tx

fun store_of :: "conn \<Rightarrow> world \<Rightarrow> (db \<times> time) option" where
  "store_of Pool w = Some (committed w, clock (env w) (tick w))"
| "store_of Tx w = work w"

fun put_store :: "conn \<Rightarrow> db \<Rightarrow> world \<Rightarrow> world" where
  "put_store Pool d w = w\<lparr>committed := d\<rparr>"
| "put_store Tx d w = w\<lparr>work := map_option (\<lambda>(_, now). (d, now)) (work w)\<rparr>"

definition stmt_ctx_of :: "time \<Rightarrow> world \<Rightarrow> stmt_ctx" where
  "stmt_ctx_of now w =
     \<lparr>sc_now = now, sc_uuid = uuids (env w) (tick w), sc_plan = plan (env w) (tick w)\<rparr>"

definition run_stmt :: "conn \<Rightarrow> 'a stmt \<Rightarrow> 'a go" where
  "run_stmt cn q w =
     (case store_of cn w of
        None \<Rightarrow> (Inl (SQL ErrTxClosed), next_tick w)
      | Some (d, now) \<Rightarrow>
          (case (fault (env w) (tick w), q (stmt_ctx_of now w) d) of
             (NoFault, Inr x, d') \<Rightarrow> (Inr x, put_store cn d' (next_tick w))
           | (NoFault, Inl e, d') \<Rightarrow> (Inl (SQL e), next_tick w)
           | (Lost, Inr x, d') \<Rightarrow> (Inl (SQL ConnFailed), put_store cn d' (next_tick w))
           | (_, _, d') \<Rightarrow> (Inl (SQL ConnFailed), next_tick w)))"

text \<open>\<open>pool.Begin\<close>, \<open>tx.Commit\<close> and \<open>tx.Rollback\<close>. A transaction works on a copy.\<close>

definition tx_Begin :: "unit go" where
  "tx_Begin w =
     (case fault (env w) (tick w) of
        NoFault \<Rightarrow> (Inr (), (next_tick w)\<lparr>work := Some (committed w, clock (env w) (tick w))\<rparr>)
      | _ \<Rightarrow> (Inl (SQL ConnFailed), next_tick w))"

definition tx_Commit :: "unit go" where
  "tx_Commit w =
     (case work w of
        None \<Rightarrow> (Inl (SQL ErrTxClosed), next_tick w)
      | Some (d, _) \<Rightarrow>
          (case fault (env w) (tick w) of
             NoFault \<Rightarrow> (Inr (), (next_tick w)\<lparr>committed := d, work := None\<rparr>)
           | Refused \<Rightarrow> (Inl (SQL ConnFailed), (next_tick w)\<lparr>work := None\<rparr>)
           | Lost \<Rightarrow> (Inl (SQL ConnFailed), (next_tick w)\<lparr>committed := d, work := None\<rparr>)))"

definition tx_Rollback :: "world \<Rightarrow> world" where
  "tx_Rollback w = (next_tick w)\<lparr>work := None\<rparr>"

section \<open>When the steps succeed\<close>

lemma next_tick_simps [simp]:
  "env (next_tick w) = env w" "tick (next_tick w) = Suc (tick w)"
  "committed (next_tick w) = committed w" "work (next_tick w) = work w"
  "spawned (next_tick w) = spawned w" "published (next_tick w) = published w"
  "redis (next_tick w) = redis w" "audited (next_tick w) = audited w" "row_locks (next_tick w) = row_locks w"
  by (simp_all add: next_tick_def)

lemma put_same [simp]: "(next_tick w)\<lparr>committed := committed w\<rparr> = next_tick w"
  by (cases w) (simp add: next_tick_def)

lemma put_store_simps [simp]:
  "env (put_store cn d w) = env w" "tick (put_store cn d w) = tick w"
  "spawned (put_store cn d w) = spawned w" "published (put_store cn d w) = published w"
  by (cases cn; simp)+

lemma sc_simps [simp]:
  "sc_now (stmt_ctx_of now w) = now"
  "sc_uuid (stmt_ctx_of now w) = uuids (env w) (tick w)"
  "sc_plan (stmt_ctx_of now w) = plan (env w) (tick w)"
  by (simp_all add: stmt_ctx_of_def)

lemma time_Now_Inr [succ]:
  "time_Now w = (Inr t, w') \<longleftrightarrow> t = clock (env w) (tick w) \<and> w' = next_tick w"
  by (auto simp: time_Now_def)

lemma uuid_New_Inr [succ]:
  "uuid_New w = (Inr u, w') \<longleftrightarrow> u = uuids (env w) (tick w) \<and> w' = next_tick w"
  by (auto simp: uuid_New_def)

lemma rand_Int_Inr [succ]:
  "rand_Int m w = (Inr r, w') \<longleftrightarrow>
     (\<exists>n. rand (env w) (tick w) = Some n \<and> r = n mod m) \<and> w' = next_tick w"
  by (auto simp: rand_Int_def split: option.splits)

lemma go_publish_Inr [succ]:
  "go_publish ty u data w = (Inr x, w') \<longleftrightarrow>
     w' = w\<lparr>spawned := spawned w @
        [\<lparr>spawn_EventType = ty, spawn_UserID = u, spawn_Data = data\<rparr>]\<rparr>"
  by (auto simp: go_publish_def)

lemma go_publish_Inl [fails]: "\<not> go_publish ty u data w = (Inl e, w')"
  by (simp add: go_publish_def)

lemma time_Now_Inl [fails]: "\<not> time_Now w = (Inl e, w')"
  by (simp add: time_Now_def)

lemma uuid_New_Inl [fails]: "\<not> uuid_New w = (Inl e, w')"
  by (simp add: uuid_New_def)

lemma run_stmt_Inr [succ]:
  "run_stmt cn q w = (Inr x, w') \<longleftrightarrow>
     (\<exists>d now d'. store_of cn w = Some (d, now) \<and> fault (env w) (tick w) = NoFault \<and>
        q (stmt_ctx_of now w) d = (Inr x, d') \<and> w' = put_store cn d' (next_tick w))"
  by (auto simp: run_stmt_def split: option.splits fault.splits prod.splits sum.splits)

lemma tx_Begin_Inr [succ]:
  "tx_Begin w = (Inr x, w') \<longleftrightarrow> fault (env w) (tick w) = NoFault \<and>
     w' = (next_tick w)\<lparr>work := Some (committed w, clock (env w) (tick w))\<rparr>"
  by (auto simp: tx_Begin_def split: fault.splits)

lemma tx_Commit_Inr [succ]:
  "tx_Commit w = (Inr x, w') \<longleftrightarrow> fault (env w) (tick w) = NoFault \<and>
     (\<exists>d now. work w = Some (d, now) \<and> w' = (next_tick w)\<lparr>committed := d, work := None\<rparr>)"
  by (auto simp: tx_Commit_def split: option.splits fault.splits)

lemma tx_Commit_Inl [fails]:
  "tx_Commit w = (Inl e, w') \<longleftrightarrow>
     (work w = None \<and> e = SQL ErrTxClosed \<and> w' = next_tick w) \<or>
     (\<exists>d now. work w = Some (d, now) \<and> e = SQL ConnFailed \<and>
        ((fault (env w) (tick w) = Refused \<and> w' = (next_tick w)\<lparr>work := None\<rparr>) \<or>
         (fault (env w) (tick w) = Lost \<and> w' = (next_tick w)\<lparr>committed := d, work := None\<rparr>)))"
  by (auto simp: tx_Commit_def split: option.splits fault.splits)

section \<open>What the steps leave alone\<close>

text \<open>
  \<open>same_env\<close>: every step keeps the environment. \<open>quiet\<close>: steps that neither touch the
  committed database nor start a goroutine nor publish: reads, and everything inside a
  transaction before its commit.
\<close>

definition same_env :: "world \<Rightarrow> world \<Rightarrow> bool" where
  "same_env w w' \<longleftrightarrow> env w' = env w"

definition quiet :: "world \<Rightarrow> world \<Rightarrow> bool" where
  "quiet w w' \<longleftrightarrow> env w' = env w \<and> committed w' = committed w \<and>
     spawned w' = spawned w \<and> published w' = published w"

interpretation env_order: step_order same_env
  by unfold_locales (auto simp: same_env_def)

interpretation quiet_order: step_order quiet
  by unfold_locales (auto simp: quiet_def)

lemma quiet_next_tick [simp]: "quiet w (next_tick w)"
  by (simp add: quiet_def)

lemma quiet_time_Now: "steps quiet time_Now"
  by (simp add: steps_def time_Now_def)

lemma quiet_uuid_New: "steps quiet uuid_New"
  by (simp add: steps_def uuid_New_def)

lemma quiet_rand_Int: "steps quiet (rand_Int m)"
  by (auto simp: steps_def rand_Int_def split: option.splits)

lemma quiet_tx_Begin: "steps quiet tx_Begin"
  by (auto simp: steps_def tx_Begin_def quiet_def split: fault.splits)

lemma quiet_tx_Rollback: "quiet w (tx_Rollback w)"
  by (simp add: tx_Rollback_def quiet_def)

lemma quiet_note_lock: "steps quiet (note_lock i row)"
  by (simp add: steps_def note_lock_def quiet_def)

lemma quiet_Tx: "steps quiet (run_stmt Tx q)"
  by (auto simp: steps_def run_stmt_def quiet_def split: option.splits fault.splits prod.splits sum.splits)

text \<open>A statement that only reads is quiet on the pool too.\<close>

definition read_only :: "'a stmt \<Rightarrow> bool" where
  "read_only q \<longleftrightarrow> (\<forall>c. steps (=) (q c))"

lemma quiet_read_only: "read_only q \<Longrightarrow> steps quiet (run_stmt cn q)"
  by (cases cn)
    (auto simp: steps_def run_stmt_def quiet_def read_only_def
      split: option.splits fault.splits prod.splits sum.splits, (metis snd_conv)+)

interpretation eq_order: step_order "(=)"
  by unfold_locales auto

lemma steps_eq_read: "steps (=) (read f)"
  by (simp add: steps_def read_def)

lemma steps_eq_select_one: "steps (=) (select_one p rows)"
  unfolding select_one_def by (intro eq_order.steps_intros)

lemma steps_eq_select_page: "steps (=) (select_page c key p l os rows)"
  unfolding select_page_def by (intro eq_order.steps_intros)

lemma steps_env_run_stmt: "steps same_env (run_stmt cn q)"
  by (auto simp: steps_def run_stmt_def same_env_def split: option.splits fault.splits prod.splits sum.splits)

lemma steps_env_tx_Commit: "steps same_env tx_Commit"
  by (auto simp: steps_def tx_Commit_def same_env_def split: option.splits fault.splits)

lemma steps_env_go_publish: "steps same_env (go_publish ty u data)"
  by (simp add: steps_def go_publish_def same_env_def)

lemmas quiet_intros = quiet_order.steps_intros quiet_time_Now quiet_uuid_New quiet_rand_Int
  quiet_tx_Begin quiet_tx_Rollback quiet_note_lock quiet_Tx quiet_read_only

section \<open>A transaction as a whole\<close>

text \<open>
  The shape of \<open>TopUp\<close>, \<open>Transfer\<close> and \<open>Register\<close>: begin, defer the rollback, run the
  statements, commit, start the publishing goroutine. Either nothing has changed, or the commit has
  reached the server and its answer may have been lost.
\<close>

lemma commit_cases:
  assumes run: "deferE tx_Rollback (bindE body (\<lambda>x. bindE (wrapE (Wrap m) tx_Commit) (\<lambda>_. k x))) w = (r, w')"
    and body: "body w = (Inr x, u)" "quiet w u"
    and k: "\<And>x s. k x s = (Inr (f x), s\<lparr>spawned := spawned s @ g x\<rparr>)"
  obtains (stays) e where "r = Inl (Wrap m (SQL e))" "quiet w w'"
  | (lost) d now where "work u = Some (d, now)" "committed w' = d"
      "r = Inl (Wrap m (SQL ConnFailed))" "spawned w' = spawned w"
  | (commits) d now where "work u = Some (d, now)" "committed w' = d"
      "r = Inr (f x)" "spawned w' = spawned w @ g x"
proof -
  have run2: "(case tx_Commit u of (Inl e, t) \<Rightarrow> (Inl (Wrap m e), tx_Rollback t)
      | (Inr _, t) \<Rightarrow> (Inr (f x), tx_Rollback (t\<lparr>spawned := spawned t @ g x\<rparr>))) = (r, w')"
    using run body(1) by (simp add: deferE_def bindE_def wrapE_def k split: prod.splits sum.splits)
  show thesis
  proof (cases "work u")
    case None
    then show thesis using run2 body(2) stays by (auto simp: tx_Commit_def tx_Rollback_def quiet_def)
  next
    case (Some p)
    then obtain d now where "work u = Some (d, now)" by (cases p) simp
    then show thesis using run2 body(2) stays lost [of d now] commits [of d now]
      by (cases "fault (env u) (tick u)") (auto simp: tx_Commit_def tx_Rollback_def quiet_def)
  qed
qed

lemma transaction_outcome:
  assumes run: "bindE (wrapE (Wrap m1) tx_Begin) (\<lambda>_. deferE tx_Rollback (bindE body (\<lambda>x.
      bindE (wrapE (Wrap m2) tx_Commit) (\<lambda>_. k x)))) w = (r, w')"
    and quiet: "steps quiet body"
    and k: "\<And>x s. k x s = (Inr (f x), s\<lparr>spawned := spawned s @ g x\<rparr>)"
  obtains (stays) e where "r = Inl e" "quiet w w'"
  | (lost) x u d now where
      "body ((next_tick w)\<lparr>work := Some (committed w, clock (env w) (tick w))\<rparr>) = (Inr x, u)"
      "work u = Some (d, now)" "committed w' = d"
      "r = Inl (Wrap m2 (SQL ConnFailed))" "spawned w' = spawned w"
  | (commits) x u d now where
      "body ((next_tick w)\<lparr>work := Some (committed w, clock (env w) (tick w))\<rparr>) = (Inr x, u)"
      "work u = Some (d, now)" "committed w' = d"
      "r = Inr (f x)" "spawned w' = spawned w @ g x"
proof (cases "fault (env w) (tick w) = NoFault")
  case False
  then show thesis using run stays
    by (auto simp: bindE_def wrapE_def tx_Begin_def quiet_def split: fault.splits)
next
  case True
  let ?w0 = "(next_tick w)\<lparr>work := Some (committed w, clock (env w) (tick w))\<rparr>"
  obtain b u where b: "body ?w0 = (b, u)" by (cases "body ?w0")
  have u: "quiet ?w0 u" using stepsD [OF quiet b] .
  have run': "deferE tx_Rollback (bindE body (\<lambda>x. bindE (wrapE (Wrap m2) tx_Commit) (\<lambda>_. k x))) ?w0 = (r, w')"
    using run True by (simp add: bindE_def wrapE_def tx_Begin_def)
  show thesis
  proof (cases b)
    case (Inl e)
    then show thesis using run' b u stays by (auto simp: deferE_def bindE_def tx_Rollback_def quiet_def)
  next
    case (Inr x)
    from run' b [unfolded Inr] u k show thesis
      by (cases rule: commit_cases) (use b Inr stays lost commits in \<open>simp_all add: quiet_def\<close>)
  qed
qed

end
