(* ===== verification/Constraints.thy ===== *)
theory Constraints
  imports World
begin

text \<open>
  The integrity of the database, \<open>db_ok\<close>: keys are unique, references resolve, balances
  lie in \<open>[0, 10^16)\<close>, amounts in \<open>(0, 10^16)\<close>, a user has at most one wallet. Every
  statement keeps it, so every function built from statements keeps it
  (\<open>world_keeps\<close>), whatever fails on the way.
\<close>

definition users_ok :: "db \<Rightarrow> bool" where
  "users_ok d \<longleftrightarrow> distinct (map ur_id (users d)) \<and> distinct (map ur_email (users d)) \<and>
     (\<forall>u \<in> set (users d). ur_role u = ''USER'' \<or> ur_role u = ''ADMIN'')"

definition wallets_ok :: "db \<Rightarrow> bool" where
  "wallets_ok d \<longleftrightarrow> distinct (map wr_id (wallets d)) \<and> distinct (map wr_user_id (wallets d)) \<and>
     (\<forall>w \<in> set (wallets d). 0 \<le> wr_balance w \<and> wr_balance w < 10 ^ 18 \<and>
        wr_user_id w \<in> ur_id ` set (users d))"

definition transactions_ok :: "db \<Rightarrow> bool" where
  "transactions_ok d \<longleftrightarrow> distinct (map tr_id (transactions d)) \<and>
     distinct (map tr_reference_no (transactions d)) \<and>
     (\<forall>t \<in> set (transactions d). 0 < tr_amount t \<and> tr_amount t < 10 ^ 18 \<and>
        references (tr_source_wallet_id t) (wallets d) \<and>
        references (tr_target_wallet_id t) (wallets d))"

definition ledger_ok :: "db \<Rightarrow> bool" where
  "ledger_ok d \<longleftrightarrow> distinct (map lr_id (ledger_entries d)) \<and>
     (\<forall>l \<in> set (ledger_entries d). 0 < lr_amount l \<and> lr_amount l < 10 ^ 18 \<and>
        lr_transaction_id l \<in> tr_id ` set (transactions d) \<and>
        lr_wallet_id l \<in> wr_id ` set (wallets d))"

definition logs_ok :: "db \<Rightarrow> bool" where
  "logs_ok d \<longleftrightarrow> distinct (map ar_id (audit_logs d)) \<and> distinct (map nr_id (notifications d)) \<and>
     (\<forall>a \<in> set (audit_logs d). ar_user_id a \<in> ur_id ` set (users d)) \<and>
     (\<forall>n \<in> set (notifications d). nr_user_id n \<in> ur_id ` set (users d))"

definition db_ok :: "db \<Rightarrow> bool" where
  "db_ok d \<longleftrightarrow> users_ok d \<and> wallets_ok d \<and> transactions_ok d \<and> ledger_ok d \<and> logs_ok d"

lemmas db_ok_defs = db_ok_def users_ok_def wallets_ok_def transactions_ok_def ledger_ok_def
  logs_ok_def

section \<open>Every statement keeps the integrity\<close>

definition keeps_db :: "'a stmt \<Rightarrow> bool" where
  "keeps_db q \<longleftrightarrow> (\<forall>c d x d'. q c d = (Inr x, d') \<longrightarrow> db_ok d \<longrightarrow> db_ok d')"

lemma keeps_dbI: "(\<And>c d x d'. q c d = (Inr x, d') \<Longrightarrow> db_ok d \<Longrightarrow> db_ok d') \<Longrightarrow> keeps_db q"
  by (auto simp: keeps_db_def)

lemma keeps_db_read_only: "read_only q \<Longrightarrow> keeps_db q"
  unfolding keeps_db_def read_only_def using stepsD by metis

lemma references_mono: "references i ws \<Longrightarrow> wr_id ` set ws \<subseteq> wr_id ` set ws' \<Longrightarrow> references i ws'"
  by (auto simp: references_def split: option.splits)

lemma references_append: "references i ws \<Longrightarrow> references i (ws @ xs)"
  by (auto intro: references_mono)

lemma update_where_map:
  "(\<And>r. f (g r) = f r) \<Longrightarrow> map f (update_where p g rows) = map f rows"
  by (simp add: update_where_def)

lemma set_update_where: "set (update_where p g rows) = (\<lambda>r. if p r then g r else r) ` set rows"
  by (simp add: update_where_def)

lemma image_update_where:
  "(\<And>r. f (g r) = f r) \<Longrightarrow> f ` set (update_where p g rows) = f ` set rows"
  by (metis update_where_map set_map)

lemma keeps_CreateUser: "keeps_db (CreateUser e h r)"
proof (rule keeps_dbI)
  fix c d x d' assume "CreateUser e h r c d = (Inr x, d')" and "db_ok d"
  then show "db_ok d'"
    by (auto simp: CreateUser_def succ db_ok_defs Let_def)
qed

lemma keeps_CreateWallet: "keeps_db (CreateWallet i u b cu)"
proof (rule keeps_dbI)
  fix c d x d' assume "CreateWallet i u b cu c d = (Inr x, d')" and "db_ok d"
  then show "db_ok d'"
    by (auto simp: CreateWallet_def succ db_ok_defs Let_def references_append)
qed

lemma keeps_UpdateWalletBalance: "keeps_db (UpdateWalletBalance i b)"
proof (rule keeps_dbI)
  fix c d x d' assume r: "UpdateWalletBalance i b c d = (Inr x, d')" and ok: "db_ok d"
  show "db_ok d'"
  proof (cases "i \<in> wr_id ` set (wallets d)")
    case False
    with r ok show ?thesis by (auto simp: UpdateWalletBalance_def succ)
  next
    case True
    then obtain bal where bal: "0 \<le> bal" "bal < 10 ^ 18" and d': "d' = d\<lparr>wallets :=
        update_where (\<lambda>r. wr_id r = i) (\<lambda>r. r\<lparr>wr_balance := bal, wr_updated_at := sc_now c\<rparr>) (wallets d)\<rparr>"
      using r by (auto simp: UpdateWalletBalance_def succ)
    have ids: "wr_id ` set (wallets d') = wr_id ` set (wallets d)"
      by (simp add: d' image_update_where)
    have "wallets_ok d'"
      using ok bal by (auto simp: db_ok_defs d' update_where_map set_update_where)
    then show ?thesis
      using ok ids by (auto simp: db_ok_defs d' elim!: references_mono)
  qed
qed

lemma keeps_CreateTransaction: "keeps_db (CreateTransaction rf ty st a s t)"
proof (rule keeps_dbI)
  fix c d x d' assume "CreateTransaction rf ty st a s t c d = (Inr x, d')" and "db_ok d"
  then show "db_ok d'"
    by (auto simp: CreateTransaction_def succ db_ok_defs Let_def)
qed

lemma keeps_UpdateTransactionStatus: "keeps_db (UpdateTransactionStatus i st)"
proof (rule keeps_dbI)
  fix c d x d' assume r: "UpdateTransactionStatus i st c d = (Inr x, d')" and ok: "db_ok d"
  then consider "d' = d" | "d' = d\<lparr>transactions :=
      update_where (\<lambda>r. sql_eq (Some (tr_id r)) i) (\<lambda>r. r\<lparr>tr_status := st\<rparr>) (transactions d)\<rparr>"
    by (auto simp: UpdateTransactionStatus_def succ split: if_splits)
  then show "db_ok d'"
  proof cases
    case 2
    then have "tr_id ` set (transactions d') = tr_id ` set (transactions d)"
      by (simp add: image_update_where)
    with 2 ok show ?thesis
      by (auto simp: db_ok_defs update_where_map set_update_where)
  qed (use ok in simp)
qed

lemma keeps_CreateLedgerEntry: "keeps_db (CreateLedgerEntry i t w ty a)"
proof (rule keeps_dbI)
  fix c d x d' assume "CreateLedgerEntry i t w ty a c d = (Inr x, d')" and "db_ok d"
  then show "db_ok d'"
    by (auto simp: CreateLedgerEntry_def succ db_ok_defs Let_def)
qed

lemma keeps_CreateAuditLog: "keeps_db (CreateAuditLog i u a ip e)"
proof (rule keeps_dbI)
  fix c d x d' assume "CreateAuditLog i u a ip e c d = (Inr x, d')" and "db_ok d"
  then show "db_ok d'"
    by (auto simp: CreateAuditLog_def succ db_ok_defs Let_def)
qed

lemma keeps_CreateNotification: "keeps_db (CreateNotification u t m)"
proof (rule keeps_dbI)
  fix c d x d' assume "CreateNotification u t m c d = (Inr x, d')" and "db_ok d"
  then show "db_ok d'"
    by (auto simp: CreateNotification_def succ db_ok_defs Let_def)
qed

lemma keeps_MarkNotificationAsRead: "keeps_db (MarkNotificationAsRead i u)"
  by (rule keeps_dbI) (auto simp: MarkNotificationAsRead_def succ db_ok_defs update_where_map
      set_update_where)

lemma keeps_ClearNotificationsByUserID: "keeps_db (ClearNotificationsByUserID u)"
  by (rule keeps_dbI)
    (auto simp: ClearNotificationsByUserID_def succ db_ok_defs delete_where_def distinct_map_filter)

lemmas keeps_writes = keeps_CreateUser keeps_CreateWallet keeps_UpdateWalletBalance
  keeps_CreateTransaction keeps_UpdateTransactionStatus keeps_CreateLedgerEntry
  keeps_CreateAuditLog keeps_CreateNotification keeps_MarkNotificationAsRead
  keeps_ClearNotificationsByUserID

section \<open>Every step keeps it\<close>

definition world_ok :: "world \<Rightarrow> bool" where
  "world_ok w \<longleftrightarrow> db_ok (committed w) \<and> (case work w of None \<Rightarrow> True | Some (d, _) \<Rightarrow> db_ok d)"

definition world_keeps :: "world \<Rightarrow> world \<Rightarrow> bool" where
  "world_keeps w w' \<longleftrightarrow> (world_ok w \<longrightarrow> world_ok w')"

interpretation ok_order: step_order world_keeps
  by unfold_locales (auto simp: world_keeps_def)

lemma ok_run_stmt: "keeps_db q \<Longrightarrow> steps world_keeps (run_stmt cn q)"
  by (cases cn)
    (fastforce simp: steps_def run_stmt_def world_keeps_def world_ok_def keeps_db_def
      split: option.splits fault.splits prod.splits sum.splits)+

lemma ok_tx_Begin: "steps world_keeps tx_Begin"
  by (auto simp: steps_def tx_Begin_def world_keeps_def world_ok_def split: fault.splits)

lemma ok_tx_Commit: "steps world_keeps tx_Commit"
  by (auto simp: steps_def tx_Commit_def world_keeps_def world_ok_def split: fault.splits option.splits)

lemma ok_tx_Rollback: "world_keeps w (tx_Rollback w)"
  by (simp add: world_keeps_def world_ok_def tx_Rollback_def)

lemma ok_simple_steps:
  "steps world_keeps time_Now" "steps world_keeps uuid_New" "steps world_keeps (rand_Int m)"
  "steps world_keeps (go_publish ty u data)"
  by (auto simp: steps_def world_keeps_def world_ok_def time_Now_def uuid_New_def rand_Int_def
      go_publish_def split: option.splits)

lemmas ok_intros = ok_order.steps_intros ok_run_stmt ok_tx_Begin ok_tx_Commit ok_tx_Rollback
  ok_simple_steps keeps_writes keeps_db_read_only

end
