(* ===== verification/Numeric.thy ===== *)
theory Numeric
  imports Constraints
begin

text \<open>
  The two conversions between \<open>decimal.Decimal\<close> and \<open>pgtype.Numeric\<close> of
  \<open>wallet_repository.go\<close>, and how the number survives them: exactly, both ways. Rounding
  happens only in the column type, \<open>DECIMAL(18,2)\<close>; the lemmas on \<open>round_half_away\<close>
  say what it does to a sum and to a difference of a stored balance and an amount.
\<close>

definition decimalToNumeric :: "'d lib \<Rightarrow> 'd \<Rightarrow> numeric" where
  "decimalToNumeric L d =
     (case Numeric_Scan L (Decimal_String L d) of
        None \<Rightarrow> \<lparr>Numeric_Int = None, Numeric_Exp = 0, Numeric_Valid = False\<rparr>
      | Some n \<Rightarrow> n)"

definition numericToDecimal :: "'d lib \<Rightarrow> numeric \<Rightarrow> 'd" where
  "numericToDecimal L n =
     (if \<not> Numeric_Valid n then Decimal_Zero L
      else case Numeric_Int n of
        None \<Rightarrow> Decimal_Zero L
      | Some i \<Rightarrow> Decimal_NewFromBigInt L i (Numeric_Exp n))"

lemma decimalToNumeric_value:
  "decimal_laws L v \<Longrightarrow> numeric_value (decimalToNumeric L d) = Some (v d)"
  by (erule decimal_laws_scan [where x = d]) (simp add: decimalToNumeric_def)

lemma numericToDecimal_value:
  "decimal_laws L v \<Longrightarrow> numeric_value n = Some x \<Longrightarrow> v (numericToDecimal L n) = x"
  by (auto simp: numericToDecimal_def numeric_value_def decimal_laws_simps split: if_splits)

text \<open>The stored hundredths \<open>c\<close> come back as the decimal \<open>c / 100\<close>.\<close>

definition cents_decimal :: "'d lib \<Rightarrow> int \<Rightarrow> 'd" where
  "cents_decimal L c = numericToDecimal L (Numeric_decode L c)"

lemma cents_decimal_value: "decimal_laws L v \<Longrightarrow> v (cents_decimal L c) = of_int c / 100"
  unfolding cents_decimal_def
  by (rule numericToDecimal_value) (simp_all only: decimal_laws_simps)

section \<open>Rounding\<close>

lemma round_half_away_of_int [simp]: "round_half_away (of_int c) = c"
proof (cases "c < 0")
  case True
  have "\<lfloor>1 / 2 - of_int c :: rat\<rfloor> = - c"
    by (rule floor_unique) simp_all
  then show ?thesis using True by (simp add: round_half_away_def)
next
  case False
  have "\<lfloor>of_int c + 1 / 2 :: rat\<rfloor> = c"
    by (rule floor_unique) simp_all
  then show ?thesis using False by (simp add: round_half_away_def)
qed

lemma round_half_away_add:
  "0 \<le> x \<Longrightarrow> 0 \<le> c \<Longrightarrow> round_half_away (of_int c + x) = c + round_half_away x"
  by (simp add: round_half_away_def add.assoc)

text \<open>Half a hundredth goes up when it is received and also when it stays: see the transfer.\<close>

lemma round_half_away_sub_half:
  assumes "0 \<le> x" and "x + 1 / 2 \<le> of_int c" and "x = of_int k"
  shows "round_half_away (of_int c - (x + 1 / 2)) = c - k"
proof -
  have "\<lfloor>of_int c - (x + 1 / 2) + 1 / 2 :: rat\<rfloor> = c - k"
    by (simp add: assms(3) flip: of_int_diff)
  then show ?thesis using assms(2) by (simp add: round_half_away_def)
qed

lemma round_half_away_half: "0 \<le> k \<Longrightarrow> round_half_away (of_int k + 1 / 2) = k + 1"
proof -
  assume "0 \<le> k"
  have "\<lfloor>of_int k + 1 / 2 + 1 / 2 :: rat\<rfloor> = k + 1"
    by (simp flip: of_int_add)
  with \<open>0 \<le> k\<close> show ?thesis by (simp add: round_half_away_def)
qed

lemma round_half_away_nonneg: "0 \<le> x \<Longrightarrow> 0 \<le> round_half_away x"
  by (simp add: round_half_away_def)

text \<open>The rounded value is within half a hundredth, and monotone.\<close>

lemma round_half_away_error: "\<bar>of_int (round_half_away x) - x\<bar> \<le> 1 / 2"
  using floor_correct [of "x + 1 / 2"] floor_correct [of "1 / 2 - x"]
  unfolding round_half_away_def
  by (cases "x < 0"; simp only: if_True if_False of_int_minus; linarith)

end
