(* ===== verification/WalletRepository.thy ===== *)
theory WalletRepository
  imports Numeric
begin

text \<open>
  \<open>internal/repository/wallet_repository.go\<close>. The struct \<open>sqlc.Wallet\<close> the generated
  query code returns, the driver's scan into it, \<open>mapWallet\<close>, and the five operations. A
  \<open>tx\<close> argument is the connection: \<open>Tx\<close> for the open transaction, \<open>Pool\<close> for a nil one.

  The theory also states the interface every single-row lookup of the repositories has
  (\<open>finder\<close>): it reads one statement's worth of the committed database, returns the row or
  nothing, and fails exactly when the database does. The lookups interpret it.
\<close>

section \<open>The lookup interface\<close>

locale finder =
  fixes find_op :: "'k \<Rightarrow> 'v option go"
    and table :: "db \<Rightarrow> 'k \<Rightarrow> 'v option"
  assumes find_Inr: "find_op k w = (Inr x, w') \<longleftrightarrow>
      fault (env w) (tick w) = NoFault \<and> w' = next_tick w \<and> x = table (committed w) k"
    and find_Inl: "find_op k w = (Inl e, w') \<Longrightarrow>
      fault (env w) (tick w) \<noteq> NoFault \<and> w' = next_tick w"
begin

lemma find_state: "snd (find_op k w) = next_tick w"
proof (cases "fst (find_op k w)")
  case (Inl e)
  then have "find_op k w = (Inl e, snd (find_op k w))" by (metis prod.collapse)
  then show ?thesis using find_Inl by blast
next
  case (Inr x)
  then have "find_op k w = (Inr x, snd (find_op k w))" by (metis prod.collapse)
  then show ?thesis using find_Inr by blast
qed

lemma find_quiet: "steps quiet (find_op k)"
  by (simp add: steps_def find_state)

lemma find_keeps: "steps world_keeps (find_op k)"
  by (simp add: steps_def find_state world_keeps_def world_ok_def)

lemma find_run: "fault (env w) (tick w) = NoFault \<Longrightarrow> find_op k w = (Inr (table (committed w) k), next_tick w)"
  by (simp add: find_Inr)

text \<open>A lookup at the head of a function: an error, or the function goes on with the row.\<close>

lemma find_cases:
  obtains (fails) e where "find_op k w = (Inl e, next_tick w)" "fault (env w) (tick w) \<noteq> NoFault"
  | (found) "find_op k w = (Inr (table (committed w) k), next_tick w)" "fault (env w) (tick w) = NoFault"
  using find_Inl find_Inr by (cases "find_op k w"; cases "fst (find_op k w)") auto

lemma find_bind_cases:
  assumes "bindE (find_op k) f w = (r, w')"
  obtains (fails) e where "r = Inl e" "w' = next_tick w" "fault (env w) (tick w) \<noteq> NoFault"
  | (goes_on) "f (table (committed w) k) (next_tick w) = (r, w')" "fault (env w) (tick w) = NoFault"
  by (rule find_cases [of k w]) (use assms that in \<open>auto simp: bindE_def\<close>)

lemma find_wrap_cases:
  assumes "bindE (wrapE g (find_op k)) f w = (r, w')"
  obtains (fails) e where "r = Inl e" "w' = next_tick w" "fault (env w) (tick w) \<noteq> NoFault"
  | (goes_on) "f (table (committed w) k) (next_tick w) = (r, w')" "fault (env w) (tick w) = NoFault"
  by (rule find_cases [of k w]) (use assms that in \<open>auto simp: bindE_def wrapE_def\<close>)

lemma find_found_or_absent:
  "find_op k w = (Inr x, w') \<Longrightarrow> x = None \<longleftrightarrow> table (committed w) k = None"
  by (simp add: find_Inr)

end

text \<open>
  The shape of the code's lookups: run a \<open>:one\<close> query on the pool, turn no row into
  \<open>nil, nil\<close>, wrap any other error.
\<close>

definition find_or_nil :: "string \<Rightarrow> 'r stmt \<Rightarrow> ('r \<Rightarrow> 'v) \<Rightarrow> conn \<Rightarrow> 'v option go" where
  "find_or_nil msg q m cn =
     tryE (run_stmt cn q) (\<lambda>r. case r of
         Inl e \<Rightarrow> if errors_is e (SQL ErrNoRows) then returnE None else throwE (Wrap msg e)
       | Inr x \<Rightarrow> returnE (Some (m x)))"

lemma find_or_nil_Inr:
  assumes q: "\<And>c d. q c d = select_one p (rows d) d"
  shows "find_or_nil msg q m cn w = (Inr x, w') \<longleftrightarrow>
    (\<exists>d now. store_of cn w = Some (d, now) \<and> fault (env w) (tick w) = NoFault \<and>
       w' = next_tick w \<and> x = map_option m (find p (rows d)))"
  by (cases cn) (auto simp: find_or_nil_def tryE_def run_stmt_def q select_one_def returnE_def throwE_def
      split: option.splits fault.splits)

lemma find_or_nil_Inl:
  assumes q: "\<And>c d. q c d = select_one p (rows d) d"
  shows "find_or_nil msg q m cn w = (Inl e, w') \<Longrightarrow> w' = next_tick w \<and>
    (store_of cn w = None \<or> fault (env w) (tick w) \<noteq> NoFault)"
  by (cases cn) (auto simp: find_or_nil_def tryE_def run_stmt_def q select_one_def returnE_def throwE_def
      split: option.splits fault.splits if_splits)

lemma finder_find_or_nil:
  assumes "\<And>k c d. q k c d = select_one (p k) (rows d) d"
  shows "finder (\<lambda>k. find_or_nil msg (q k) (m k) Pool) (\<lambda>d k. map_option (m k) (find (p k) (rows d)))"
proof
  fix k w x w'
  show "find_or_nil msg (q k) (m k) Pool w = (Inr x, w') \<longleftrightarrow>
      fault (env w) (tick w) = NoFault \<and> w' = next_tick w \<and>
      x = map_option (m k) (find (p k) (rows (committed w)))"
    by (subst find_or_nil_Inr [where p = "p k" and rows = rows]) (use assms in auto)
next
  fix k w e w'
  assume "find_or_nil msg (q k) (m k) Pool w = (Inl e, w')"
  then show "fault (env w) (tick w) \<noteq> NoFault \<and> w' = next_tick w"
    using find_or_nil_Inl [of "q k" "p k" rows] assms by fastforce
qed

section \<open>Rows, structs, entities\<close>

record sqlc_Wallet =
  sqlcWallet_ID :: string
  sqlcWallet_UserID :: "uuid option"
  sqlcWallet_Balance :: numeric
  sqlcWallet_Currency :: string
  sqlcWallet_CreatedAt :: "time option"
  sqlcWallet_UpdatedAt :: "time option"

definition scanWallet :: "'d lib \<Rightarrow> wallet_row \<Rightarrow> sqlc_Wallet" where
  "scanWallet L r =
     \<lparr>sqlcWallet_ID = wr_id r, sqlcWallet_UserID = Some (wr_user_id r),
      sqlcWallet_Balance = Numeric_decode L (wr_balance r), sqlcWallet_Currency = wr_currency r,
      sqlcWallet_CreatedAt = Some (wr_created_at r), sqlcWallet_UpdatedAt = Some (wr_updated_at r)\<rparr>"

text \<open>A field that is not \<open>Valid\<close> leaves the zero value of its variable.\<close>

definition mapWallet :: "'d lib \<Rightarrow> sqlc_Wallet \<Rightarrow> 'd Wallet" where
  "mapWallet L w =
     \<lparr>Wallet_ID = sqlcWallet_ID w,
      Wallet_UserID = (case sqlcWallet_UserID w of Some b \<Rightarrow> b | None \<Rightarrow> 0),
      Wallet_Balance = numericToDecimal L (sqlcWallet_Balance w),
      Wallet_Currency = sqlcWallet_Currency w,
      Wallet_CreatedAt = (case sqlcWallet_CreatedAt w of Some t \<Rightarrow> t | None \<Rightarrow> 0),
      Wallet_UpdatedAt = (case sqlcWallet_UpdatedAt w of Some t \<Rightarrow> t | None \<Rightarrow> 0)\<rparr>"

abbreviation wallet_of :: "'d lib \<Rightarrow> wallet_row \<Rightarrow> 'd Wallet" where
  "wallet_of L r \<equiv> mapWallet L (scanWallet L r)"

lemma wallet_of_simps [simp]:
  "Wallet_ID (wallet_of L r) = wr_id r"
  "Wallet_UserID (wallet_of L r) = wr_user_id r"
  "Wallet_Balance (wallet_of L r) = cents_decimal L (wr_balance r)"
  "Wallet_Currency (wallet_of L r) = wr_currency r"
  by (simp_all add: mapWallet_def scanWallet_def cents_decimal_def)

section \<open>Operations\<close>

definition walletRepo_Create :: "'d lib \<Rightarrow> conn \<Rightarrow> 'd Wallet \<Rightarrow> 'd Wallet go" where
  "walletRepo_Create L tx wallet =
     bindE (wrapE (Wrap ''create wallet query failed'') (run_stmt tx
       (CreateWallet (Wallet_ID wallet) (Some (Wallet_UserID wallet))
          (numeric_value (decimalToNumeric L (Wallet_Balance wallet))) (Wallet_Currency wallet)))) (\<lambda>w.
     returnE (wallet_of L w))"

definition walletRepo_FindByUserID :: "'d lib \<Rightarrow> uuid \<Rightarrow> 'd Wallet option go" where
  "walletRepo_FindByUserID L userID =
     find_or_nil ''find wallet by user id query failed'' (FindWalletByUserID (Some userID)) (wallet_of L) Pool"

definition walletRepo_FindByID :: "'d lib \<Rightarrow> string \<Rightarrow> 'd Wallet option go" where
  "walletRepo_FindByID L walletID =
     find_or_nil ''find wallet by id query failed'' (FindWalletByID walletID) (wallet_of L) Pool"

definition walletRepo_FindByIDForUpdate :: "'d lib \<Rightarrow> conn \<Rightarrow> string \<Rightarrow> 'd Wallet option go" where
  "walletRepo_FindByIDForUpdate L tx walletID =
     (case tx of
        Pool \<Rightarrow> throwE (Failed ''transaction is required for find wallet by id for update'')
      | Tx \<Rightarrow> bindE (find_or_nil ''find wallet by id for update query failed''
                (FindWalletByIDForUpdate walletID) (wallet_of L) Tx) (note_lock walletID))"

definition walletRepo_UpdateBalance :: "'d lib \<Rightarrow> conn \<Rightarrow> string \<Rightarrow> 'd \<Rightarrow> unit go" where
  "walletRepo_UpdateBalance L tx walletID newBalance =
     wrapE (Wrap ''update wallet balance query failed'') (run_stmt tx
       (UpdateWalletBalance walletID (numeric_value (decimalToNumeric L newBalance))))"

section \<open>The lookups are lookups\<close>

definition wallet_with_id :: "db \<Rightarrow> string \<Rightarrow> wallet_row option" where
  "wallet_with_id d i = find (\<lambda>r. wr_id r = i) (wallets d)"

definition wallet_of_user :: "db \<Rightarrow> uuid \<Rightarrow> wallet_row option" where
  "wallet_of_user d u = find (\<lambda>r. wr_user_id r = u) (wallets d)"

interpretation wallet_by_user: finder "walletRepo_FindByUserID L"
    "\<lambda>d u. map_option (wallet_of L) (wallet_of_user d u)" for L :: "'d lib"
  unfolding walletRepo_FindByUserID_def wallet_of_user_def
  by (rule finder_find_or_nil [where q = "\<lambda>u. FindWalletByUserID (Some u)" and m = "\<lambda>_. wallet_of L"])
    (simp add: FindWalletByUserID_def bindE_def read_def)

interpretation wallet_by_id: finder "walletRepo_FindByID L"
    "\<lambda>d i. map_option (wallet_of L) (wallet_with_id d i)" for L :: "'d lib"
  unfolding walletRepo_FindByID_def wallet_with_id_def
  by (rule finder_find_or_nil [where q = FindWalletByID and m = "\<lambda>_. wallet_of L"])
    (simp add: FindWalletByID_def bindE_def read_def)

lemmas wallet_find_Inr [succ] = wallet_by_user.find_Inr wallet_by_id.find_Inr

lemma FindByIDForUpdate_Inr [succ]:
  "walletRepo_FindByIDForUpdate L Tx i w = (Inr x, w') \<longleftrightarrow>
     (\<exists>d now. work w = Some (d, now) \<and> fault (env w) (tick w) = NoFault \<and>
        w' = locking i x (next_tick w) \<and> x = map_option (wallet_of L) (wallet_with_id d i))"
proof -
  have query: "FindWalletByIDForUpdate i c d = select_one (\<lambda>r. wr_id r = i) (wallets d) d" for c d
    by (simp add: FindWalletByIDForUpdate_def bindE_def read_def)
  have "find_or_nil msg (FindWalletByIDForUpdate i) (wallet_of L) Tx w = (Inr y, u) \<longleftrightarrow>
      (\<exists>d now. work w = Some (d, now) \<and> fault (env w) (tick w) = NoFault \<and>
        u = next_tick w \<and> y = map_option (wallet_of L) (wallet_with_id d i))" for msg y u
    unfolding find_or_nil_Inr [where p = "\<lambda>r. wr_id r = i" and rows = wallets
        and q = "FindWalletByIDForUpdate i", OF query] store_of.simps wallet_with_id_def
    by auto
  then show ?thesis
    unfolding walletRepo_FindByIDForUpdate_def by (auto simp: bindE_Inr note_lock_def)
qed

lemma wallet_with_id_Some: "wallet_with_id d i = Some r \<Longrightarrow> r \<in> set (wallets d) \<and> wr_id r = i"
  by (auto simp: wallet_with_id_def find_Some_iff)

lemma wallet_of_user_Some: "wallet_of_user d u = Some r \<Longrightarrow> r \<in> set (wallets d) \<and> wr_user_id r = u"
  by (auto simp: wallet_of_user_def find_Some_iff)

lemma find_distinct:
  "distinct (map f xs) \<Longrightarrow> x \<in> set xs \<Longrightarrow> find (\<lambda>y. f y = f x) xs = Some x"
  by (induction xs) (auto simp: rev_image_eqI)

lemma wallet_with_id_mem: "wallets_ok d \<Longrightarrow> r \<in> set (wallets d) \<Longrightarrow> wallet_with_id d (wr_id r) = Some r"
  by (simp add: wallet_with_id_def wallets_ok_def find_distinct)

lemma wallet_of_user_mem:
  "wallets_ok d \<Longrightarrow> r \<in> set (wallets d) \<Longrightarrow> wallet_of_user d (wr_user_id r) = Some r"
  by (simp add: wallet_of_user_def wallets_ok_def find_distinct)

end
