(* ===== verification/TransactionRepository.thy ===== *)
theory TransactionRepository
  imports WalletRepository
begin

text \<open>
  \<open>internal/repository/transaction_repository.go\<close>, and the interface of the paginated
  queries (\<open>pager\<close>): a page and a total, from two statements on the pool, of which the page
  is the slice \<open>[int32(offset), int32(offset) + int32(limit))\<close> of the filtered rows, newest
  first. The lists of every repository interpret it.
\<close>

section \<open>The interface of a paginated query\<close>

text \<open>
  \<open>listing d p\<close> is the whole list that the database \<open>d\<close> shows to a query whose scan
  meets the rows in the order \<open>p\<close>.
\<close>

locale pager =
  fixes page_op :: "goint \<Rightarrow> goint \<Rightarrow> ('v list \<times> goint) go"
    and listing :: "db \<Rightarrow> (nat \<Rightarrow> nat) \<Rightarrow> 'v list"
    and total_of :: "db \<Rightarrow> goint"
  assumes page_Inr: "page_op l os w = (Inr (xs, n), w') \<longleftrightarrow>
      fault (env w) (tick w) = NoFault \<and> fault (env w) (Suc (tick w)) = NoFault \<and>
      0 \<le> sint (int32 os) \<and> 0 \<le> sint (int32 l) \<and>
      xs = take (nat (sint (int32 l))) (drop (nat (sint (int32 os)))
             (listing (committed w) (plan (env w) (tick w)))) \<and>
      n = total_of (committed w) \<and> w' = next_tick (next_tick w)"
    and page_quiet: "steps quiet (page_op l os)"
    and page_keeps: "steps world_keeps (page_op l os)"
    and total_listing: "db_ok d \<Longrightarrow> total_of d = go_len (listing d p)"
begin

lemma page_run:
  "healthy (env w) \<Longrightarrow> 0 \<le> sint (int32 os) \<Longrightarrow> 0 \<le> sint (int32 l) \<Longrightarrow>
     page_op l os w = (Inr (take (nat (sint (int32 l))) (drop (nat (sint (int32 os)))
       (listing (committed w) (plan (env w) (tick w)))), total_of (committed w)),
       next_tick (next_tick w))"
  by (simp add: page_Inr healthy_def)

lemma page_negative_offset:
  "sint (int32 os) < 0 \<Longrightarrow> \<exists>e. fst (page_op l os w) = Inl e"
proof (cases "fst (page_op l os w)")
  case (Inr r)
  assume neg: "sint (int32 os) < 0"
  obtain xs n where "r = (xs, n)" by (cases r)
  with Inr have "page_op l os w = (Inr (xs, n), snd (page_op l os w))" by (metis prod.collapse)
  then show ?thesis using neg by (simp add: page_Inr)
qed simp

lemma page_members:
  "page_op l os w = (Inr (xs, n), w') \<Longrightarrow>
     set xs \<subseteq> set (listing (committed w) (plan (env w) (tick w)))"
  by (auto simp: page_Inr dest: in_set_takeD in_set_dropD)

end

text \<open>
  The shape of the code's paginated queries: the page, then the count, each error wrapped;
  then every row mapped.
\<close>

definition find_page ::
  "string \<Rightarrow> string \<Rightarrow> (goint32 \<Rightarrow> goint32 \<Rightarrow> 'r list stmt) \<Rightarrow> goint stmt \<Rightarrow> goint \<Rightarrow> goint \<Rightarrow>
     ('r list \<times> goint) go" where
  "find_page msg1 msg2 q c limit offset =
     bindE (wrapE (Wrap msg1) (run_stmt Pool (q (int32 limit) (int32 offset)))) (\<lambda>rows.
     bindE (wrapE (Wrap msg2) (run_stmt Pool c)) (\<lambda>n.
     returnE (rows, n)))"

definition map_page :: "('r \<Rightarrow> 'v) \<Rightarrow> ('r list \<times> goint) go \<Rightarrow> ('v list \<times> goint) go" where
  "map_page m f = bindE f (\<lambda>(rows, n). returnE (map m rows, n))"

lemma find_page_Inr:
  assumes q: "\<And>l os c d. q l os c d = select_page c key p l os (rows d) d"
    and c: "\<And>c d. cnt c d = (Inr (tot d), d)"
  shows "map_page m (find_page e1 e2 q cnt limit ofs) w = (Inr (xs, n), w') \<longleftrightarrow>
    fault (env w) (tick w) = NoFault \<and> fault (env w) (Suc (tick w)) = NoFault \<and>
    0 \<le> sint (int32 ofs) \<and> 0 \<le> sint (int32 limit) \<and>
    xs = take (nat (sint (int32 limit))) (drop (nat (sint (int32 ofs)))
           (map m (order_desc key (scan (plan (env w) (tick w)) (filter p (rows (committed w))))))) \<and>
    n = tot (committed w) \<and> w' = next_tick (next_tick w)"
  by (auto simp: map_page_def find_page_def succ q c select_page_def select_all_desc_def
      take_map drop_map)

lemma find_page_read_only:
  assumes q: "\<And>l os c d. q l os c d = select_page c key p l os (rows d) d"
    and c: "\<And>c d. cnt c d = (Inr (tot d), d)"
  shows "read_only (q l os)" "read_only cnt"
proof -
  have "snd (select_page c key p l os (rows d) d) = d" for c d
    using steps_eq_select_page [of c key p l os "rows d"] by (simp add: steps_def)
  then show "read_only (q l os)" "read_only cnt"
    by (simp_all add: read_only_def steps_def q c)
qed

lemma pager_find_page:
  assumes q: "\<And>l os c d. q l os c d = select_page c key p l os (rows d) d"
    and c: "\<And>c d. cnt c d = (Inr (tot d), d)"
    and tot: "\<And>d. db_ok d \<Longrightarrow> tot d = go_len (filter p (rows d))"
  shows "pager (\<lambda>limit ofs. map_page m (find_page e1 e2 q cnt limit ofs))
    (\<lambda>d pl. map m (order_desc key (scan pl (filter p (rows d))))) tot"
proof
  fix l os w xs n w'
  show "map_page m (find_page e1 e2 q cnt l os) w = (Inr (xs, n), w') \<longleftrightarrow>
      fault (env w) (tick w) = NoFault \<and> fault (env w) (Suc (tick w)) = NoFault \<and>
      0 \<le> sint (int32 os) \<and> 0 \<le> sint (int32 l) \<and>
      xs = take (nat (sint (int32 l))) (drop (nat (sint (int32 os)))
        (map m (order_desc key (scan (plan (env w) (tick w)) (filter p (rows (committed w))))))) \<and>
      n = tot (committed w) \<and> w' = next_tick (next_tick w)"
    by (rule find_page_Inr [OF q c])
next
  fix l os
  show "steps quiet (map_page m (find_page e1 e2 q cnt l os))"
    unfolding map_page_def find_page_def
    by (intro quiet_intros find_page_read_only [OF q c])
next
  fix l os
  show "steps world_keeps (map_page m (find_page e1 e2 q cnt l os))"
    unfolding map_page_def find_page_def
    by (intro ok_intros find_page_read_only [OF q c])
next
  fix d pl assume "db_ok d"
  have "length (order_desc key (scan pl (filter p (rows d)))) = length (filter p (rows d))"
    by (metis mset_scan mset_sort order_desc_def size_mset)
  with tot [OF \<open>db_ok d\<close>] show "tot d = go_len (map m (order_desc key (scan pl (filter p (rows d)))))"
    by (simp add: go_len_def)
qed

section \<open>Rows, structs, entities\<close>

record sqlc_Transaction =
  sqlcTransaction_ID :: "uuid option"
  sqlcTransaction_ReferenceNo :: string
  sqlcTransaction_Type :: string
  sqlcTransaction_Status :: string
  sqlcTransaction_Amount :: numeric
  sqlcTransaction_SourceWalletID :: "string option"
  sqlcTransaction_TargetWalletID :: "string option"
  sqlcTransaction_CreatedAt :: "time option"

definition scanTransaction :: "'d lib \<Rightarrow> transaction_row \<Rightarrow> sqlc_Transaction" where
  "scanTransaction L r =
     \<lparr>sqlcTransaction_ID = Some (tr_id r), sqlcTransaction_ReferenceNo = tr_reference_no r,
      sqlcTransaction_Type = tr_type r, sqlcTransaction_Status = tr_status r,
      sqlcTransaction_Amount = Numeric_decode L (tr_amount r),
      sqlcTransaction_SourceWalletID = tr_source_wallet_id r,
      sqlcTransaction_TargetWalletID = tr_target_wallet_id r,
      sqlcTransaction_CreatedAt = Some (tr_created_at r)\<rparr>"

definition mapTransaction :: "'d lib \<Rightarrow> sqlc_Transaction \<Rightarrow> 'd Transaction" where
  "mapTransaction L t =
     \<lparr>Transaction_ID = (case sqlcTransaction_ID t of Some b \<Rightarrow> b | None \<Rightarrow> 0),
      Transaction_ReferenceNo = sqlcTransaction_ReferenceNo t,
      Transaction_Type = sqlcTransaction_Type t,
      Transaction_Status = sqlcTransaction_Status t,
      Transaction_Amount = numericToDecimal L (sqlcTransaction_Amount t),
      Transaction_SourceWalletID = sqlcTransaction_SourceWalletID t,
      Transaction_TargetWalletID =
        (case sqlcTransaction_TargetWalletID t of Some s \<Rightarrow> s | None \<Rightarrow> []),
      Transaction_CreatedAt = (case sqlcTransaction_CreatedAt t of Some c \<Rightarrow> c | None \<Rightarrow> 0)\<rparr>"

abbreviation transaction_of :: "'d lib \<Rightarrow> transaction_row \<Rightarrow> 'd Transaction" where
  "transaction_of L r \<equiv> mapTransaction L (scanTransaction L r)"

lemma transaction_of_simps [simp]:
  "Transaction_ID (transaction_of L r) = tr_id r"
  "Transaction_ReferenceNo (transaction_of L r) = tr_reference_no r"
  "Transaction_Type (transaction_of L r) = tr_type r"
  "Transaction_Status (transaction_of L r) = tr_status r"
  "Transaction_Amount (transaction_of L r) = cents_decimal L (tr_amount r)"
  "Transaction_SourceWalletID (transaction_of L r) = tr_source_wallet_id r"
  "Transaction_TargetWalletID (transaction_of L r) = (case tr_target_wallet_id r of Some s \<Rightarrow> s | None \<Rightarrow> [])"
  "Transaction_CreatedAt (transaction_of L r) = tr_created_at r"
  by (simp_all add: mapTransaction_def scanTransaction_def cents_decimal_def)

section \<open>Operations\<close>

definition transactionRepo_Create :: "'d lib \<Rightarrow> conn \<Rightarrow> 'd Transaction \<Rightarrow> 'd Transaction go" where
  "transactionRepo_Create L tx txn =
     bindE (wrapE (Wrap ''create transaction query failed'') (run_stmt tx
       (CreateTransaction (Transaction_ReferenceNo txn) (Transaction_Type txn)
          (Transaction_Status txn) (numeric_value (decimalToNumeric L (Transaction_Amount txn)))
          (Transaction_SourceWalletID txn)
          (if Transaction_TargetWalletID txn \<noteq> [] then Some (Transaction_TargetWalletID txn) else None)))) (\<lambda>t.
     returnE (transaction_of L t))"

definition transactionRepo_FindByID :: "'d lib \<Rightarrow> uuid \<Rightarrow> 'd Transaction option go" where
  "transactionRepo_FindByID L i =
     find_or_nil ''find transaction by id query failed'' (FindTransactionByID (Some i))
       (transaction_of L) Pool"

definition transactionRepo_UpdateStatus :: "conn \<Rightarrow> uuid \<Rightarrow> TransactionStatus \<Rightarrow> unit go" where
  "transactionRepo_UpdateStatus tx i status =
     wrapE (Wrap ''update transaction status query failed'') (run_stmt tx
       (UpdateTransactionStatus (Some i) status))"

definition transactionRepo_FindByWalletID ::
  "'d lib \<Rightarrow> string \<Rightarrow> string option \<Rightarrow> goint \<Rightarrow> goint \<Rightarrow> ('d Transaction list \<times> goint) go" where
  "transactionRepo_FindByWalletID L walletID txnType limit offset =
     map_page (transaction_of L)
       (case txnType of
          Some ty \<Rightarrow> find_page ''find transactions by wallet id and type query failed''
             ''count transactions by wallet id and type query failed''
             (FindTransactionsByWalletIDAndType (Some walletID) ty)
             (CountTransactionsByWalletIDAndType (Some walletID) ty) limit offset
        | None \<Rightarrow> find_page ''find transactions by wallet id query failed''
             ''count transactions by wallet id query failed''
             (FindTransactionsByWalletID (Some walletID))
             (CountTransactionsByWalletID (Some walletID)) limit offset)"

definition transactionRepo_FindAll ::
  "'d lib \<Rightarrow> string option \<Rightarrow> string option \<Rightarrow> goint \<Rightarrow> goint \<Rightarrow> ('d Transaction list \<times> goint) go" where
  "transactionRepo_FindAll L txnType txnStatus limit offset =
     map_page (transaction_of L)
       (case (txnType, txnStatus) of
          (Some ty, Some st) \<Rightarrow> find_page ''find all transactions by type and status failed''
             ''count all transactions by type and status failed''
             (FindAllTransactionsByTypeAndStatus ty st)
             (CountAllTransactionsByTypeAndStatus ty st) limit offset
        | (Some ty, None) \<Rightarrow> find_page ''find all transactions by type failed''
             ''count all transactions by type failed''
             (FindAllTransactionsByType ty) (CountAllTransactionsByType ty) limit offset
        | (None, Some st) \<Rightarrow> find_page ''find all transactions by status failed''
             ''count all transactions by status failed''
             (FindAllTransactionsByStatus st) (CountAllTransactionsByStatus st) limit offset
        | (None, None) \<Rightarrow> find_page ''find all transactions failed'' ''count all transactions failed''
             FindAllTransactions CountAllTransactions limit offset)"

section \<open>The interfaces hold\<close>

definition transaction_with_id :: "db \<Rightarrow> uuid \<Rightarrow> transaction_row option" where
  "transaction_with_id d i = find (\<lambda>r. tr_id r = i) (transactions d)"

interpretation transaction_by_id: finder "transactionRepo_FindByID L"
    "\<lambda>d i. map_option (transaction_of L) (transaction_with_id d i)" for L :: "'d lib"
  unfolding transactionRepo_FindByID_def transaction_with_id_def
  by (rule finder_find_or_nil [where q = "\<lambda>i. FindTransactionByID (Some i)" and m = "\<lambda>_. transaction_of L"])
    (simp add: FindTransactionByID_def bindE_def read_def)

lemmas transaction_find_Inr [succ] = transaction_by_id.find_Inr

lemma transaction_with_id_Some:
  "transaction_with_id d i = Some r \<Longrightarrow> r \<in> set (transactions d) \<and> tr_id r = i"
  by (auto simp: transaction_with_id_def find_Some_iff)

text \<open>What a filter of the API selects.\<close>

definition of_type :: "string option \<Rightarrow> string \<Rightarrow> bool" where
  "of_type f ty \<longleftrightarrow> (case f of None \<Rightarrow> True | Some t \<Rightarrow> ty = t)"

definition wallet_transactions ::
  "string \<Rightarrow> string option \<Rightarrow> db \<Rightarrow> (nat \<Rightarrow> nat) \<Rightarrow> transaction_row list" where
  "wallet_transactions i ty d pl = order_desc tr_created_at (scan pl
     (filter (\<lambda>r. of_wallet (Some i) r \<and> of_type ty (tr_type r)) (transactions d)))"

definition all_transactions ::
  "string option \<Rightarrow> string option \<Rightarrow> db \<Rightarrow> (nat \<Rightarrow> nat) \<Rightarrow> transaction_row list" where
  "all_transactions ty st d pl = order_desc tr_created_at (scan pl
     (filter (\<lambda>r. of_type ty (tr_type r) \<and> of_type st (tr_status r)) (transactions d)))"

lemma pager_wallet_transactions:
  "pager (transactionRepo_FindByWalletID L i ty)
     (\<lambda>d pl. map (transaction_of L) (wallet_transactions i ty d pl))
     (\<lambda>d. count_rows (\<lambda>r. of_wallet (Some i) r \<and> of_type ty (tr_type r)) (transactions d))"
  unfolding transactionRepo_FindByWalletID_def wallet_transactions_def
  by (cases ty; simp only: option.case; rule pager_find_page)
    (simp_all add: of_type_def FindTransactionsByWalletID_def FindTransactionsByWalletIDAndType_def
      CountTransactionsByWalletID_def CountTransactionsByWalletIDAndType_def
      bindE_def read_def count_rows_def)

lemma pager_all_transactions:
  "pager (transactionRepo_FindAll L ty st)
     (\<lambda>d pl. map (transaction_of L) (all_transactions ty st d pl))
     (\<lambda>d. count_rows (\<lambda>r. of_type ty (tr_type r) \<and> of_type st (tr_status r)) (transactions d))"
  unfolding transactionRepo_FindAll_def all_transactions_def
  by (cases ty; cases st; simp only: option.case prod.case; rule pager_find_page)
    (simp_all add: of_type_def FindAllTransactions_def FindAllTransactionsByType_def
      FindAllTransactionsByStatus_def FindAllTransactionsByTypeAndStatus_def
      CountAllTransactions_def CountAllTransactionsByType_def CountAllTransactionsByStatus_def
      CountAllTransactionsByTypeAndStatus_def bindE_def read_def count_rows_def)

interpretation wallet_txns: pager "transactionRepo_FindByWalletID L i ty"
    "\<lambda>d pl. map (transaction_of L) (wallet_transactions i ty d pl)"
    "\<lambda>d. count_rows (\<lambda>r. of_wallet (Some i) r \<and> of_type ty (tr_type r)) (transactions d)"
  for L :: "'d lib" and i ty
  by (rule pager_wallet_transactions)

interpretation all_txns: pager "transactionRepo_FindAll L ty st"
    "\<lambda>d pl. map (transaction_of L) (all_transactions ty st d pl)"
    "\<lambda>d. count_rows (\<lambda>r. of_type ty (tr_type r) \<and> of_type st (tr_status r)) (transactions d)"
  for L :: "'d lib" and ty st
  by (rule pager_all_transactions)

end
