(* ===== verification/UserRepository.thy ===== *)
theory UserRepository
  imports TransactionRepository
begin

text \<open>
  \<open>internal/repository/user_repository.go\<close>. The administrator's list joins each user with
  the wallet; its count counts users, which is the length of the join because a user has at
  most one wallet.
\<close>

record sqlc_User =
  sqlcUser_ID :: "uuid option"
  sqlcUser_Email :: string
  sqlcUser_PasswordHash :: string
  sqlcUser_Role :: string
  sqlcUser_CreatedAt :: "time option"
  sqlcUser_UpdatedAt :: "time option"

definition scanUser :: "user_row \<Rightarrow> sqlc_User" where
  "scanUser r =
     \<lparr>sqlcUser_ID = Some (ur_id r), sqlcUser_Email = ur_email r,
      sqlcUser_PasswordHash = ur_password_hash r, sqlcUser_Role = ur_role r,
      sqlcUser_CreatedAt = Some (ur_created_at r), sqlcUser_UpdatedAt = Some (ur_updated_at r)\<rparr>"

definition mapUser :: "sqlc_User \<Rightarrow> User" where
  "mapUser u =
     \<lparr>User_ID = (case sqlcUser_ID u of Some b \<Rightarrow> b | None \<Rightarrow> 0),
      User_Email = sqlcUser_Email u,
      User_PasswordHash = sqlcUser_PasswordHash u,
      User_Role = sqlcUser_Role u,
      User_CreatedAt = (case sqlcUser_CreatedAt u of Some t \<Rightarrow> t | None \<Rightarrow> 0),
      User_UpdatedAt = (case sqlcUser_UpdatedAt u of Some t \<Rightarrow> t | None \<Rightarrow> 0)\<rparr>"

abbreviation user_of :: "user_row \<Rightarrow> User" where
  "user_of r \<equiv> mapUser (scanUser r)"

lemma user_of_simps [simp]:
  "User_ID (user_of r) = ur_id r"
  "User_Email (user_of r) = ur_email r"
  "User_PasswordHash (user_of r) = ur_password_hash r"
  "User_Role (user_of r) = ur_role r"
  "User_CreatedAt (user_of r) = ur_created_at r"
  by (simp_all add: mapUser_def scanUser_def)

record sqlc_FindAllUsersRow =
  allUsers_ID :: "uuid option"
  allUsers_Email :: string
  allUsers_Role :: string
  allUsers_CreatedAt :: "time option"
  allUsers_UpdatedAt :: "time option"
  allUsers_WalletID :: "string option"
  allUsers_WalletBalance :: numeric

definition scanFindAllUsersRow :: "'d lib \<Rightarrow> user_row \<times> wallet_row option \<Rightarrow> sqlc_FindAllUsersRow" where
  "scanFindAllUsersRow L r =
     (case r of (u, w) \<Rightarrow>
       \<lparr>allUsers_ID = Some (ur_id u), allUsers_Email = ur_email u, allUsers_Role = ur_role u,
        allUsers_CreatedAt = Some (ur_created_at u), allUsers_UpdatedAt = Some (ur_updated_at u),
        allUsers_WalletID = map_option wr_id w,
        allUsers_WalletBalance =
          (case w of Some x \<Rightarrow> Numeric_decode L (wr_balance x)
           | None \<Rightarrow> \<lparr>Numeric_Int = None, Numeric_Exp = 0, Numeric_Valid = False\<rparr>)\<rparr>)"

definition mapFindAllUsersRow :: "'d lib \<Rightarrow> sqlc_FindAllUsersRow \<Rightarrow> 'd UserWithWallet" where
  "mapFindAllUsersRow L u =
     \<lparr>UserWithWallet_User =
        \<lparr>User_ID = (case allUsers_ID u of Some b \<Rightarrow> b | None \<Rightarrow> 0),
         User_Email = allUsers_Email u,
         User_PasswordHash = [],
         User_Role = allUsers_Role u,
         User_CreatedAt = (case allUsers_CreatedAt u of Some t \<Rightarrow> t | None \<Rightarrow> 0),
         User_UpdatedAt = (case allUsers_UpdatedAt u of Some t \<Rightarrow> t | None \<Rightarrow> 0)\<rparr>,
      UserWithWallet_WalletID = (case allUsers_WalletID u of Some s \<Rightarrow> s | None \<Rightarrow> []),
      UserWithWallet_WalletBalance = numericToDecimal L (allUsers_WalletBalance u)\<rparr>"

abbreviation user_with_wallet_of :: "'d lib \<Rightarrow> user_row \<times> wallet_row option \<Rightarrow> 'd UserWithWallet" where
  "user_with_wallet_of L r \<equiv> mapFindAllUsersRow L (scanFindAllUsersRow L r)"

definition userRepo_Create :: "conn \<Rightarrow> string \<Rightarrow> string \<Rightarrow> UserRole \<Rightarrow> User go" where
  "userRepo_Create tx email passwordHash role =
     bindE (wrapE (Wrap ''create user query failed'') (run_stmt tx
       (CreateUser email passwordHash role))) (\<lambda>u.
     returnE (user_of u))"

definition userRepo_FindByEmail :: "string \<Rightarrow> User option go" where
  "userRepo_FindByEmail email =
     find_or_nil ''find user by email query failed'' (FindUserByEmail email) user_of Pool"

definition userRepo_FindByID :: "uuid \<Rightarrow> User option go" where
  "userRepo_FindByID i =
     find_or_nil ''find user by id query failed'' (FindUserByID (Some i)) user_of Pool"

definition userRepo_FindAll :: "'d lib \<Rightarrow> goint \<Rightarrow> goint \<Rightarrow> ('d UserWithWallet list \<times> goint) go" where
  "userRepo_FindAll L limit offset =
     map_page (user_with_wallet_of L)
       (find_page ''find all users query failed'' ''count all users query failed''
          FindAllUsers CountAllUsers limit offset)"

definition user_with_email :: "db \<Rightarrow> string \<Rightarrow> user_row option" where
  "user_with_email d e = find (\<lambda>r. ur_email r = e) (users d)"

definition user_with_id :: "db \<Rightarrow> uuid \<Rightarrow> user_row option" where
  "user_with_id d i = find (\<lambda>r. ur_id r = i) (users d)"

interpretation user_by_email: finder userRepo_FindByEmail "\<lambda>d e. map_option user_of (user_with_email d e)"
  unfolding userRepo_FindByEmail_def user_with_email_def
  by (rule finder_find_or_nil [where q = FindUserByEmail and m = "\<lambda>_. user_of"])
    (simp add: FindUserByEmail_def bindE_def read_def)

interpretation user_by_id: finder userRepo_FindByID "\<lambda>d i. map_option user_of (user_with_id d i)"
  unfolding userRepo_FindByID_def user_with_id_def
  by (rule finder_find_or_nil [where q = "\<lambda>i. FindUserByID (Some i)" and m = "\<lambda>_. user_of"])
    (simp add: FindUserByID_def bindE_def read_def)

lemmas user_find_Inr [succ] = user_by_email.find_Inr user_by_id.find_Inr

section \<open>The administrator's list\<close>

definition all_users :: "db \<Rightarrow> (nat \<Rightarrow> nat) \<Rightarrow> (user_row \<times> wallet_row option) list" where
  "all_users d pl = order_desc (\<lambda>(u, _). ur_created_at u)
     (scan pl (filter (\<lambda>_. True) (left_join_wallets d)))"

lemma filter_distinct_le_1:
  "distinct (map f xs) \<Longrightarrow> length (filter (\<lambda>x. f x = y) xs) \<le> 1"
proof (induction xs)
  case (Cons x xs)
  have "filter (\<lambda>z. f z = y) xs = []" if "f x = y"
    using Cons.prems that by (auto simp: filter_empty_conv intro: rev_image_eqI)
  with Cons show ?case by auto
qed simp

lemma length_left_join:
  assumes "wallets_ok d"
  shows "length (left_join_wallets d) = length (users d)"
proof -
  let ?ws = "\<lambda>u. filter (\<lambda>w. wr_user_id w = ur_id u) (wallets d)"
  have "length (?ws u) \<le> 1" for u
    using assms filter_distinct_le_1 [of wr_user_id "wallets d"] by (simp add: wallets_ok_def)
  then have one: "length (if ?ws u = [] then [(u, None)] else map (\<lambda>w. (u, Some w)) (?ws u)) = 1" for u
    by (auto simp: le_Suc_eq)
  show ?thesis
    unfolding left_join_wallets_def Let_def length_concat map_map comp_def one by (simp add: sum_list_triv)
qed

lemma pager_all_users:
  "pager (userRepo_FindAll L)
     (\<lambda>d pl. map (user_with_wallet_of L) (all_users d pl)) (\<lambda>d. count_rows (\<lambda>_. True) (users d))"
  unfolding userRepo_FindAll_def all_users_def
  by (rule pager_find_page)
    (simp_all add: FindAllUsers_def CountAllUsers_def bindE_def read_def count_rows_def go_len_def
      length_left_join db_ok_def)

interpretation users_page: pager "userRepo_FindAll L"
    "\<lambda>d pl. map (user_with_wallet_of L) (all_users d pl)" "\<lambda>d. count_rows (\<lambda>_. True) (users d)"
  for L :: "'d lib"
  by (rule pager_all_users)

end
