(* ===== verification/Pagination.thy ===== *)
theory Pagination
  imports World
begin

text \<open>
  \<open>internal/dto/pagination.go\<close>: the defaults and the offset of a page request, on 64-bit
  integers that wrap, and the page count every list service computes. The lemmas say when
  the offset that reaches the query is the one meant (the repositories pass
  \<open>int32(offset)\<close>), that the page count is the rounded-up quotient, and that the pages of
  a list partition it.
\<close>

record PaginationRequest =
  Page :: goint
  Limit :: goint

record PaginationResponse =
  CurrentPage :: goint
  PerPage :: goint
  TotalItems :: goint
  TotalPages :: goint

definition SetDefaults :: "PaginationRequest \<Rightarrow> PaginationRequest" where
  "SetDefaults p =
     (let p1 = (if sint (Page p) \<le> 0 then p\<lparr>Page := 1\<rparr> else p)
      in if sint (Limit p1) \<le> 0 then p1\<lparr>Limit := 10\<rparr> else p1)"

definition Offset :: "PaginationRequest \<Rightarrow> goint" where
  "Offset p = (Page p - 1) * Limit p"

text \<open>\<open>(total + pagination.Limit - 1) / pagination.Limit\<close>; dividing by zero panics.\<close>

definition totalPages :: "goint \<Rightarrow> PaginationRequest \<Rightarrow> goint option" where
  "totalPages tot p = go_div (tot + Limit p - 1) (Limit p)"

definition paginationResponse :: "PaginationRequest \<Rightarrow> goint \<Rightarrow> PaginationResponse go" where
  "paginationResponse p tot =
     (case totalPages tot p of
        None \<Rightarrow> throwE (Panic ''integer divide by zero'')
      | Some tp \<Rightarrow> returnE
          \<lparr>CurrentPage = Page p, PerPage = Limit p, TotalItems = tot, TotalPages = tp\<rparr>)"

section \<open>Defaults\<close>

lemma SetDefaults_pos: "1 \<le> sint (Page (SetDefaults p)) \<and> 1 \<le> sint (Limit (SetDefaults p))"
  by (auto simp: SetDefaults_def Let_def)

lemma SetDefaults_id: "1 \<le> sint (Page p) \<Longrightarrow> 1 \<le> sint (Limit p) \<Longrightarrow> SetDefaults p = p"
  by (auto simp: SetDefaults_def Let_def)

section \<open>Without overflow\<close>

lemma sint_of_int_word:
  "- (2 ^ 63) \<le> sint (a::goint) + sint b \<Longrightarrow> sint a + sint b < 2 ^ 63 \<Longrightarrow> sint (a + b) = sint a + sint b"
proof -
  assume b: "- (2 ^ 63) \<le> sint a + sint b" "sint a + sint b < 2 ^ 63"
  have "a + b = word_of_int (sint a + sint b)" by simp
  then show ?thesis using sint_word_of_int_64 [OF b] by metis
qed

lemma sint_Offset:
  assumes "1 \<le> sint (Page p)" "1 \<le> sint (Limit p)" "(sint (Page p) - 1) * sint (Limit p) < 2 ^ 63"
  shows "sint (Offset p) = (sint (Page p) - 1) * sint (Limit p)"
proof -
  have "Offset p = word_of_int ((sint (Page p) - 1) * sint (Limit p))"
    by (simp add: Offset_def)
  moreover have "0 \<le> (sint (Page p) - 1) * sint (Limit p)"
    using assms by simp
  ultimately show ?thesis
    using sint_word_of_int_64 [of "(sint (Page p) - 1) * sint (Limit p)"] assms(3) by simp
qed

lemma sint_int32_Offset:
  assumes "1 \<le> sint (Page p)" "1 \<le> sint (Limit p)" "(sint (Page p) - 1) * sint (Limit p) < 2 ^ 31"
  shows "sint (int32 (Offset p)) = (sint (Page p) - 1) * sint (Limit p)"
proof -
  have o: "sint (Offset p) = (sint (Page p) - 1) * sint (Limit p)"
    using assms by (intro sint_Offset) auto
  have "0 \<le> (sint (Page p) - 1) * sint (Limit p)"
    using assms by simp
  then show ?thesis using assms(3) by (simp add: sint_int32 o)
qed

lemma totalPages_eq:
  assumes "0 \<le> sint tot" "1 \<le> sint (Limit p)" "sint tot + sint (Limit p) \<le> 2 ^ 63"
  shows "\<exists>tp. totalPages tot p = Some tp \<and>
    sint tp = (sint tot + sint (Limit p) - 1) div sint (Limit p)"
proof -
  let ?n = "sint tot + sint (Limit p) - 1"
  have nz: "Limit p \<noteq> 0" using assms(2) by auto
  have "tot + Limit p - 1 = word_of_int ?n" by simp
  then have n: "sint (tot + Limit p - 1) = ?n"
    using assms sint_word_of_int_64 [of ?n] by simp
  have "sint (tot + Limit p - 1) sdiv sint (Limit p) = ?n div sint (Limit p)"
    using assms by (simp add: n sdiv_nonneg)
  moreover have "0 \<le> ?n div sint (Limit p)" "?n div sint (Limit p) \<le> ?n"
    using assms zdiv_mono2 [of ?n 1 "sint (Limit p)"] by (simp_all add: pos_imp_zdiv_nonneg_iff)
  ultimately show ?thesis
    using nz assms sint_word_of_int_64 [of "?n div sint (Limit p)"]
    by (simp add: totalPages_def go_div_def)
qed

section \<open>Pages of a list\<close>

definition page_of :: "nat \<Rightarrow> nat \<Rightarrow> 'a list \<Rightarrow> 'a list" where
  "page_of l i xs = take l (drop ((i - 1) * l) xs)"

lemma pages_partition:
  assumes "0 < l"
  shows "concat (map (\<lambda>i. page_of l i xs) [1..<Suc k]) = take (k * l) xs"
proof (induction k)
  case (Suc k)
  have "take (Suc k * l) xs = take (k * l) xs @ take l (drop (k * l) xs)"
    by (metis add.commute mult_Suc take_add)
  then show ?case using Suc.IH by (simp add: page_of_def)
qed simp

lemma pages_cover:
  assumes "0 < l" "length xs \<le> k * l"
  shows "concat (map (\<lambda>i. page_of l i xs) [1..<Suc k]) = xs"
  unfolding pages_partition [OF assms(1)] using assms(2) by simp

end
