(* ===== verification/IdGenerator.thy ===== *)
theory IdGenerator
  imports World
begin

text \<open>
  \<open>internal/utils/id_generator.go\<close>: random identifiers over a 36 character alphabet. The
  lemmas give the shape of each identifier, which is what the VARCHAR columns need, and that
  generating one fails only when the random source does.
\<close>

definition charset :: string where
  "charset = ''ABCDEFGHIJKLMNOPQRSTUVWXYZ0123456789''"

primrec randomAlphanumeric :: "nat \<Rightarrow> string go" where
  "randomAlphanumeric 0 = returnE []"
| "randomAlphanumeric (Suc n) =
     bindE (wrapE (Wrap ''failed to generate random index'') (rand_Int (length charset))) (\<lambda>i.
     bindE (randomAlphanumeric n) (\<lambda>s.
     returnE (charset ! i # s)))"

definition GenerateWalletID :: "string go" where
  "GenerateWalletID = bindE (randomAlphanumeric 8) (\<lambda>s. returnE (''WLT-'' @ s))"

text \<open>\<open>time.Format("20060102")\<close>: year, month and day, padded with zeros to 4, 2 and 2 digits.\<close>

fun show_nat :: "nat \<Rightarrow> string" where
  "show_nat n = (if n < 10 then [''0123456789'' ! n]
     else show_nat (n div 10) @ [''0123456789'' ! (n mod 10)])"

declare show_nat.simps [simp del]

definition pad :: "nat \<Rightarrow> nat \<Rightarrow> string" where
  "pad k n = (let s = show_nat n in replicate (k - length s) (CHR ''0'') @ s)"

definition Format_20060102 :: "nat \<times> nat \<times> nat \<Rightarrow> string" where
  "Format_20060102 t = (case t of (y, m, d) \<Rightarrow> pad 4 y @ pad 2 m @ pad 2 d)"

definition GenerateTransactionRef :: "string go" where
  "GenerateTransactionRef =
     bindE (randomAlphanumeric 8) (\<lambda>s.
     bindE time_Now (\<lambda>t.
     (\<lambda>w. (Inr (''TXN-'' @ Format_20060102 (local_date (env w) t) @ ''-'' @ s), w))))"

definition GenerateLedgerEntryID :: "string go" where
  "GenerateLedgerEntryID = bindE (randomAlphanumeric 10) (\<lambda>s. returnE (''LED-'' @ s))"

definition GenerateAuditLogID :: "string go" where
  "GenerateAuditLogID = bindE (randomAlphanumeric 10) (\<lambda>s. returnE (''AUD-'' @ s))"

section \<open>Shape\<close>

lemma length_charset [simp]: "length charset = 36"
  by (simp add: charset_def)

lemma randomAlphanumeric_shape:
  "randomAlphanumeric n w = (Inr s, w') \<Longrightarrow> length s = n \<and> set s \<subseteq> set charset"
proof (induction n arbitrary: s w)
  case (Suc n)
  then obtain r s0 where "s = charset ! (r mod 36) # s0"
      and "randomAlphanumeric n (next_tick w) = (Inr s0, w')"
    by (auto simp: succ)
  moreover have "charset ! (r mod 36) \<in> set charset"
    by (rule nth_mem) simp
  ultimately show ?case using Suc.IH by auto
qed (simp add: succ)

lemma quiet_randomAlphanumeric: "steps quiet (randomAlphanumeric n)"
  by (induction n) (auto intro!: quiet_intros)

lemma work_randomAlphanumeric: "randomAlphanumeric n w = (r, w') \<Longrightarrow> work w' = work w"
  by (induction n arbitrary: w r)
    (auto simp: returnE_def bindE_def wrapE_def rand_Int_def split: option.splits prod.splits sum.splits)

lemma randomAlphanumeric_healthy:
  "healthy (env w) \<Longrightarrow> \<exists>s. randomAlphanumeric n w = (Inr s, w\<lparr>tick := tick w + n\<rparr>)"
proof (induction n arbitrary: w)
  case (Suc n)
  then obtain r where r: "rand (env w) (tick w) = Some r"
    by (auto simp: healthy_def) (metis option.exhaust)
  from Suc.IH [of "next_tick w"] Suc.prems
  obtain s where "randomAlphanumeric n (next_tick w) = (Inr s, (next_tick w)\<lparr>tick := Suc (tick w) + n\<rparr>)"
    by auto
  with r show ?case
    by (auto simp: bindE_def wrapE_def rand_Int_def returnE_def next_tick_def)
qed (simp add: returnE_def)

lemma quiet_generators:
  "steps quiet GenerateWalletID" "steps quiet GenerateTransactionRef"
  "steps quiet GenerateLedgerEntryID" "steps quiet GenerateAuditLogID"
proof -
  have "steps quiet (\<lambda>w. (Inr (f w), w))" for f :: "world \<Rightarrow> string"
    by (simp add: steps_def quiet_order.R_refl)
  then show "steps quiet GenerateTransactionRef"
    unfolding GenerateTransactionRef_def by (intro quiet_intros quiet_randomAlphanumeric)
qed (auto simp: GenerateWalletID_def GenerateLedgerEntryID_def GenerateAuditLogID_def
    intro!: quiet_intros quiet_randomAlphanumeric)

lemma work_generators:
  "GenerateWalletID w = (r, w') \<Longrightarrow> work w' = work w"
  "GenerateTransactionRef w = (r, w') \<Longrightarrow> work w' = work w"
  "GenerateLedgerEntryID w = (r, w') \<Longrightarrow> work w' = work w"
  "GenerateAuditLogID w = (r, w') \<Longrightarrow> work w' = work w"
  by (auto simp: GenerateWalletID_def GenerateTransactionRef_def GenerateLedgerEntryID_def
      GenerateAuditLogID_def bindE_def returnE_def time_Now_def
      dest: work_randomAlphanumeric split: prod.splits sum.splits)

section \<open>Characters\<close>

lemma characters_append [simp]: "characters (s @ t) = characters s + characters t"
  by (simp add: characters_def)

lemma characters_le_length: "characters s \<le> length s"
  by (simp add: characters_def)

lemma varchar_length: "length s \<le> n \<Longrightarrow> varchar n s"
  unfolding varchar_def using characters_le_length [of s] by linarith

lemma GenerateWalletID_shape:
  "GenerateWalletID w = (Inr s, w') \<Longrightarrow>
     length s = 12 \<and> take 4 s = ''WLT-'' \<and> set (drop 4 s) \<subseteq> set charset"
  by (auto simp: GenerateWalletID_def succ dest!: randomAlphanumeric_shape)

lemma GenerateLedgerEntryID_shape:
  "GenerateLedgerEntryID w = (Inr s, w') \<Longrightarrow>
     length s = 14 \<and> take 4 s = ''LED-'' \<and> set (drop 4 s) \<subseteq> set charset"
  by (auto simp: GenerateLedgerEntryID_def succ dest!: randomAlphanumeric_shape)

lemma GenerateAuditLogID_shape:
  "GenerateAuditLogID w = (Inr s, w') \<Longrightarrow>
     length s = 14 \<and> take 4 s = ''AUD-'' \<and> set (drop 4 s) \<subseteq> set charset"
  by (auto simp: GenerateAuditLogID_def succ dest!: randomAlphanumeric_shape)

lemma length_show_nat: "n < 10 ^ Suc k \<Longrightarrow> length (show_nat n) \<le> Suc k"
proof (induction k arbitrary: n)
  case 0
  then show ?case by (simp add: show_nat.simps [of n])
next
  case (Suc k)
  then have "n div 10 < 10 ^ Suc k" by (simp add: div_less_iff_less_mult)
  then have "length (show_nat (n div 10)) \<le> Suc k" by (rule Suc.IH)
  then show ?case by (simp add: show_nat.simps [of n])
qed

lemma pad_length: "length (show_nat n) \<le> k \<Longrightarrow> length (pad k n) = k"
  by (simp add: pad_def Let_def)

lemma Format_length:
  assumes "y < 10000" "m < 100" "d < 100"
  shows "length (Format_20060102 (y, m, d)) = 8"
  using assms length_show_nat [of y 3] length_show_nat [of m 1] length_show_nat [of d 1]
  by (simp add: Format_20060102_def pad_length)

end
