(* ===== verification/Configuration.thy ===== *)
theory Configuration
  imports World
begin

text \<open>
  \<open>internal/config/config.go\<close>: the settings, read from the environment with defaults, and
  \<open>time.ParseDuration\<close>, by which the lifetime of a token is given. Viper, which looks a
  setting up, is a parameter.
\<close>

section \<open>Durations\<close>

text \<open>\<open>time.Duration\<close>: nanoseconds in 64 bits.\<close>

type_synonym duration = goint

text \<open>On the scale of \<open>time\<close>; whole microseconds, so whole seconds of an instant are exact.\<close>

definition duration_time :: "duration \<Rightarrow> time" where
  "duration_time d = sint d div 1000"

definition is_digit :: "char \<Rightarrow> bool" where
  "is_digit c \<longleftrightarrow> 48 \<le> (of_char c :: nat) \<and> (of_char c :: nat) \<le> 57"

definition digit :: "char \<Rightarrow> nat" where
  "digit c = of_char c - 48"

fun leadingInt :: "nat \<Rightarrow> string \<Rightarrow> (nat \<times> string) option" where
  "leadingInt x [] = Some (x, [])"
| "leadingInt x (c # s) =
     (if \<not> is_digit c then Some (x, c # s)
      else if 2 ^ 63 div 10 < x then None
      else if 2 ^ 63 < x * 10 + digit c then None
      else leadingInt (x * 10 + digit c) s)"

text \<open>Digits that no longer fit are skipped; \<open>overflow\<close> says that one did not.\<close>

fun leadingFraction :: "nat \<Rightarrow> nat \<Rightarrow> bool \<Rightarrow> string \<Rightarrow> nat \<times> nat \<times> string" where
  "leadingFraction x scale overflow [] = (x, scale, [])"
| "leadingFraction x scale overflow (c # s) =
     (if \<not> is_digit c then (x, scale, c # s)
      else if overflow \<or> (2 ^ 63 - 1) div 10 < x \<or> 2 ^ 63 < x * 10 + digit c
        then leadingFraction x scale True s
      else leadingFraction (x * 10 + digit c) (scale * 10) False s)"

definition unitMap :: "(string \<times> nat) list" where
  "unitMap = [(''ns'', 1), (''us'', 1000), ([CHR 0xC2, CHR 0xB5, CHR ''s''], 1000),
     ([CHR 0xCE, CHR 0xBC, CHR ''s''], 1000), (''ms'', 1000000), (''s'', 1000000000),
     (''m'', 60000000000), (''h'', 3600000000000)]"

definition part_of_unit :: "char \<Rightarrow> bool" where
  "part_of_unit c \<longleftrightarrow> c \<noteq> CHR ''.'' \<and> \<not> is_digit c"

text \<open>
  One number with its unit. The library multiplies the fraction in floating point; here the
  product is exact, which is the same whenever the unit has at least as many decimals.
\<close>

definition duration_item :: "string \<Rightarrow> (nat \<times> string) option" where
  "duration_item s =
     (if s = [] \<or> \<not> (hd s = CHR ''.'' \<or> is_digit (hd s)) then None else
      case leadingInt 0 s of None \<Rightarrow> None | Some (v, s1) \<Rightarrow>
      let pre = length s1 \<noteq> length s;
          (f, scale, s2, post) =
            (case s1 of [] \<Rightarrow> (0, 1, s1, False)
             | c # t \<Rightarrow> if c = CHR ''.''
                 then (case leadingFraction 0 1 False t of (f, scale, t') \<Rightarrow> (f, scale, t', length t' \<noteq> length t))
                 else (0, 1, s1, False))
      in if \<not> pre \<and> \<not> post then None else
      case map_of unitMap (takeWhile part_of_unit s2) of None \<Rightarrow> None | Some unit \<Rightarrow>
      if 2 ^ 63 div unit < v then None else
      let n = v * unit + f * unit div scale
      in if 2 ^ 63 < n then None else Some (n, dropWhile part_of_unit s2))"

lemma leadingInt_length: "leadingInt x s = Some (v, t) \<Longrightarrow> length t \<le> length s"
  by (induction x s rule: leadingInt.induct) (auto split: if_splits)

lemma leadingFraction_length: "leadingFraction x sc b s = (f, sc', t) \<Longrightarrow> length t \<le> length s"
  by (induction x sc b s rule: leadingFraction.induct) (auto split: if_splits)

lemma unit_nonempty: "map_of unitMap u = Some n \<Longrightarrow> u \<noteq> []"
  by (auto simp: unitMap_def)

lemma duration_item_shorter:
  assumes "duration_item s = Some (n, t)"
  shows "length t < length s"
proof -
  have shorter: "length (dropWhile part_of_unit x) < length x" if "takeWhile part_of_unit x \<noteq> []" for x
    using that by (cases x) (auto simp: le_imp_less_Suc length_dropWhile_le split: if_splits)
  obtain v s1 where int: "leadingInt 0 s = Some (v, s1)"
    using assms by (auto simp: duration_item_def split: if_splits option.splits)
  define rest where "rest = (case s1 of [] \<Rightarrow> (0, 1, s1, False)
    | c # t \<Rightarrow> if c = CHR ''.''
        then (case leadingFraction 0 1 False t of (f, scale, t') \<Rightarrow> (f, scale, t', length t' \<noteq> length t))
        else (0, 1, s1, False))"
  obtain f scale s2 post where r: "rest = (f, scale, s2, post)" by (cases rest)
  have "length s2 \<le> length s1"
    using r by (auto simp: rest_def split: list.splits if_splits prod.splits dest: leadingFraction_length)
  moreover have "length s1 \<le> length s" using int by (rule leadingInt_length)
  moreover have "takeWhile part_of_unit s2 \<noteq> [] \<and> t = dropWhile part_of_unit s2"
    using assms int r unfolding duration_item_def rest_def
    by (auto simp: Let_def split: if_splits option.splits dest: unit_nonempty)
  ultimately show ?thesis using shorter [of s2] by auto
qed

text \<open>The sum is kept in 64 bits without sign.\<close>

function duration_items :: "nat \<Rightarrow> string \<Rightarrow> nat option" where
  "duration_items d s =
     (if s = [] then Some d else
      case duration_item s of None \<Rightarrow> None | Some (n, t) \<Rightarrow>
      if 2 ^ 63 < (d + n) mod 2 ^ 64 then None else duration_items ((d + n) mod 2 ^ 64) t)"
  by pat_completeness auto
termination
  by (relation "measure (\<lambda>(d, s). length s)") (auto dest: duration_item_shorter)

declare duration_items.simps [simp del]

definition ParseDuration :: "string \<Rightarrow> duration option" where
  "ParseDuration s =
     (let neg = (s \<noteq> [] \<and> hd s = CHR ''-'');
          t = (if s \<noteq> [] \<and> (hd s = CHR ''-'' \<or> hd s = CHR ''+'') then tl s else s)
      in if t = ''0'' then Some 0
      else if t = [] then None
      else case duration_items 0 t of
          None \<Rightarrow> None
        | Some d \<Rightarrow> if neg then Some (- word_of_nat d)
            else if 2 ^ 63 - 1 < d then None else Some (word_of_nat d))"

section \<open>Settings\<close>

record Config =
  Config_ServerPort :: string
  Config_DatabaseURL :: string
  Config_RedisURL :: string
  Config_RabbitMQURL :: string
  Config_JWTSecret :: string
  Config_JWTExpiration :: duration
  Config_CookieSecure :: bool

text \<open>Viper: \<open>GetString\<close> and \<open>GetBool\<close> after \<open>AutomaticEnv\<close>, for given defaults.\<close>

record viper =
  Viper_GetString :: "(string \<times> string) list \<Rightarrow> string \<Rightarrow> string"
  Viper_GetBool :: "(string \<times> string) list \<Rightarrow> string \<Rightarrow> bool"

definition defaults :: "(string \<times> string) list" where
  "defaults = [(''SERVER_PORT'', ''8080''), (''JWT_EXPIRATION'', ''24h''), (''COOKIE_SECURE'', ''true'')]"

definition Load :: "viper \<Rightarrow> error + Config" where
  "Load V =
     (let get = Viper_GetString V defaults in
      case ParseDuration (get ''JWT_EXPIRATION'') of
        None \<Rightarrow> Inl (Wrap ''invalid JWT_EXPIRATION'' (Failed ''time: invalid duration''))
      | Some dur \<Rightarrow>
          if get ''DATABASE_URL'' = [] then Inl (Failed ''DATABASE_URL is required'')
          else if get ''JWT_SECRET'' = [] then Inl (Failed ''JWT_SECRET is required'')
          else if get ''REDIS_URL'' = [] then Inl (Failed ''REDIS_URL is required'')
          else if get ''RABBITMQ_URL'' = [] then Inl (Failed ''RABBITMQ_URL is required'')
          else Inr
            \<lparr>Config_ServerPort = get ''SERVER_PORT'',
             Config_DatabaseURL = get ''DATABASE_URL'',
             Config_RedisURL = get ''REDIS_URL'',
             Config_RabbitMQURL = get ''RABBITMQ_URL'',
             Config_JWTSecret = get ''JWT_SECRET'',
             Config_JWTExpiration = dur,
             Config_CookieSecure = Viper_GetBool V defaults ''COOKIE_SECURE''\<rparr>)"

text \<open>
  What Viper documents: a variable that is set and not empty wins over the default, and a
  truth value is what \<open>strconv.ParseBool\<close> reads, false where it reads none.
\<close>

definition setting :: "(string \<Rightarrow> string option) \<Rightarrow> string \<Rightarrow> string" where
  "setting environ k = (case environ k of Some s \<Rightarrow> s | None \<Rightarrow> [])"

definition setting_or :: "(string \<Rightarrow> string option) \<Rightarrow> string \<Rightarrow> string \<Rightarrow> string" where
  "setting_or environ d k = (if setting environ k = [] then d else setting environ k)"

definition is_true :: "string \<Rightarrow> bool" where
  "is_true s \<longleftrightarrow> s \<in> {''1'', ''t'', ''T'', ''TRUE'', ''true'', ''True''}"

definition viper_laws :: "viper \<Rightarrow> (string \<Rightarrow> string option) \<Rightarrow> bool" where
  "viper_laws V environ \<longleftrightarrow> (\<forall>ds k. let d = (case map_of ds k of Some d \<Rightarrow> d | None \<Rightarrow> []) in
     Viper_GetString V ds k = setting_or environ d k \<and>
     Viper_GetBool V ds k = is_true (setting_or environ d k))"

section \<open>Whole numbers with units\<close>

text \<open>
  Texts such as \<open>24h\<close> or \<open>1h30m\<close>: numbers, each with its unit. \<open>ParseDuration\<close> reads them exactly,
  up to the range of a duration.
\<close>

fun decimal :: "nat \<Rightarrow> string" where
  "decimal n = (if n < 10 then [char_of (48 + n)] else decimal (n div 10) @ [char_of (48 + n mod 10)])"

declare decimal.simps [simp del]

lemma digit_char: "k < 10 \<Longrightarrow> is_digit (char_of (48 + k)) \<and> digit (char_of (48 + k)) = k"
  by (simp add: is_digit_def digit_def of_char_of)

lemma leadingInt_decimal: "n \<le> 2 ^ 63 \<Longrightarrow> leadingInt 0 (decimal n @ t) = leadingInt n t"
proof (induction n arbitrary: t rule: decimal.induct)
  case (1 n)
  show ?case
  proof (cases "n < 10")
    case True
    then show ?thesis using digit_char [of n] by (simp add: decimal.simps [of n])
  next
    case False
    have "leadingInt 0 (decimal n @ t) = leadingInt 0 (decimal (n div 10) @ char_of (48 + n mod 10) # t)"
      using False by (simp add: decimal.simps [of n])
    also have "\<dots> = leadingInt (n div 10) (char_of (48 + n mod 10) # t)"
      using "1.prems" by (intro "1.IH" [OF False]) simp
    also have "\<dots> = leadingInt n t"
    proof -
      have "\<not> 2 ^ 63 div 10 < n div 10" using "1.prems" div_le_mono [of n "2 ^ 63" 10] by simp
      moreover have "n div 10 * 10 + n mod 10 = n" by simp
      ultimately show ?thesis using digit_char [of "n mod 10"] "1.prems" by simp
    qed
    finally show ?thesis .
  qed
qed

lemma decimal_first: "\<exists>c s. decimal n = c # s \<and> is_digit c"
proof (induction n rule: decimal.induct)
  case (1 n)
  show ?case
  proof (cases "n < 10")
    case True
    then show ?thesis using digit_char [of n] by (simp add: decimal.simps [of n])
  next
    case False
    then obtain c s where "decimal (n div 10) = c # s" "is_digit c" using "1.IH" by blast
    then show ?thesis using False by (simp add: decimal.simps [of n])
  qed
qed

definition duration_text :: "(nat \<times> string) list \<Rightarrow> string" where
  "duration_text items = concat (map (\<lambda>(n, u). decimal n @ u) items)"

definition unit_nanos :: "string \<Rightarrow> nat" where
  "unit_nanos u = (case map_of unitMap u of Some k \<Rightarrow> k | None \<Rightarrow> 0)"

definition duration_nanos :: "(nat \<times> string) list \<Rightarrow> nat" where
  "duration_nanos items = (\<Sum>(n, u) \<leftarrow> items. n * unit_nanos u)"

lemma unit_text:
  assumes "map_of unitMap u = Some k"
  shows "0 < k \<and> (\<exists>c s. u = c # s \<and> c \<noteq> CHR ''.'' \<and> \<not> is_digit c) \<and> (\<forall>c \<in> set u. part_of_unit c)"
  using assms by (auto simp: unitMap_def part_of_unit_def is_digit_def split: if_splits)

lemma item_with_unit:
  assumes u: "map_of unitMap u = Some k" and fits: "n * k \<le> 2 ^ 63" and rest: "rest = [] \<or> is_digit (hd rest)"
  shows "duration_item (decimal n @ u @ rest) = Some (n * k, rest)"
proof -
  obtain c s where c: "decimal n = c # s" "is_digit c" using decimal_first by blast
  obtain c' s' where u': "u = c' # s'" "c' \<noteq> CHR ''.''" "\<not> is_digit c'" using unit_text [OF u] by blast
  have k: "0 < k" "\<forall>x \<in> set u. part_of_unit x" using unit_text [OF u] by auto
  have "n \<le> n * k" using k(1) by simp
  from le_trans [OF this fits] have "n \<le> 2 ^ 63" .
  then have "leadingInt 0 (decimal n @ u @ rest) = Some (n, u @ rest)"
    using leadingInt_decimal [of n "u @ rest"] u' by simp
  moreover have "takeWhile part_of_unit rest = []" "dropWhile part_of_unit rest = rest"
    using rest by (cases rest; simp add: part_of_unit_def)+
  then have "takeWhile part_of_unit (u @ rest) = u" "dropWhile part_of_unit (u @ rest) = rest"
    using k(2) by (simp_all add: takeWhile_append2 dropWhile_append2)
  moreover have "\<not> 2 ^ 63 div k < n" using fits k(1) by (simp add: not_less less_eq_div_iff_mult_less_eq)
  ultimately show ?thesis using c u u' fits by (simp add: duration_item_def Let_def)
qed

lemma duration_text_first: "duration_text items = [] \<or> is_digit (hd (duration_text items))"
proof (cases items)
  case (Cons x xs)
  obtain c s where "decimal (fst x) = c # s" "is_digit c" using decimal_first by blast
  then show ?thesis using Cons by (cases x) (simp add: duration_text_def)
qed (simp add: duration_text_def)

lemma duration_items_text:
  assumes "\<forall>(n, u) \<in> set items. u \<in> fst ` set unitMap" and "d + duration_nanos items \<le> 2 ^ 63"
  shows "duration_items d (duration_text items) = Some (d + duration_nanos items)"
  using assms
proof (induction items arbitrary: d)
  case Nil
  then show ?case by (simp add: duration_text_def duration_nanos_def duration_items.simps [of _ "[]"])
next
  case (Cons x xs)
  obtain n u where x: "x = (n, u)" by (cases x)
  obtain k where k: "map_of unitMap u = Some k"
    using Cons.prems(1) x by (auto simp: unitMap_def)
  have form: "duration_text (x # xs) = decimal n @ u @ duration_text xs" by (simp add: x duration_text_def)
  have nanos: "duration_nanos (x # xs) = n * k + duration_nanos xs" by (simp add: x k duration_nanos_def unit_nanos_def)
  have item: "duration_item (duration_text (x # xs)) = Some (n * k, duration_text xs)"
    unfolding form using Cons.prems(2) nanos by (intro item_with_unit [OF k _ duration_text_first]) simp
  then have "duration_text (x # xs) \<noteq> []" by (auto simp: duration_item_def)
  moreover have "duration_items (d + n * k) (duration_text xs) = Some (d + n * k + duration_nanos xs)"
    using Cons.prems nanos by (intro Cons.IH) auto
  ultimately show ?case
    using Cons.prems(2) nanos item by (simp add: duration_items.simps [of _ "duration_text (x # xs)"])
qed

lemma ParseDuration_text:
  assumes "items \<noteq> []" and "\<forall>(n, u) \<in> set items. u \<in> fst ` set unitMap" and "duration_nanos items < 2 ^ 63"
  shows "ParseDuration (duration_text items) = Some (word_of_nat (duration_nanos items))"
proof -
  have d: "duration_items 0 (duration_text items) = Some (duration_nanos items)"
    using duration_items_text [OF assms(2), of 0] assms(3) by simp
  obtain n u xs where items: "items = (n, u) # xs" using assms(1) by (cases items) auto
  obtain c s where c: "decimal n = c # s" "is_digit c" using decimal_first by blast
  obtain k where "map_of unitMap u = Some k" using assms(2) items by (auto simp: unitMap_def)
  then have "u \<noteq> []" "\<not> is_digit (hd u)" using unit_text by fastforce+
  moreover have form: "duration_text items = c # s @ u @ duration_text xs" by (simp add: items c duration_text_def)
  ultimately have "duration_text items \<noteq> ''0''" "hd (duration_text items) = c" "duration_text items \<noteq> []" by auto
  moreover have "c \<noteq> CHR ''-''" "c \<noteq> CHR ''+''" using c(2) by (auto simp: is_digit_def)
  ultimately show ?thesis using d assms(3) by (simp add: ParseDuration_def)
qed

lemma nanos_exact: "n < 2 ^ 63 \<Longrightarrow> sint (word_of_nat n :: duration) = int n"
  by (simp add: signed_of_nat signed_take_bit_int_eq_self)

end
