(* ===== verification/AuthService.thy ===== *)
theory AuthService
  imports UserRepository Pagination IdGenerator Configuration
begin

text \<open>
  \<open>internal/service/auth_service.go\<close>, \<open>internal/utils/password.go\<close> and
  \<open>internal/utils/jwt.go\<close>: registration, login, the administrator's list of users, password
  hashes and tokens. \<open>register_statements\<close> is what \<open>Register\<close> runs between
  \<open>pool.Begin\<close> and \<open>tx.Commit\<close>.
\<close>

section \<open>Passwords and tokens\<close>

text \<open>bcrypt draws its salt from the random source.\<close>

definition HashPassword :: "'d lib \<Rightarrow> string \<Rightarrow> string go" where
  "HashPassword L password w =
     (case rand (env w) (tick w) of
        None \<Rightarrow> (Inl (Failed ''bcrypt''), next_tick w)
      | Some salt \<Rightarrow>
          (case Bcrypt_Generate L salt password of
             None \<Rightarrow> (Inl (Failed ''bcrypt''), next_tick w)
           | Some h \<Rightarrow> (Inr h, next_tick w)))"

definition CheckPassword :: "'d lib \<Rightarrow> string \<Rightarrow> string \<Rightarrow> bool" where
  "CheckPassword L password hash = Bcrypt_Compare L hash password"

definition GenerateToken ::
  "'d lib \<Rightarrow> uuid \<Rightarrow> string \<Rightarrow> string \<Rightarrow> string \<Rightarrow> duration \<Rightarrow> string go" where
  "GenerateToken L userID email role secret expiration =
     bindE time_Now (\<lambda>t1.
     bindE time_Now (\<lambda>t2.
     let claims = \<lparr>Claims_UserID = userID, Claims_Email = email, Claims_Role = role,
                   Claims_ExpiresAt = Jwt_NewNumericDate L (t1 + duration_time expiration),
                   Claims_IssuedAt = Jwt_NewNumericDate L t2\<rparr>
     in (case Jwt_SignedString L claims secret of
           None \<Rightarrow> throwE (Failed ''jwt'')
         | Some token \<Rightarrow> returnE token)))"

definition hmac_key :: "string \<Rightarrow> string \<Rightarrow> string option" where
  "hmac_key secret alg =
     (if alg \<in> {''HS256'', ''HS384'', ''HS512''} then Some secret else None)"

definition ParseToken :: "'d lib \<Rightarrow> string \<Rightarrow> string \<Rightarrow> Claims go" where
  "ParseToken L tokenString secret =
     bindE time_Now (\<lambda>now.
     (case Jwt_ParseWithClaims L tokenString (hmac_key secret) now of
        None \<Rightarrow> throwE (Failed ''jwt'')
      | Some (claims, valid) \<Rightarrow>
          if \<not> valid then throwE (Failed ''invalid token claims'') else returnE claims))"

section \<open>Requests and responses\<close>

record RegisterRequest =
  RegisterRequest_Email :: string
  RegisterRequest_Password :: string
  RegisterRequest_ConfirmPassword :: string

record LoginRequest =
  LoginRequest_Email :: string
  LoginRequest_Password :: string

record RegisterResponse =
  RegisterResponse_UserID :: uuid
  RegisterResponse_Email :: string
  RegisterResponse_WalletID :: string
  RegisterResponse_CreatedAt :: time

record LoginResponse =
  LoginResponse_UserID :: uuid
  LoginResponse_Email :: string
  LoginResponse_Role :: string

record 'd AdminUserResponse =
  AdminUserResponse_UserID :: uuid
  AdminUserResponse_Email :: string
  AdminUserResponse_Role :: string
  AdminUserResponse_WalletID :: string
  AdminUserResponse_Balance :: 'd
  AdminUserResponse_CreatedAt :: time

record 'd AdminUserListResponse =
  AdminUserList_Users :: "'d AdminUserResponse list"
  AdminUserList_Pagination :: PaginationResponse

section \<open>Operations\<close>

definition register_statements ::
  "'d lib \<Rightarrow> string \<Rightarrow> string \<Rightarrow> (User \<times> string) go" where
  "register_statements L email pwdHash =
     bindE (userRepo_Create Tx email pwdHash UserRoleUser) (\<lambda>user.
     bindE (wrapE (Wrap ''failed to generate wallet ID'') GenerateWalletID) (\<lambda>walletID.
     bindE time_Now (\<lambda>t1.
     bindE time_Now (\<lambda>t2.
     bindE (walletRepo_Create L Tx
       \<lparr>Wallet_ID = walletID,
        Wallet_UserID = User_ID user,
        Wallet_Balance = Decimal_Zero L,
        Wallet_Currency = ''IDR'',
        Wallet_CreatedAt = t1,
        Wallet_UpdatedAt = t2\<rparr>) (\<lambda>_.
     returnE (user, walletID))))))"

definition Register :: "'d lib \<Rightarrow> RegisterRequest \<Rightarrow> RegisterResponse go" where
  "Register L req =
     bindE (userRepo_FindByEmail (RegisterRequest_Email req)) (\<lambda>existingUser.
     if existingUser \<noteq> None then throwE ErrEmailConflict else
     bindE (wrapE (Wrap ''failed to hash password'') (HashPassword L (RegisterRequest_Password req))) (\<lambda>pwdHash.
     bindE (wrapE (Wrap ''failed to begin transaction'') tx_Begin) (\<lambda>_.
     deferE tx_Rollback (
     bindE (register_statements L (RegisterRequest_Email req) pwdHash) (\<lambda>(user, walletID).
     bindE (wrapE (Wrap ''failed to commit transaction'') tx_Commit) (\<lambda>_.
     bindE (go_publish ''REGISTER'' (UUID_String L (User_ID user)) (JObj
       [(''wallet_id'', JStr walletID)])) (\<lambda>_.
     returnE
       \<lparr>RegisterResponse_UserID = User_ID user,
        RegisterResponse_Email = User_Email user,
        RegisterResponse_WalletID = walletID,
        RegisterResponse_CreatedAt = User_CreatedAt user\<rparr>)))))))"

definition Login :: "'d lib \<Rightarrow> Config \<Rightarrow> LoginRequest \<Rightarrow> (LoginResponse \<times> string) go" where
  "Login L cfg req =
     bindE (userRepo_FindByEmail (LoginRequest_Email req)) (\<lambda>found.
     case found of None \<Rightarrow> throwE ErrInvalidCredentials | Some user \<Rightarrow>
     if \<not> CheckPassword L (LoginRequest_Password req) (User_PasswordHash user)
     then throwE ErrInvalidCredentials else
     bindE (wrapE (Wrap ''failed to generate token'')
       (GenerateToken L (User_ID user) (User_Email user) (User_Role user)
          (Config_JWTSecret cfg) (Config_JWTExpiration cfg))) (\<lambda>token.
     bindE (go_publish ''LOGIN'' (UUID_String L (User_ID user)) JNull) (\<lambda>_.
     returnE
       (\<lparr>LoginResponse_UserID = User_ID user,
         LoginResponse_Email = User_Email user,
         LoginResponse_Role = User_Role user\<rparr>, token))))"

definition adminUserResponse :: "'d UserWithWallet \<Rightarrow> 'd AdminUserResponse" where
  "adminUserResponse u =
     \<lparr>AdminUserResponse_UserID = User_ID (UserWithWallet_User u),
      AdminUserResponse_Email = User_Email (UserWithWallet_User u),
      AdminUserResponse_Role = User_Role (UserWithWallet_User u),
      AdminUserResponse_WalletID = UserWithWallet_WalletID u,
      AdminUserResponse_Balance = UserWithWallet_WalletBalance u,
      AdminUserResponse_CreatedAt = User_CreatedAt (UserWithWallet_User u)\<rparr>"

definition GetAllUsers :: "'d lib \<Rightarrow> PaginationRequest \<Rightarrow> 'd AdminUserListResponse go" where
  "GetAllUsers L pagination =
     (let pagination = SetDefaults pagination in
     bindE (userRepo_FindAll L (Limit pagination) (Offset pagination)) (\<lambda>(users, tot).
     bindE (paginationResponse pagination tot) (\<lambda>pr.
     returnE \<lparr>AdminUserList_Users = map adminUserResponse users,
              AdminUserList_Pagination = pr\<rparr>)))"

end
