(* ===== verification/LedgerRepository.thy ===== *)
theory LedgerRepository
  imports TransactionRepository
begin

text \<open>
  \<open>internal/repository/ledger_repository.go\<close>: the ledger entries are only ever inserted and
  read.
\<close>

record sqlc_LedgerEntry =
  sqlcLedger_ID :: string
  sqlcLedger_TransactionID :: "uuid option"
  sqlcLedger_WalletID :: string
  sqlcLedger_EntryType :: string
  sqlcLedger_Amount :: numeric
  sqlcLedger_CreatedAt :: "time option"

definition scanLedgerEntry :: "'d lib \<Rightarrow> ledger_row \<Rightarrow> sqlc_LedgerEntry" where
  "scanLedgerEntry L r =
     \<lparr>sqlcLedger_ID = lr_id r, sqlcLedger_TransactionID = Some (lr_transaction_id r),
      sqlcLedger_WalletID = lr_wallet_id r, sqlcLedger_EntryType = lr_entry_type r,
      sqlcLedger_Amount = Numeric_decode L (lr_amount r),
      sqlcLedger_CreatedAt = Some (lr_created_at r)\<rparr>"

definition mapLedgerEntry :: "'d lib \<Rightarrow> sqlc_LedgerEntry \<Rightarrow> 'd LedgerEntry" where
  "mapLedgerEntry L le =
     \<lparr>LedgerEntry_ID = sqlcLedger_ID le,
      LedgerEntry_TransactionID = (case sqlcLedger_TransactionID le of Some b \<Rightarrow> b | None \<Rightarrow> 0),
      LedgerEntry_WalletID = sqlcLedger_WalletID le,
      LedgerEntry_EntryType = sqlcLedger_EntryType le,
      LedgerEntry_Amount = numericToDecimal L (sqlcLedger_Amount le),
      LedgerEntry_CreatedAt = (case sqlcLedger_CreatedAt le of Some c \<Rightarrow> c | None \<Rightarrow> 0)\<rparr>"

abbreviation entry_of :: "'d lib \<Rightarrow> ledger_row \<Rightarrow> 'd LedgerEntry" where
  "entry_of L r \<equiv> mapLedgerEntry L (scanLedgerEntry L r)"

lemma entry_of_simps [simp]:
  "LedgerEntry_ID (entry_of L r) = lr_id r"
  "LedgerEntry_TransactionID (entry_of L r) = lr_transaction_id r"
  "LedgerEntry_WalletID (entry_of L r) = lr_wallet_id r"
  "LedgerEntry_EntryType (entry_of L r) = lr_entry_type r"
  "LedgerEntry_Amount (entry_of L r) = cents_decimal L (lr_amount r)"
  "LedgerEntry_CreatedAt (entry_of L r) = lr_created_at r"
  by (simp_all add: mapLedgerEntry_def scanLedgerEntry_def cents_decimal_def)

definition ledgerRepo_Create :: "'d lib \<Rightarrow> conn \<Rightarrow> 'd LedgerEntry \<Rightarrow> 'd LedgerEntry go" where
  "ledgerRepo_Create L tx entry =
     bindE (wrapE (Wrap ''create ledger entry query failed'') (run_stmt tx
       (CreateLedgerEntry (LedgerEntry_ID entry) (Some (LedgerEntry_TransactionID entry))
          (LedgerEntry_WalletID entry) (LedgerEntry_EntryType entry)
          (numeric_value (decimalToNumeric L (LedgerEntry_Amount entry)))))) (\<lambda>le.
     returnE (entry_of L le))"

definition ledgerRepo_FindByTransactionID :: "'d lib \<Rightarrow> uuid \<Rightarrow> 'd LedgerEntry list go" where
  "ledgerRepo_FindByTransactionID L transactionID =
     bindE (wrapE (Wrap ''find ledger entries by transaction id query failed'') (run_stmt Pool
       (FindLedgerEntriesByTransactionID (Some transactionID)))) (\<lambda>entries.
     returnE (map (entry_of L) entries))"

definition ledgerRepo_FindByWalletID ::
  "'d lib \<Rightarrow> string \<Rightarrow> string option \<Rightarrow> goint \<Rightarrow> goint \<Rightarrow> ('d LedgerEntry list \<times> goint) go" where
  "ledgerRepo_FindByWalletID L walletID entryType limit offset =
     map_page (entry_of L)
       (case entryType of
          Some ty \<Rightarrow> find_page ''find ledger entries by wallet id and type query failed''
             ''count ledger entries by wallet id and type query failed''
             (FindLedgerEntriesByWalletIDAndType walletID ty)
             (CountLedgerEntriesByWalletIDAndType walletID ty) limit offset
        | None \<Rightarrow> find_page ''find ledger entries by wallet id query failed''
             ''count ledger entries by wallet id query failed''
             (FindLedgerEntriesByWalletID walletID)
             (CountLedgerEntriesByWalletID walletID) limit offset)"

definition transaction_entries :: "uuid \<Rightarrow> db \<Rightarrow> (nat \<Rightarrow> nat) \<Rightarrow> ledger_row list" where
  "transaction_entries i d pl = sort_key lr_created_at
     (scan pl (filter (\<lambda>r. lr_transaction_id r = i) (ledger_entries d)))"

lemma set_transaction_entries [simp]:
  "set (transaction_entries i d pl) = {r \<in> set (ledger_entries d). lr_transaction_id r = i}"
proof -
  have "mset (transaction_entries i d pl) = mset (filter (\<lambda>r. lr_transaction_id r = i) (ledger_entries d))"
    by (simp add: transaction_entries_def)
  then have "set (transaction_entries i d pl) = set (filter (\<lambda>r. lr_transaction_id r = i) (ledger_entries d))"
    by (metis set_mset_mset)
  then show ?thesis by simp
qed

lemma ledgerRepo_FindByTransactionID_Inr [succ]:
  "ledgerRepo_FindByTransactionID L i w = (Inr es, w') \<longleftrightarrow>
     fault (env w) (tick w) = NoFault \<and> w' = next_tick w \<and>
     es = map (entry_of L) (transaction_entries i (committed w) (plan (env w) (tick w)))"
  by (auto simp: ledgerRepo_FindByTransactionID_def succ FindLedgerEntriesByTransactionID_def
      transaction_entries_def)

lemma read_only_FindLedgerEntriesByTransactionID: "read_only (FindLedgerEntriesByTransactionID i)"
  by (simp add: read_only_def FindLedgerEntriesByTransactionID_def steps_eq_read)

definition wallet_entries :: "string \<Rightarrow> string option \<Rightarrow> db \<Rightarrow> (nat \<Rightarrow> nat) \<Rightarrow> ledger_row list" where
  "wallet_entries i ty d pl = order_desc lr_created_at (scan pl
     (filter (\<lambda>r. lr_wallet_id r = i \<and> of_type ty (lr_entry_type r)) (ledger_entries d)))"

lemma pager_wallet_entries:
  "pager (ledgerRepo_FindByWalletID L i ty)
     (\<lambda>d pl. map (entry_of L) (wallet_entries i ty d pl))
     (\<lambda>d. count_rows (\<lambda>r. lr_wallet_id r = i \<and> of_type ty (lr_entry_type r)) (ledger_entries d))"
  unfolding ledgerRepo_FindByWalletID_def wallet_entries_def
  by (cases ty; simp only: option.case; rule pager_find_page)
    (simp_all add: of_type_def FindLedgerEntriesByWalletID_def FindLedgerEntriesByWalletIDAndType_def
      CountLedgerEntriesByWalletID_def CountLedgerEntriesByWalletIDAndType_def
      bindE_def read_def count_rows_def)

interpretation wallet_ledger: pager "ledgerRepo_FindByWalletID L i ty"
    "\<lambda>d pl. map (entry_of L) (wallet_entries i ty d pl)"
    "\<lambda>d. count_rows (\<lambda>r. lr_wallet_id r = i \<and> of_type ty (lr_entry_type r)) (ledger_entries d)"
  for L :: "'d lib" and i ty
  by (rule pager_wallet_entries)

end
