(* ===== verification/TransactionService.thy ===== *)
theory TransactionService
  imports LedgerRepository Pagination IdGenerator
begin

text \<open>
  \<open>internal/service/transaction_service.go\<close> with its request and response types from
  \<open>internal/dto\<close>. \<open>TopUp\<close> and \<open>Transfer\<close> are split where the transaction begins and
  commits: \<open>topUp_statements\<close> and \<open>transfer_statements\<close> are what runs between
  \<open>pool.Begin\<close> and \<open>tx.Commit\<close>. A nil pointer that is dereferenced is the error \<open>Panic\<close>.
\<close>

section \<open>Requests and responses\<close>

record 'd TopUpRequest =
  TopUpRequest_Amount :: 'd

record 'd TopUpResponse =
  TopUpResponse_TransactionID :: uuid
  TopUpResponse_ReferenceNo :: string
  TopUpResponse_Type :: string
  TopUpResponse_Status :: string
  TopUpResponse_Amount :: 'd
  TopUpResponse_WalletID :: string
  TopUpResponse_BalanceAfter :: 'd
  TopUpResponse_CreatedAt :: time

record 'd TransferRequest =
  TransferRequest_TargetWalletID :: string
  TransferRequest_Amount :: 'd

record 'd TransferResponse =
  TransferResponse_TransactionID :: uuid
  TransferResponse_ReferenceNo :: string
  TransferResponse_Type :: string
  TransferResponse_Status :: string
  TransferResponse_Amount :: 'd
  TransferResponse_SourceWalletID :: string
  TransferResponse_TargetWalletID :: string
  TransferResponse_BalanceAfter :: 'd
  TransferResponse_CreatedAt :: time

record 'd TransactionResponse =
  TransactionResponse_TransactionID :: uuid
  TransactionResponse_ReferenceNo :: string
  TransactionResponse_Type :: string
  TransactionResponse_Status :: string
  TransactionResponse_Amount :: 'd
  TransactionResponse_SourceWalletID :: "string option"
  TransactionResponse_TargetWalletID :: string
  TransactionResponse_CreatedAt :: time

record 'd LedgerEntryResponse =
  LedgerEntryResponse_EntryID :: string
  LedgerEntryResponse_TransactionID :: uuid
  LedgerEntryResponse_WalletID :: string
  LedgerEntryResponse_EntryType :: string
  LedgerEntryResponse_Amount :: 'd
  LedgerEntryResponse_CreatedAt :: time

record 'd TransactionDetailResponse =
  Detail_Transaction :: "'d TransactionResponse"
  Detail_LedgerEntries :: "'d LedgerEntryResponse list"

record 'd TransactionListResponse =
  TransactionList_Transactions :: "'d TransactionResponse list"
  TransactionList_Pagination :: PaginationResponse

definition transactionResponse :: "'d Transaction \<Rightarrow> 'd TransactionResponse" where
  "transactionResponse t =
     \<lparr>TransactionResponse_TransactionID = Transaction_ID t,
      TransactionResponse_ReferenceNo = Transaction_ReferenceNo t,
      TransactionResponse_Type = Transaction_Type t,
      TransactionResponse_Status = Transaction_Status t,
      TransactionResponse_Amount = Transaction_Amount t,
      TransactionResponse_SourceWalletID = Transaction_SourceWalletID t,
      TransactionResponse_TargetWalletID = Transaction_TargetWalletID t,
      TransactionResponse_CreatedAt = Transaction_CreatedAt t\<rparr>"

definition ledgerEntryResponse :: "'d LedgerEntry \<Rightarrow> 'd LedgerEntryResponse" where
  "ledgerEntryResponse e =
     \<lparr>LedgerEntryResponse_EntryID = LedgerEntry_ID e,
      LedgerEntryResponse_TransactionID = LedgerEntry_TransactionID e,
      LedgerEntryResponse_WalletID = LedgerEntry_WalletID e,
      LedgerEntryResponse_EntryType = LedgerEntry_EntryType e,
      LedgerEntryResponse_Amount = LedgerEntry_Amount e,
      LedgerEntryResponse_CreatedAt = LedgerEntry_CreatedAt e\<rparr>"

section \<open>Top-up\<close>

text \<open>The insert of a PENDING transaction, and of a ledger entry with a new identifier.\<close>

definition create_pending ::
  "'d lib \<Rightarrow> string \<Rightarrow> TransactionType \<Rightarrow> 'd \<Rightarrow> string option \<Rightarrow> string \<Rightarrow> 'd Transaction go" where
  "create_pending L txRef ty amount source target =
     bindE uuid_New (\<lambda>txID.
     bindE time_Now (\<lambda>now.
     transactionRepo_Create L Tx
       \<lparr>Transaction_ID = txID,
        Transaction_ReferenceNo = txRef,
        Transaction_Type = ty,
        Transaction_Status = TransactionStatusPending,
        Transaction_Amount = amount,
        Transaction_SourceWalletID = source,
        Transaction_TargetWalletID = target,
        Transaction_CreatedAt = now\<rparr>))"

definition write_entry :: "'d lib \<Rightarrow> uuid \<Rightarrow> string \<Rightarrow> EntryType \<Rightarrow> 'd \<Rightarrow> 'd LedgerEntry go" where
  "write_entry L txnID walletID ty amount =
     bindE (wrapE (Wrap ''failed to generate ledger entry ID'') GenerateLedgerEntryID) (\<lambda>ledgerID.
     bindE time_Now (\<lambda>now.
     ledgerRepo_Create L Tx
       \<lparr>LedgerEntry_ID = ledgerID,
        LedgerEntry_TransactionID = txnID,
        LedgerEntry_WalletID = walletID,
        LedgerEntry_EntryType = ty,
        LedgerEntry_Amount = amount,
        LedgerEntry_CreatedAt = now\<rparr>))"

text \<open>What follows the lock of the wallet's row, which has returned \<open>locked\<close>.\<close>

definition topUp_rest ::
  "'d lib \<Rightarrow> 'd Wallet \<Rightarrow> 'd \<Rightarrow> 'd Wallet option \<Rightarrow> ('d Transaction \<times> 'd) go" where
  "topUp_rest L wallet amount locked =
     (case locked of None \<Rightarrow> throwE ErrWalletNotFound | Some lockedWallet \<Rightarrow>
     bindE (wrapE (Wrap ''failed to generate transaction reference'') GenerateTransactionRef) (\<lambda>txRef.
     bindE (create_pending L txRef TransactionTypeTopUp amount None (Wallet_ID wallet)) (\<lambda>txn.
     let newBalance = Decimal_Add L (Wallet_Balance lockedWallet) amount in
     bindE (walletRepo_UpdateBalance L Tx (Wallet_ID wallet) newBalance) (\<lambda>_.
     bindE (write_entry L (Transaction_ID txn) (Wallet_ID wallet) EntryTypeCredit amount) (\<lambda>_.
     bindE (transactionRepo_UpdateStatus Tx (Transaction_ID txn) TransactionStatusCompleted) (\<lambda>_.
     returnE (txn, newBalance)))))))"

definition topUp_statements :: "'d lib \<Rightarrow> 'd Wallet \<Rightarrow> 'd \<Rightarrow> ('d Transaction \<times> 'd) go" where
  "topUp_statements L wallet amount =
     bindE (walletRepo_FindByIDForUpdate L Tx (Wallet_ID wallet)) (topUp_rest L wallet amount)"

text \<open>After the commit: the goroutine that publishes, and the response.\<close>

definition topUp_answer ::
  "'d lib \<Rightarrow> uuid \<Rightarrow> 'd \<Rightarrow> 'd Wallet \<Rightarrow> 'd Transaction \<times> 'd \<Rightarrow> 'd TopUpResponse go" where
  "topUp_answer L userID amount wallet x = (case x of (txn, newBalance) \<Rightarrow>
     bindE (go_publish ''TOPUP'' (UUID_String L userID) (JObj
       [(''amount'', Decimal_MarshalJSON L amount),
        (''balance_after'', Decimal_MarshalJSON L newBalance),
        (''reference_no'', JStr (Transaction_ReferenceNo txn)),
        (''transaction_id'', JStr (UUID_String L (Transaction_ID txn))),
        (''wallet_id'', JStr (Wallet_ID wallet))])) (\<lambda>_.
     returnE
       \<lparr>TopUpResponse_TransactionID = Transaction_ID txn,
        TopUpResponse_ReferenceNo = Transaction_ReferenceNo txn,
        TopUpResponse_Type = Transaction_Type txn,
        TopUpResponse_Status = TransactionStatusCompleted,
        TopUpResponse_Amount = amount,
        TopUpResponse_WalletID = Wallet_ID wallet,
        TopUpResponse_BalanceAfter = newBalance,
        TopUpResponse_CreatedAt = Transaction_CreatedAt txn\<rparr>))"

definition TopUp :: "'d lib \<Rightarrow> uuid \<Rightarrow> 'd TopUpRequest \<Rightarrow> 'd TopUpResponse go" where
  "TopUp L userID req =
     bindE (walletRepo_FindByUserID L userID) (\<lambda>found.
     case found of None \<Rightarrow> throwE ErrWalletNotFound | Some wallet \<Rightarrow>
     bindE (wrapE (Wrap ''failed to begin transaction'') tx_Begin) (\<lambda>_.
     deferE tx_Rollback (
     bindE (topUp_statements L wallet (TopUpRequest_Amount req)) (\<lambda>x.
     bindE (wrapE (Wrap ''failed to commit transaction'') tx_Commit) (\<lambda>_.
     topUp_answer L userID (TopUpRequest_Amount req) wallet x)))))"

section \<open>Transfer\<close>

definition nil_dereference :: error where
  "nil_dereference = Panic ''invalid memory address or nil pointer dereference''"

text \<open>Both rows are locked, the smaller wallet ID first; \<open>w1\<close> is the source's row.\<close>

definition transfer_lock ::
  "'d lib \<Rightarrow> 'd Wallet \<Rightarrow> 'd Wallet \<Rightarrow> ('d Wallet option \<times> 'd Wallet option) go" where
  "transfer_lock L sourceWallet targetWallet =
     (if Wallet_ID sourceWallet < Wallet_ID targetWallet then
        bindE (walletRepo_FindByIDForUpdate L Tx (Wallet_ID sourceWallet)) (\<lambda>w1.
        bindE (walletRepo_FindByIDForUpdate L Tx (Wallet_ID targetWallet)) (\<lambda>w2.
        returnE (w1, w2)))
      else
        bindE (walletRepo_FindByIDForUpdate L Tx (Wallet_ID targetWallet)) (\<lambda>w2.
        bindE (walletRepo_FindByIDForUpdate L Tx (Wallet_ID sourceWallet)) (\<lambda>w1.
        returnE (w1, w2))))"

definition transfer_locked ::
  "'d Wallet \<Rightarrow> 'd Wallet option \<times> 'd Wallet option \<Rightarrow> ('d Wallet \<times> 'd Wallet option) go" where
  "transfer_locked sourceWallet ws =
     (case ws of (None, _) \<Rightarrow> throwE nil_dereference
      | (Some w1, w2) \<Rightarrow>
          if Wallet_ID w1 = Wallet_ID sourceWallet then returnE (w1, w2)
          else (case w2 of None \<Rightarrow> throwE nil_dereference | Some w \<Rightarrow> returnE (w, Some w1)))"

definition transfer_writes ::
  "'d lib \<Rightarrow> 'd Wallet \<Rightarrow> 'd Wallet \<Rightarrow> 'd \<Rightarrow> string \<Rightarrow> ('d Transaction \<times> 'd) go" where
  "transfer_writes L lockedSource lockedTarget amount txRef =
     bindE (create_pending L txRef TransactionTypeTransfer amount
       (Some (Wallet_ID lockedSource)) (Wallet_ID lockedTarget)) (\<lambda>txn.
     let sourceNewBalance = Decimal_Sub L (Wallet_Balance lockedSource) amount in
     bindE (walletRepo_UpdateBalance L Tx (Wallet_ID lockedSource) sourceNewBalance) (\<lambda>_.
     let targetNewBalance = Decimal_Add L (Wallet_Balance lockedTarget) amount in
     bindE (walletRepo_UpdateBalance L Tx (Wallet_ID lockedTarget) targetNewBalance) (\<lambda>_.
     bindE (write_entry L (Transaction_ID txn) (Wallet_ID lockedSource) EntryTypeDebit amount) (\<lambda>_.
     bindE (write_entry L (Transaction_ID txn) (Wallet_ID lockedTarget) EntryTypeCredit amount) (\<lambda>_.
     bindE (transactionRepo_UpdateStatus Tx (Transaction_ID txn) TransactionStatusCompleted) (\<lambda>_.
     returnE (txn, sourceNewBalance)))))))"

text \<open>What follows the locks, which have returned \<open>ws\<close>.\<close>

definition transfer_rest ::
  "'d lib \<Rightarrow> 'd Wallet \<Rightarrow> 'd \<Rightarrow> 'd Wallet option \<times> 'd Wallet option \<Rightarrow>
     ('d Wallet \<times> 'd Wallet \<times> 'd Transaction \<times> 'd) go" where
  "transfer_rest L sourceWallet amount ws =
     bindE (transfer_locked sourceWallet ws) (\<lambda>(lockedSource, locked).
     if Decimal_LessThan L (Wallet_Balance lockedSource) amount then throwE ErrInsufficientBalance else
     bindE (wrapE (Wrap ''failed to generate transaction reference'') GenerateTransactionRef) (\<lambda>txRef.
     case locked of None \<Rightarrow> throwE nil_dereference | Some lockedTarget \<Rightarrow>
     bindE (transfer_writes L lockedSource lockedTarget amount txRef) (\<lambda>(txn, sourceNewBalance).
     returnE (lockedSource, lockedTarget, txn, sourceNewBalance))))"

definition transfer_statements ::
  "'d lib \<Rightarrow> 'd Wallet \<Rightarrow> 'd Wallet \<Rightarrow> 'd \<Rightarrow> ('d Wallet \<times> 'd Wallet \<times> 'd Transaction \<times> 'd) go" where
  "transfer_statements L sourceWallet targetWallet amount =
     bindE (transfer_lock L sourceWallet targetWallet) (transfer_rest L sourceWallet amount)"

definition transfer_answer ::
  "'d lib \<Rightarrow> uuid \<Rightarrow> 'd \<Rightarrow> 'd Wallet \<times> 'd Wallet \<times> 'd Transaction \<times> 'd \<Rightarrow> 'd TransferResponse go" where
  "transfer_answer L userID amount x = (case x of (lockedSource, lockedTarget, txn, sourceNewBalance) \<Rightarrow>
     bindE (go_publish ''TRANSFER'' (UUID_String L userID) (JObj
       [(''amount'', Decimal_MarshalJSON L amount),
        (''balance_after'', Decimal_MarshalJSON L sourceNewBalance),
        (''reference_no'', JStr (Transaction_ReferenceNo txn)),
        (''source_wallet_id'', JStr (Wallet_ID lockedSource)),
        (''target_wallet_id'', JStr (Wallet_ID lockedTarget)),
        (''transaction_id'', JStr (UUID_String L (Transaction_ID txn)))])) (\<lambda>_.
     returnE
       \<lparr>TransferResponse_TransactionID = Transaction_ID txn,
        TransferResponse_ReferenceNo = Transaction_ReferenceNo txn,
        TransferResponse_Type = Transaction_Type txn,
        TransferResponse_Status = TransactionStatusCompleted,
        TransferResponse_Amount = amount,
        TransferResponse_SourceWalletID = Wallet_ID lockedSource,
        TransferResponse_TargetWalletID = Wallet_ID lockedTarget,
        TransferResponse_BalanceAfter = sourceNewBalance,
        TransferResponse_CreatedAt = Transaction_CreatedAt txn\<rparr>))"

definition Transfer :: "'d lib \<Rightarrow> uuid \<Rightarrow> 'd TransferRequest \<Rightarrow> 'd TransferResponse go" where
  "Transfer L userID req =
     bindE (walletRepo_FindByUserID L userID) (\<lambda>source.
     case source of None \<Rightarrow> throwE ErrWalletNotFound | Some sourceWallet \<Rightarrow>
     if Wallet_ID sourceWallet = TransferRequest_TargetWalletID req then throwE ErrSelfTransfer else
     bindE (walletRepo_FindByID L (TransferRequest_TargetWalletID req)) (\<lambda>target.
     case target of None \<Rightarrow> throwE ErrTargetWalletNotFound | Some targetWallet \<Rightarrow>
     bindE (wrapE (Wrap ''failed to begin transaction'') tx_Begin) (\<lambda>_.
     deferE tx_Rollback (
     bindE (transfer_statements L sourceWallet targetWallet (TransferRequest_Amount req)) (\<lambda>x.
     bindE (wrapE (Wrap ''failed to commit transaction'') tx_Commit) (\<lambda>_.
     transfer_answer L userID (TransferRequest_Amount req) x))))))"

section \<open>Reading\<close>

definition GetTransactions ::
  "'d lib \<Rightarrow> uuid \<Rightarrow> string option \<Rightarrow> PaginationRequest \<Rightarrow> 'd TransactionListResponse go" where
  "GetTransactions L userID txnType pagination =
     bindE (walletRepo_FindByUserID L userID) (\<lambda>found.
     case found of None \<Rightarrow> throwE ErrWalletNotFound | Some wallet \<Rightarrow>
     let pagination = SetDefaults pagination in
     bindE (transactionRepo_FindByWalletID L (Wallet_ID wallet) txnType
              (Limit pagination) (Offset pagination)) (\<lambda>(txns, tot).
     bindE (paginationResponse pagination tot) (\<lambda>pr.
     returnE \<lparr>TransactionList_Transactions = map transactionResponse txns,
              TransactionList_Pagination = pr\<rparr>)))"

definition GetTransactionDetail :: "'d lib \<Rightarrow> uuid \<Rightarrow> uuid \<Rightarrow> 'd TransactionDetailResponse go" where
  "GetTransactionDetail L userID transactionID =
     bindE (walletRepo_FindByUserID L userID) (\<lambda>found.
     case found of None \<Rightarrow> throwE ErrWalletNotFound | Some wallet \<Rightarrow>
     bindE (transactionRepo_FindByID L transactionID) (\<lambda>txn.
     case txn of None \<Rightarrow> throwE ErrTransactionNotFound | Some txn \<Rightarrow>
     let isAuthorized =
       (if Transaction_TargetWalletID txn = Wallet_ID wallet then True
        else if Transaction_SourceWalletID txn \<noteq> None \<and>
                Transaction_SourceWalletID txn = Some (Wallet_ID wallet) then True
        else False) in
     if \<not> isAuthorized then throwE ErrUnauthorized else
     bindE (ledgerRepo_FindByTransactionID L (Transaction_ID txn)) (\<lambda>entries.
     returnE \<lparr>Detail_Transaction = transactionResponse txn,
              Detail_LedgerEntries = map ledgerEntryResponse entries\<rparr>)))"

definition GetAllTransactions ::
  "'d lib \<Rightarrow> string option \<Rightarrow> string option \<Rightarrow> PaginationRequest \<Rightarrow> 'd TransactionListResponse go" where
  "GetAllTransactions L txnType txnStatus pagination =
     (let pagination = SetDefaults pagination in
     bindE (transactionRepo_FindAll L txnType txnStatus (Limit pagination) (Offset pagination)) (\<lambda>(txns, tot).
     bindE (paginationResponse pagination tot) (\<lambda>pr.
     returnE \<lparr>TransactionList_Transactions = map transactionResponse txns,
              TransactionList_Pagination = pr\<rparr>)))"

definition GetTransactionDetailAdmin :: "'d lib \<Rightarrow> uuid \<Rightarrow> 'd TransactionDetailResponse go" where
  "GetTransactionDetailAdmin L transactionID =
     bindE (transactionRepo_FindByID L transactionID) (\<lambda>txn.
     case txn of None \<Rightarrow> throwE ErrTransactionNotFound | Some txn \<Rightarrow>
     bindE (ledgerRepo_FindByTransactionID L (Transaction_ID txn)) (\<lambda>entries.
     returnE \<lparr>Detail_Transaction = transactionResponse txn,
              Detail_LedgerEntries = map ledgerEntryResponse entries\<rparr>))"

end
