(* ===== verification/Effects.thy ===== *)
theory Effects
  imports TransactionService
begin

text \<open>
  What the statements of \<open>TopUp\<close> and \<open>Transfer\<close> do to the working copy of their
  transaction, and the abstract specification they are proved to implement: \<open>post\<close> adds an
  amount of hundredths to one wallet, \<open>topup_result\<close> and \<open>transfer_result\<close> are the whole
  change a request makes to the database.
\<close>

section \<open>The specification\<close>

definition post :: "string \<Rightarrow> int \<Rightarrow> time \<Rightarrow> wallet_row list \<Rightarrow> wallet_row list" where
  "post i c now ws = update_where (\<lambda>r. wr_id r = i)
     (\<lambda>r. r\<lparr>wr_balance := wr_balance r + c, wr_updated_at := now\<rparr>) ws"

definition cents :: "('d \<Rightarrow> rat) \<Rightarrow> 'd \<Rightarrow> int" where
  "cents v amount = round_half_away (v amount * 100)"

definition completed_row ::
  "uuid \<Rightarrow> string \<Rightarrow> string \<Rightarrow> int \<Rightarrow> string option \<Rightarrow> string \<Rightarrow> time \<Rightarrow> transaction_row" where
  "completed_row u ref ty c source target now =
     \<lparr>tr_id = u, tr_reference_no = ref, tr_type = ty, tr_status = TransactionStatusCompleted,
      tr_amount = c, tr_source_wallet_id = source,
      tr_target_wallet_id = (if target \<noteq> [] then Some target else None),
      tr_created_at = now\<rparr>"

definition entry_row :: "string \<Rightarrow> uuid \<Rightarrow> string \<Rightarrow> string \<Rightarrow> int \<Rightarrow> time \<Rightarrow> ledger_row" where
  "entry_row i u wallet ty c now =
     \<lparr>lr_id = i, lr_transaction_id = u, lr_wallet_id = wallet, lr_entry_type = ty,
      lr_amount = c, lr_created_at = now\<rparr>"

definition topup_result ::
  "string \<Rightarrow> int \<Rightarrow> uuid \<Rightarrow> string \<Rightarrow> string \<Rightarrow> time \<Rightarrow> db \<Rightarrow> db" where
  "topup_result wallet c u ref entry now d =
     d\<lparr>wallets := post wallet c now (wallets d),
       transactions := transactions d @
         [completed_row u ref TransactionTypeTopUp c None wallet now],
       ledger_entries := ledger_entries d @ [entry_row entry u wallet EntryTypeCredit c now]\<rparr>"

text \<open>
  In a transfer the source pays \<open>loss\<close>, the target receives \<open>gain\<close>, and the transaction and
  both entries carry \<open>c\<close>.
\<close>

definition transfer_result ::
  "string \<Rightarrow> string \<Rightarrow> int \<Rightarrow> int \<Rightarrow> int \<Rightarrow> uuid \<Rightarrow> string \<Rightarrow> string \<Rightarrow> string \<Rightarrow> time \<Rightarrow>
     db \<Rightarrow> db" where
  "transfer_result source target loss gain c u ref debit credit now d =
     d\<lparr>wallets := post target gain now (post source (- loss) now (wallets d)),
       transactions := transactions d @
         [completed_row u ref TransactionTypeTransfer c (Some source) target now],
       ledger_entries := ledger_entries d @
         [entry_row debit u source EntryTypeDebit c now,
          entry_row credit u target EntryTypeCredit c now]\<rparr>"

section \<open>The statements inside a transaction\<close>

lemma transactionRepo_Create_Tx:
  assumes "work w = Some (d, now)" and "decimal_laws L v"
  shows "transactionRepo_Create L Tx t w = (Inr t', w') \<longleftrightarrow>
    fault (env w) (tick w) = NoFault \<and>
    varchar 30 (Transaction_ReferenceNo t) \<and> varchar 20 (Transaction_Type t) \<and>
    varchar 20 (Transaction_Status t) \<and> varchar_opt 20 (Transaction_SourceWalletID t) \<and>
    (Transaction_TargetWalletID t \<noteq> [] \<longrightarrow> varchar 20 (Transaction_TargetWalletID t)) \<and>
    0 < cents v (Transaction_Amount t) \<and> cents v (Transaction_Amount t) < 10 ^ 18 \<and>
    uuids (env w) (tick w) \<notin> tr_id ` set (transactions d) \<and>
    Transaction_ReferenceNo t \<notin> tr_reference_no ` set (transactions d) \<and>
    references (Transaction_SourceWalletID t) (wallets d) \<and>
    (Transaction_TargetWalletID t \<noteq> [] \<longrightarrow> Transaction_TargetWalletID t \<in> wr_id ` set (wallets d)) \<and>
    (\<exists>r. r = (completed_row (uuids (env w) (tick w)) (Transaction_ReferenceNo t) (Transaction_Type t)
        (cents v (Transaction_Amount t)) (Transaction_SourceWalletID t) (Transaction_TargetWalletID t)
        now)\<lparr>tr_status := Transaction_Status t\<rparr> \<and>
      t' = transaction_of L r \<and>
      w' = (next_tick w)\<lparr>work := Some (d\<lparr>transactions := transactions d @ [r]\<rparr>, now)\<rparr>)"
  using assms
  by (auto simp: transactionRepo_Create_def succ CreateTransaction_def Let_def cents_def
      decimalToNumeric_value references_def varchar_opt_def completed_row_def)

lemma walletRepo_UpdateBalance_Tx:
  assumes "work w = Some (d, now)" and "decimal_laws L v" and "i \<in> wr_id ` set (wallets d)"
  shows "walletRepo_UpdateBalance L Tx i b w = (Inr x, w') \<longleftrightarrow>
    fault (env w) (tick w) = NoFault \<and> 0 \<le> cents v b \<and> cents v b < 10 ^ 18 \<and>
    w' = (next_tick w)\<lparr>work := Some (d\<lparr>wallets := update_where (\<lambda>r. wr_id r = i)
       (\<lambda>r. r\<lparr>wr_balance := cents v b, wr_updated_at := now\<rparr>) (wallets d)\<rparr>, now)\<rparr>"
  using assms
  by (auto simp: walletRepo_UpdateBalance_def succ UpdateWalletBalance_def cents_def
      decimalToNumeric_value)

lemma ledgerRepo_Create_Tx:
  assumes "work w = Some (d, now)" and "decimal_laws L v"
  shows "ledgerRepo_Create L Tx e w = (Inr e', w') \<longleftrightarrow>
    fault (env w) (tick w) = NoFault \<and> varchar 20 (LedgerEntry_ID e) \<and>
    varchar 20 (LedgerEntry_WalletID e) \<and> varchar 10 (LedgerEntry_EntryType e) \<and>
    0 < cents v (LedgerEntry_Amount e) \<and> cents v (LedgerEntry_Amount e) < 10 ^ 18 \<and>
    LedgerEntry_ID e \<notin> lr_id ` set (ledger_entries d) \<and>
    LedgerEntry_TransactionID e \<in> tr_id ` set (transactions d) \<and>
    LedgerEntry_WalletID e \<in> wr_id ` set (wallets d) \<and>
    (\<exists>r. r = entry_row (LedgerEntry_ID e) (LedgerEntry_TransactionID e) (LedgerEntry_WalletID e)
        (LedgerEntry_EntryType e) (cents v (LedgerEntry_Amount e)) now \<and>
      e' = entry_of L r \<and>
      w' = (next_tick w)\<lparr>work := Some (d\<lparr>ledger_entries := ledger_entries d @ [r]\<rparr>, now)\<rparr>)"
  using assms
  by (auto simp: ledgerRepo_Create_def succ CreateLedgerEntry_def Let_def cents_def entry_row_def
      decimalToNumeric_value)

lemma transactionRepo_UpdateStatus_Tx:
  assumes "work w = Some (d, now)" and "i \<in> tr_id ` set (transactions d)"
  shows "transactionRepo_UpdateStatus Tx i st w = (Inr x, w') \<longleftrightarrow>
    fault (env w) (tick w) = NoFault \<and> varchar 20 st \<and>
    w' = (next_tick w)\<lparr>work := Some (d\<lparr>transactions := update_where (\<lambda>r. tr_id r = i)
       (\<lambda>r. r\<lparr>tr_status := st\<rparr>) (transactions d)\<rparr>, now)\<rparr>"
  using assms
  by (auto simp: transactionRepo_UpdateStatus_def succ UpdateTransactionStatus_def list_ex_iff
      split: if_splits)

section \<open>Amounts\<close>

lemma cents_pos: "0 < cents v a \<Longrightarrow> 1 / 2 \<le> v a * 100"
proof -
  assume pos: "0 < cents v a"
  have "0 \<le> v a * 100"
  proof (rule ccontr)
    assume neg: "\<not> 0 \<le> v a * 100"
    then have "0 \<le> \<lfloor>1 / 2 - v a * 100\<rfloor>" by simp
    with neg pos show False by (simp add: cents_def round_half_away_def)
  qed
  then have "1 \<le> \<lfloor>v a * 100 + 1 / 2\<rfloor>"
    using pos by (simp add: cents_def round_half_away_def)
  then have "1 \<le> v a * 100 + 1 / 2" by (simp only: one_le_floor)
  then show ?thesis by simp
qed

lemma cents_add:
  "decimal_laws L v \<Longrightarrow> 0 \<le> b \<Longrightarrow> 0 \<le> v a \<Longrightarrow>
     cents v (Decimal_Add L (cents_decimal L b) a) = b + cents v a"
  using round_half_away_add [of "v a * 100" b]
  by (simp add: cents_def decimal_laws_simps cents_decimal_value algebra_simps)

text \<open>What a payer's stored balance loses: it is rounded after the subtraction.\<close>

definition debit_cents :: "('d \<Rightarrow> rat) \<Rightarrow> 'd \<Rightarrow> int" where
  "debit_cents v amount = \<lceil>v amount * 100 - 1 / 2\<rceil>"

lemma cents_sub:
  assumes "decimal_laws L v" and "v a \<le> of_int b / 100"
  shows "cents v (Decimal_Sub L (cents_decimal L b) a) = b - debit_cents v a"
proof -
  let ?x = "v a * 100"
  have "cents v (Decimal_Sub L (cents_decimal L b) a) = round_half_away (of_int b - ?x)"
    by (simp add: cents_def decimal_laws_simps [OF assms(1)] cents_decimal_value [OF assms(1)] algebra_simps)
  also have "\<dots> = \<lfloor>of_int b + (1 / 2 - ?x)\<rfloor>"
    using assms(2) by (simp add: round_half_away_def algebra_simps)
  also have "\<dots> = b + \<lfloor>1 / 2 - ?x\<rfloor>"
    by (metis add.commute floor_add_int)
  also have "\<dots> = b - debit_cents v a"
    by (simp add: debit_cents_def ceiling_def)
  finally show ?thesis .
qed

text \<open>
  Payer and payee agree on the amount in hundredths, unless it ends in exactly half a
  hundredth: then the payee receives one hundredth more than the payer pays.
\<close>

definition half_cent :: "('d \<Rightarrow> rat) \<Rightarrow> 'd \<Rightarrow> bool" where
  "half_cent v a \<longleftrightarrow> of_int \<lfloor>v a * 100\<rfloor> + 1 / 2 = v a * 100"

lemma debit_cents_eq:
  assumes "0 \<le> v a"
  shows "cents v a = debit_cents v a + (if half_cent v a then 1 else 0)"
proof -
  let ?x = "v a * 100"
  have c: "cents v a = \<lfloor>?x + 1 / 2\<rfloor>" using assms by (simp add: cents_def round_half_away_def)
  show ?thesis
  proof (cases "half_cent v a")
    case True
    then obtain k where k: "?x = of_int k + 1 / 2" unfolding half_cent_def by metis
    then have "\<lfloor>?x + 1 / 2\<rfloor> = k + 1" "\<lceil>?x - 1 / 2\<rceil> = k" by (simp_all flip: of_int_add)
    with True c show ?thesis by (simp add: debit_cents_def)
  next
    case False
    have "\<lceil>?x - 1 / 2\<rceil> = \<lfloor>?x + 1 / 2\<rfloor>"
    proof (rule ceiling_unique)
      have "of_int \<lfloor>?x + 1 / 2\<rfloor> \<noteq> ?x + 1 / 2"
      proof
        assume eq: "of_int \<lfloor>?x + 1 / 2\<rfloor> = ?x + 1 / 2"
        define k where "k = \<lfloor>?x + 1 / 2\<rfloor>"
        have "of_int k = ?x + 1 / 2" by (simp only: k_def eq)
        then have "?x = of_int (k - 1) + 1 / 2" by simp
        moreover from this have "\<lfloor>?x\<rfloor> = k - 1" by (intro floor_unique) simp_all
        ultimately show False using False by (simp add: half_cent_def)
      qed
      then show "of_int \<lfloor>?x + 1 / 2\<rfloor> - 1 < ?x - 1 / 2" "?x - 1 / 2 \<le> of_int \<lfloor>?x + 1 / 2\<rfloor>"
        using floor_correct [of "?x + 1 / 2"] by linarith+
    qed
    with False c show ?thesis by (simp add: debit_cents_def)
  qed
qed

lemma update_where_append: "update_where p g (xs @ ys) = update_where p g xs @ update_where p g ys"
  by (simp add: update_where_def)

lemma update_where_none: "(\<And>r. r \<in> set xs \<Longrightarrow> \<not> p r) \<Longrightarrow> update_where p g xs = xs"
  by (simp add: update_where_def map_idI)

lemma update_where_cong:
  "(\<And>r. r \<in> set xs \<Longrightarrow> p r \<Longrightarrow> g r = h r) \<Longrightarrow> update_where p g xs = update_where p h xs"
  by (simp add: update_where_def)

lemma map_id_post [simp]: "map wr_id (post i c now ws) = map wr_id ws"
  unfolding post_def by (rule update_where_map) simp

lemma post_other: "r \<in> set ws \<Longrightarrow> wr_id r \<noteq> i \<Longrightarrow> r \<in> set (post i c now ws)"
  by (auto simp: post_def set_update_where)

text \<open>Writing the balance read before is posting the difference, when no two wallets share an ID.\<close>

lemma update_is_post:
  assumes "r0 \<in> set ws" and "distinct (map wr_id ws)"
  shows "update_where (\<lambda>r. wr_id r = wr_id r0)
      (\<lambda>r. r\<lparr>wr_balance := wr_balance r0 + c, wr_updated_at := now\<rparr>) ws = post (wr_id r0) c now ws"
  unfolding post_def
proof (rule update_where_cong)
  fix r assume "r \<in> set ws" and "wr_id r = wr_id r0"
  then have "r = r0" using assms by (auto simp: distinct_map dest: inj_onD)
  then show "r\<lparr>wr_balance := wr_balance r0 + c, wr_updated_at := now\<rparr>
      = r\<lparr>wr_balance := wr_balance r + c, wr_updated_at := now\<rparr>" by simp
qed

lemma set_status_new:
  assumes "u \<notin> tr_id ` set ts" and "tr_id r = u"
  shows "update_where (\<lambda>r. tr_id r = u) f (ts @ [r]) = ts @ [f r]"
proof -
  have "update_where (\<lambda>r. tr_id r = u) f ts = ts"
    using assms(1) by (intro update_where_none) auto
  then show ?thesis using assms(2) by (simp add: update_where_append) (simp add: update_where_def)
qed

section \<open>The parts of both operations\<close>

definition pending_row ::
  "uuid \<Rightarrow> string \<Rightarrow> string \<Rightarrow> int \<Rightarrow> string option \<Rightarrow> string \<Rightarrow> time \<Rightarrow> transaction_row" where
  "pending_row u ref ty c source target now =
     (completed_row u ref ty c source target now)\<lparr>tr_status := TransactionStatusPending\<rparr>"

lemma pending_row_simps [simp]:
  "tr_id (pending_row u ref ty c source target now) = u"
  "tr_type (pending_row u ref ty c source target now) = ty"
  "tr_reference_no (pending_row u ref ty c source target now) = ref"
  "tr_created_at (pending_row u ref ty c source target now) = now"
  "(pending_row u ref ty c source target now)\<lparr>tr_status := TransactionStatusCompleted\<rparr> =
     completed_row u ref ty c source target now"
  by (simp_all add: pending_row_def completed_row_def)

lemma create_pending_effect:
  assumes "work w = Some (d, now)" and "decimal_laws L v"
    and "create_pending L ref ty amount source target w = (Inr txn, w')"
  obtains u where "u \<notin> tr_id ` set (transactions d)" "ref \<notin> tr_reference_no ` set (transactions d)" "0 < cents v amount"
    "txn = transaction_of L (pending_row u ref ty (cents v amount) source target now)"
    "work w' = Some (d\<lparr>transactions := transactions d @ [pending_row u ref ty (cents v amount) source target now]\<rparr>, now)"
  using assms(3) unfolding create_pending_def
  by (auto simp: succ transactionRepo_Create_Tx [OF _ assms(2), where d = d and now = now] assms(1) pending_row_def)

lemma write_entry_effect:
  assumes "work w = Some (d, now)" and "decimal_laws L v" and "write_entry L u i ty amount w = (Inr e, w')"
  obtains entry where "entry \<notin> lr_id ` set (ledger_entries d)"
    "work w' = Some (d\<lparr>ledger_entries := ledger_entries d @ [entry_row entry u i ty (cents v amount) now]\<rparr>, now)"
proof -
  obtain entry w1 where entry: "GenerateLedgerEntryID w = (Inr entry, w1)"
    and create: "ledgerRepo_Create L Tx \<lparr>LedgerEntry_ID = entry, LedgerEntry_TransactionID = u, LedgerEntry_WalletID = i,
      LedgerEntry_EntryType = ty, LedgerEntry_Amount = amount, LedgerEntry_CreatedAt = clock (env w1) (tick w1)\<rparr>
      (next_tick w1) = (Inr e, w')"
    using assms(3) by (auto simp: write_entry_def succ)
  have "work (next_tick w1) = Some (d, now)" using work_generators(3) [OF entry] assms(1) by simp
  then show thesis using create that by (auto simp: ledgerRepo_Create_Tx [OF _ assms(2), where d = d and now = now])
qed

lemma gain_effect:
  assumes "work w = Some (d, now)" and "decimal_laws L v" and "distinct (map wr_id (wallets d))"
    and r: "r \<in> set (wallets d)" "wr_id r = i" "0 \<le> wr_balance r" and "0 < cents v amount"
    and "walletRepo_UpdateBalance L Tx i (Decimal_Add L (cents_decimal L (wr_balance r)) amount) w = (Inr x, w')"
  shows "wr_balance r + cents v amount < 10 ^ 18 \<and>
    work w' = Some (d\<lparr>wallets := post i (cents v amount) now (wallets d)\<rparr>, now)"
proof -
  have "cents v (Decimal_Add L (cents_decimal L (wr_balance r)) amount) = wr_balance r + cents v amount"
    using cents_add [OF assms(2) r(3), of amount] cents_pos [OF assms(7)] by simp
  moreover have "i \<in> wr_id ` set (wallets d)" using r by blast
  ultimately show ?thesis
    using assms(8) update_is_post [OF r(1) assms(3), where c = "cents v amount" and now = now] r(2)
    by (auto simp: walletRepo_UpdateBalance_Tx [OF assms(1,2)])
qed

lemma pay_effect:
  assumes "work w = Some (d, now)" and "decimal_laws L v" and "distinct (map wr_id (wallets d))"
    and r: "r \<in> set (wallets d)" "wr_id r = i" and "v amount \<le> of_int (wr_balance r) / 100"
    and "walletRepo_UpdateBalance L Tx i (Decimal_Sub L (cents_decimal L (wr_balance r)) amount) w = (Inr x, w')"
  shows "work w' = Some (d\<lparr>wallets := post i (- debit_cents v amount) now (wallets d)\<rparr>, now)"
proof -
  have "i \<in> wr_id ` set (wallets d)" using r by blast
  then show ?thesis
    using assms(7) update_is_post [OF r(1) assms(3), where c = "- debit_cents v amount" and now = now] r(2)
    by (auto simp: walletRepo_UpdateBalance_Tx [OF assms(1,2)] cents_sub [OF assms(2,6)])
qed

lemma complete_effect:
  assumes "work w = Some (d, t)" and "u \<notin> tr_id ` set ts"
    and d: "transactions d = ts @ [pending_row u ref ty c source target now]"
    and "transactionRepo_UpdateStatus Tx u TransactionStatusCompleted w = (Inr x, w')"
  shows "work w' = Some (d\<lparr>transactions := ts @ [completed_row u ref ty c source target now]\<rparr>, t)"
  using assms(4) by (auto simp: transactionRepo_UpdateStatus_Tx [OF assms(1)] d set_status_new [OF assms(2)])

section \<open>Top-up\<close>

text \<open>After the lock has returned the row \<open>r\<close> as it is in the database.\<close>

lemma topUp_rest_effect:
  assumes work: "work w = Some (d, now)" and laws: "decimal_laws L v" and ok: "wallets_ok d"
    and r: "wallet_with_id d (Wallet_ID wallet) = Some r"
    and run: "topUp_rest L wallet amount (Some (wallet_of L r)) w = (Inr (txn, nb), w')"
  shows "\<exists>u ref entry. 0 < cents v amount \<and> wr_balance r + cents v amount < 10 ^ 18 \<and>
    u \<notin> tr_id ` set (transactions d) \<and> ref \<notin> tr_reference_no ` set (transactions d) \<and>
    entry \<notin> lr_id ` set (ledger_entries d) \<and>
    work w' = Some (topup_result (Wallet_ID wallet) (cents v amount) u ref entry now d, now) \<and>
    nb = Decimal_Add L (cents_decimal L (wr_balance r)) amount \<and>
    Transaction_ID txn = u \<and> Transaction_ReferenceNo txn = ref \<and>
    Transaction_Type txn = TransactionTypeTopUp \<and> Transaction_CreatedAt txn = now"
proof -
  let ?i = "Wallet_ID wallet" and ?c = "cents v amount"
  from run obtain w2 w3 w4 w5 ref e where
    ref: "GenerateTransactionRef w = (Inr ref, w2)" and
    txn: "create_pending L ref TransactionTypeTopUp amount None ?i w2 = (Inr txn, w3)" and
    nb: "nb = Decimal_Add L (cents_decimal L (wr_balance r)) amount" and
    gain: "walletRepo_UpdateBalance L Tx ?i nb w3 = (Inr (), w4)" and
    entry: "write_entry L (Transaction_ID txn) ?i EntryTypeCredit amount w4 = (Inr e, w5)" and
    fin: "transactionRepo_UpdateStatus Tx (Transaction_ID txn) TransactionStatusCompleted w5 = (Inr (), w')"
    by (auto simp: topUp_rest_def succ Let_def split: option.splits)
  note mem = wallet_with_id_Some [OF r]
  have d: "distinct (map wr_id (wallets d))" "0 \<le> wr_balance r" using ok mem by (auto simp: wallets_ok_def)
  have w2: "work w2 = Some (d, now)" using work_generators(2) [OF ref] work by simp
  obtain u where u: "u \<notin> tr_id ` set (transactions d)" "ref \<notin> tr_reference_no ` set (transactions d)" "0 < ?c"
    and t: "txn = transaction_of L (pending_row u ref TransactionTypeTopUp ?c None ?i now)"
    and w3: "work w3 = Some (d\<lparr>transactions := transactions d @ [pending_row u ref TransactionTypeTopUp ?c None ?i now]\<rparr>, now)"
    using create_pending_effect [OF w2 laws txn] by metis
  have w4: "wr_balance r + ?c < 10 ^ 18 \<and> work w4 = Some (d\<lparr>wallets := post ?i ?c now (wallets d),
      transactions := transactions d @ [pending_row u ref TransactionTypeTopUp ?c None ?i now]\<rparr>, now)"
    using gain_effect [OF w3 laws _ _ _ d(2) u(3) gain [unfolded nb]] d(1) mem by simp
  obtain en where en: "en \<notin> lr_id ` set (ledger_entries d)" and
    w5: "work w5 = Some (d\<lparr>wallets := post ?i ?c now (wallets d),
      transactions := transactions d @ [pending_row u ref TransactionTypeTopUp ?c None ?i now],
      ledger_entries := ledger_entries d @ [entry_row en u ?i EntryTypeCredit ?c now]\<rparr>, now)"
    using write_entry_effect [OF conjunct2 [OF w4] laws entry] t by auto
  have "work w' = Some (topup_result ?i ?c u ref en now d, now)"
    using complete_effect [OF w5 u(1)] fin t by (simp add: topup_result_def)
  then show ?thesis using u en w4 nb t by auto
qed

lemma topUp_statements_effect:
  assumes work: "work w = Some (d, now)" and laws: "decimal_laws L v" and ok: "wallets_ok d"
    and run: "topUp_statements L wallet amount w = (Inr (txn, nb), w')"
  shows "\<exists>r u ref entry. wallet_with_id d (Wallet_ID wallet) = Some r \<and>
    0 < cents v amount \<and> wr_balance r + cents v amount < 10 ^ 18 \<and>
    u \<notin> tr_id ` set (transactions d) \<and> ref \<notin> tr_reference_no ` set (transactions d) \<and>
    entry \<notin> lr_id ` set (ledger_entries d) \<and>
    work w' = Some (topup_result (Wallet_ID wallet) (cents v amount) u ref entry now d, now) \<and>
    nb = Decimal_Add L (cents_decimal L (wr_balance r)) amount \<and>
    Transaction_ID txn = u \<and> Transaction_ReferenceNo txn = ref \<and>
    Transaction_Type txn = TransactionTypeTopUp \<and> Transaction_CreatedAt txn = now"
proof -
  obtain r where r: "wallet_with_id d (Wallet_ID wallet) = Some r"
    and rest: "topUp_rest L wallet amount (Some (wallet_of L r))
      (locking (Wallet_ID wallet) (Some (wallet_of L r)) (next_tick w)) = (Inr (txn, nb), w')"
    using run work
    by (cases "wallet_with_id d (Wallet_ID wallet)")
      (auto simp: topUp_statements_def bindE_Inr FindByIDForUpdate_Inr topUp_rest_def throwE_Inr)
  show ?thesis
    using topUp_rest_effect [OF _ laws ok r rest] work r by simp
qed

section \<open>Transfer\<close>

lemma transfer_writes_effect:
  assumes work: "work w = Some (d, now)" and laws: "decimal_laws L v" and ok: "wallets_ok d"
    and rs: "wallet_with_id d i = Some rs" and rt: "wallet_with_id d j = Some rt" and ne: "i \<noteq> j"
    and enough: "v amount \<le> of_int (wr_balance rs) / 100"
    and run: "transfer_writes L (wallet_of L rs) (wallet_of L rt) amount ref w = (Inr (txn, nb), w')"
  shows "\<exists>u debit credit. 0 < cents v amount \<and> wr_balance rt + cents v amount < 10 ^ 18 \<and>
    u \<notin> tr_id ` set (transactions d) \<and> ref \<notin> tr_reference_no ` set (transactions d) \<and>
    debit \<notin> lr_id ` set (ledger_entries d) \<and> credit \<notin> lr_id ` set (ledger_entries d) \<and>
    debit \<noteq> credit \<and>
    work w' = Some (transfer_result i j (debit_cents v amount) (cents v amount) (cents v amount)
      u ref debit credit now d, now) \<and>
    nb = Decimal_Sub L (cents_decimal L (wr_balance rs)) amount \<and>
    Transaction_ID txn = u \<and> Transaction_ReferenceNo txn = ref \<and>
    Transaction_Type txn = TransactionTypeTransfer \<and> Transaction_CreatedAt txn = now"
proof -
  let ?c = "cents v amount" and ?l = "debit_cents v amount"
  note mem = wallet_with_id_Some [OF rs] wallet_with_id_Some [OF rt]
  from run mem obtain w3 w4 w5 w6 w7 e1 e2 where
    txn: "create_pending L ref TransactionTypeTransfer amount (Some i) j w = (Inr txn, w3)" and
    nb: "nb = Decimal_Sub L (cents_decimal L (wr_balance rs)) amount" and
    pay: "walletRepo_UpdateBalance L Tx i nb w3 = (Inr (), w4)" and
    gain: "walletRepo_UpdateBalance L Tx j (Decimal_Add L (cents_decimal L (wr_balance rt)) amount) w4 = (Inr (), w5)" and
    debit: "write_entry L (Transaction_ID txn) i EntryTypeDebit amount w5 = (Inr e1, w6)" and
    credit: "write_entry L (Transaction_ID txn) j EntryTypeCredit amount w6 = (Inr e2, w7)" and
    fin: "transactionRepo_UpdateStatus Tx (Transaction_ID txn) TransactionStatusCompleted w7 = (Inr (), w')"
    by (auto simp: transfer_writes_def succ Let_def)
  have d: "distinct (map wr_id (wallets d))" "0 \<le> wr_balance rt" using ok mem by (auto simp: wallets_ok_def)
  obtain u where u: "u \<notin> tr_id ` set (transactions d)" "ref \<notin> tr_reference_no ` set (transactions d)" "0 < ?c"
    and t: "txn = transaction_of L (pending_row u ref TransactionTypeTransfer ?c (Some i) j now)"
    and w3: "work w3 = Some (d\<lparr>transactions := transactions d @
      [pending_row u ref TransactionTypeTransfer ?c (Some i) j now]\<rparr>, now)"
    using create_pending_effect [OF work laws txn] by metis
  let ?ts = "transactions d @ [pending_row u ref TransactionTypeTransfer ?c (Some i) j now]"
  let ?ws = "post i (- ?l) now (wallets d)"
  have w4: "work w4 = Some (d\<lparr>wallets := ?ws, transactions := ?ts\<rparr>, now)"
    using pay_effect [OF w3 laws _ _ _ enough pay [unfolded nb]] d(1) mem by simp
  have "rt \<in> set ?ws" using post_other [of rt] mem ne by simp
  then have w5: "wr_balance rt + ?c < 10 ^ 18 \<and>
      work w5 = Some (d\<lparr>wallets := post j ?c now ?ws, transactions := ?ts\<rparr>, now)"
    using gain_effect [OF w4 laws _ _ _ d(2) u(3) gain] d(1) mem by simp
  obtain debit where debit: "debit \<notin> lr_id ` set (ledger_entries d)" and
    w6: "work w6 = Some (d\<lparr>wallets := post j ?c now ?ws, transactions := ?ts,
      ledger_entries := ledger_entries d @ [entry_row debit u i EntryTypeDebit ?c now]\<rparr>, now)"
    using write_entry_effect [OF conjunct2 [OF w5] laws debit] t by auto
  obtain credit where credit: "credit \<notin> lr_id ` set (ledger_entries d)" "credit \<noteq> debit" and
    w7: "work w7 = Some (d\<lparr>wallets := post j ?c now ?ws, transactions := ?ts, ledger_entries := ledger_entries d @
      [entry_row debit u i EntryTypeDebit ?c now, entry_row credit u j EntryTypeCredit ?c now]\<rparr>, now)"
    using write_entry_effect [OF w6 laws credit] t by (auto simp: entry_row_def)
  have "work w' = Some (transfer_result i j ?l ?c ?c u ref debit credit now d, now)"
    using complete_effect [OF w7 u(1)] fin t by (simp add: transfer_result_def)
  then show ?thesis using u w5 debit credit nb t by auto
qed

lemma transfer_lock_Inr [succ]:
  assumes "work w = Some (d, now)"
  shows "transfer_lock L s t w = (Inr ws, u) \<longleftrightarrow>
    fault (env w) (tick w) = NoFault \<and> fault (env w) (Suc (tick w)) = NoFault \<and>
    u = (if Wallet_ID s < Wallet_ID t then locking (Wallet_ID t) (snd ws) (next_tick (locking (Wallet_ID s) (fst ws) (next_tick w)))
      else locking (Wallet_ID s) (fst ws) (next_tick (locking (Wallet_ID t) (snd ws) (next_tick w)))) \<and>
    ws = (map_option (wallet_of L) (wallet_with_id d (Wallet_ID s)),
          map_option (wallet_of L) (wallet_with_id d (Wallet_ID t)))"
  using assms by (auto simp: transfer_lock_def succ)

lemma transfer_locked_Inr [succ]:
  "transfer_locked s (map_option (wallet_of L) a, w2) w = (Inr x, u) \<longleftrightarrow>
     u = w \<and> (\<exists>r. a = Some r \<and> (if wr_id r = Wallet_ID s then x = (wallet_of L r, w2)
       else \<exists>w. w2 = Some w \<and> x = (w, Some (wallet_of L r))))"
  by (auto simp: transfer_locked_def succ split: option.splits)

lemma transfer_rest_effect:
  assumes work: "work w = Some (d, now)" and laws: "decimal_laws L v" and ok: "wallets_ok d"
    and ne: "Wallet_ID s \<noteq> Wallet_ID t"
    and run: "transfer_rest L s amount (map_option (wallet_of L) (wallet_with_id d (Wallet_ID s)),
      map_option (wallet_of L) (wallet_with_id d (Wallet_ID t))) w = (Inr (ls, lt, txn, nb), w')"
  shows "\<exists>rs rt u ref debit credit.
    wallet_with_id d (Wallet_ID s) = Some rs \<and> wallet_with_id d (Wallet_ID t) = Some rt \<and>
    ls = wallet_of L rs \<and> lt = wallet_of L rt \<and> v amount \<le> of_int (wr_balance rs) / 100 \<and>
    0 < cents v amount \<and> wr_balance rt + cents v amount < 10 ^ 18 \<and>
    u \<notin> tr_id ` set (transactions d) \<and> ref \<notin> tr_reference_no ` set (transactions d) \<and>
    debit \<notin> lr_id ` set (ledger_entries d) \<and> credit \<notin> lr_id ` set (ledger_entries d) \<and>
    debit \<noteq> credit \<and>
    work w' = Some (transfer_result (Wallet_ID s) (Wallet_ID t) (debit_cents v amount)
      (cents v amount) (cents v amount) u ref debit credit now d, now) \<and>
    nb = Decimal_Sub L (cents_decimal L (wr_balance rs)) amount \<and>
    Transaction_ID txn = u \<and> Transaction_ReferenceNo txn = ref \<and>
    Transaction_Type txn = TransactionTypeTransfer \<and> Transaction_CreatedAt txn = now"
proof -
  from run obtain r where
    rs: "wallet_with_id d (Wallet_ID s) = Some r" and
    run1: "(if Decimal_LessThan L (Wallet_Balance (wallet_of L r)) amount then throwE ErrInsufficientBalance else
      bindE (wrapE (Wrap ''failed to generate transaction reference'') GenerateTransactionRef) (\<lambda>txRef.
      case map_option (wallet_of L) (wallet_with_id d (Wallet_ID t)) of
        None \<Rightarrow> throwE nil_dereference | Some lockedTarget \<Rightarrow>
      bindE (transfer_writes L (wallet_of L r) lockedTarget amount txRef) (\<lambda>(txn, nb).
      returnE (wallet_of L r, lockedTarget, txn, nb)))) w = (Inr (ls, lt, txn, nb), w')"
    unfolding transfer_rest_def bindE_Inr
    using wallet_with_id_Some [of d "Wallet_ID s"]
    by (fastforce simp: transfer_locked_Inr)
  then obtain rt ref w2 where
    rt: "wallet_with_id d (Wallet_ID t) = Some rt" and
    wallets: "ls = wallet_of L r" "lt = wallet_of L rt" and
    enough: "\<not> Decimal_LessThan L (cents_decimal L (wr_balance r)) amount" and
    ref: "GenerateTransactionRef w = (Inr ref, w2)" and
    writes: "transfer_writes L (wallet_of L r) (wallet_of L rt) amount ref w2 = (Inr (txn, nb), w')"
    by (cases "wallet_with_id d (Wallet_ID t)") (auto simp: succ split: if_splits)
  have w2: "work w2 = Some (d, now)" using work_generators(2) [OF ref] work by simp
  have enough': "v amount \<le> of_int (wr_balance r) / 100"
    using enough laws by (simp add: decimal_laws_simps cents_decimal_value)
  show ?thesis
    using transfer_writes_effect [OF w2 laws ok rs rt ne enough' writes] rs rt wallets enough' by auto
qed

lemma transfer_statements_effect:
  assumes work: "work w = Some (d, now)" and laws: "decimal_laws L v" and ok: "wallets_ok d"
    and ne: "Wallet_ID s \<noteq> Wallet_ID t"
    and run: "transfer_statements L s t amount w = (Inr (ls, lt, txn, nb), w')"
  shows "\<exists>rs rt u ref debit credit.
    wallet_with_id d (Wallet_ID s) = Some rs \<and> wallet_with_id d (Wallet_ID t) = Some rt \<and>
    ls = wallet_of L rs \<and> lt = wallet_of L rt \<and> v amount \<le> of_int (wr_balance rs) / 100 \<and>
    0 < cents v amount \<and> wr_balance rt + cents v amount < 10 ^ 18 \<and>
    u \<notin> tr_id ` set (transactions d) \<and> ref \<notin> tr_reference_no ` set (transactions d) \<and>
    debit \<notin> lr_id ` set (ledger_entries d) \<and> credit \<notin> lr_id ` set (ledger_entries d) \<and>
    debit \<noteq> credit \<and>
    work w' = Some (transfer_result (Wallet_ID s) (Wallet_ID t) (debit_cents v amount)
      (cents v amount) (cents v amount) u ref debit credit now d, now) \<and>
    nb = Decimal_Sub L (cents_decimal L (wr_balance rs)) amount \<and>
    Transaction_ID txn = u \<and> Transaction_ReferenceNo txn = ref \<and>
    Transaction_Type txn = TransactionTypeTransfer \<and> Transaction_CreatedAt txn = now"
proof -
  obtain ws u where lock: "transfer_lock L s t w = (Inr ws, u)"
    and rest: "transfer_rest L s amount ws u = (Inr (ls, lt, txn, nb), w')"
    using run by (auto simp: transfer_statements_def bindE_Inr)
  have "work u = Some (d, now)" and "ws = (map_option (wallet_of L) (wallet_with_id d (Wallet_ID s)),
      map_option (wallet_of L) (wallet_with_id d (Wallet_ID t)))"
    using lock work by (simp_all add: transfer_lock_Inr [OF work])
  then show ?thesis using transfer_rest_effect [OF _ laws ok ne] rest by blast
qed

end
