(* ===== verification/TransactionProofs.thy ===== *)
theory TransactionProofs
  imports Effects
begin

text \<open>
  \<open>TopUp\<close> and \<open>Transfer\<close> as a whole: their effects on the committed database (\<open>topup_effect\<close>,
  \<open>transfer_effect\<close>) and the outcomes of a call in any environment.
\<close>

section \<open>Before the commit nothing shows\<close>

lemma quiet_FindByIDForUpdate: "steps quiet (walletRepo_FindByIDForUpdate L Tx i)"
  unfolding walletRepo_FindByIDForUpdate_def find_or_nil_def conn.case
  by (intro quiet_intros)

lemma quiet_Tx_repositories:
  "steps quiet (transactionRepo_Create L Tx t)"
  "steps quiet (walletRepo_UpdateBalance L Tx i b)"
  "steps quiet (ledgerRepo_Create L Tx e)"
  "steps quiet (transactionRepo_UpdateStatus Tx u st)"
  unfolding transactionRepo_Create_def walletRepo_UpdateBalance_def ledgerRepo_Create_def
    transactionRepo_UpdateStatus_def
  by (intro quiet_intros)+

lemmas quiet_parts = quiet_intros quiet_generators quiet_FindByIDForUpdate quiet_Tx_repositories

lemma quiet_fragments:
  "steps quiet (create_pending L ref ty amount source target)" "steps quiet (write_entry L u i ety amount)"
  unfolding create_pending_def write_entry_def by (intro quiet_parts)+

lemma quiet_topUp_rest: "steps quiet (topUp_rest L wallet amount locked)"
  unfolding topUp_rest_def Let_def by (intro quiet_parts quiet_fragments)

lemma quiet_topUp_statements: "steps quiet (topUp_statements L wallet amount)"
  unfolding topUp_statements_def by (intro quiet_parts quiet_topUp_rest)

lemma quiet_transfer_writes: "steps quiet (transfer_writes L s t amount ref)"
  unfolding transfer_writes_def Let_def by (intro quiet_parts quiet_fragments)

lemma quiet_transfer_rest: "steps quiet (transfer_rest L s amount ws)"
  unfolding transfer_rest_def transfer_locked_def
  by (intro quiet_parts quiet_transfer_writes)

lemma quiet_transfer_statements: "steps quiet (transfer_statements L s t amount)"
  unfolding transfer_statements_def transfer_lock_def
  by (intro quiet_parts quiet_transfer_rest)

lemma publish_return:
  "bindE (go_publish ty u data) (\<lambda>_. returnE y) s = (Inr y, s\<lparr>spawned := spawned s @
     [\<lparr>spawn_EventType = ty, spawn_UserID = u, spawn_Data = data\<rparr>]\<rparr>)"
  by (simp add: bindE_def go_publish_def returnE_def)

lemma topUp_answer_run:
  "topUp_answer L uid a wallet x s = (Inr
     \<lparr>TopUpResponse_TransactionID = Transaction_ID (fst x), TopUpResponse_ReferenceNo = Transaction_ReferenceNo (fst x),
      TopUpResponse_Type = Transaction_Type (fst x), TopUpResponse_Status = TransactionStatusCompleted,
      TopUpResponse_Amount = a, TopUpResponse_WalletID = Wallet_ID wallet,
      TopUpResponse_BalanceAfter = snd x, TopUpResponse_CreatedAt = Transaction_CreatedAt (fst x)\<rparr>,
     s\<lparr>spawned := spawned s @ [\<lparr>spawn_EventType = ''TOPUP'', spawn_UserID = UUID_String L uid, spawn_Data = JObj
       [(''amount'', Decimal_MarshalJSON L a),
        (''balance_after'', Decimal_MarshalJSON L (snd x)),
        (''reference_no'', JStr (Transaction_ReferenceNo (fst x))),
        (''transaction_id'', JStr (UUID_String L (Transaction_ID (fst x)))),
        (''wallet_id'', JStr (Wallet_ID wallet))]\<rparr>]\<rparr>)"
  by (simp add: topUp_answer_def publish_return case_prod_unfold)

lemma transfer_answer_run:
  "transfer_answer L uid a x s = (Inr (case x of (ls, lt, txn, nb) \<Rightarrow>
     \<lparr>TransferResponse_TransactionID = Transaction_ID txn, TransferResponse_ReferenceNo = Transaction_ReferenceNo txn,
      TransferResponse_Type = Transaction_Type txn, TransferResponse_Status = TransactionStatusCompleted,
      TransferResponse_Amount = a, TransferResponse_SourceWalletID = Wallet_ID ls,
      TransferResponse_TargetWalletID = Wallet_ID lt, TransferResponse_BalanceAfter = nb,
      TransferResponse_CreatedAt = Transaction_CreatedAt txn\<rparr>),
     s\<lparr>spawned := spawned s @ [\<lparr>spawn_EventType = ''TRANSFER'', spawn_UserID = UUID_String L uid,
       spawn_Data = (case x of (ls, lt, txn, nb) \<Rightarrow> JObj
         [(''amount'', Decimal_MarshalJSON L a),
          (''balance_after'', Decimal_MarshalJSON L nb),
          (''reference_no'', JStr (Transaction_ReferenceNo txn)),
          (''source_wallet_id'', JStr (Wallet_ID ls)),
          (''target_wallet_id'', JStr (Wallet_ID lt)),
          (''transaction_id'', JStr (UUID_String L (Transaction_ID txn)))])\<rparr>]\<rparr>)"
  by (simp add: transfer_answer_def publish_return split: prod.splits)

section \<open>Outcomes\<close>

text \<open>
  The whole effect of a top-up on the committed database, with its preconditions: the wallet
  is credited, one completed transaction and one credit entry with fresh keys are appended.
\<close>

definition topup_effect ::
  "('d \<Rightarrow> rat) \<Rightarrow> wallet_row \<Rightarrow> 'd \<Rightarrow> uuid \<Rightarrow> string \<Rightarrow> time \<Rightarrow> db \<Rightarrow> db \<Rightarrow> bool" where
  "topup_effect v r amount u ref now d d' \<longleftrightarrow>
     r \<in> set (wallets d) \<and> 0 < cents v amount \<and> wr_balance r + cents v amount < 10 ^ 18 \<and>
     u \<notin> tr_id ` set (transactions d) \<and> ref \<notin> tr_reference_no ` set (transactions d) \<and>
     (\<exists>entry. entry \<notin> lr_id ` set (ledger_entries d) \<and>
        d' = topup_result (wr_id r) (cents v amount) u ref entry now d)"

lemma topUp_statements_post:
  assumes "work w = Some (d, now)" and "decimal_laws L v" and "wallets_ok d" and "r \<in> set (wallets d)"
    and "topUp_statements L (wallet_of L r) amount w = (Inr x, w')"
  shows "\<exists>d'. work w' = Some (d', now) \<and>
    topup_effect v r amount (Transaction_ID (fst x)) (Transaction_ReferenceNo (fst x)) now d d' \<and>
    snd x = Decimal_Add L (cents_decimal L (wr_balance r)) amount \<and>
    Transaction_Type (fst x) = TransactionTypeTopUp \<and> Transaction_CreatedAt (fst x) = now"
proof -
  have "wallet_with_id d (wr_id r) = Some r" using assms(3,4) by (rule wallet_with_id_mem)
  then show ?thesis
    using topUp_statements_effect [OF assms(1,2,3), of "wallet_of L r" amount "fst x" "snd x" w'] assms(4,5)
    by (auto simp: topup_effect_def)
qed

definition topup_event :: "'d lib \<Rightarrow> uuid \<Rightarrow> 'd TopUpResponse \<Rightarrow> spawn" where
  "topup_event L user res =
     \<lparr>spawn_EventType = ''TOPUP'', spawn_UserID = UUID_String L user, spawn_Data = JObj
       [(''amount'', Decimal_MarshalJSON L (TopUpResponse_Amount res)),
        (''balance_after'', Decimal_MarshalJSON L (TopUpResponse_BalanceAfter res)),
        (''reference_no'', JStr (TopUpResponse_ReferenceNo res)),
        (''transaction_id'', JStr (UUID_String L (TopUpResponse_TransactionID res))),
        (''wallet_id'', JStr (TopUpResponse_WalletID res))]\<rparr>"

definition topup_response ::
  "'d lib \<Rightarrow> wallet_row \<Rightarrow> 'd \<Rightarrow> uuid \<Rightarrow> string \<Rightarrow> time \<Rightarrow> 'd TopUpResponse" where
  "topup_response L r amount u ref now =
     \<lparr>TopUpResponse_TransactionID = u, TopUpResponse_ReferenceNo = ref,
      TopUpResponse_Type = TransactionTypeTopUp, TopUpResponse_Status = TransactionStatusCompleted,
      TopUpResponse_Amount = amount, TopUpResponse_WalletID = wr_id r,
      TopUpResponse_BalanceAfter = Decimal_Add L (cents_decimal L (wr_balance r)) amount,
      TopUpResponse_CreatedAt = now\<rparr>"

lemma TopUp_cases:
  assumes run: "TopUp L uid req w = (res, w')" and laws: "decimal_laws L v" and ok: "db_ok (committed w)"
  obtains (rejected) e where "res = Inl e" "committed w' = committed w" "spawned w' = spawned w"
  | (lost) r u ref now where "wallet_of_user (committed w) uid = Some r"
      "topup_effect v r (TopUpRequest_Amount req) u ref now (committed w) (committed w')"
      "res = Inl (Wrap ''failed to commit transaction'' (SQL ConnFailed))" "spawned w' = spawned w"
  | (completed) r u ref now where "wallet_of_user (committed w) uid = Some r"
      "topup_effect v r (TopUpRequest_Amount req) u ref now (committed w) (committed w')"
      "res = Inr (topup_response L r (TopUpRequest_Amount req) u ref now)"
      "spawned w' = spawned w @
         [topup_event L uid (topup_response L r (TopUpRequest_Amount req) u ref now)]"
proof -
  let ?a = "TopUpRequest_Amount req" and ?d = "committed w"
  let ?w = "next_tick w"
  show thesis
    using run unfolding TopUp_def
  proof (cases rule: wallet_by_user.find_bind_cases)
    case fails
    then show thesis using rejected by simp
  next
    case goes_on
    show thesis
    proof (cases "wallet_of_user ?d uid")
      case None
      then show thesis using goes_on rejected [of ErrWalletNotFound] by (auto simp: throwE_def)
    next
      case (Some r)
      have mem: "r \<in> set (wallets ?d)" "wallet_with_id ?d (wr_id r) = Some r"
        using ok wallet_of_user_Some [OF Some] by (auto simp: db_ok_def wallet_with_id_mem)
      have wok: "wallets_ok ?d" using ok by (simp add: db_ok_def)
      note post = topUp_statements_post [OF _ laws wok mem(1)]
      note tx = goes_on(1) [unfolded Some option.map option.case]
      show thesis
      proof (cases rule: transaction_outcome [OF tx quiet_topUp_statements topUp_answer_run,
          case_names stays answer_lost commits])
        case stays
        then show thesis using rejected by (simp add: quiet_def)
      next
        case (answer_lost x u d now)
        then show thesis using post [OF _ answer_lost(1)] lost [OF Some] by auto
      next
        case (commits x u d now)
        then show thesis using post [OF _ commits(1)] completed [OF Some]
          by (auto simp: topup_response_def topup_event_def)
      qed
    qed
  qed
qed

section \<open>Transfer\<close>

text \<open>
  The whole effect of a transfer: the payer has the amount and loses it, the payee gains it,
  one completed transaction with a debit and a credit entry is appended.
\<close>

definition transfer_effect ::
  "('d \<Rightarrow> rat) \<Rightarrow> wallet_row \<Rightarrow> wallet_row \<Rightarrow> 'd \<Rightarrow> uuid \<Rightarrow> string \<Rightarrow> time \<Rightarrow> db \<Rightarrow> db \<Rightarrow> bool" where
  "transfer_effect v rs rt amount u ref now d d' \<longleftrightarrow>
     rs \<in> set (wallets d) \<and> rt \<in> set (wallets d) \<and> wr_id rs \<noteq> wr_id rt \<and>
     v amount \<le> of_int (wr_balance rs) / 100 \<and>
     0 < cents v amount \<and> wr_balance rt + cents v amount < 10 ^ 18 \<and>
     u \<notin> tr_id ` set (transactions d) \<and> ref \<notin> tr_reference_no ` set (transactions d) \<and>
     (\<exists>debit credit. debit \<notin> lr_id ` set (ledger_entries d) \<and>
        credit \<notin> lr_id ` set (ledger_entries d) \<and> debit \<noteq> credit \<and>
        d' = transfer_result (wr_id rs) (wr_id rt) (debit_cents v amount) (cents v amount)
          (cents v amount) u ref debit credit now d)"

lemma transfer_statements_post:
  assumes "work w = Some (d, now)" and "decimal_laws L v" and "wallets_ok d"
    and mem: "rs \<in> set (wallets d)" "rt \<in> set (wallets d)" and "wr_id rs \<noteq> wr_id rt"
    and "transfer_statements L (wallet_of L rs) (wallet_of L rt) amount w = (Inr (ls, lt, txn, nb), w')"
  shows "ls = wallet_of L rs \<and> lt = wallet_of L rt \<and> (\<exists>d'. work w' = Some (d', now) \<and>
    transfer_effect v rs rt amount (Transaction_ID txn) (Transaction_ReferenceNo txn) now d d' \<and>
    nb = Decimal_Sub L (cents_decimal L (wr_balance rs)) amount \<and>
    Transaction_Type txn = TransactionTypeTransfer \<and> Transaction_CreatedAt txn = now)"
proof -
  have "wallet_with_id d (wr_id rs) = Some rs" "wallet_with_id d (wr_id rt) = Some rt"
    using assms(3) mem by (simp_all add: wallet_with_id_mem)
  then show ?thesis
    using transfer_statements_effect [OF assms(1,2,3) _ assms(7)] assms(6) mem
    by (simp add: transfer_effect_def) metis
qed

definition transfer_event :: "'d lib \<Rightarrow> uuid \<Rightarrow> 'd TransferResponse \<Rightarrow> spawn" where
  "transfer_event L user res =
     \<lparr>spawn_EventType = ''TRANSFER'', spawn_UserID = UUID_String L user, spawn_Data = JObj
       [(''amount'', Decimal_MarshalJSON L (TransferResponse_Amount res)),
        (''balance_after'', Decimal_MarshalJSON L (TransferResponse_BalanceAfter res)),
        (''reference_no'', JStr (TransferResponse_ReferenceNo res)),
        (''source_wallet_id'', JStr (TransferResponse_SourceWalletID res)),
        (''target_wallet_id'', JStr (TransferResponse_TargetWalletID res)),
        (''transaction_id'', JStr (UUID_String L (TransferResponse_TransactionID res)))]\<rparr>"

definition transfer_response ::
  "'d lib \<Rightarrow> wallet_row \<Rightarrow> wallet_row \<Rightarrow> 'd \<Rightarrow> uuid \<Rightarrow> string \<Rightarrow> time \<Rightarrow> 'd TransferResponse" where
  "transfer_response L rs rt amount u ref now =
     \<lparr>TransferResponse_TransactionID = u, TransferResponse_ReferenceNo = ref,
      TransferResponse_Type = TransactionTypeTransfer,
      TransferResponse_Status = TransactionStatusCompleted,
      TransferResponse_Amount = amount, TransferResponse_SourceWalletID = wr_id rs,
      TransferResponse_TargetWalletID = wr_id rt,
      TransferResponse_BalanceAfter = Decimal_Sub L (cents_decimal L (wr_balance rs)) amount,
      TransferResponse_CreatedAt = now\<rparr>"

text \<open>The two lookups before the transaction, with the errors they decide.\<close>

lemma Transfer_lookups:
  assumes run: "Transfer L uid req w = (res, w')"
  obtains (rejected) e where "res = Inl e" "quiet w w'" "work w' = work w"
  | (goes_on) rs rt where "wallet_of_user (committed w) uid = Some rs"
      "wallet_with_id (committed w) (TransferRequest_TargetWalletID req) = Some rt"
      "wr_id rs \<noteq> TransferRequest_TargetWalletID req"
      "bindE (wrapE (Wrap ''failed to begin transaction'') tx_Begin) (\<lambda>_. deferE tx_Rollback (
        bindE (transfer_statements L (wallet_of L rs) (wallet_of L rt) (TransferRequest_Amount req)) (\<lambda>x.
        bindE (wrapE (Wrap ''failed to commit transaction'') tx_Commit) (\<lambda>_.
        transfer_answer L uid (TransferRequest_Amount req) x))))
         (next_tick (next_tick w)) = (res, w')"
  using run unfolding Transfer_def
proof (cases rule: wallet_by_user.find_bind_cases)
  case fails
  then show thesis using rejected by simp
next
  case source: goes_on
  show thesis
  proof (cases "wallet_of_user (committed w) uid")
    case None
    then show thesis using source rejected [of ErrWalletNotFound] by (auto simp: throwE_def)
  next
    case rs: (Some rs)
    note s = source(1) [unfolded rs option.map option.case wallet_of_simps]
    show thesis
    proof (cases "wr_id rs = TransferRequest_TargetWalletID req")
      case True
      then show thesis using s rejected [of ErrSelfTransfer] by (auto simp: throwE_def)
    next
      case ne: False
      show thesis
        using s [unfolded if_not_P [OF ne]]
      proof (cases rule: wallet_by_id.find_bind_cases)
        case fails
        then show thesis using rejected by (auto simp: quiet_def)
      next
        case target: goes_on
        show thesis
        proof (cases "wallet_with_id (committed w) (TransferRequest_TargetWalletID req)")
          case None
          then show thesis using target rejected [of ErrTargetWalletNotFound]
            by (auto simp: throwE_def quiet_def)
        next
          case (Some rt)
          then show thesis using goes_on [OF rs Some ne] target(1) by simp
        qed
      qed
    qed
  qed
qed

lemma Transfer_cases:
  assumes run: "Transfer L uid req w = (res, w')" and laws: "decimal_laws L v" and ok: "db_ok (committed w)"
  obtains (rejected) e where "res = Inl e" "committed w' = committed w" "spawned w' = spawned w"
  | (lost) rs rt u ref now where "wallet_of_user (committed w) uid = Some rs"
      "wallet_with_id (committed w) (TransferRequest_TargetWalletID req) = Some rt"
      "transfer_effect v rs rt (TransferRequest_Amount req) u ref now (committed w) (committed w')"
      "res = Inl (Wrap ''failed to commit transaction'' (SQL ConnFailed))" "spawned w' = spawned w"
  | (completed) rs rt u ref now where "wallet_of_user (committed w) uid = Some rs"
      "wallet_with_id (committed w) (TransferRequest_TargetWalletID req) = Some rt"
      "transfer_effect v rs rt (TransferRequest_Amount req) u ref now (committed w) (committed w')"
      "res = Inr (transfer_response L rs rt (TransferRequest_Amount req) u ref now)"
      "spawned w' = spawned w @
         [transfer_event L uid (transfer_response L rs rt (TransferRequest_Amount req) u ref now)]"
  using run
proof (cases rule: Transfer_lookups)
  case rejected
  then show thesis using that(1) by (auto simp: quiet_def)
next
  case (goes_on rs rt)
  let ?a = "TransferRequest_Amount req" and ?d = "committed w"
  have wok: "wallets_ok ?d" using ok by (simp add: db_ok_def)
  have mem: "rs \<in> set (wallets ?d)" "rt \<in> set (wallets ?d)" "wr_id rs \<noteq> wr_id rt"
    using wallet_of_user_Some [OF goes_on(1)] wallet_with_id_Some [OF goes_on(2)] goes_on(3) by auto
  note post = transfer_statements_post [OF _ laws wok mem]
  show thesis
  proof (cases rule: transaction_outcome [OF goes_on(4) quiet_transfer_statements transfer_answer_run,
      case_names stays answer_lost commits])
    case stays
    then show thesis using that(1) by (simp add: quiet_def)
  next
    case (answer_lost x u d now)
    obtain ls lt txn nb where "x = (ls, lt, txn, nb)" by (cases x)
    then show thesis using post [OF _ answer_lost(1) [unfolded \<open>x = _\<close>]] lost [OF goes_on(1,2)] answer_lost by auto
  next
    case (commits x u d now)
    obtain ls lt txn nb where x: "x = (ls, lt, txn, nb)" by (cases x)
    show thesis using post [OF _ commits(1) [unfolded x]] completed [OF goes_on(1,2)] commits x
      by (auto simp: transfer_response_def transfer_event_def)
  qed
qed

end
