(* ===== verification/AuditRepository.thy ===== *)
theory AuditRepository
  imports TransactionRepository
begin

text \<open>\<open>internal/repository/audit_repository.go\<close> and \<open>notification_repository.go\<close>.\<close>

section \<open>Audit logs\<close>

record sqlc_AuditLog =
  sqlcAudit_ID :: string
  sqlcAudit_UserID :: "uuid option"
  sqlcAudit_Action :: string
  sqlcAudit_IpAddress :: string
  sqlcAudit_Endpoint :: string
  sqlcAudit_CreatedAt :: "time option"

definition scanAuditLog :: "audit_row \<Rightarrow> sqlc_AuditLog" where
  "scanAuditLog r =
     \<lparr>sqlcAudit_ID = ar_id r, sqlcAudit_UserID = Some (ar_user_id r), sqlcAudit_Action = ar_action r,
      sqlcAudit_IpAddress = ar_ip_address r, sqlcAudit_Endpoint = ar_endpoint r,
      sqlcAudit_CreatedAt = Some (ar_created_at r)\<rparr>"

definition mapAuditLog :: "sqlc_AuditLog \<Rightarrow> AuditLog" where
  "mapAuditLog l =
     \<lparr>AuditLog_ID = sqlcAudit_ID l,
      AuditLog_UserID = (case sqlcAudit_UserID l of Some b \<Rightarrow> b | None \<Rightarrow> 0),
      AuditLog_Action = sqlcAudit_Action l,
      AuditLog_IPAddress = sqlcAudit_IpAddress l,
      AuditLog_Endpoint = sqlcAudit_Endpoint l,
      AuditLog_CreatedAt = (case sqlcAudit_CreatedAt l of Some t \<Rightarrow> t | None \<Rightarrow> 0)\<rparr>"

abbreviation audit_log_of :: "audit_row \<Rightarrow> AuditLog" where
  "audit_log_of r \<equiv> mapAuditLog (scanAuditLog r)"

definition auditRepo_Create :: "AuditLog \<Rightarrow> AuditLog go" where
  "auditRepo_Create l =
     bindE (wrapE (Wrap ''create audit log query failed'') (run_stmt Pool
       (CreateAuditLog (AuditLog_ID l) (Some (AuditLog_UserID l)) (AuditLog_Action l)
          (AuditLog_IPAddress l) (AuditLog_Endpoint l)))) (\<lambda>al.
     returnE (audit_log_of al))"

definition auditRepo_FindByUserID :: "uuid \<Rightarrow> goint \<Rightarrow> goint \<Rightarrow> (AuditLog list \<times> goint) go" where
  "auditRepo_FindByUserID userID limit offset =
     map_page audit_log_of
       (find_page ''find audit logs by user id query failed'' ''count audit logs by user id query failed''
          (FindAuditLogsByUserID (Some userID)) (CountAuditLogsByUserID (Some userID)) limit offset)"

definition auditRepo_FindAll ::
  "uuid option \<Rightarrow> string option \<Rightarrow> goint \<Rightarrow> goint \<Rightarrow> (AuditLog list \<times> goint) go" where
  "auditRepo_FindAll userID action limit offset =
     map_page audit_log_of
       (case (userID, action) of
          (Some u, Some a) \<Rightarrow> find_page ''find all audit logs by user id and action query failed''
             ''count all audit logs by user id and action query failed''
             (FindAllAuditLogsByUserIDAndAction (Some u) a)
             (CountAllAuditLogsByUserIDAndAction (Some u) a) limit offset
        | (Some u, None) \<Rightarrow> find_page ''find all audit logs by user id query failed''
             ''count all audit logs by user id query failed''
             (FindAllAuditLogsByUserID (Some u)) (CountAllAuditLogsByUserID (Some u)) limit offset
        | (None, Some a) \<Rightarrow> find_page ''find all audit logs by action query failed''
             ''count all audit logs by action query failed''
             (FindAllAuditLogsByAction a) (CountAllAuditLogsByAction a) limit offset
        | (None, None) \<Rightarrow> find_page ''find all audit logs query failed''
             ''count all audit logs query failed'' FindAllAuditLogs CountAllAuditLogs limit offset)"

definition audit_matches :: "uuid option \<Rightarrow> string option \<Rightarrow> audit_row \<Rightarrow> bool" where
  "audit_matches u a r \<longleftrightarrow>
     (case u of None \<Rightarrow> True | Some x \<Rightarrow> x = ar_user_id r) \<and> of_type a (ar_action r)"

definition audit_listing :: "uuid option \<Rightarrow> string option \<Rightarrow> db \<Rightarrow> (nat \<Rightarrow> nat) \<Rightarrow> audit_row list" where
  "audit_listing u a d pl = order_desc ar_created_at (scan pl (filter (audit_matches u a) (audit_logs d)))"

lemma pager_user_audit:
  "pager (auditRepo_FindByUserID u) (\<lambda>d pl. map audit_log_of (audit_listing (Some u) None d pl))
     (\<lambda>d. count_rows (audit_matches (Some u) None) (audit_logs d))"
  unfolding auditRepo_FindByUserID_def audit_listing_def
  by (rule pager_find_page)
    (simp_all add: audit_matches_def [abs_def] of_type_def audit_of_def [abs_def] FindAuditLogsByUserID_def
      CountAuditLogsByUserID_def bindE_def read_def count_rows_def)

lemma pager_all_audit:
  "pager (auditRepo_FindAll u a) (\<lambda>d pl. map audit_log_of (audit_listing u a d pl))
     (\<lambda>d. count_rows (audit_matches u a) (audit_logs d))"
  unfolding auditRepo_FindAll_def audit_listing_def
  by (cases u; cases a; simp only: option.case prod.case; rule pager_find_page)
    (simp_all add: audit_matches_def [abs_def] of_type_def audit_of_def [abs_def] FindAllAuditLogs_def
      FindAllAuditLogsByUserID_def FindAllAuditLogsByAction_def FindAllAuditLogsByUserIDAndAction_def
      CountAllAuditLogs_def CountAllAuditLogsByUserID_def CountAllAuditLogsByAction_def
      CountAllAuditLogsByUserIDAndAction_def bindE_def read_def count_rows_def)

interpretation user_audit: pager "auditRepo_FindByUserID u"
    "\<lambda>d pl. map audit_log_of (audit_listing (Some u) None d pl)"
    "\<lambda>d. count_rows (audit_matches (Some u) None) (audit_logs d)" for u
  by (rule pager_user_audit)

interpretation all_audit: pager "auditRepo_FindAll u a"
    "\<lambda>d pl. map audit_log_of (audit_listing u a d pl)"
    "\<lambda>d. count_rows (audit_matches u a) (audit_logs d)" for u a
  by (rule pager_all_audit)

section \<open>Notifications\<close>

record sqlc_Notification =
  sqlcNotification_ID :: "uuid option"
  sqlcNotification_UserID :: "uuid option"
  sqlcNotification_Title :: string
  sqlcNotification_Message :: string
  sqlcNotification_IsRead :: bool
  sqlcNotification_CreatedAt :: "time option"

definition scanNotification :: "notification_row \<Rightarrow> sqlc_Notification" where
  "scanNotification r =
     \<lparr>sqlcNotification_ID = Some (nr_id r), sqlcNotification_UserID = Some (nr_user_id r),
      sqlcNotification_Title = nr_title r, sqlcNotification_Message = nr_message r,
      sqlcNotification_IsRead = nr_is_read r, sqlcNotification_CreatedAt = Some (nr_created_at r)\<rparr>"

definition mapNotification :: "sqlc_Notification \<Rightarrow> Notification" where
  "mapNotification n =
     \<lparr>Notification_ID = (case sqlcNotification_ID n of Some b \<Rightarrow> b | None \<Rightarrow> 0),
      Notification_UserID = (case sqlcNotification_UserID n of Some b \<Rightarrow> b | None \<Rightarrow> 0),
      Notification_Title = sqlcNotification_Title n,
      Notification_Message = sqlcNotification_Message n,
      Notification_IsRead = sqlcNotification_IsRead n,
      Notification_CreatedAt = (case sqlcNotification_CreatedAt n of Some t \<Rightarrow> t | None \<Rightarrow> 0)\<rparr>"

abbreviation notification_entity :: "notification_row \<Rightarrow> Notification" where
  "notification_entity r \<equiv> mapNotification (scanNotification r)"

definition notificationRepo_Create :: "uuid \<Rightarrow> string \<Rightarrow> string \<Rightarrow> Notification go" where
  "notificationRepo_Create userID title message =
     bindE (wrapE (Wrap ''create notification query failed'') (run_stmt Pool
       (CreateNotification (Some userID) title message))) (\<lambda>n.
     returnE (notification_entity n))"

definition notificationRepo_FindByUserID ::
  "uuid \<Rightarrow> goint \<Rightarrow> goint \<Rightarrow> (Notification list \<times> goint) go" where
  "notificationRepo_FindByUserID userID limit offset =
     map_page notification_entity
       (find_page ''find notifications by user id query failed''
          ''count notifications by user id query failed''
          (FindNotificationsByUserID (Some userID)) (CountNotificationsByUserID (Some userID))
          limit offset)"

definition notificationRepo_MarkAsRead :: "uuid \<Rightarrow> uuid \<Rightarrow> unit go" where
  "notificationRepo_MarkAsRead i userID =
     wrapE (Wrap ''mark notification as read query failed'') (run_stmt Pool
       (MarkNotificationAsRead (Some i) (Some userID)))"

definition notificationRepo_ClearAll :: "uuid \<Rightarrow> unit go" where
  "notificationRepo_ClearAll userID =
     wrapE (Wrap ''clear notifications query failed'') (run_stmt Pool
       (ClearNotificationsByUserID (Some userID)))"

definition notification_listing :: "uuid \<Rightarrow> db \<Rightarrow> (nat \<Rightarrow> nat) \<Rightarrow> notification_row list" where
  "notification_listing u d pl =
     order_desc nr_created_at (scan pl (filter (\<lambda>r. u = nr_user_id r) (notifications d)))"

lemma pager_notifications:
  "pager (notificationRepo_FindByUserID u)
     (\<lambda>d pl. map notification_entity (notification_listing u d pl))
     (\<lambda>d. count_rows (\<lambda>r. u = nr_user_id r) (notifications d))"
  unfolding notificationRepo_FindByUserID_def notification_listing_def
  by (rule pager_find_page)
    (simp_all add: notification_of_def [abs_def] FindNotificationsByUserID_def
      CountNotificationsByUserID_def bindE_def read_def count_rows_def)

interpretation user_notifications: pager "notificationRepo_FindByUserID u"
    "\<lambda>d pl. map notification_entity (notification_listing u d pl)"
    "\<lambda>d. count_rows (\<lambda>r. u = nr_user_id r) (notifications d)" for u
  by (rule pager_notifications)

end
