(* ===== verification/AccountServices.thy ===== *)
theory AccountServices
  imports TransactionService AuditRepository
begin

text \<open>
  The services that read a user's own data and keep the logs:
  \<open>internal/service/wallet_service.go\<close>, \<open>ledger_service.go\<close>, \<open>audit_service.go\<close> and
  \<open>notification_service.go\<close>.
\<close>

section \<open>Wallet\<close>

record 'd WalletResponse =
  WalletResponse_WalletID :: string
  WalletResponse_UserID :: uuid
  WalletResponse_Balance :: 'd
  WalletResponse_Currency :: string
  WalletResponse_CreatedAt :: time
  WalletResponse_UpdatedAt :: time

definition GetWalletByUserID :: "'d lib \<Rightarrow> uuid \<Rightarrow> 'd WalletResponse go" where
  "GetWalletByUserID L userID =
     bindE (walletRepo_FindByUserID L userID) (\<lambda>found.
     case found of None \<Rightarrow> throwE ErrWalletNotFound | Some w \<Rightarrow>
     returnE
       \<lparr>WalletResponse_WalletID = Wallet_ID w,
        WalletResponse_UserID = Wallet_UserID w,
        WalletResponse_Balance = Wallet_Balance w,
        WalletResponse_Currency = Wallet_Currency w,
        WalletResponse_CreatedAt = Wallet_CreatedAt w,
        WalletResponse_UpdatedAt = Wallet_UpdatedAt w\<rparr>)"

section \<open>Ledger\<close>

record 'd LedgerListResponse =
  LedgerList_Entries :: "'d LedgerEntryResponse list"
  LedgerList_Pagination :: PaginationResponse

definition GetLedgerEntries ::
  "'d lib \<Rightarrow> uuid \<Rightarrow> string option \<Rightarrow> PaginationRequest \<Rightarrow> 'd LedgerListResponse go" where
  "GetLedgerEntries L userID entryType pagination =
     bindE (walletRepo_FindByUserID L userID) (\<lambda>found.
     case found of None \<Rightarrow> throwE ErrWalletNotFound | Some wallet \<Rightarrow>
     let pagination = SetDefaults pagination in
     bindE (ledgerRepo_FindByWalletID L (Wallet_ID wallet) entryType
              (Limit pagination) (Offset pagination)) (\<lambda>(entries, tot).
     bindE (paginationResponse pagination tot) (\<lambda>pr.
     returnE \<lparr>LedgerList_Entries = map ledgerEntryResponse entries,
              LedgerList_Pagination = pr\<rparr>)))"

section \<open>Audit log\<close>

record AuditLogResponse =
  AuditLogResponse_LogID :: string
  AuditLogResponse_UserID :: uuid
  AuditLogResponse_Action :: string
  AuditLogResponse_IPAddress :: string
  AuditLogResponse_Endpoint :: string
  AuditLogResponse_CreatedAt :: time

record AuditLogListResponse =
  AuditLogList_Logs :: "AuditLogResponse list"
  AuditLogList_Pagination :: PaginationResponse

definition auditLogResponse :: "AuditLog \<Rightarrow> AuditLogResponse" where
  "auditLogResponse l =
     \<lparr>AuditLogResponse_LogID = AuditLog_ID l,
      AuditLogResponse_UserID = AuditLog_UserID l,
      AuditLogResponse_Action = AuditLog_Action l,
      AuditLogResponse_IPAddress = AuditLog_IPAddress l,
      AuditLogResponse_Endpoint = AuditLog_Endpoint l,
      AuditLogResponse_CreatedAt = AuditLog_CreatedAt l\<rparr>"

definition CreateLog :: "AuditLog \<Rightarrow> unit go" where
  "CreateLog l =
     bindE GenerateAuditLogID (\<lambda>i.
     bindE (auditRepo_Create (l\<lparr>AuditLog_ID := i\<rparr>)) (\<lambda>_.
     returnE ()))"

definition GetLogs :: "uuid \<Rightarrow> PaginationRequest \<Rightarrow> AuditLogListResponse go" where
  "GetLogs userID pagination =
     (let pagination = SetDefaults pagination in
     bindE (auditRepo_FindByUserID userID (Limit pagination) (Offset pagination)) (\<lambda>(logs, tot).
     bindE (paginationResponse pagination tot) (\<lambda>pr.
     returnE \<lparr>AuditLogList_Logs = map auditLogResponse logs, AuditLogList_Pagination = pr\<rparr>)))"

definition GetAllLogs ::
  "uuid option \<Rightarrow> string option \<Rightarrow> PaginationRequest \<Rightarrow> AuditLogListResponse go" where
  "GetAllLogs userID action pagination =
     (let pagination = SetDefaults pagination in
     bindE (auditRepo_FindAll userID action (Limit pagination) (Offset pagination)) (\<lambda>(logs, tot).
     bindE (paginationResponse pagination tot) (\<lambda>pr.
     returnE \<lparr>AuditLogList_Logs = map auditLogResponse logs, AuditLogList_Pagination = pr\<rparr>)))"

section \<open>Notifications\<close>

record NotificationResponse =
  NotificationResponse_ID :: uuid
  NotificationResponse_UserID :: uuid
  NotificationResponse_Title :: string
  NotificationResponse_Message :: string
  NotificationResponse_IsRead :: bool
  NotificationResponse_CreatedAt :: time

record NotificationListResponse =
  NotificationList_Notifications :: "NotificationResponse list"
  NotificationList_Pagination :: PaginationResponse

definition notificationResponse :: "Notification \<Rightarrow> NotificationResponse" where
  "notificationResponse n =
     \<lparr>NotificationResponse_ID = Notification_ID n,
      NotificationResponse_UserID = Notification_UserID n,
      NotificationResponse_Title = Notification_Title n,
      NotificationResponse_Message = Notification_Message n,
      NotificationResponse_IsRead = Notification_IsRead n,
      NotificationResponse_CreatedAt = Notification_CreatedAt n\<rparr>"

definition notification_json :: "'d lib \<Rightarrow> Notification \<Rightarrow> json" where
  "notification_json L n = JObj
     [(''id'', JStr (UUID_String L (Notification_ID n))),
      (''user_id'', JStr (UUID_String L (Notification_UserID n))),
      (''title'', JStr (Notification_Title n)),
      (''message'', JStr (Notification_Message n)),
      (''is_read'', JBool (Notification_IsRead n)),
      (''created_at'', Time_MarshalJSON L (Notification_CreatedAt n))]"

text \<open>
  \<open>redisClient.Publish\<close>: the message reaches the channel unless the call is refused; the
  error of a refused or lost call is only logged by the caller.
\<close>

definition redis_Publish :: "string \<Rightarrow> json \<Rightarrow> unit go" where
  "redis_Publish ch payload w =
     (case fault (env w) (tick w) of
        NoFault \<Rightarrow> (Inr (), (next_tick w)\<lparr>published := published w @ [(ch, payload)]\<rparr>)
      | Refused \<Rightarrow> (Inl (Failed ''redis''), next_tick w)
      | Lost \<Rightarrow> (Inl (Failed ''redis''), (next_tick w)\<lparr>published := published w @ [(ch, payload)]\<rparr>))"

definition CreateAndPushNotification ::
  "'d lib \<Rightarrow> uuid \<Rightarrow> string \<Rightarrow> string \<Rightarrow> Notification go" where
  "CreateAndPushNotification L userID title message =
     bindE (notificationRepo_Create userID title message) (\<lambda>n.
     tryE (redis_Publish (''user:notifications:'' @ UUID_String L userID) (notification_json L n)) (\<lambda>_.
     returnE n))"

definition GetNotifications :: "uuid \<Rightarrow> PaginationRequest \<Rightarrow> NotificationListResponse go" where
  "GetNotifications userID pagination =
     (let pagination = SetDefaults pagination in
     bindE (notificationRepo_FindByUserID userID (Limit pagination) (Offset pagination)) (\<lambda>(ns, tot).
     bindE (paginationResponse pagination tot) (\<lambda>pr.
     returnE \<lparr>NotificationList_Notifications = map notificationResponse ns,
              NotificationList_Pagination = pr\<rparr>)))"

definition MarkAsRead :: "uuid \<Rightarrow> uuid \<Rightarrow> unit go" where
  "MarkAsRead i userID = notificationRepo_MarkAsRead i userID"

definition ClearAll :: "uuid \<Rightarrow> unit go" where
  "ClearAll userID = notificationRepo_ClearAll userID"

end
