(* ===== verification/Integrity.thy ===== *)
theory Integrity
  imports AuthService TransactionProofs AccountServices
begin

text \<open>
  Every operation of every service keeps the integrity of the database (\<open>world_keeps\<close>),
  whatever interactions fail on the way. The proofs only compose the lemmas of the statements.
\<close>

section \<open>The repositories keep the integrity\<close>

lemma ok_randomAlphanumeric: "steps world_keeps (randomAlphanumeric n)"
  by (induction n) (auto intro!: ok_intros)

lemma ok_generators:
  "steps world_keeps GenerateWalletID" "steps world_keeps GenerateTransactionRef"
  "steps world_keeps GenerateLedgerEntryID" "steps world_keeps GenerateAuditLogID"
proof -
  have "steps world_keeps (\<lambda>w. (Inr (f w), w))" for f :: "world \<Rightarrow> string"
    by (simp add: steps_def ok_order.R_refl)
  then show "steps world_keeps GenerateTransactionRef"
    unfolding GenerateTransactionRef_def by (intro ok_intros ok_randomAlphanumeric)
qed (auto simp: GenerateWalletID_def GenerateLedgerEntryID_def GenerateAuditLogID_def
    intro!: ok_intros ok_randomAlphanumeric)

lemma ok_writes:
  "steps world_keeps (userRepo_Create cn e h r)"
  "steps world_keeps (walletRepo_Create L cn x)"
  "steps world_keeps (walletRepo_UpdateBalance L cn i b)"
  "steps world_keeps (transactionRepo_Create L cn t)"
  "steps world_keeps (transactionRepo_UpdateStatus cn u st)"
  "steps world_keeps (ledgerRepo_Create L cn le)"
  "steps world_keeps (auditRepo_Create a)"
  "steps world_keeps (notificationRepo_Create uid title msg)"
  "steps world_keeps (notificationRepo_MarkAsRead nid uid)"
  "steps world_keeps (notificationRepo_ClearAll uid)"
  unfolding userRepo_Create_def walletRepo_Create_def walletRepo_UpdateBalance_def
    transactionRepo_Create_def transactionRepo_UpdateStatus_def ledgerRepo_Create_def
    auditRepo_Create_def notificationRepo_Create_def notificationRepo_MarkAsRead_def
    notificationRepo_ClearAll_def
  by (intro ok_intros)+

lemma read_only_FindWalletByIDForUpdate: "read_only (FindWalletByIDForUpdate i)"
  unfolding read_only_def FindWalletByIDForUpdate_def
  by (intro allI eq_order.steps_intros steps_eq_read steps_eq_select_one)

lemma ok_note_lock: "steps world_keeps (note_lock i row)"
  by (simp add: steps_def note_lock_def world_keeps_def world_ok_def)

lemma ok_FindByIDForUpdate: "steps world_keeps (walletRepo_FindByIDForUpdate L Tx i)"
  unfolding walletRepo_FindByIDForUpdate_def find_or_nil_def conn.case
  by (intro ok_intros ok_note_lock read_only_FindWalletByIDForUpdate)

lemma ok_ledger_of_transaction: "steps world_keeps (ledgerRepo_FindByTransactionID L i)"
  unfolding ledgerRepo_FindByTransactionID_def
  by (intro ok_intros read_only_FindLedgerEntriesByTransactionID)

lemma ok_paginationResponse: "steps world_keeps (paginationResponse p n)"
  unfolding paginationResponse_def by (intro ok_intros)

lemma ok_HashPassword: "steps world_keeps (HashPassword L p)"
  by (auto simp: steps_def HashPassword_def world_keeps_def world_ok_def split: option.splits)

lemma ok_redis_Publish: "steps world_keeps (redis_Publish ch p)"
  by (auto simp: steps_def redis_Publish_def world_keeps_def world_ok_def split: fault.splits)

lemmas ok_parts = ok_intros ok_generators ok_writes ok_FindByIDForUpdate ok_ledger_of_transaction
  ok_paginationResponse ok_HashPassword ok_redis_Publish
  wallet_by_user.find_keeps wallet_by_id.find_keeps transaction_by_id.find_keeps
  user_by_email.find_keeps user_by_id.find_keeps
  wallet_txns.page_keeps all_txns.page_keeps wallet_ledger.page_keeps users_page.page_keeps
  user_audit.page_keeps all_audit.page_keeps user_notifications.page_keeps

section \<open>So do the services\<close>

lemma ok_topUp_statements: "steps world_keeps (topUp_statements L x a)"
  unfolding topUp_statements_def topUp_rest_def create_pending_def write_entry_def Let_def by (intro ok_parts)

lemma ok_transfer_statements: "steps world_keeps (transfer_statements L s t a)"
  unfolding transfer_statements_def transfer_rest_def transfer_lock_def transfer_locked_def transfer_writes_def
    create_pending_def write_entry_def Let_def
  by (intro ok_parts)

lemma ok_register_statements: "steps world_keeps (register_statements L e h)"
  unfolding register_statements_def by (intro ok_parts)

lemma ok_services:
  "steps world_keeps (TopUp L uid tr)"
  "steps world_keeps (Transfer L uid xr)"
  "steps world_keeps (Register L rr)"
  "steps world_keeps (Login L cfg lr)"
  "steps world_keeps (CreateLog al)"
  "steps world_keeps (CreateAndPushNotification L uid title msg)"
  "steps world_keeps (MarkAsRead nid uid)"
  "steps world_keeps (ClearAll uid)"
  unfolding TopUp_def topUp_answer_def Transfer_def transfer_answer_def Register_def Login_def GenerateToken_def CreateLog_def
    CreateAndPushNotification_def MarkAsRead_def ClearAll_def Let_def
  by (intro ok_parts ok_topUp_statements ok_transfer_statements ok_register_statements)+

lemma ok_readers:
  "steps world_keeps (GetTransactions L uid ty p)"
  "steps world_keeps (GetTransactionDetail L uid t)"
  "steps world_keeps (GetAllTransactions L ty st p)"
  "steps world_keeps (GetTransactionDetailAdmin L t)"
  "steps world_keeps (GetWalletByUserID L uid)"
  "steps world_keeps (GetLedgerEntries L uid ty p)"
  "steps world_keeps (GetLogs uid p)"
  "steps world_keeps (GetAllLogs ou oa p)"
  "steps world_keeps (GetNotifications uid p)"
  "steps world_keeps (GetAllUsers L p)"
  unfolding GetTransactions_def GetTransactionDetail_def GetAllTransactions_def
    GetTransactionDetailAdmin_def GetWalletByUserID_def GetLedgerEntries_def GetLogs_def
    GetAllLogs_def GetNotifications_def GetAllUsers_def Let_def
  by (intro ok_parts)+

section \<open>Readers change nothing\<close>

lemma quiet_paginationResponse: "steps quiet (paginationResponse p n)"
  unfolding paginationResponse_def by (intro quiet_intros)

lemma quiet_ledger_of_transaction: "steps quiet (ledgerRepo_FindByTransactionID L i)"
  unfolding ledgerRepo_FindByTransactionID_def
  by (intro quiet_intros read_only_FindLedgerEntriesByTransactionID)

lemmas quiet_readers = quiet_intros quiet_paginationResponse quiet_ledger_of_transaction
  wallet_by_user.find_quiet wallet_by_id.find_quiet transaction_by_id.find_quiet
  user_by_email.find_quiet user_by_id.find_quiet
  wallet_txns.page_quiet all_txns.page_quiet wallet_ledger.page_quiet users_page.page_quiet
  user_audit.page_quiet all_audit.page_quiet user_notifications.page_quiet

lemma quiet_services:
  "steps quiet (GetTransactions L uid ty p)"
  "steps quiet (GetTransactionDetail L uid t)"
  "steps quiet (GetAllTransactions L ty st p)"
  "steps quiet (GetTransactionDetailAdmin L t)"
  "steps quiet (GetWalletByUserID L uid)"
  "steps quiet (GetLedgerEntries L uid ty p)"
  "steps quiet (GetLogs uid p)"
  "steps quiet (GetAllLogs ou oa p)"
  "steps quiet (GetNotifications uid p)"
  "steps quiet (GetAllUsers L p)"
  unfolding GetTransactions_def GetTransactionDetail_def GetAllTransactions_def
    GetTransactionDetailAdmin_def GetWalletByUserID_def GetLedgerEntries_def GetLogs_def
    GetAllLogs_def GetNotifications_def GetAllUsers_def Let_def
  by (intro quiet_readers)+

section \<open>Logs and notifications are outside the books\<close>

definition off_books :: "world \<Rightarrow> world \<Rightarrow> bool" where
  "off_books w w' \<longleftrightarrow> users (committed w') = users (committed w) \<and>
     wallets (committed w') = wallets (committed w) \<and>
     transactions (committed w') = transactions (committed w) \<and>
     ledger_entries (committed w') = ledger_entries (committed w)"

interpretation books_order: step_order off_books
  by unfold_locales (auto simp: off_books_def)

lemma off_quiet: "quiet w w' \<Longrightarrow> off_books w w'"
  by (simp add: quiet_def off_books_def)

lemma off_books_quiet: "steps quiet m \<Longrightarrow> steps off_books m"
  by (simp add: steps_def off_quiet)

lemma off_run_stmt:
  "(\<And>c d x d'. q c d = (Inr x, d') \<Longrightarrow> users d' = users d \<and> wallets d' = wallets d \<and>
     transactions d' = transactions d \<and> ledger_entries d' = ledger_entries d) \<Longrightarrow>
   steps off_books (run_stmt Pool q)"
  by (auto simp: steps_def run_stmt_def off_books_def split: fault.splits prod.splits sum.splits)

lemma off_writes:
  "steps off_books (run_stmt Pool (CreateAuditLog i u a ip e))"
  "steps off_books (run_stmt Pool (CreateNotification u t m))"
  "steps off_books (run_stmt Pool (MarkNotificationAsRead n u))"
  "steps off_books (run_stmt Pool (ClearNotificationsByUserID u))"
  by (rule off_run_stmt, auto simp: CreateAuditLog_def CreateNotification_def
      MarkNotificationAsRead_def ClearNotificationsByUserID_def succ Let_def)+

lemma off_go_publish: "steps off_books (go_publish ty u data)"
  by (simp add: steps_def go_publish_def off_books_def)

lemma off_redis_Publish: "steps off_books (redis_Publish ch p)"
  by (auto simp: steps_def redis_Publish_def off_books_def split: fault.splits)

lemmas off_parts = books_order.steps_intros off_writes off_go_publish off_redis_Publish
  quiet_time_Now [THEN off_books_quiet] quiet_generators [THEN off_books_quiet]
  user_by_email.find_quiet [THEN off_books_quiet]

lemma off_services:
  "steps off_books (Login L cfg lr)"
  "steps off_books (CreateLog al)"
  "steps off_books (CreateAndPushNotification L uid title msg)"
  "steps off_books (MarkAsRead nid uid)"
  "steps off_books (ClearAll uid)"
  unfolding Login_def GenerateToken_def CreateLog_def CreateAndPushNotification_def MarkAsRead_def
    ClearAll_def auditRepo_Create_def notificationRepo_Create_def notificationRepo_MarkAsRead_def
    notificationRepo_ClearAll_def Let_def
  by (intro off_parts)+

end
