(* ===== verification/AuthProofs.thy ===== *)
theory AuthProofs
  imports AuthService TransactionProofs
begin

text \<open>
  Registration: what its transaction does (one user with the role USER and one empty wallet,
  both with fresh keys) and its five outcomes; login and tokens.
\<close>

section \<open>The statements inside the transaction\<close>

definition user_entry :: "uuid \<Rightarrow> string \<Rightarrow> string \<Rightarrow> string \<Rightarrow> time \<Rightarrow> user_row" where
  "user_entry u email hash role now =
     \<lparr>ur_id = u, ur_email = email, ur_password_hash = hash, ur_role = role,
      ur_created_at = now, ur_updated_at = now\<rparr>"

definition wallet_entry :: "string \<Rightarrow> uuid \<Rightarrow> int \<Rightarrow> string \<Rightarrow> time \<Rightarrow> wallet_row" where
  "wallet_entry i u balance currency now =
     \<lparr>wr_id = i, wr_user_id = u, wr_balance = balance, wr_currency = currency,
      wr_created_at = now, wr_updated_at = now\<rparr>"

lemma userRepo_Create_Tx:
  assumes "work w = Some (d, now)"
  shows "userRepo_Create Tx email hash role w = (Inr user, w') \<longleftrightarrow>
    fault (env w) (tick w) = NoFault \<and> varchar 255 email \<and> varchar 255 hash \<and> varchar 10 role \<and>
    (role = ''USER'' \<or> role = ''ADMIN'') \<and>
    uuids (env w) (tick w) \<notin> ur_id ` set (users d) \<and> email \<notin> ur_email ` set (users d) \<and>
    (\<exists>r. r = user_entry (uuids (env w) (tick w)) email hash role now \<and> user = user_of r \<and>
      w' = (next_tick w)\<lparr>work := Some (d\<lparr>users := users d @ [r]\<rparr>, now)\<rparr>)"
  using assms by (auto simp: userRepo_Create_def succ CreateUser_def Let_def user_entry_def)

lemma walletRepo_Create_Tx:
  assumes "work w = Some (d, now)" and "decimal_laws L v"
  shows "walletRepo_Create L Tx x w = (Inr x', w') \<longleftrightarrow>
    fault (env w) (tick w) = NoFault \<and> varchar 20 (Wallet_ID x) \<and> varchar 3 (Wallet_Currency x) \<and>
    0 \<le> cents v (Wallet_Balance x) \<and> cents v (Wallet_Balance x) < 10 ^ 18 \<and>
    Wallet_ID x \<notin> wr_id ` set (wallets d) \<and> Wallet_UserID x \<notin> wr_user_id ` set (wallets d) \<and>
    Wallet_UserID x \<in> ur_id ` set (users d) \<and>
    (\<exists>r. r = wallet_entry (Wallet_ID x) (Wallet_UserID x) (cents v (Wallet_Balance x))
        (Wallet_Currency x) now \<and> x' = wallet_of L r \<and>
      w' = (next_tick w)\<lparr>work := Some (d\<lparr>wallets := wallets d @ [r]\<rparr>, now)\<rparr>)"
  using assms
  by (auto simp: walletRepo_Create_def succ CreateWallet_def Let_def wallet_entry_def cents_def
      decimalToNumeric_value)

lemma quiet_register_statements: "steps quiet (register_statements L email hash)"
  unfolding register_statements_def userRepo_Create_def walletRepo_Create_def
  by (intro quiet_intros quiet_generators)

text \<open>The whole effect of a registration.\<close>

definition register_effect ::
  "UserRole \<Rightarrow> string \<Rightarrow> string \<Rightarrow> uuid \<Rightarrow> string \<Rightarrow> time \<Rightarrow> db \<Rightarrow> db \<Rightarrow> bool" where
  "register_effect role email hash u wallet now d d' \<longleftrightarrow>
     u \<notin> ur_id ` set (users d) \<and> email \<notin> ur_email ` set (users d) \<and>
     wallet \<notin> wr_id ` set (wallets d) \<and> u \<notin> wr_user_id ` set (wallets d) \<and>
     d' = d\<lparr>users := users d @ [user_entry u email hash role now],
            wallets := wallets d @ [wallet_entry wallet u 0 ''IDR'' now]\<rparr>"

text \<open>
  A user and a wallet, as the registration and the seed command insert them; the two differ in the
  role and in the texts around their errors.
\<close>

definition account_statements :: "'d lib \<Rightarrow> UserRole \<Rightarrow> string \<Rightarrow> string \<Rightarrow> (User \<times> string) go" where
  "account_statements L role email hash =
     bindE (userRepo_Create Tx email hash role) (\<lambda>user.
     bindE GenerateWalletID (\<lambda>walletID.
     bindE time_Now (\<lambda>t1.
     bindE time_Now (\<lambda>t2.
     bindE (walletRepo_Create L Tx
       \<lparr>Wallet_ID = walletID, Wallet_UserID = User_ID user, Wallet_Balance = Decimal_Zero L,
        Wallet_Currency = ''IDR'', Wallet_CreatedAt = t1, Wallet_UpdatedAt = t2\<rparr>) (\<lambda>_.
     returnE (user, walletID))))))"

lemma register_statements_Inr:
  "register_statements L email hash w = (Inr x, w') \<longleftrightarrow>
     account_statements L UserRoleUser email hash w = (Inr x, w')"
  by (simp add: register_statements_def account_statements_def succ)

lemma account_statements_post:
  assumes work: "work w = Some (d, now)" and laws: "decimal_laws L v"
    and run: "account_statements L role email hash w = (Inr (user, wallet), w')"
  shows "\<exists>d'. work w' = Some (d', now) \<and>
    user = user_of (user_entry (User_ID user) email hash role now) \<and>
    register_effect role email hash (User_ID user) wallet now d d' \<and>
    length wallet = 12 \<and> take 4 wallet = ''WLT-'' \<and> set (drop 4 wallet) \<subseteq> set charset"
proof -
  from run obtain w1 w2 x where
    user: "userRepo_Create Tx email hash role w = (Inr user, w1)" and
    wid: "GenerateWalletID w1 = (Inr wallet, w2)" and
    create: "walletRepo_Create L Tx
       \<lparr>Wallet_ID = wallet, Wallet_UserID = User_ID user, Wallet_Balance = Decimal_Zero L,
        Wallet_Currency = ''IDR'', Wallet_CreatedAt = clock (env w2) (tick w2),
        Wallet_UpdatedAt = clock (env w2) (Suc (tick w2))\<rparr>
       (next_tick (next_tick w2)) = (Inr x, w')"
    by (auto simp: account_statements_def succ)
  obtain u where u: "u \<notin> ur_id ` set (users d)" "email \<notin> ur_email ` set (users d)"
    "user = user_of (user_entry u email hash role now)"
    "work w1 = Some (d\<lparr>users := users d @ [user_entry u email hash role now]\<rparr>, now)"
    using user by (auto simp: userRepo_Create_Tx [OF work])
  have id: "User_ID user = u" using u(3) by (simp add: user_entry_def)
  have w2: "work (next_tick (next_tick w2))
      = Some (d\<lparr>users := users d @ [user_entry u email hash role now]\<rparr>, now)"
    using work_generators(1) [OF wid] u(4) by simp
  have zero: "cents v (Decimal_Zero L) = 0"
    using round_half_away_of_int [of 0] laws by (simp add: cents_def decimal_laws_simps)
  show ?thesis
    using create u id GenerateWalletID_shape [OF wid]
    by (auto simp: walletRepo_Create_Tx [OF w2 laws] zero register_effect_def)
qed

section \<open>Outcomes\<close>

definition register_event :: "'d lib \<Rightarrow> uuid \<Rightarrow> string \<Rightarrow> spawn" where
  "register_event L u wallet =
     \<lparr>spawn_EventType = ''REGISTER'', spawn_UserID = UUID_String L u,
      spawn_Data = JObj [(''wallet_id'', JStr wallet)]\<rparr>"

definition register_response :: "uuid \<Rightarrow> string \<Rightarrow> string \<Rightarrow> time \<Rightarrow> RegisterResponse" where
  "register_response u email wallet now =
     \<lparr>RegisterResponse_UserID = u, RegisterResponse_Email = email,
      RegisterResponse_WalletID = wallet, RegisterResponse_CreatedAt = now\<rparr>"

definition hash_of :: "'d lib \<Rightarrow> string \<Rightarrow> string \<Rightarrow> bool" where
  "hash_of L password hash \<longleftrightarrow> (\<exists>salt. Bcrypt_Generate L salt password = Some hash)"

lemma HashPassword_state: "snd (HashPassword L p w) = next_tick w"
  by (simp add: HashPassword_def split: option.splits)

lemma HashPassword_Inr [succ]: "HashPassword L p w = (Inr h, w') \<Longrightarrow> hash_of L p h"
  by (auto simp: HashPassword_def hash_of_def split: option.splits)

lemma hashed_cases:
  assumes "bindE (wrapE g (HashPassword L p)) f w = (r, w')"
  obtains (fails) e where "r = Inl e" "w' = next_tick w"
  | (hashed) hash where "hash_of L p hash" "f hash (next_tick w) = (r, w')"
  using assms that
  by (auto simp: HashPassword_def hash_of_def bindE_def wrapE_def split: option.splits)

text \<open>
  The transaction that inserts an account, whatever follows its commit. \<open>same_accounts\<close>: the
  database and the goroutines are as before.
\<close>

definition same_accounts :: "world \<Rightarrow> world \<Rightarrow> bool" where
  "same_accounts w w' \<longleftrightarrow> committed w' = committed w \<and> spawned w' = spawned w"

definition account_inserted ::
  "UserRole \<Rightarrow> string \<Rightarrow> string \<Rightarrow> uuid \<Rightarrow> string \<Rightarrow> time \<Rightarrow> db \<Rightarrow> db \<Rightarrow> bool" where
  "account_inserted role email hash u wallet now d d' \<longleftrightarrow>
     register_effect role email hash u wallet now d d' \<and>
     length wallet = 12 \<and> take 4 wallet = ''WLT-'' \<and> set (drop 4 wallet) \<subseteq> set charset"

lemma account_transaction:
  assumes run: "bindE (wrapE (Wrap m1) tx_Begin) (\<lambda>_. deferE tx_Rollback (bindE body (\<lambda>x.
      bindE (wrapE (Wrap m2) tx_Commit) (\<lambda>_. k x)))) w = (res, w')"
    and quiet: "steps quiet body"
    and k: "\<And>x s. k x s = (Inr (f x), s\<lparr>spawned := spawned s @ g x\<rparr>)"
    and body: "\<And>x s s'. body s = (Inr x, s') \<longleftrightarrow> account_statements L role email hash s = (Inr x, s')"
    and laws: "decimal_laws L v"
  obtains (rejected) e where "res = Inl e" "same_accounts w w'"
  | (lost) u wallet now where
      "account_inserted role email hash u wallet now (committed w) (committed w')"
      "res = Inl (Wrap m2 (SQL ConnFailed))" "spawned w' = spawned w"
  | (inserted) u wallet now where
      "account_inserted role email hash u wallet now (committed w) (committed w')"
      "res = Inr (f (user_of (user_entry u email hash role now), wallet))"
      "spawned w' = spawned w @ g (user_of (user_entry u email hash role now), wallet)"
proof -
  have post: "\<exists>d'. work u = Some (d', now) \<and> fst x = user_of (user_entry (User_ID (fst x)) email hash role now) \<and>
      account_inserted role email hash (User_ID (fst x)) (snd x) now d d'"
    if "work s = Some (d, now)" "body s = (Inr x, u)" for s d now x u
    using account_statements_post [OF that(1) laws, of role email hash "fst x" "snd x" u] that(2) [unfolded body]
    by (auto simp: account_inserted_def)
  show thesis
  proof (cases rule: transaction_outcome [OF run quiet k, case_names stays answer_lost commits])
    case stays
    then show thesis using rejected by (simp add: quiet_def same_accounts_def)
  next
    case (answer_lost x u d now)
    then show thesis using post [OF _ answer_lost(1)] lost by auto
  next
    case (commits x u d now)
    then show thesis
      using post [OF _ commits(1)] inserted [of "User_ID (fst x)" "snd x" "clock (env w) (tick w)"] by auto
  qed
qed

text \<open>After the commit of a registration: the goroutine that publishes, and the response.\<close>

lemma register_answer_run:
  "(case x of (user, wallet) \<Rightarrow>
      bindE (go_publish ''REGISTER'' (UUID_String L (User_ID user)) (JObj [(''wallet_id'', JStr wallet)])) (\<lambda>_.
      returnE (register_response (User_ID user) (User_Email user) wallet (User_CreatedAt user)))) s =
   (Inr (register_response (User_ID (fst x)) (User_Email (fst x)) (snd x) (User_CreatedAt (fst x))),
    s\<lparr>spawned := spawned s @ [register_event L (User_ID (fst x)) (snd x)]\<rparr>)"
  by (simp add: case_prod_unfold publish_return register_event_def)

lemma Register_cases:
  assumes run: "Register L req w = (res, w')" and laws: "decimal_laws L v"
  obtains (rejected) e where "res = Inl e" "committed w' = committed w" "spawned w' = spawned w"
  | (lost) u wallet hash now where
      "register_effect UserRoleUser (RegisterRequest_Email req) hash u wallet now (committed w) (committed w')"
      "hash_of L (RegisterRequest_Password req) hash"
      "length wallet = 12 \<and> take 4 wallet = ''WLT-'' \<and> set (drop 4 wallet) \<subseteq> set charset"
      "res = Inl (Wrap ''failed to commit transaction'' (SQL ConnFailed))" "spawned w' = spawned w"
  | (completed) u wallet hash now where
      "register_effect UserRoleUser (RegisterRequest_Email req) hash u wallet now (committed w) (committed w')"
      "hash_of L (RegisterRequest_Password req) hash"
      "length wallet = 12 \<and> take 4 wallet = ''WLT-'' \<and> set (drop 4 wallet) \<subseteq> set charset"
      "res = Inr (register_response u (RegisterRequest_Email req) wallet now)"
      "spawned w' = spawned w @ [register_event L u wallet]"
  using run unfolding Register_def
proof (cases rule: user_by_email.find_bind_cases)
  case fails
  then show thesis using rejected by simp
next
  let ?e = "RegisterRequest_Email req" and ?p = "RegisterRequest_Password req"
  case goes_on
  show thesis
  proof (cases "user_with_email (committed w) ?e")
    case (Some r)
    then show thesis using goes_on rejected [of ErrEmailConflict] by (auto simp: throwE_def)
  next
    case None
    from goes_on(1) [unfolded None option.map simp_thms if_False] show thesis
    proof (cases rule: hashed_cases)
      case fails
      then show thesis using rejected by simp
    next
      case (hashed hash)
      note tx = hashed(2) [folded register_response_def, unfolded case_prod_unfold]
      show thesis
      proof (cases rule: account_transaction [OF tx quiet_register_statements
            register_answer_run [unfolded case_prod_unfold] register_statements_Inr laws,
            case_names rejected answer_lost inserted])
        case rejected
        then show thesis using that(1) by (simp add: same_accounts_def)
      next
        case (answer_lost u wallet now)
        then show thesis using lost [OF _ hashed(1), of u wallet now] by (simp add: account_inserted_def)
      next
        case (inserted u wallet now)
        then show thesis using completed [OF _ hashed(1), of u wallet now]
          by (simp add: account_inserted_def user_entry_def)
      qed
    qed
  qed
qed

end
