(* ===== verification/Broker.thy ===== *)
theory Broker
  imports World
begin

text \<open>
  \<open>internal/utils/rabbitmq.go\<close>, \<open>DeclareExchangeAndQueues\<close> of
  \<open>internal/config/rabbitmq.go\<close>: the connection that reconnects, and publishing through it.
  The broker is a service, so its environment says which interaction with it fails, which
  published frame gets lost on the way, which connection has closed meanwhile and which routing key a binding pattern covers; the state
  holds the connection, the channel and what the broker keeps: declared exchanges, queues with
  their messages, and bindings.
\<close>

section \<open>State\<close>

record message =
  msg_RoutingKey :: string
  msg_Body :: "json option"  \<comment> \<open>\<open>None\<close>: not a JSON text\<close>

record amqp_env =
  answers :: "nat \<Rightarrow> fault"
  closes :: "nat \<Rightarrow> bool"
  drops :: "nat \<Rightarrow> bool"  \<comment> \<open>a frame that was written never reaches the broker\<close>
  covers :: "string \<Rightarrow> string \<Rightarrow> bool"

record SafeChannel =
  amqp :: amqp_env
  amqp_tick :: nat
  conn_ptr :: "nat option"
  ch_ptr :: "nat option"
  connClose :: "nat option"
  chClose :: "nat option"
  exchanges :: "string list"
  queue :: "string \<Rightarrow> message list option"
  bindings :: "(string \<times> string \<times> string) list"  \<comment> \<open>queue, pattern, exchange\<close>

type_synonym 'a amqp_op = "(SafeChannel, error, 'a) prog"

definition NewSafeChannel :: "amqp_env \<Rightarrow> SafeChannel" where
  "NewSafeChannel e =
     \<lparr>amqp = e, amqp_tick = 0, conn_ptr = None, ch_ptr = None, connClose = None, chClose = None,
      exchanges = [], queue = (\<lambda>_. None), bindings = []\<rparr>"

section \<open>Interactions with the broker\<close>

definition next_amqp :: "SafeChannel \<Rightarrow> SafeChannel" where
  "next_amqp s = s\<lparr>amqp_tick := Suc (amqp_tick s)\<rparr>"

definition getS :: "(SafeChannel \<Rightarrow> 'a) \<Rightarrow> 'a amqp_op" where
  "getS f s = (Inr (f s), s)"

definition modifyS :: "(SafeChannel \<Rightarrow> SafeChannel) \<Rightarrow> unit amqp_op" where
  "modifyS f s = (Inr (), f s)"

text \<open>A non-blocking receive on a close notification, and \<open>conn.IsClosed()\<close>.\<close>

definition has_closed :: "bool amqp_op" where
  "has_closed s = (Inr (closes (amqp s) (amqp_tick s)), next_amqp s)"

text \<open>A request to the broker with the effect \<open>f\<close> there; a lost answer leaves the effect.\<close>

definition request :: "(SafeChannel \<Rightarrow> SafeChannel) \<Rightarrow> unit amqp_op" where
  "request f s =
     (case answers (amqp s) (amqp_tick s) of
        NoFault \<Rightarrow> (Inr (), f (next_amqp s))
      | Refused \<Rightarrow> (Inl (Failed ''amqp''), next_amqp s)
      | Lost \<Rightarrow> (Inl (Failed ''amqp''), f (next_amqp s)))"

text \<open>
  Publishing without confirms waits for no answer: it returns as soon as the frame is written, and
  an error of writing it does not tell whether the broker has it. A frame that was written may
  still be lost on the way, without an error to anybody.
\<close>

definition write_frame :: "(SafeChannel \<Rightarrow> SafeChannel) \<Rightarrow> unit amqp_op" where
  "write_frame f s =
     (case answers (amqp s) (amqp_tick s) of
        NoFault \<Rightarrow> (Inr (), if drops (amqp s) (amqp_tick s) then next_amqp s else f (next_amqp s))
      | Refused \<Rightarrow> (Inl (Failed ''amqp''), next_amqp s)
      | Lost \<Rightarrow> (Inl (Failed ''amqp''), f (next_amqp s)))"

definition open_handle :: "nat amqp_op" where
  "open_handle s =
     (case answers (amqp s) (amqp_tick s) of
        NoFault \<Rightarrow> (Inr (amqp_tick s), next_amqp s)
      | _ \<Rightarrow> (Inl (Failed ''amqp''), next_amqp s))"

section \<open>The topology\<close>

definition queue_names :: "string list" where
  "queue_names = [''notification_queue'', ''audit_queue'', ''analytics_queue'']"

definition declare_queue :: "string \<Rightarrow> SafeChannel \<Rightarrow> SafeChannel" where
  "declare_queue q s = (if queue s q = None then s\<lparr>queue := (queue s)(q \<mapsto> [])\<rparr> else s)"

fun declare_queues :: "string list \<Rightarrow> unit amqp_op" where
  "declare_queues [] = returnE ()"
| "declare_queues (q # qs) =
     bindE (wrapE (Wrap (''failed to declare queue '' @ q)) (request (declare_queue q))) (\<lambda>_.
     bindE (wrapE (Wrap (''failed to bind queue '' @ q)) (request (\<lambda>s. s\<lparr>bindings :=
       List.insert (q, ''wallet.event.#'', ''wallet_events'') (bindings s)\<rparr>))) (\<lambda>_.
     declare_queues qs))"

definition DeclareExchangeAndQueues :: "unit amqp_op" where
  "DeclareExchangeAndQueues =
     bindE (wrapE (Wrap ''failed to declare exchange'') (request (\<lambda>s. s\<lparr>exchanges :=
       List.insert ''wallet_events'' (exchanges s)\<rparr>))) (\<lambda>_.
     declare_queues queue_names)"

section \<open>Connecting\<close>

text \<open>A pointer whose close notification has arrived is dropped.\<close>

definition drop_closed :: "(SafeChannel \<Rightarrow> nat option) \<Rightarrow> (SafeChannel \<Rightarrow> SafeChannel) \<Rightarrow> unit amqp_op" where
  "drop_closed notification clear =
     bindE (getS notification) (\<lambda>n.
     bindE (if n \<noteq> None then has_closed else returnE False) (\<lambda>fired.
     modifyS (\<lambda>s. if fired then clear s else s)))"

definition reconnect :: "unit amqp_op" where
  "reconnect =
     bindE (getS conn_ptr) (\<lambda>conn.
     bindE (if conn = None then returnE True else has_closed) (\<lambda>down.
     if \<not> down then returnE () else
     bindE (modifyS (\<lambda>s. s\<lparr>ch_ptr := None, conn_ptr := None\<rparr>)) (\<lambda>_.
     bindE (wrapE (Wrap ''failed to connect to rabbitmq'') open_handle) (\<lambda>conn.
     modifyS (\<lambda>s. s\<lparr>conn_ptr := Some conn, connClose := Some conn\<rparr>)))))"

definition reopen :: "unit amqp_op" where
  "reopen =
     bindE (getS ch_ptr) (\<lambda>ch.
     if ch \<noteq> None then returnE () else
     bindE (getS conn_ptr) (\<lambda>conn.
     bindE (if conn = None then throwE (Panic ''nil connection'')
            else wrapE (Wrap ''failed to open channel'') open_handle) (\<lambda>ch.
     bindE (wrapE (Wrap ''failed to declare exchange/queues'') DeclareExchangeAndQueues) (\<lambda>_.
     modifyS (\<lambda>s. s\<lparr>ch_ptr := Some ch, chClose := Some ch\<rparr>)))))"

definition ensureConnectedLocked :: "unit amqp_op" where
  "ensureConnectedLocked =
     bindE (drop_closed connClose (\<lambda>s. s\<lparr>conn_ptr := None\<rparr>)) (\<lambda>_.
     bindE (drop_closed chClose (\<lambda>s. s\<lparr>ch_ptr := None\<rparr>)) (\<lambda>_.
     bindE reconnect (\<lambda>_. reopen)))"

definition EnsureConnected :: "unit amqp_op" where
  "EnsureConnected = ensureConnectedLocked"

section \<open>Publishing\<close>

text \<open>The broker puts the message in every queue a binding of the exchange covers.\<close>

definition routed :: "SafeChannel \<Rightarrow> string \<Rightarrow> string \<Rightarrow> string \<Rightarrow> bool" where
  "routed s exchange key q \<longleftrightarrow>
     (\<exists>(q', pattern, ex) \<in> set (bindings s). q' = q \<and> ex = exchange \<and> covers (amqp s) pattern key)"

definition enqueue :: "string \<Rightarrow> string \<Rightarrow> json option \<Rightarrow> SafeChannel \<Rightarrow> SafeChannel" where
  "enqueue exchange key body s =
     s\<lparr>queue := (\<lambda>q. case queue s q of None \<Rightarrow> None
         | Some ms \<Rightarrow> Some (if routed s exchange key q
             then ms @ [\<lparr>msg_RoutingKey = key, msg_Body = body\<rparr>] else ms))\<rparr>"

definition ch_Publish :: "string \<Rightarrow> string \<Rightarrow> json option \<Rightarrow> unit amqp_op" where
  "ch_Publish exchange key body =
     bindE (getS ch_ptr) (\<lambda>ch.
     if ch = None then throwE (Panic ''nil channel'') else write_frame (enqueue exchange key body))"

text \<open>A wrapped panic is still a panic.\<close>

fun panics :: "error \<Rightarrow> bool" where
  "panics (Panic m) = True"
| "panics (Wrap m e) = panics e"
| "panics e = False"

text \<open>The second attempt, after the first has failed: on a new channel.\<close>

definition publish_retry :: "string \<Rightarrow> string \<Rightarrow> json option \<Rightarrow> unit amqp_op" where
  "publish_retry exchange key body =
     bindE (modifyS (\<lambda>s. s\<lparr>ch_ptr := None\<rparr>)) (\<lambda>_.
     bindE (wrapE (Wrap ''retry publish failed, unable to reconnect'') ensureConnectedLocked) (\<lambda>_.
     wrapE (Wrap ''failed to publish after reconnect'') (ch_Publish exchange key body)))"

definition PublishWithContext :: "string \<Rightarrow> string \<Rightarrow> json option \<Rightarrow> unit amqp_op" where
  "PublishWithContext exchange key body =
     bindE (wrapE (Wrap ''publish failed, unable to connect'') ensureConnectedLocked) (\<lambda>_.
     tryE (ch_Publish exchange key body) (\<lambda>r. case r of
       Inr _ \<Rightarrow> returnE ()
     | Inl e \<Rightarrow> if panics e then throwE e else publish_retry exchange key body))"

definition NewChannel :: "nat amqp_op" where
  "NewChannel =
     bindE ensureConnectedLocked (\<lambda>_.
     bindE (getS conn_ptr) (\<lambda>conn.
     if conn = None then throwE (Panic ''nil connection'')
     else wrapE (Wrap ''failed to open new channel'') open_handle))"

definition Channel :: "bool \<Rightarrow> nat option amqp_op" where
  "Channel nil_receiver = (if nil_receiver then returnE None else getS ch_ptr)"

definition NewRabbitMQConnection :: "(nat \<times> nat) amqp_op" where
  "NewRabbitMQConnection =
     bindE (wrapE (Wrap ''failed to connect to rabbitmq'') open_handle) (\<lambda>conn.
     bindE (wrapE (Wrap ''failed to open a channel'') open_handle) (\<lambda>ch.
     bindE (wrapE (Wrap ''failed to declare exchanges and queues'') DeclareExchangeAndQueues) (\<lambda>_.
     returnE (conn, ch))))"

definition Close :: "unit amqp_op" where
  "Close = modifyS (\<lambda>s. s\<lparr>ch_ptr := None, conn_ptr := None\<rparr>)"

section \<open>What connecting keeps\<close>

text \<open>
  Connecting never touches a message: queues and bindings are only added, and a channel pointer
  that was there is kept or dropped.
\<close>

definition contents :: "SafeChannel \<Rightarrow> string \<Rightarrow> message list" where
  "contents s q = (case queue s q of None \<Rightarrow> [] | Some ms \<Rightarrow> ms)"

definition topology_grows :: "SafeChannel \<Rightarrow> SafeChannel \<Rightarrow> bool" where
  "topology_grows s s' \<longleftrightarrow> amqp s' = amqp s \<and> set (bindings s) \<subseteq> set (bindings s') \<and>
     (\<forall>q. contents s' q = contents s q) \<and> (\<forall>q. queue s q \<noteq> None \<longrightarrow> queue s' q \<noteq> None) \<and>
     (ch_ptr s' = None \<or> ch_ptr s' = ch_ptr s)"

text \<open>An open channel has all queues declared and bound.\<close>

definition bound :: "SafeChannel \<Rightarrow> string \<Rightarrow> bool" where
  "bound s q \<longleftrightarrow> queue s q \<noteq> None \<and> (q, ''wallet.event.#'', ''wallet_events'') \<in> set (bindings s)"

definition channel_ok :: "SafeChannel \<Rightarrow> bool" where
  "channel_ok s \<longleftrightarrow> (ch_ptr s \<noteq> None \<longrightarrow> (\<forall>q \<in> set queue_names. bound s q))"

lemma bound_grows: "topology_grows s s' \<Longrightarrow> bound s q \<Longrightarrow> bound s' q"
  by (auto simp: topology_grows_def bound_def)

lemma channel_ok_grows: "topology_grows s s' \<Longrightarrow> channel_ok s \<Longrightarrow> channel_ok s'"
  using bound_grows [of s s'] unfolding channel_ok_def by (metis topology_grows_def)

interpretation topology: step_order topology_grows
  by unfold_locales (auto simp: topology_grows_def)

lemma topology_basic:
  "steps topology_grows (getS f)" "steps topology_grows has_closed" "steps topology_grows open_handle"
  by (auto simp: steps_def getS_def has_closed_def open_handle_def next_amqp_def topology_grows_def
      contents_def split: fault.splits)

lemma topology_modifyS: "(\<And>s. topology_grows s (f s)) \<Longrightarrow> steps topology_grows (modifyS f)"
  by (simp add: steps_def modifyS_def)

lemma topology_request:
  assumes "\<And>s. topology_grows s (f s)"
  shows "steps topology_grows (request f)"
proof -
  have next_grows: "topology_grows s (next_amqp s)" for s
    by (simp add: next_amqp_def topology_grows_def contents_def)
  have "topology_grows s (f (next_amqp s))" for s
    by (rule topology.R_trans [OF next_grows assms])
  then show ?thesis using next_grows by (simp add: steps_def request_def split: fault.splits)
qed

lemma topology_declare: "topology_grows s (declare_queue q s)"
  by (auto simp: declare_queue_def topology_grows_def contents_def)

lemma topology_bind: "topology_grows s (s\<lparr>bindings := List.insert b (bindings s)\<rparr>)"
  "topology_grows s (s\<lparr>exchanges := x\<rparr>)"
  by (auto simp: topology_grows_def contents_def)

lemma topology_declare_queues: "steps topology_grows (declare_queues qs)"
  by (induction qs) (simp_all only: declare_queues.simps,
      (intro topology.steps_intros topology_request topology_declare topology_bind | assumption)+)

lemma topology_connecting:
  "steps topology_grows (drop_closed connClose (\<lambda>s. s\<lparr>conn_ptr := None\<rparr>))"
  "steps topology_grows (drop_closed chClose (\<lambda>s. s\<lparr>ch_ptr := None\<rparr>))"
  "steps topology_grows reconnect" "steps topology_grows DeclareExchangeAndQueues"
  unfolding drop_closed_def reconnect_def DeclareExchangeAndQueues_def
  by ((intro topology.steps_intros topology_basic topology_modifyS topology_request topology_bind
      topology_declare_queues; simp add: topology_grows_def contents_def))+

section \<open>What connecting establishes\<close>

lemma request_Inr [succ]:
  "request f s = (Inr x, s') \<longleftrightarrow> answers (amqp s) (amqp_tick s) = NoFault \<and> s' = f (next_amqp s)"
  by (auto simp: request_def split: fault.splits)

lemma request_Inl [fails]:
  "request f s = (Inl e, s') \<longleftrightarrow> e = Failed ''amqp'' \<and> (answers (amqp s) (amqp_tick s) = Refused \<and>
     s' = next_amqp s \<or> answers (amqp s) (amqp_tick s) = Lost \<and> s' = f (next_amqp s))"
  by (auto simp: request_def split: fault.splits)

lemma basic_Inr [succ]:
  "getS f s = (Inr x, s') \<longleftrightarrow> x = f s \<and> s' = s"
  "modifyS g s = (Inr y, s') \<longleftrightarrow> s' = g s"
  "has_closed s = (Inr b, s') \<longleftrightarrow> b = closes (amqp s) (amqp_tick s) \<and> s' = next_amqp s"
  "open_handle s = (Inr n, s') \<longleftrightarrow> answers (amqp s) (amqp_tick s) = NoFault \<and> n = amqp_tick s \<and> s' = next_amqp s"
  by (auto simp: getS_def modifyS_def has_closed_def open_handle_def split: fault.splits)

lemma basic_Inl [fails]:
  "\<not> getS f s = (Inl e, s')" "\<not> modifyS g s = (Inl e, s')" "\<not> has_closed s = (Inl e, s')"
  "open_handle s = (Inl e, s') \<Longrightarrow> e = Failed ''amqp''"
  by (auto simp: getS_def modifyS_def has_closed_def open_handle_def split: fault.splits)

lemma next_amqp_simps [simp]:
  "amqp (next_amqp s) = amqp s" "conn_ptr (next_amqp s) = conn_ptr s" "ch_ptr (next_amqp s) = ch_ptr s"
  "queue (next_amqp s) = queue s" "bindings (next_amqp s) = bindings s"
  by (simp_all add: next_amqp_def)

lemma reconnect_Inr: "reconnect s = (Inr x, s') \<Longrightarrow> conn_ptr s' \<noteq> None"
  by (auto simp: reconnect_def succ split: if_splits) (drule arg_cong [where f = conn_ptr], simp)

lemma declare_queues_bound:
  "declare_queues qs s = (Inr x, s') \<Longrightarrow> q \<in> set qs \<Longrightarrow> bound s' q"
proof (induction qs arbitrary: s)
  case (Cons p qs)
  let ?t = "\<lambda>s. declare_queue p (next_amqp s)"
  let ?u = "\<lambda>s. (next_amqp (?t s))\<lparr>bindings := List.insert (p, ''wallet.event.#'', ''wallet_events'') (bindings (?t s))\<rparr>"
  from Cons.prems(1) have rest: "declare_queues qs (?u s) = (Inr x, s')"
    by (auto simp: succ)
  have "bound (?u s) p" by (auto simp: bound_def declare_queue_def)
  moreover have "topology_grows (?u s) s'" by (rule stepsD [OF topology_declare_queues rest])
  ultimately show ?case using Cons.IH [OF rest] Cons.prems(2) bound_grows by auto
qed simp

lemma Declare_bound: "DeclareExchangeAndQueues s = (Inr x, s') \<Longrightarrow> q \<in> set queue_names \<Longrightarrow> bound s' q"
  by (auto simp: DeclareExchangeAndQueues_def succ dest: declare_queues_bound)

lemma no_panic_declare: "declare_queues qs s = (Inl e, s') \<Longrightarrow> \<not> panics e"
  by (induction qs arbitrary: s) (auto simp: fails)

lemma no_panic_connecting:
  "drop_closed n f s = (Inl e, s') \<Longrightarrow> \<not> panics e"
  "reconnect s = (Inl e, s') \<Longrightarrow> \<not> panics e"
  "DeclareExchangeAndQueues s = (Inl e, s') \<Longrightarrow> \<not> panics e"
  by (auto simp: drop_closed_def reconnect_def DeclareExchangeAndQueues_def fails no_panic_declare
      dest!: basic_Inl(4) dest: no_panic_declare split: if_splits)

definition same_conn :: "SafeChannel \<Rightarrow> SafeChannel \<Rightarrow> bool" where
  "same_conn s s' \<longleftrightarrow> conn_ptr s' = conn_ptr s"

interpretation conn_order: step_order same_conn
  by unfold_locales (auto simp: same_conn_def)

lemma conn_request: "(\<And>s. conn_ptr (f s) = conn_ptr s) \<Longrightarrow> steps same_conn (request f)"
  by (simp add: steps_def request_def same_conn_def split: fault.splits)

lemma conn_declare_queues: "steps same_conn (declare_queues qs)"
proof (induction qs)
  case (Cons q qs)
  show ?case
    unfolding declare_queues.simps
    by (intro conn_order.steps_intros conn_request Cons) (simp_all add: declare_queue_def)
qed (simp add: conn_order.steps_returnE)

lemma conn_Declare:
  assumes "DeclareExchangeAndQueues s = (r, s')"
  shows "conn_ptr s' = conn_ptr s"
proof -
  have "steps same_conn DeclareExchangeAndQueues"
    unfolding DeclareExchangeAndQueues_def
    by (intro conn_order.steps_intros conn_request conn_declare_queues) simp
  then show ?thesis using assms by (metis same_conn_def steps_def snd_conv)
qed

text \<open>
  The contract of connecting: no message is touched; afterwards, unless there was an error, a
  channel is open with every queue declared and bound; and nothing nil is dereferenced.
\<close>

definition connected :: "SafeChannel \<Rightarrow> SafeChannel \<Rightarrow> bool" where
  "connected s s' \<longleftrightarrow> amqp s' = amqp s \<and> set (bindings s) \<subseteq> set (bindings s') \<and>
     (\<forall>q. contents s' q = contents s q) \<and> (\<forall>q. queue s q \<noteq> None \<longrightarrow> queue s' q \<noteq> None) \<and> channel_ok s'"

lemma connected_grows: "topology_grows s s' \<Longrightarrow> channel_ok s \<Longrightarrow> connected s s'"
  using channel_ok_grows by (auto simp: connected_def topology_grows_def)

lemma connected_trans: "connected s t \<Longrightarrow> connected t u \<Longrightarrow> connected s u"
  by (auto simp: connected_def)

lemma reopen_spec:
  assumes run: "reopen s = (r, s')" and ok: "channel_ok s" and conn: "conn_ptr s \<noteq> None"
  shows "connected s s' \<and> (case r of Inl e \<Rightarrow> \<not> panics e | Inr _ \<Rightarrow> ch_ptr s' \<noteq> None \<and> conn_ptr s' \<noteq> None)"
proof (cases "ch_ptr s")
  case (Some c)
  then show ?thesis
    using run ok conn by (auto simp: reopen_def bindE_def getS_def returnE_def connected_def)
next
  case None
  have grows: "topology_grows s (next_amqp s)"
    by (simp add: topology_grows_def contents_def)
  show ?thesis
  proof (cases "answers (amqp s) (amqp_tick s) = NoFault")
    case False
    then have "r = Inl (Wrap ''failed to open channel'' (Failed ''amqp''))" "s' = next_amqp s"
      using run None conn by (auto simp: reopen_def bindE_def getS_def wrapE_def open_handle_def split: fault.splits)
    then show ?thesis using connected_grows [OF grows ok] by simp
  next
    case True
    obtain d t where d: "DeclareExchangeAndQueues (next_amqp s) = (d, t)"
      by (cases "DeclareExchangeAndQueues (next_amqp s)")
    have t: "topology_grows s t"
      using topology.R_trans [OF grows stepsD [OF topology_connecting(4) d]] .
    have "reopen s = (case d of Inl e \<Rightarrow> (Inl (Wrap ''failed to declare exchange/queues'' e), t)
        | Inr _ \<Rightarrow> (Inr (), t\<lparr>ch_ptr := Some (amqp_tick s), chClose := Some (amqp_tick s)\<rparr>))"
      using None conn True d
      by (auto simp: reopen_def bindE_def getS_def wrapE_def open_handle_def modifyS_def split: sum.splits)
    then show ?thesis
      using run connected_grows [OF t ok] t conn conn_Declare [OF d] no_panic_connecting(3) Declare_bound d
      by (auto simp: connected_def channel_ok_def bound_def contents_def split: sum.splits)
  qed
qed

lemma ensureConnectedLocked_spec:
  assumes "ensureConnectedLocked s = (r, s')" and "channel_ok s"
  shows "connected s s' \<and> (case r of Inl e \<Rightarrow> \<not> panics e | Inr _ \<Rightarrow> ch_ptr s' \<noteq> None \<and> conn_ptr s' \<noteq> None)"
proof -
  let ?pre = "bindE (drop_closed connClose (\<lambda>s. s\<lparr>conn_ptr := None\<rparr>)) (\<lambda>_.
     bindE (drop_closed chClose (\<lambda>s. s\<lparr>ch_ptr := None\<rparr>)) (\<lambda>_. reconnect))"
  have assoc: "ensureConnectedLocked s = bindE ?pre (\<lambda>_. reopen) s"
    by (auto simp: ensureConnectedLocked_def bindE_def split: prod.splits sum.splits)
  obtain x t where pre: "?pre s = (x, t)" by (cases "?pre s")
  have "steps topology_grows ?pre"
    by (intro topology.steps_bindE topology_connecting)
  then have "topology_grows s t" using pre by (metis steps_def snd_conv)
  then have con: "connected s t" using assms(2) by (rule connected_grows)
  show ?thesis
  proof (cases x)
    case (Inl e)
    have "\<not> panics e"
      using pre [unfolded Inl] by (auto simp: fails dest: no_panic_connecting)
    moreover have "r = Inl e \<and> s' = t"
      using assms(1) bindE_stop [where m = ?pre and f = "\<lambda>_. reopen", OF pre [unfolded Inl]] by (simp add: assoc)
    ultimately show ?thesis using con by simp
  next
    case (Inr y)
    then have "conn_ptr t \<noteq> None"
      using pre by (auto simp: succ dest: reconnect_Inr)
    moreover have "reopen t = (r, s')"
      using assms(1) bindE_run [where m = ?pre and f = "\<lambda>_. reopen", OF pre [unfolded Inr]] by (simp add: assoc)
    ultimately show ?thesis
      using reopen_spec con connected_trans [OF con] by (auto simp: connected_def)
  qed
qed

section \<open>What publishing delivers\<close>

text \<open>\<open>received s s' k m\<close>: every declared queue has the message \<open>k\<close> more times, at its end.\<close>

definition received :: "SafeChannel \<Rightarrow> SafeChannel \<Rightarrow> nat \<Rightarrow> message \<Rightarrow> bool" where
  "received s s' k m \<longleftrightarrow> amqp s' = amqp s \<and> channel_ok s' \<and>
     (\<forall>q \<in> set queue_names. contents s' q = contents s q @ replicate k m)"

definition no_loss :: "SafeChannel \<Rightarrow> bool" where
  "no_loss s \<longleftrightarrow> (\<forall>n. answers (amqp s) n \<noteq> Lost)"

definition no_drop :: "SafeChannel \<Rightarrow> bool" where
  "no_drop s \<longleftrightarrow> (\<forall>n. \<not> drops (amqp s) n)"

lemma received_connected: "connected s t \<Longrightarrow> received t u k m \<Longrightarrow> received s u k m"
  by (simp add: connected_def received_def)

lemma connected_received: "received s t k m \<Longrightarrow> connected t u \<Longrightarrow> received s u k m"
  by (simp add: connected_def received_def)

lemma received_trans: "received s t j m \<Longrightarrow> received t u k m \<Longrightarrow> received s u (j + k) m"
  by (simp add: received_def replicate_add)

lemma connected_received_0: "connected s t \<Longrightarrow> received s t 0 m"
  by (simp add: connected_def received_def)

lemma ch_Publish_spec:
  assumes "ch_Publish ''wallet_events'' key body s = (r, s')" and ok: "channel_ok s" and ch: "ch_ptr s \<noteq> None"
    and key: "covers (amqp s) ''wallet.event.#'' key"
  shows "\<exists>k. received s s' k \<lparr>msg_RoutingKey = key, msg_Body = body\<rparr> \<and>
    (r = Inr () \<and> (k = 1 \<or> k = 0 \<and> \<not> no_drop s) \<or> r = Inl (Failed ''amqp'') \<and> (k = 0 \<or> k = 1 \<and> \<not> no_loss s))"
proof -
  let ?m = "\<lparr>msg_RoutingKey = key, msg_Body = body\<rparr>" and ?t = "next_amqp s"
  have one: "received s (enqueue ''wallet_events'' key body ?t) 1 ?m"
  proof -
    have "bound ?t q" if "q \<in> set queue_names" for q
      using that ok ch by (simp add: channel_ok_def bound_def)
    then have here: "queue ?t q \<noteq> None \<and> routed ?t ''wallet_events'' key q" if "q \<in> set queue_names" for q
      using that key unfolding bound_def routed_def by fastforce
    have "contents (enqueue ''wallet_events'' key body ?t) q = contents s q @ [?m]" if mem: "q \<in> set queue_names" for q
    proof -
      obtain ms where "queue s q = Some ms" using here [OF mem] by auto
      then show ?thesis using here [OF mem] by (simp add: enqueue_def contents_def)
    qed
    moreover have "bound (enqueue ''wallet_events'' key body ?t) q = bound s q" for q
      by (simp add: bound_def enqueue_def split: option.splits)
    ultimately show ?thesis
      using ok by (simp add: received_def channel_ok_def enqueue_def)
  qed
  have zero: "received s ?t 0 ?m"
    using ok by (auto simp: received_def contents_def channel_ok_def bound_def)
  show ?thesis
    using assms(1) ch one zero
    by (auto simp: ch_Publish_def bindE_def getS_def write_frame_def no_loss_def no_drop_def
        split: fault.splits if_splits)
qed

lemma connect_and_publish_spec:
  assumes x: "ensureConnectedLocked s = (Inr a, t)" and y: "ch_Publish ''wallet_events'' key body t = (r, s')"
    and ok: "channel_ok s" and key: "covers (amqp s) ''wallet.event.#'' key"
  shows "\<exists>k. received s s' k \<lparr>msg_RoutingKey = key, msg_Body = body\<rparr> \<and>
    (r = Inr () \<and> (k = 1 \<or> k = 0 \<and> \<not> no_drop s) \<or> r = Inl (Failed ''amqp'') \<and> (k = 0 \<or> k = 1 \<and> \<not> no_loss s))"
proof -
  note con = ensureConnectedLocked_spec [OF x ok]
  have "channel_ok t" "ch_ptr t \<noteq> None" "covers (amqp t) ''wallet.event.#'' key" "no_loss t = no_loss s"
    "no_drop t = no_drop s"
    using con key by (simp_all add: connected_def no_loss_def no_drop_def)
  with ch_Publish_spec [OF y this(1-3)] con show ?thesis
    using received_connected [of s t s'] by metis
qed

lemma publish_retry_spec:
  assumes run: "publish_retry ''wallet_events'' key body s = (r, s')" and ok: "channel_ok s"
    and key: "covers (amqp s) ''wallet.event.#'' key"
  shows "\<exists>k \<le> 1. received s s' k \<lparr>msg_RoutingKey = key, msg_Body = body\<rparr> \<and>
    (case r of Inr _ \<Rightarrow> no_drop s \<longrightarrow> k = 1 | Inl e \<Rightarrow> \<not> panics e \<and> (no_loss s \<longrightarrow> k = 0))"
proof -
  let ?s = "s\<lparr>ch_ptr := None\<rparr>" and ?m = "\<lparr>msg_RoutingKey = key, msg_Body = body\<rparr>"
  have ok': "channel_ok ?s" and con: "connected s ?s"
    using ok by (simp_all add: channel_ok_def connected_def contents_def)
  obtain x t where x: "ensureConnectedLocked ?s = (x, t)" by (cases "ensureConnectedLocked ?s")
  show ?thesis
  proof (cases x)
    case (Inl e)
    then have "r = Inl (Wrap ''retry publish failed, unable to reconnect'' e)" "s' = t"
      using run x by (auto simp: publish_retry_def bindE_def wrapE_def modifyS_def)
    then show ?thesis
      using ensureConnectedLocked_spec [OF x ok'] Inl connected_received_0 connected_trans [OF con]
      by (intro exI [of _ 0]) auto
  next
    case (Inr a)
    obtain g h where g: "ch_Publish ''wallet_events'' key body t = (g, h)"
      by (cases "ch_Publish ''wallet_events'' key body t")
    then have "r = (case g of Inl e \<Rightarrow> Inl (Wrap ''failed to publish after reconnect'' e) | Inr a \<Rightarrow> Inr a)" "s' = h"
      using run x Inr by (auto simp: publish_retry_def bindE_def wrapE_def modifyS_def split: sum.splits)
    moreover obtain k where k: "received ?s h k ?m"
        "g = Inr () \<and> (k = 1 \<or> k = 0 \<and> \<not> no_drop ?s) \<or> g = Inl (Failed ''amqp'') \<and> (k = 0 \<or> k = 1 \<and> \<not> no_loss ?s)"
      using connect_and_publish_spec [OF x [unfolded Inr] g ok'] key by auto
    moreover have "received s h k ?m" by (rule received_connected [OF con k(1)])
    moreover have "no_loss ?s = no_loss s" "no_drop ?s = no_drop s" by (simp_all add: no_loss_def no_drop_def)
    ultimately show ?thesis by (intro exI [of _ k]) auto
  qed
qed

lemma PublishWithContext_spec:
  assumes run: "PublishWithContext ''wallet_events'' key body s = (r, s')" and ok: "channel_ok s"
    and key: "covers (amqp s) ''wallet.event.#'' key"
  shows "\<exists>k \<le> 2. received s s' k \<lparr>msg_RoutingKey = key, msg_Body = body\<rparr> \<and>
    (case r of Inr _ \<Rightarrow> (no_drop s \<longrightarrow> 1 \<le> k) \<and> (no_loss s \<longrightarrow> k \<le> 1)
     | Inl e \<Rightarrow> \<not> panics e \<and> (no_loss s \<longrightarrow> k = 0))"
proof -
  let ?m = "\<lparr>msg_RoutingKey = key, msg_Body = body\<rparr>"
  obtain x t where x: "ensureConnectedLocked s = (x, t)" by (cases "ensureConnectedLocked s")
  note con = ensureConnectedLocked_spec [OF x ok]
  show ?thesis
  proof (cases x)
    case (Inl e)
    then have "r = Inl (Wrap ''publish failed, unable to connect'' e)" "s' = t"
      using run x by (auto simp: PublishWithContext_def bindE_def wrapE_def)
    then show ?thesis using con Inl connected_received_0 by (intro exI [of _ 0]) auto
  next
    case (Inr a)
    obtain y u where y: "ch_Publish ''wallet_events'' key body t = (y, u)"
      by (cases "ch_Publish ''wallet_events'' key body t")
    obtain k1 where k1: "received s u k1 ?m"
      "y = Inr () \<and> (k1 = 1 \<or> k1 = 0 \<and> \<not> no_drop s) \<or> y = Inl (Failed ''amqp'') \<and> (k1 = 0 \<or> k1 = 1 \<and> \<not> no_loss s)"
      using connect_and_publish_spec [OF x [unfolded Inr] y ok key] by blast
    show ?thesis
    proof (cases y)
      case (Inr _)
      then have "r = Inr ()" "s' = u"
        using run x \<open>x = _\<close> y by (auto simp: PublishWithContext_def bindE_def wrapE_def tryE_def returnE_def)
      then show ?thesis using k1 Inr by (intro exI [of _ k1]) auto
    next
      case (Inl e)
      then have "publish_retry ''wallet_events'' key body u = (r, s')"
        using run x \<open>x = _\<close> y k1(2) by (auto simp: PublishWithContext_def bindE_def wrapE_def tryE_def)
      moreover have u: "channel_ok u" "covers (amqp u) ''wallet.event.#'' key" "no_loss u = no_loss s" "no_drop u = no_drop s"
        using k1(1) key by (simp_all add: received_def no_loss_def no_drop_def)
      ultimately obtain k2 where k2: "k2 \<le> 1" "received u s' k2 ?m"
        "case r of Inr _ \<Rightarrow> no_drop u \<longrightarrow> k2 = 1 | Inl e \<Rightarrow> \<not> panics e \<and> (no_loss u \<longrightarrow> k2 = 0)"
        using publish_retry_spec by blast
      then show ?thesis
        using received_trans [OF k1(1)] k1(2) Inl u(3,4)
        by (intro exI [of _ "k1 + k2"]) (auto split: sum.splits)
    qed
  qed
qed

end
