(* ===== verification/Steady.thy ===== *)
theory Steady
  imports Broker
begin

section \<open>A broker that answers\<close>

text \<open>No interaction fails and no connection closes: then connecting succeeds.\<close>

definition steady :: "SafeChannel \<Rightarrow> bool" where
  "steady s \<longleftrightarrow> (\<forall>n. answers (amqp s) n = NoFault) \<and> (\<forall>n. \<not> closes (amqp s) n)"

definition steady_run :: "'a amqp_op \<Rightarrow> bool" where
  "steady_run m \<longleftrightarrow> (\<forall>s. steady s \<longrightarrow> (\<exists>x s'. m s = (Inr x, s') \<and> amqp s' = amqp s))"

lemma steady_runI: "(\<And>s. steady s \<Longrightarrow> \<exists>x s'. m s = (Inr x, s') \<and> amqp s' = amqp s) \<Longrightarrow> steady_run m"
  by (simp add: steady_run_def)

lemma steady_same: "amqp s' = amqp s \<Longrightarrow> steady s \<Longrightarrow> steady s'"
  by (simp add: steady_def)

lemma steady_bindE: "steady_run m \<Longrightarrow> (\<And>x. steady_run (f x)) \<Longrightarrow> steady_run (bindE m f)"
  unfolding steady_run_def by (metis bindE_run steady_same)

lemma steady_wrapE: "steady_run m \<Longrightarrow> steady_run (wrapE g m)"
  unfolding steady_run_def by (metis wrapE_run)

lemma steady_request: "(\<And>s. amqp (f s) = amqp s) \<Longrightarrow> steady_run (request f)"
  by (simp add: steady_run_def steady_def request_def)

lemma steady_basic: "steady_run (returnE x)" "steady_run (getS g)" "steady_run has_closed" "steady_run open_handle"
  "(\<And>s. amqp (f s) = amqp s) \<Longrightarrow> steady_run (modifyS f)"
  by (auto simp: steady_run_def steady_def returnE_def getS_def has_closed_def open_handle_def modifyS_def)

lemma steady_if: "(c \<Longrightarrow> steady_run m) \<Longrightarrow> (\<not> c \<Longrightarrow> steady_run n) \<Longrightarrow> steady_run (if c then m else n)"
  by simp

lemmas steady_intros = steady_bindE steady_wrapE steady_request steady_basic steady_if

lemma steady_declare: "steady_run (declare_queues qs)"
  by (induction qs) (auto intro!: steady_intros simp: declare_queue_def)

lemma steady_Declare: "steady_run DeclareExchangeAndQueues"
  unfolding DeclareExchangeAndQueues_def by (intro steady_intros steady_declare) simp

lemma steady_drop: "(\<And>s. amqp (f s) = amqp s) \<Longrightarrow> steady_run (drop_closed n f)"
  unfolding drop_closed_def by (intro steady_intros) auto

lemma steady_reconnect: "steady_run reconnect"
  unfolding reconnect_def by (intro steady_intros) auto

lemma bindE_getS: "bindE (getS f) g s = g (f s) s"
  by (simp add: bindE_def getS_def)

lemma steady_reopen:
  assumes "steady s" and "conn_ptr s \<noteq> None"
  shows "\<exists>x s'. reopen s = (Inr x, s') \<and> amqp s' = amqp s"
proof -
  have "steady_run (bindE (wrapE (Wrap ''failed to open channel'') open_handle) (\<lambda>ch.
     bindE (wrapE (Wrap ''failed to declare exchange/queues'') DeclareExchangeAndQueues) (\<lambda>_.
     modifyS (\<lambda>s. s\<lparr>ch_ptr := Some ch, chClose := Some ch\<rparr>))))"
    by (intro steady_intros steady_Declare) simp
  moreover obtain c where "conn_ptr s = Some c" using assms(2) by blast
  ultimately show ?thesis
    using assms(1) by (simp add: reopen_def bindE_getS steady_run_def returnE_def)
qed

lemma steady_connects:
  assumes "steady s"
  shows "\<exists>s'. ensureConnectedLocked s = (Inr (), s') \<and> steady s'"
proof -
  have "steady_run (bindE (drop_closed connClose (\<lambda>s. s\<lparr>conn_ptr := None\<rparr>)) (\<lambda>_.
      bindE (drop_closed chClose (\<lambda>s. s\<lparr>ch_ptr := None\<rparr>)) (\<lambda>_. reconnect)))" (is "steady_run ?m")
    by (intro steady_intros steady_drop steady_reconnect) simp_all
  then obtain t where t: "?m s = (Inr (), t)" "amqp t = amqp s"
    using assms by (auto simp: steady_run_def)
  then have "conn_ptr t \<noteq> None" by (auto simp: succ dest: reconnect_Inr)
  moreover have "steady t" using t(2) assms by (rule steady_same)
  ultimately obtain s' where "reopen t = (Inr (), s')" "amqp s' = amqp t" using steady_reopen by force
  moreover have "ensureConnectedLocked s = bindE ?m (\<lambda>_. reopen) s"
    by (simp add: ensureConnectedLocked_def bindE_def split: prod.splits sum.splits)
  ultimately show ?thesis using t(1) \<open>steady t\<close> steady_same by (auto simp: bindE_run [where m = ?m])
qed

text \<open>
  Then publishing succeeds too. That says nothing about the message: if the frames that are
  written get lost, no queue has it.
\<close>

lemma steady_publish:
  assumes "steady s" and "channel_ok s"
  shows "\<exists>s'. PublishWithContext exchange key body s = (Inr (), s') \<and>
    ((\<forall>n. drops (amqp s) n) \<longrightarrow> (\<forall>q. contents s' q = contents s q))"
proof -
  obtain t where t: "ensureConnectedLocked s = (Inr (), t)" "steady t" using steady_connects [OF assms(1)] by blast
  have con: "ch_ptr t \<noteq> None" "amqp t = amqp s" "\<forall>q. contents t q = contents s q"
    using ensureConnectedLocked_spec [OF t(1) assms(2)] by (auto simp: connected_def)
  then have "ch_Publish exchange key body t = (Inr (), if drops (amqp t) (amqp_tick t) then next_amqp t
      else enqueue exchange key body (next_amqp t))"
    using t(2) by (auto simp: ch_Publish_def bindE_def getS_def write_frame_def steady_def)
  moreover have "contents (next_amqp t) q = contents t q" for q by (simp add: contents_def)
  ultimately show ?thesis
    using con t(1) by (auto simp: PublishWithContext_def bindE_def wrapE_def tryE_def returnE_def)
qed

text \<open>The simplest such environment.\<close>

definition steady_amqp :: amqp_env where
  "steady_amqp = \<lparr>answers = (\<lambda>_. NoFault), closes = (\<lambda>_. False), drops = (\<lambda>_. False), covers = (\<lambda>_ _. True)\<rparr>"

lemma steady_amqp_ok:
  "steady (NewSafeChannel steady_amqp)" "channel_ok (NewSafeChannel steady_amqp)" "covers (amqp (NewSafeChannel steady_amqp)) p k"
  "no_loss (NewSafeChannel steady_amqp)" "no_drop (NewSafeChannel steady_amqp)"
  "contents (NewSafeChannel steady_amqp) q = []"
  by (simp_all add: steady_amqp_def NewSafeChannel_def steady_def channel_ok_def no_loss_def no_drop_def contents_def)

end
