(* ===== verification/Startup.thy ===== *)
theory Startup
  imports Configuration Steady
begin

text \<open>
  Start-up and shutdown: \<open>config.NewDatabasePool\<close>, \<open>config.RunMigrations\<close>,
  \<open>config.NewRedisClient\<close> and \<open>main\<close> of \<open>cmd/server/main.go\<close>. The state is the number of calls
  made to the outside, the channel to RabbitMQ and a trace of what was opened, closed and started;
  an environment says how each call ends.
\<close>

section \<open>Calls to the outside\<close>

datatype resource = DatabasePool | MigrationSource | RedisClient | RabbitMQ

datatype boot_event = Opened resource | Closed resource | Migrated | Started string
  | Listening string | HttpShutdown | WorkersCancelled

record boot =
  calls :: nat
  call_error :: "nat \<Rightarrow> error option"
  safe_channel :: SafeChannel
  trace :: "boot_event list"

type_synonym 'a boot_op = "(boot, error, 'a) prog"

definition external :: "boot_event list \<Rightarrow> unit boot_op" where
  "external evs s =
     (case call_error s (calls s) of
        None \<Rightarrow> (Inr (), s\<lparr>calls := Suc (calls s), trace := trace s @ evs\<rparr>)
      | Some e \<Rightarrow> (Inl e, s\<lparr>calls := Suc (calls s)\<rparr>))"

definition note_event :: "boot_event \<Rightarrow> boot \<Rightarrow> boot" where
  "note_event ev s = s\<lparr>trace := trace s @ [ev]\<rparr>"

definition happens :: "boot_event \<Rightarrow> unit boot_op" where
  "happens ev s = (Inr (), note_event ev s)"

definition on_channel :: "'a amqp_op \<Rightarrow> 'a boot_op" where
  "on_channel m s = (case m (safe_channel s) of (r, c) \<Rightarrow> (r, s\<lparr>safe_channel := c\<rparr>))"

text \<open>
  \<open>defer\<close> in a function that leaves errors by \<open>os.Exit\<close>: the deferred call only runs on a normal
  return.
\<close>

definition defer_unless_exit :: "('s \<Rightarrow> 's) \<Rightarrow> ('s, 'e, 'a) prog \<Rightarrow> ('s, 'e, 'a) prog" where
  "defer_unless_exit c m s = (case m s of (Inl e, t) \<Rightarrow> (Inl e, t) | (Inr x, t) \<Rightarrow> (Inr x, c t))"

section \<open>Connections\<close>

record pool_config =
  MaxConns :: nat
  MinConns :: nat
  MaxConnLifetime :: time
  MaxConnIdleTime :: time

definition NewDatabasePool :: "pool_config boot_op" where
  "NewDatabasePool =
     bindE (wrapE (Wrap ''unable to parse database url'') (external [])) (\<lambda>_.
     let cfg = \<lparr>MaxConns = 20, MinConns = 5, MaxConnLifetime = 1800000000, MaxConnIdleTime = 300000000\<rparr> in
     bindE (wrapE (Wrap ''unable to create connection pool'') (external [Opened DatabasePool])) (\<lambda>_.
     tryE (external []) (\<lambda>r. case r of
       Inl e \<Rightarrow> bindE (happens (Closed DatabasePool)) (\<lambda>_. throwE (Wrap ''unable to ping database'' e))
     | Inr _ \<Rightarrow> returnE cfg)))"

definition ErrNoChange :: error where
  "ErrNoChange = Failed ''no change''"

definition RunMigrations :: "unit boot_op" where
  "RunMigrations =
     bindE (wrapE (Wrap ''failed to initialize migration instance'') (external [Opened MigrationSource])) (\<lambda>_.
     deferE (note_event (Closed MigrationSource)) (
     tryE (external [Migrated]) (\<lambda>r. case r of
       Inl e \<Rightarrow> if \<not> errors_is e ErrNoChange then throwE (Wrap ''failed to run migrations'' e) else returnE ()
     | Inr _ \<Rightarrow> returnE ())))"

definition NewRedisClient :: "unit boot_op" where
  "NewRedisClient =
     bindE (wrapE (Wrap ''failed to parse redis url'') (external [])) (\<lambda>_.
     bindE (happens (Opened RedisClient)) (\<lambda>_.
     tryE (external []) (\<lambda>r. case r of
       Inl e \<Rightarrow> bindE (happens (Closed RedisClient)) (\<lambda>_. throwE (Wrap ''failed to connect to redis'' e))
     | Inr _ \<Rightarrow> returnE ())))"

section \<open>The server\<close>

text \<open>How serving ends: by a signal, or with an error of \<open>ListenAndServe\<close>.\<close>

datatype serving = Signalled | ServeFailed error

definition serve_until :: "serving \<Rightarrow> Config \<Rightarrow> unit boot_op" where
  "serve_until outcome cfg =
     bindE (happens (Listening ('':'' @ Config_ServerPort cfg))) (\<lambda>_.
     case outcome of
       ServeFailed e \<Rightarrow> throwE (Wrap ''Server failed'' e)
     | Signalled \<Rightarrow>
         tryE (external []) (\<lambda>_.
         bindE (happens HttpShutdown) (\<lambda>_.
         happens WorkersCancelled)))"

definition main :: "viper \<Rightarrow> serving \<Rightarrow> unit boot_op" where
  "main V outcome =
     (case Load V of
        Inl e \<Rightarrow> throwE (Wrap ''Failed to load config'' e)
      | Inr cfg \<Rightarrow>
          bindE (wrapE (Wrap ''Failed to initialize database pool'') NewDatabasePool) (\<lambda>pool.
          defer_unless_exit (note_event (Closed DatabasePool)) (
          bindE (wrapE (Wrap ''Failed to run migrations'') RunMigrations) (\<lambda>_.
          bindE (wrapE (Wrap ''Failed to initialize Redis client'') NewRedisClient) (\<lambda>_.
          defer_unless_exit (note_event (Closed RedisClient)) (
          bindE (wrapE (Wrap ''Failed to initialize RabbitMQ connection'') (on_channel EnsureConnected)) (\<lambda>_.
          bindE (happens (Opened RabbitMQ)) (\<lambda>_.
          defer_unless_exit (\<lambda>s. note_event (Closed RabbitMQ) (snd (on_channel Close s))) (
          bindE (happens (Started ''audit'')) (\<lambda>_.
          bindE (happens (Started ''notification'')) (\<lambda>_.
          bindE (happens (Started ''analytics'')) (\<lambda>_.
          serve_until outcome cfg))))))))))))"

section \<open>What the trace shows\<close>

definition startup_trace :: "bool \<Rightarrow> boot_event list" where
  "startup_trace migrated = [Opened DatabasePool, Opened MigrationSource] @ (if migrated then [Migrated] else []) @
     [Closed MigrationSource, Opened RedisClient, Opened RabbitMQ,
      Started ''audit'', Started ''notification'', Started ''analytics'']"

definition shutdown_trace :: "boot_event list" where
  "shutdown_trace = [HttpShutdown, WorkersCancelled, Closed RabbitMQ, Closed RedisClient, Closed DatabasePool]"

lemma happens_run [simp]: "happens ev s = (Inr (), note_event ev s)"
  by (simp add: happens_def)

lemma note_event_simps [simp]: "trace (note_event ev s) = trace s @ [ev]"
  "safe_channel (note_event ev s) = safe_channel s"
  by (simp_all add: note_event_def)

lemma external_cases:
  obtains (ok) t where "external evs s = (Inr (), t)" "trace t = trace s @ evs" "safe_channel t = safe_channel s"
  | (fails) e t where "external evs s = (Inl e, t)" "trace t = trace s" "safe_channel t = safe_channel s"
  by (cases "call_error s (calls s)") (auto simp: external_def)

lemma NewDatabasePool_trace:
  assumes "NewDatabasePool s = (r, t)"
  shows "case r of Inr cfg \<Rightarrow> MinConns cfg \<le> MaxConns cfg \<and> trace t = trace s @ [Opened DatabasePool]
    | Inl _ \<Rightarrow> trace t = trace s \<or> trace t = trace s @ [Opened DatabasePool, Closed DatabasePool]"
  using assms
  by (auto simp: NewDatabasePool_def bindE_def wrapE_def tryE_def throwE_def returnE_def external_def Let_def
      split: option.splits)

lemma RunMigrations_trace:
  assumes "RunMigrations s = (r, t)"
  shows "case r of Inr _ \<Rightarrow> \<exists>m. trace t = trace s @ Opened MigrationSource # m @ [Closed MigrationSource] \<and> m \<in> {[], [Migrated]}
    | Inl _ \<Rightarrow> trace t = trace s \<or> trace t = trace s @ [Opened MigrationSource, Closed MigrationSource]"
  using assms
  by (auto simp: RunMigrations_def bindE_def wrapE_def tryE_def deferE_def throwE_def returnE_def external_def
      split: option.splits if_splits)

lemma NewRedisClient_trace:
  assumes "NewRedisClient s = (r, t)"
  shows "case r of Inr _ \<Rightarrow> trace t = trace s @ [Opened RedisClient]
    | Inl _ \<Rightarrow> trace t = trace s \<or> trace t = trace s @ [Opened RedisClient, Closed RedisClient]"
  using assms
  by (auto simp: NewRedisClient_def bindE_def wrapE_def tryE_def throwE_def returnE_def external_def
      split: option.splits)

lemma serve_until_trace:
  assumes "serve_until outcome cfg s = (r, t)"
  shows "case outcome of
      Signalled \<Rightarrow> r = Inr () \<and> trace t = trace s @ [Listening ('':'' @ Config_ServerPort cfg), HttpShutdown, WorkersCancelled]
    | ServeFailed e \<Rightarrow> r = Inl (Wrap ''Server failed'' e) \<and> trace t = trace s @ [Listening ('':'' @ Config_ServerPort cfg)]"
  using assms
  by (auto simp: serve_until_def bindE_def tryE_def throwE_def external_def split: option.splits serving.splits)

lemma on_channel_trace: "on_channel m s = (r, t) \<Longrightarrow> trace t = trace s"
  by (auto simp: on_channel_def split: prod.splits)

lemma on_channel_Close: "on_channel Close s =
    (Inr (), s\<lparr>safe_channel := (safe_channel s)\<lparr>ch_ptr := None, conn_ptr := None\<rparr>\<rparr>)"
  by (simp add: on_channel_def Close_def modifyS_def)


lemma no_listening: "Listening p \<notin> set (startup_trace m)" "Listening p \<notin> set shutdown_trace"
  by (simp_all add: startup_trace_def shutdown_trace_def)

text \<open>The part of \<open>main\<close> after the database, and what it adds to the trace.\<close>

definition connected_main :: "serving \<Rightarrow> Config \<Rightarrow> unit boot_op" where
  "connected_main outcome cfg =
     bindE (wrapE (Wrap ''Failed to initialize RabbitMQ connection'') (on_channel EnsureConnected)) (\<lambda>_.
     bindE (happens (Opened RabbitMQ)) (\<lambda>_.
     defer_unless_exit (\<lambda>s. note_event (Closed RabbitMQ) (snd (on_channel Close s))) (
     bindE (happens (Started ''audit'')) (\<lambda>_.
     bindE (happens (Started ''notification'')) (\<lambda>_.
     bindE (happens (Started ''analytics'')) (\<lambda>_.
     serve_until outcome cfg))))))"

lemma connected_main_trace:
  assumes "connected_main outcome cfg s = (r, t)"
  obtains (unconnected) e where "r = Inl e" "trace t = trace s"
  | (failed) e where "r = Inl e" "trace t = trace s @ [Opened RabbitMQ, Started ''audit'', Started ''notification'',
      Started ''analytics'', Listening ('':'' @ Config_ServerPort cfg)]"
  | (stopped) "r = Inr ()" "outcome = Signalled" "trace t = trace s @ [Opened RabbitMQ, Started ''audit'', Started ''notification'',
      Started ''analytics'', Listening ('':'' @ Config_ServerPort cfg), HttpShutdown, WorkersCancelled, Closed RabbitMQ]"
      "conn_ptr (safe_channel t) = None" "ch_ptr (safe_channel t) = None"
proof (cases "on_channel EnsureConnected s")
  case (Pair x s1)
  note same = on_channel_trace [OF Pair]
  show thesis
  proof (cases x)
    case (Inl e)
    then show thesis using assms Pair same unconnected by (auto simp: connected_main_def bindE_def wrapE_def)
  next
    case (Inr u)
    let ?s = "note_event (Started ''analytics'') (note_event (Started ''notification'') (note_event (Started ''audit'')
      (note_event (Opened RabbitMQ) s1)))"
    obtain y s2 where run: "serve_until outcome cfg ?s = (y, s2)" by (cases "serve_until outcome cfg ?s")
    have "(r, t) = (case y of Inl e \<Rightarrow> (Inl e, s2)
        | Inr v \<Rightarrow> (Inr v, note_event (Closed RabbitMQ) (snd (on_channel Close s2))))"
      using assms Pair Inr run
      by (auto simp: connected_main_def bindE_def wrapE_def defer_unless_exit_def split: sum.splits)
    then show thesis
      using serve_until_trace [OF run] same failed stopped
      by (cases outcome) (auto simp: on_channel_Close)
  qed
qed

definition migrated_main :: "serving \<Rightarrow> Config \<Rightarrow> unit boot_op" where
  "migrated_main outcome cfg =
     bindE (wrapE (Wrap ''Failed to run migrations'') RunMigrations) (\<lambda>_.
     bindE (wrapE (Wrap ''Failed to initialize Redis client'') NewRedisClient) (\<lambda>_.
     defer_unless_exit (note_event (Closed RedisClient)) (connected_main outcome cfg)))"

lemma main_eq:
  "main V outcome =
     (case Load V of
        Inl e \<Rightarrow> throwE (Wrap ''Failed to load config'' e)
      | Inr cfg \<Rightarrow>
          bindE (wrapE (Wrap ''Failed to initialize database pool'') NewDatabasePool) (\<lambda>pool.
          defer_unless_exit (note_event (Closed DatabasePool)) (migrated_main outcome cfg)))"
  unfolding main_def migrated_main_def connected_main_def ..

text \<open>What \<open>migrated_main\<close> has added to the trace, the database pool aside.\<close>

definition outcome_trace :: "Config \<Rightarrow> serving \<Rightarrow> error + unit \<Rightarrow> boot_event list \<Rightarrow> bool" where
  "outcome_trace cfg outcome r evs \<longleftrightarrow> (\<exists>m.
     (case r of
        Inr _ \<Rightarrow> outcome = Signalled \<and>
          Opened DatabasePool # evs @ [Closed DatabasePool] = startup_trace m @ Listening ('':'' @ Config_ServerPort cfg) # shutdown_trace
      | Inl _ \<Rightarrow> (\<forall>p. Listening p \<notin> set evs) \<or>
          Opened DatabasePool # evs = startup_trace m @ [Listening ('':'' @ Config_ServerPort cfg)]))"

lemma migrated_main_trace:
  assumes "migrated_main outcome cfg s = (r, t)"
  shows "\<exists>evs. trace t = trace s @ evs \<and> outcome_trace cfg outcome r evs \<and>
    (r = Inr () \<longrightarrow> conn_ptr (safe_channel t) = None \<and> ch_ptr (safe_channel t) = None)"
proof -
  obtain x s1 where migrate: "RunMigrations s = (x, s1)" by (cases "RunMigrations s")
  show ?thesis
  proof (cases x)
    case (Inl e)
    then show ?thesis
      using assms migrate RunMigrations_trace [OF migrate]
      by (auto simp: migrated_main_def bindE_def wrapE_def outcome_trace_def)
  next
    case (Inr u)
    then obtain m where m: "trace s1 = trace s @ Opened MigrationSource # m @ [Closed MigrationSource]" "m \<in> {[], [Migrated]}"
      using RunMigrations_trace [OF migrate] by auto
    obtain y s2 where redis: "NewRedisClient s1 = (y, s2)" by (cases "NewRedisClient s1")
    show ?thesis
    proof (cases y)
      case (Inl e)
      then show ?thesis
        using assms migrate Inr redis NewRedisClient_trace [OF redis] m
        by (auto simp: migrated_main_def bindE_def wrapE_def outcome_trace_def)
    next
      case (Inr v)
      obtain z s3 where rest: "connected_main outcome cfg s2 = (z, s3)" by (cases "connected_main outcome cfg s2")
      have s2: "trace s2 = trace s @ Opened MigrationSource # m @ [Closed MigrationSource, Opened RedisClient]"
        using NewRedisClient_trace [OF redis] Inr m(1) by simp
      have res: "(r, t) = (case z of Inl e \<Rightarrow> (Inl e, s3) | Inr v \<Rightarrow> (Inr v, note_event (Closed RedisClient) s3))"
        using assms migrate \<open>x = Inr u\<close> redis Inr rest
        by (auto simp: migrated_main_def bindE_def wrapE_def defer_unless_exit_def split: sum.splits)
      from rest show ?thesis
      proof (cases rule: connected_main_trace)
        case unconnected
        then show ?thesis using res s2 m(2) by (auto simp: outcome_trace_def)
      next
        case failed
        then show ?thesis using res s2 m(2)
          by (auto simp: outcome_trace_def startup_trace_def intro: exI [of _ "m = [Migrated]"])
      next
        case stopped
        then show ?thesis using res s2 m(2)
          by (auto simp: outcome_trace_def startup_trace_def shutdown_trace_def intro: exI [of _ "m = [Migrated]"])
      qed
    qed
  qed
qed

section \<open>Healthy starts\<close>

lemma external_none: "call_error s = (\<lambda>_. None) \<Longrightarrow>
    external evs s = (Inr (), s\<lparr>calls := Suc (calls s), trace := trace s @ evs\<rparr>)"
  by (simp add: external_def)

lemma main_runs:
  assumes "Load V = Inr cfg" and "call_error s = (\<lambda>_. None)" and "steady (safe_channel s)"
  shows "\<exists>t. main V Signalled s = (Inr (), t)"
proof -
  obtain c where "ensureConnectedLocked (safe_channel s) = (Inr (), c)"
    using steady_connects [OF assms(3)] by blast
  then show ?thesis using assms(1,2)
    by (simp add: main_def bindE_def wrapE_def NewDatabasePool_def RunMigrations_def NewRedisClient_def
        tryE_def deferE_def returnE_def defer_unless_exit_def external_none note_event_def
        on_channel_def EnsureConnected_def serve_until_def Let_def)
qed

section \<open>The properties\<close>

text \<open>
  C33. The server listens only when everything it needs is there, and closes what it opened in
  reverse order. A run of \<open>main\<close> that returns has loaded its configuration, opened the pool,
  migrated, connected to Redis and RabbitMQ and started the three workers before it listened on the
  configured port; at the signal it stopped HTTP, cancelled the workers and closed RabbitMQ, Redis
  and the pool. A run that ends in an error has never listened, or has failed while it served.
\<close>

theorem main_starts_and_stops_in_order:
  assumes "main V outcome s = (r, t)"
  shows "case r of
      Inr _ \<Rightarrow> outcome = Signalled \<and> (\<exists>cfg m. Load V = Inr cfg \<and>
        trace t = trace s @ startup_trace m @ Listening ('':'' @ Config_ServerPort cfg) # shutdown_trace) \<and>
        conn_ptr (safe_channel t) = None \<and> ch_ptr (safe_channel t) = None
    | Inl _ \<Rightarrow> (\<exists>evs. trace t = trace s @ evs \<and> ((\<forall>p. Listening p \<notin> set evs) \<or>
        (\<exists>cfg m. Load V = Inr cfg \<and> evs = startup_trace m @ [Listening ('':'' @ Config_ServerPort cfg)])))"
proof (cases "Load V")
  case (Inl e)
  then show ?thesis using assms by (auto simp: main_eq throwE_def)
next
  case (Inr cfg)
  obtain x s1 where pool: "NewDatabasePool s = (x, s1)" by (cases "NewDatabasePool s")
  show ?thesis
  proof (cases x)
    case (Inl e)
    then show ?thesis using assms Inr pool NewDatabasePool_trace [OF pool]
      by (auto simp: main_eq bindE_def wrapE_def)
  next
    case pc: (Inr pc)
    obtain y s2 where rest: "migrated_main outcome cfg s1 = (y, s2)" by (cases "migrated_main outcome cfg s1")
    obtain evs where evs: "trace s2 = trace s1 @ evs" "outcome_trace cfg outcome y evs"
      "y = Inr () \<longrightarrow> conn_ptr (safe_channel s2) = None \<and> ch_ptr (safe_channel s2) = None"
      using migrated_main_trace [OF rest] by blast
    have "(r, t) = (case y of Inl e \<Rightarrow> (Inl e, s2) | Inr v \<Rightarrow> (Inr v, note_event (Closed DatabasePool) s2))"
      using assms Inr pool pc rest by (auto simp: main_eq bindE_def wrapE_def defer_unless_exit_def split: sum.splits)
    moreover have "trace s1 = trace s @ [Opened DatabasePool]"
      using NewDatabasePool_trace [OF pool] pc by simp
    ultimately show ?thesis
      using evs Inr by (cases y) (auto simp: outcome_trace_def)
  qed
qed

text \<open>A complete environment and a server whose calls all succeed.\<close>

definition sample_environ :: "string \<Rightarrow> string option" where
  "sample_environ = map_of [(''DATABASE_URL'', ''postgres://db''), (''JWT_SECRET'', ''secret''),
     (''REDIS_URL'', ''redis://cache''), (''RABBITMQ_URL'', ''amqp://mq'')]"

definition sample_viper :: viper where
  "sample_viper = \<lparr>Viper_GetString = (\<lambda>ds k. case sample_environ k of
        Some (c # s) \<Rightarrow> c # s
      | _ \<Rightarrow> (case map_of ds k of Some d \<Rightarrow> d | None \<Rightarrow> [])),
     Viper_GetBool = (\<lambda>ds k. is_true (case sample_environ k of
        Some (c # s) \<Rightarrow> c # s
      | _ \<Rightarrow> (case map_of ds k of Some d \<Rightarrow> d | None \<Rightarrow> [])))\<rparr>"

definition sample_boot :: boot where
  "sample_boot = \<lparr>calls = 0, call_error = (\<lambda>_. None),
     safe_channel = NewSafeChannel steady_amqp,
     trace = []\<rparr>"

definition required :: "string list" where
  "required = [''DATABASE_URL'', ''JWT_SECRET'', ''REDIS_URL'', ''RABBITMQ_URL'']"

lemma sample_viper_laws: "viper_laws sample_viper sample_environ"
  by (auto simp: viper_laws_def sample_viper_def setting_or_def setting_def Let_def split: option.splits list.splits)

lemma decimal_numbers: "decimal (Suc 0) = ''1''" "decimal 24 = ''24''" "decimal 30 = ''30''"
  by (simp_all add: decimal.simps char_of_def bit_0)

text \<open>
  C34. The configuration. A lifetime that is no duration is refused first; otherwise the first
  required variable that is missing or empty is named in the error; otherwise every field has the
  value of its variable, where the port is 8080, the lifetime of tokens 24 hours and the cookie secure
  unless the environment says something else. A lifetime in whole numbers with units, such as
  \<open>24h\<close> or \<open>1h30m\<close>, is read exactly up to the range of a duration.
\<close>

theorem Load_decides:
  assumes "viper_laws V environ"
  shows "(case ParseDuration (setting_or environ ''24h'' ''JWT_EXPIRATION'') of
      None \<Rightarrow> Load V = Inl (Wrap ''invalid JWT_EXPIRATION'' (Failed ''time: invalid duration''))
    | Some lifetime \<Rightarrow> (case find (\<lambda>k. setting environ k = []) required of
        Some k \<Rightarrow> Load V = Inl (Failed (k @ '' is required''))
      | None \<Rightarrow> Load V = Inr
          \<lparr>Config_ServerPort = setting_or environ ''8080'' ''SERVER_PORT'',
           Config_DatabaseURL = setting environ ''DATABASE_URL'',
           Config_RedisURL = setting environ ''REDIS_URL'',
           Config_RabbitMQURL = setting environ ''RABBITMQ_URL'',
           Config_JWTSecret = setting environ ''JWT_SECRET'',
           Config_JWTExpiration = lifetime,
           Config_CookieSecure = is_true (setting_or environ ''true'' ''COOKIE_SECURE'')\<rparr>)) \<and>
    (\<forall>items. items \<noteq> [] \<and> (\<forall>(n, u) \<in> set items. u \<in> fst ` set unitMap) \<and> duration_nanos items < 2 ^ 63 \<longrightarrow>
      (\<exists>lifetime. ParseDuration (duration_text items) = Some lifetime \<and> sint lifetime = int (duration_nanos items)))"
proof -
  have get: "Viper_GetString V defaults ''SERVER_PORT'' = setting_or environ ''8080'' ''SERVER_PORT''"
    "Viper_GetString V defaults ''JWT_EXPIRATION'' = setting_or environ ''24h'' ''JWT_EXPIRATION''"
    "Viper_GetBool V defaults ''COOKIE_SECURE'' = is_true (setting_or environ ''true'' ''COOKIE_SECURE'')"
    using assms by (simp_all add: viper_laws_def defaults_def Let_def)
  have need: "Viper_GetString V defaults k = setting environ k" if "k \<in> set required" for k
    using that assms by (auto simp: viper_laws_def defaults_def required_def setting_or_def Let_def)
  have "ParseDuration (duration_text items) = Some (word_of_nat (duration_nanos items))"
    "sint (word_of_nat (duration_nanos items) :: duration) = int (duration_nanos items)"
    if "items \<noteq> []" "\<forall>(n, u) \<in> set items. u \<in> fst ` set unitMap" "duration_nanos items < 2 ^ 63" for items
    using that by (auto simp: ParseDuration_text nanos_exact)
  then show ?thesis
    unfolding Load_def Let_def get using need by (auto simp: required_def split: option.splits)
qed

text \<open>A complete environment with a lifetime of an hour and a half, and one that says that cookies are not secure.\<close>

definition other_environ :: "string \<Rightarrow> string option" where
  "other_environ = sample_environ(''JWT_EXPIRATION'' \<mapsto> ''1h30m'', ''COOKIE_SECURE'' \<mapsto> ''false'')"

definition other_viper :: viper where
  "other_viper = \<lparr>Viper_GetString = (\<lambda>ds k. setting_or other_environ (case map_of ds k of Some d \<Rightarrow> d | None \<Rightarrow> []) k),
     Viper_GetBool = (\<lambda>ds k. is_true (setting_or other_environ (case map_of ds k of Some d \<Rightarrow> d | None \<Rightarrow> []) k))\<rparr>"

lemma sample_durations:
  "ParseDuration ''24h'' = Some 86400000000000" "ParseDuration ''1h30m'' = Some 5400000000000"
  using ParseDuration_text [of "[(24, ''h'')]"] ParseDuration_text [of "[(1, ''h''), (30, ''m'')]"]
  by (simp_all add: duration_text_def duration_nanos_def unit_nanos_def unitMap_def decimal_numbers)

theorem Load_decides_witness:
  "Load sample_viper = Inr \<lparr>Config_ServerPort = ''8080'', Config_DatabaseURL = ''postgres://db'',
     Config_RedisURL = ''redis://cache'', Config_RabbitMQURL = ''amqp://mq'', Config_JWTSecret = ''secret'',
     Config_JWTExpiration = 86400000000000, Config_CookieSecure = True\<rparr> \<and>
   Load other_viper = Inr \<lparr>Config_ServerPort = ''8080'', Config_DatabaseURL = ''postgres://db'',
     Config_RedisURL = ''redis://cache'', Config_RabbitMQURL = ''amqp://mq'', Config_JWTSecret = ''secret'',
     Config_JWTExpiration = 5400000000000, Config_CookieSecure = False\<rparr>"
proof -
  have "viper_laws other_viper other_environ" by (simp add: viper_laws_def other_viper_def Let_def)
  from conjunct1 [OF Load_decides [OF sample_viper_laws]] conjunct1 [OF Load_decides [OF this]]
  show ?thesis
    by (simp add: setting_or_def setting_def sample_environ_def other_environ_def sample_durations required_def is_true_def)
qed

lemma sample_Load: "\<exists>cfg. Load sample_viper = Inr cfg"
  by (simp add: Load_def sample_viper_def sample_environ_def defaults_def sample_durations)

theorem main_starts_and_stops_in_order_witness:
  "\<exists>t cfg m. main sample_viper Signalled sample_boot = (Inr (), t) \<and> Load sample_viper = Inr cfg \<and>
     trace t = startup_trace m @ Listening ('':'' @ Config_ServerPort cfg) # shutdown_trace"
proof -
  have "steady (safe_channel sample_boot)" by (simp add: sample_boot_def NewSafeChannel_def steady_def steady_amqp_def)
  then obtain t where "main sample_viper Signalled sample_boot = (Inr (), t)"
    using sample_Load main_runs [of sample_viper _ sample_boot] by (auto simp: sample_boot_def)
  then show ?thesis
    using main_starts_and_stops_in_order [of sample_viper Signalled sample_boot "Inr ()" t]
    by (auto simp: sample_boot_def)
qed

end
