(* ===== verification/Seed.thy ===== *)
theory Seed
  imports Integrity AuthProofs Startup
begin

text \<open>
  The seed command (\<open>cmd/seed/main.go\<close>): it reads the configuration, connects to the database and
  inserts an administrator with a wallet, unless the address is taken. An error value is an exit
  with status 1 (its text is the message that is logged); \<open>None\<close> and \<open>Some\<close> are the two ways
  to end with status 0. Where \<open>os.Exit\<close> skips the deferred rollback, the server rolls back when
  the connection is gone, which is the same \<open>tx_Rollback\<close>.
\<close>

section \<open>The command\<close>

definition seed_statements :: "'d lib \<Rightarrow> string \<Rightarrow> string \<Rightarrow> (User \<times> string) go" where
  "seed_statements L email pwdHash =
     bindE (wrapE (Wrap ''Failed to create admin user'') (userRepo_Create Tx email pwdHash UserRoleAdmin)) (\<lambda>user.
     bindE (wrapE (Wrap ''Failed to generate wallet ID'') GenerateWalletID) (\<lambda>walletID.
     bindE time_Now (\<lambda>t1.
     bindE time_Now (\<lambda>t2.
     bindE (wrapE (Wrap ''Failed to create admin wallet'') (walletRepo_Create L Tx
       \<lparr>Wallet_ID = walletID,
        Wallet_UserID = User_ID user,
        Wallet_Balance = Decimal_Zero L,
        Wallet_Currency = ''IDR'',
        Wallet_CreatedAt = t1,
        Wallet_UpdatedAt = t2\<rparr>)) (\<lambda>_.
     returnE (user, walletID))))))"

definition seed_main :: "'d lib \<Rightarrow> string \<Rightarrow> string \<Rightarrow> (User \<times> string) option go" where
  "seed_main L email password =
     bindE (wrapE (Wrap ''Failed to query existing user'') (userRepo_FindByEmail email)) (\<lambda>existing.
     if existing \<noteq> None then returnE None else
     bindE (wrapE (Wrap ''Failed to hash password'') (HashPassword L password)) (\<lambda>pwdHash.
     bindE (wrapE (Wrap ''Failed to begin transaction'') tx_Begin) (\<lambda>_.
     deferE tx_Rollback (
     bindE (seed_statements L email pwdHash) (\<lambda>x.
     bindE (wrapE (Wrap ''Failed to commit transaction'') tx_Commit) (\<lambda>_.
     returnE (Some x)))))))"

text \<open>
  The whole of \<open>main\<close>: \<open>seed_main\<close> runs between the opening and the closing of the pool. The state
  is that of the start-up beside that of the database.
\<close>

definition on_boot :: "'a boot_op \<Rightarrow> (boot \<times> world, error, 'a) prog" where
  "on_boot m s = (case m (fst s) of (r, b) \<Rightarrow> (r, (b, snd s)))"

definition on_world :: "'a go \<Rightarrow> (boot \<times> world, error, 'a) prog" where
  "on_world m s = (case m (snd s) of (r, w) \<Rightarrow> (r, (fst s, w)))"

definition seed_command ::
  "'d lib \<Rightarrow> viper \<Rightarrow> string \<Rightarrow> string \<Rightarrow> (boot \<times> world, error, (User \<times> string) option) prog" where
  "seed_command L V email password =
     (case Load V of
        Inl e \<Rightarrow> throwE (Wrap ''Failed to load config'' e)
      | Inr cfg \<Rightarrow>
          bindE (wrapE (Wrap ''Failed to connect to database'') (on_boot NewDatabasePool)) (\<lambda>pool.
          defer_unless_exit (apfst (note_event (Closed DatabasePool))) (
          on_world (seed_main L email password))))"

text \<open>The defaults of the command's flags.\<close>

definition emailFlag :: string where
  "emailFlag = ''admin@example.com''"

definition passwordFlag :: string where
  "passwordFlag = ''admin123''"

section \<open>Outcomes\<close>

lemma quiet_seed_statements: "steps quiet (seed_statements L email hash)"
  unfolding seed_statements_def userRepo_Create_def walletRepo_Create_def
  by (intro quiet_intros quiet_generators)

lemma seed_statements_Inr:
  "seed_statements L email hash w = (Inr x, w') \<longleftrightarrow>
     account_statements L UserRoleAdmin email hash w = (Inr x, w')"
  by (simp add: seed_statements_def account_statements_def succ)

lemma seed_cases:
  assumes run: "seed_main L email password w = (res, w')" and laws: "decimal_laws L v"
  obtains (rejected) e where "res = Inl e" "same_accounts w w'"
  | (taken) r where "res = Inr None" "same_accounts w w'" "user_with_email (committed w) email = Some r"
  | (inserted) u wallet hash now where
      "account_inserted UserRoleAdmin email hash u wallet now (committed w) (committed w')"
      "hash_of L password hash"
      "res = Inl (Wrap ''Failed to commit transaction'' (SQL ConnFailed)) \<or>
       res = Inr (Some (user_of (user_entry u email hash UserRoleAdmin now), wallet))"
      "spawned w' = spawned w"
  using run unfolding seed_main_def
proof (cases rule: user_by_email.find_wrap_cases)
  case fails
  then show thesis using rejected by (simp add: same_accounts_def)
next
  case goes_on
  show thesis
  proof (cases "user_with_email (committed w) email")
    case (Some r)
    then show thesis using goes_on taken [of r] by (auto simp: returnE_def same_accounts_def)
  next
    case None
    from goes_on(1) [unfolded None option.map simp_thms if_False] show thesis
    proof (cases rule: hashed_cases)
      case fails
      then show thesis using rejected by (simp add: same_accounts_def)
    next
      case (hashed hash)
      have ret: "returnE (Some x) s = (Inr (Some x), s\<lparr>spawned := spawned s @ []\<rparr>)" for x :: "User \<times> string" and s
        by (simp add: returnE_def)
      show thesis
        by (cases rule: account_transaction [OF hashed(2) quiet_seed_statements ret seed_statements_Inr laws])
          (use rejected inserted [OF _ hashed(1)] in \<open>simp_all add: same_accounts_def\<close>)
    qed
  qed
qed

text \<open>The command reaches the database through one pool, which it closes, or not at all.\<close>

lemma seed_command_Inr:
  assumes "seed_command L V email password (b, w) = (Inr x, (b', w'))"
  shows "seed_main L email password w = (Inr x, w') \<and> trace b' = trace b @ [Opened DatabasePool, Closed DatabasePool]"
proof -
  obtain cfg where "Load V = Inr cfg" using assms by (cases "Load V") (auto simp: seed_command_def throwE_def)
  obtain r b1 where pool: "NewDatabasePool b = (r, b1)" by (cases "NewDatabasePool b")
  show ?thesis
    using assms \<open>Load V = _\<close> pool NewDatabasePool_trace [OF pool]
    by (auto simp: seed_command_def bindE_def wrapE_def on_boot_def on_world_def defer_unless_exit_def
        split: sum.splits prod.splits)
qed

lemma seed_command_run:
  assumes "Load V = Inr cfg" and "\<And>i. call_error b i = None"
    and "seed_main L email password w = (Inr x, w')"
  shows "\<exists>b'. seed_command L V email password (b, w) = (Inr x, (b', w'))"
  using assms
  by (simp add: seed_command_def bindE_def wrapE_def tryE_def on_boot_def on_world_def defer_unless_exit_def
      NewDatabasePool_def external_def returnE_def)

text \<open>The command keeps the database well formed, and what it changes is one user and one wallet.\<close>

lemma ok_seed_main: "steps world_keeps (seed_main L email password)"
  unfolding seed_main_def seed_statements_def by (intro ok_parts)

end
