(* ===== verification/Books.thy ===== *)
theory Books
  imports Seed
begin

text \<open>
  The accounting of the ledger. \<open>change\<close> is the abstract machine: a step is the effect of
  one registration, top-up or transfer, or a change outside the books. The invariants are
  proved once on it: every transaction is completed and posted (a top-up as one credit, a
  transfer as one debit and one credit of the same amount), a wallet's balance covers its
  credits less its debits, the balances cover the money topped up, and both are equalities
  as long as no transferred amount ends in half a hundredth.
\<close>

section \<open>Accounts\<close>

definition credits :: "db \<Rightarrow> string \<Rightarrow> int" where
  "credits d i = (\<Sum>l \<leftarrow> ledger_entries d.
     if lr_wallet_id l = i \<and> lr_entry_type l = EntryTypeCredit then lr_amount l else 0)"

definition debits :: "db \<Rightarrow> string \<Rightarrow> int" where
  "debits d i = (\<Sum>l \<leftarrow> ledger_entries d.
     if lr_wallet_id l = i \<and> lr_entry_type l = EntryTypeDebit then lr_amount l else 0)"

definition ledger_balance :: "db \<Rightarrow> string \<Rightarrow> int" where
  "ledger_balance d i = credits d i - debits d i"

definition total_balance :: "db \<Rightarrow> int" where
  "total_balance d = (\<Sum>r \<leftarrow> wallets d. wr_balance r)"

definition topped_up :: "db \<Rightarrow> int" where
  "topped_up d = (\<Sum>t \<leftarrow> transactions d. if tr_type t = TransactionTypeTopUp then tr_amount t else 0)"

text \<open>The entries of a transaction, in the order they were written.\<close>

definition entries_of :: "db \<Rightarrow> uuid \<Rightarrow> ledger_row list" where
  "entries_of d u = filter (\<lambda>l. lr_transaction_id l = u) (ledger_entries d)"

definition shows_entry :: "string \<Rightarrow> string \<Rightarrow> int \<Rightarrow> ledger_row \<Rightarrow> bool" where
  "shows_entry i ty c l \<longleftrightarrow> lr_wallet_id l = i \<and> lr_entry_type l = ty \<and> lr_amount l = c"

fun posted :: "transaction_row \<Rightarrow> ledger_row list \<Rightarrow> bool" where
  "posted t [l] = (tr_type t = TransactionTypeTopUp \<and> tr_source_wallet_id t = None \<and>
     (\<exists>i. tr_target_wallet_id t = Some i \<and> shows_entry i EntryTypeCredit (tr_amount t) l))"
| "posted t [l, k] = (tr_type t = TransactionTypeTransfer \<and>
     (\<exists>i j. tr_source_wallet_id t = Some i \<and> tr_target_wallet_id t = Some j \<and> i \<noteq> j \<and>
        shows_entry i EntryTypeDebit (tr_amount t) l \<and> shows_entry j EntryTypeCredit (tr_amount t) k))"
| "posted t _ = False"

definition double_entry :: "db \<Rightarrow> bool" where
  "double_entry d \<longleftrightarrow> (\<forall>t \<in> set (transactions d).
     tr_status t = TransactionStatusCompleted \<and> posted t (entries_of d (tr_id t)))"

text \<open>How far the balance of a wallet exceeds what the ledger says.\<close>

definition excess :: "db \<Rightarrow> wallet_row \<Rightarrow> int" where
  "excess d r = wr_balance r - ledger_balance d (wr_id r)"

section \<open>The abstract machine\<close>

inductive change :: "('d \<Rightarrow> rat) \<Rightarrow> ('d \<Rightarrow> bool) \<Rightarrow> db \<Rightarrow> db \<Rightarrow> bool" for v P where
  change_topup: "topup_effect v r a u ref now d d' \<Longrightarrow> P a \<Longrightarrow> change v P d d'"
| change_transfer: "transfer_effect v rs rt a u ref now d d' \<Longrightarrow> P a \<Longrightarrow> change v P d d'"
| change_register: "register_effect role email hash u wallet now d d' \<Longrightarrow> wallet \<noteq> [] \<Longrightarrow> change v P d d'"
| change_outside: "wallets d' = wallets d \<Longrightarrow> transactions d' = transactions d \<Longrightarrow>
     ledger_entries d' = ledger_entries d \<Longrightarrow> change v P d d'"

text \<open>What the books rely on: keys and references, and wallets that have a name.\<close>

definition keys_ok :: "db \<Rightarrow> bool" where
  "keys_ok d \<longleftrightarrow> distinct (map wr_id (wallets d)) \<and> [] \<notin> wr_id ` set (wallets d) \<and>
     (\<forall>l \<in> set (ledger_entries d). lr_wallet_id l \<in> wr_id ` set (wallets d) \<and>
        lr_transaction_id l \<in> tr_id ` set (transactions d))"

lemma entry_types [simp]: "EntryTypeCredit \<noteq> EntryTypeDebit" "EntryTypeDebit \<noteq> EntryTypeCredit"
  "TransactionTypeTopUp \<noteq> TransactionTypeTransfer" "TransactionTypeTransfer \<noteq> TransactionTypeTopUp"
  by (simp_all add: model_constants)

lemma set_post: "set (post i c now ws) = (\<lambda>r. if wr_id r = i
    then r\<lparr>wr_balance := wr_balance r + c, wr_updated_at := now\<rparr> else r) ` set ws"
  by (simp add: post_def set_update_where)

lemma ids_post [simp]: "wr_id ` set (post i c now ws) = wr_id ` set ws"
  by (metis map_id_post set_map)

lemma sum_post:
  "distinct (map wr_id ws) \<Longrightarrow> i \<in> wr_id ` set ws \<Longrightarrow>
     (\<Sum>r \<leftarrow> post i c now ws. wr_balance r) = (\<Sum>r \<leftarrow> ws. wr_balance r) + c"
proof (induction ws)
  case (Cons r ws)
  have cons: "post i c now (r # ws) = (if wr_id r = i
      then r\<lparr>wr_balance := wr_balance r + c, wr_updated_at := now\<rparr> else r) # post i c now ws"
    by (simp add: post_def update_where_def)
  have "post i c now ws = ws" if "i \<notin> wr_id ` set ws"
    unfolding post_def using that by (intro update_where_none) auto
  with Cons show ?case by (auto simp: cons)
qed simp

lemmas effect_defs = topup_effect_def topup_result_def transfer_effect_def transfer_result_def
  register_effect_def

lemma sum_list_zero: "(\<And>x. x \<in> set xs \<Longrightarrow> f x = (0::int)) \<Longrightarrow> (\<Sum>x \<leftarrow> xs. f x) = 0"
  by (induction xs) auto

lemma post_mem:
  "x' \<in> set (post i c now ws) \<Longrightarrow>
     \<exists>x \<in> set ws. wr_id x' = wr_id x \<and> wr_balance x' = wr_balance x + (if wr_id x = i then c else 0)"
  by (auto simp: set_post)

lemma topup_rows:
  "topup_effect v r a u ref now d d' \<Longrightarrow> map wr_id (wallets d') = map wr_id (wallets d) \<and>
     (\<exists>entry. ledger_entries d' = ledger_entries d @ [entry_row entry u (wr_id r) EntryTypeCredit (cents v a) now]) \<and>
     transactions d' = transactions d @
       [completed_row u ref TransactionTypeTopUp (cents v a) None (wr_id r) now]"
  by (auto simp: effect_defs)

lemma transfer_rows:
  "transfer_effect v rs rt a u ref now d d' \<Longrightarrow> map wr_id (wallets d') = map wr_id (wallets d) \<and>
     (\<exists>debit credit. ledger_entries d' = ledger_entries d @
        [entry_row debit u (wr_id rs) EntryTypeDebit (cents v a) now,
         entry_row credit u (wr_id rt) EntryTypeCredit (cents v a) now]) \<and>
     transactions d' = transactions d @
       [completed_row u ref TransactionTypeTransfer (cents v a) (Some (wr_id rs)) (wr_id rt) now]"
  by (auto simp: effect_defs)

lemma keys_ok_change: "change v P d d' \<Longrightarrow> keys_ok d \<Longrightarrow> keys_ok d'"
proof (induction rule: change.induct)
  case (change_topup r a u ref now d d')
  have "wr_id r \<in> wr_id ` set (wallets d)" using change_topup by (auto simp: effect_defs)
  moreover from topup_rows [OF change_topup(1)] have "wr_id ` set (wallets d') = wr_id ` set (wallets d)"
    by (metis set_map)
  ultimately show ?case
    using topup_rows [OF change_topup(1)] change_topup(3)
    by (clarsimp simp: keys_ok_def) (auto simp: entry_row_def completed_row_def)
next
  case (change_transfer rs rt a u ref now d d')
  have "wr_id rs \<in> wr_id ` set (wallets d)" "wr_id rt \<in> wr_id ` set (wallets d)"
    using change_transfer by (auto simp: effect_defs)
  moreover from transfer_rows [OF change_transfer(1)] have "wr_id ` set (wallets d') = wr_id ` set (wallets d)"
    by (metis set_map)
  ultimately show ?case
    using transfer_rows [OF change_transfer(1)] change_transfer(3)
    by (clarsimp simp: keys_ok_def) (auto simp: entry_row_def completed_row_def)
next
  case (change_register email hash u wallet now d d')
  then show ?case by (auto simp: keys_ok_def effect_defs wallet_entry_def)
next
  case (change_outside d' d)
  then show ?case by (simp add: keys_ok_def)
qed

text \<open>How each change moves the excess of each wallet.\<close>

lemma ledger_balance_topup:
  "topup_effect v r a u ref now d d' \<Longrightarrow>
     ledger_balance d' i = ledger_balance d i + (if i = wr_id r then cents v a else 0)"
  by (auto simp: effect_defs ledger_balance_def credits_def debits_def entry_row_def)

lemma ledger_balance_transfer:
  "transfer_effect v rs rt a u ref now d d' \<Longrightarrow>
     ledger_balance d' i = ledger_balance d i + (if i = wr_id rt then cents v a else 0)
       - (if i = wr_id rs then cents v a else 0)"
  by (auto simp: effect_defs ledger_balance_def credits_def debits_def entry_row_def)

lemma excess_topup:
  assumes "topup_effect v r a u ref now d d'" and "x' \<in> set (wallets d')"
  shows "\<exists>x \<in> set (wallets d). wr_id x' = wr_id x \<and> excess d' x' = excess d x"
proof -
  have "x' \<in> set (post (wr_id r) (cents v a) now (wallets d))"
    using assms by (auto simp: effect_defs)
  then obtain x where "x \<in> set (wallets d)" "wr_id x' = wr_id x"
    "wr_balance x' = wr_balance x + (if wr_id x = wr_id r then cents v a else 0)"
    using post_mem by blast
  then show ?thesis
    using ledger_balance_topup [OF assms(1), of "wr_id x"]
    by (intro bexI [of _ x]) (simp_all add: excess_def)
qed

lemma excess_transfer:
  assumes tr: "transfer_effect v rs rt a u ref now d d'" and "x' \<in> set (wallets d')"
  shows "\<exists>x \<in> set (wallets d). wr_id x' = wr_id x \<and>
    excess d' x' = excess d x + (if wr_id x = wr_id rs \<and> half_cent v a then 1 else 0)"
proof -
  have "0 \<le> v a" using assms(1) cents_pos [of v a] by (auto simp: transfer_effect_def)
  then have c: "cents v a = debit_cents v a + (if half_cent v a then 1 else 0)"
    by (rule debit_cents_eq)
  have "x' \<in> set (post (wr_id rt) (cents v a) now (post (wr_id rs) (- debit_cents v a) now (wallets d)))"
    using assms by (auto simp: effect_defs)
  then obtain y where y: "y \<in> set (post (wr_id rs) (- debit_cents v a) now (wallets d))"
    "wr_id x' = wr_id y" "wr_balance x' = wr_balance y + (if wr_id y = wr_id rt then cents v a else 0)"
    using post_mem by blast
  obtain x where "x \<in> set (wallets d)" "wr_id y = wr_id x"
    "wr_balance y = wr_balance x + (if wr_id x = wr_id rs then - debit_cents v a else 0)"
    using post_mem [OF y(1)] by blast
  then show ?thesis
    using y ledger_balance_transfer [OF tr, of "wr_id x"] c
    by (intro bexI [of _ x]) (simp_all add: excess_def)
qed

lemma excess_register:
  assumes "register_effect role email hash u wallet now d d'" and "keys_ok d" and "x' \<in> set (wallets d')"
  shows "excess d' x' = 0 \<or> (\<exists>x \<in> set (wallets d). wr_id x' = wr_id x \<and> excess d' x' = excess d x)"
proof -
  have "credits d wallet = 0 \<and> debits d wallet = 0" 
    using assms(1,2) unfolding credits_def debits_def register_effect_def keys_ok_def
    by (auto intro!: sum_list_zero)
  then show ?thesis
    using assms by (auto simp: effect_defs excess_def ledger_balance_def wallet_entry_def credits_def debits_def)
qed

section \<open>Invariants of the abstract machine\<close>

lemma excess_change:
  assumes "change v P d d'" and "keys_ok d" and "x' \<in> set (wallets d')"
  shows "excess d' x' = 0 \<or> (\<exists>x \<in> set (wallets d). wr_id x' = wr_id x \<and>
    (excess d' x' = excess d x \<or> (\<exists>a. P a \<and> half_cent v a) \<and> excess d' x' = excess d x + 1))"
  using assms
proof (induction rule: change.induct)
  case change_topup
  then show ?case using excess_topup by metis
next
  case (change_transfer rs rt a u ref now d d')
  then obtain x where "x \<in> set (wallets d)" "wr_id x' = wr_id x"
    "excess d' x' = excess d x + (if wr_id x = wr_id rs \<and> half_cent v a then 1 else 0)"
    using excess_transfer [OF change_transfer(1,4)] by blast
  then show ?case using change_transfer(2)
    by (intro disjI2 bexI [of _ x]) (auto split: if_splits)
next
  case change_register
  then show ?case using excess_register by metis
next
  case (change_outside d' d)
  then show ?case by (auto simp: excess_def ledger_balance_def credits_def debits_def)
qed

lemma total_topup:
  assumes "topup_effect v r a u ref now d d'" and "keys_ok d"
  shows "total_balance d' = total_balance d + cents v a" "topped_up d' = topped_up d + cents v a"
proof -
  have "wr_id r \<in> wr_id ` set (wallets d)" using assms(1) by (auto simp: effect_defs)
  then show "total_balance d' = total_balance d + cents v a"
    using assms by (auto simp: effect_defs total_balance_def sum_post keys_ok_def)
  show "topped_up d' = topped_up d + cents v a"
    using topup_rows [OF assms(1)] by (simp add: topped_up_def completed_row_def)
qed

lemma total_transfer:
  assumes "transfer_effect v rs rt a u ref now d d'" and "keys_ok d"
  shows "total_balance d' = total_balance d + (if half_cent v a then 1 else 0)" "topped_up d' = topped_up d"
proof -
  have "wr_id rs \<in> wr_id ` set (wallets d)" "wr_id rt \<in> wr_id ` set (wallets d)"
    using assms(1) by (auto simp: effect_defs)
  moreover have "0 \<le> v a" using assms(1) cents_pos [of v a] by (auto simp: transfer_effect_def)
  moreover from this have "cents v a = debit_cents v a + (if half_cent v a then 1 else 0)"
    by (rule debit_cents_eq)
  moreover have "wallets d' = post (wr_id rt) (cents v a) now
      (post (wr_id rs) (- debit_cents v a) now (wallets d))"
    using assms(1) by (auto simp: effect_defs)
  ultimately show "total_balance d' = total_balance d + (if half_cent v a then 1 else 0)"
    using assms(2) by (simp add: total_balance_def sum_post keys_ok_def)
  show "topped_up d' = topped_up d"
    using transfer_rows [OF assms(1)] by (simp add: topped_up_def completed_row_def)
qed

lemma total_change:
  assumes "change v P d d'" and "keys_ok d"
  shows "total_balance d' - topped_up d' = total_balance d - topped_up d \<or>
    (\<exists>a. P a \<and> half_cent v a) \<and>
    total_balance d' - topped_up d' = total_balance d - topped_up d + 1"
  using assms
proof (induction rule: change.induct)
  case (change_topup r a u ref now d d')
  then show ?case using total_topup [of v r a u ref now d d'] by simp
next
  case (change_transfer rs rt a u ref now d d')
  then show ?case using total_transfer [of v rs rt a u ref now d d'] by auto
next
  case change_register
  then show ?case by (auto simp: effect_defs total_balance_def topped_up_def wallet_entry_def)
next
  case change_outside
  then show ?case by (simp add: total_balance_def topped_up_def)
qed

lemma double_entry_append:
  assumes de: "double_entry d" and "keys_ok d" and "tr_id t \<notin> tr_id ` set (transactions d)"
    and d': "transactions d' = transactions d @ [t]" "ledger_entries d' = ledger_entries d @ ls"
    and new: "tr_status t = TransactionStatusCompleted" "posted t ls" "\<forall>l \<in> set ls. lr_transaction_id l = tr_id t"
  shows "double_entry d'"
proof -
  have "entries_of d' (tr_id s) = entries_of d (tr_id s)" if "s \<in> set (transactions d)" for s
    using that assms(3) new(3) by (auto simp: entries_of_def d' filter_empty_conv)
  moreover have "entries_of d' (tr_id t) = ls"
  proof -
    have "filter (\<lambda>l. lr_transaction_id l = tr_id t) (ledger_entries d) = []"
      using assms(2,3) unfolding filter_empty_conv keys_ok_def by metis
    moreover have "filter (\<lambda>l. lr_transaction_id l = tr_id t) ls = ls"
      using new(3) by simp
    ultimately show ?thesis by (simp add: entries_of_def d')
  qed
  ultimately show ?thesis using de new(1,2) by (auto simp: double_entry_def d')
qed

lemma double_entry_change: "change v P d d' \<Longrightarrow> keys_ok d \<Longrightarrow> double_entry d \<Longrightarrow> double_entry d'"
proof (induction rule: change.induct)
  case (change_topup r a u ref now d d')
  then have "wr_id r \<in> wr_id ` set (wallets d)" "u \<notin> tr_id ` set (transactions d)"
    by (auto simp: topup_effect_def)
  moreover from this have "wr_id r \<noteq> []" using change_topup(3) by (metis keys_ok_def)
  moreover note topup_rows [OF change_topup(1)]
  ultimately show ?case
    using double_entry_append [OF change_topup(4,3), of
      "completed_row u ref TransactionTypeTopUp (cents v a) None (wr_id r) now" d']
    by (auto simp: completed_row_def entry_row_def shows_entry_def)
next
  case (change_transfer rs rt a u ref now d d')
  then have "wr_id rs \<in> wr_id ` set (wallets d)" "wr_id rt \<in> wr_id ` set (wallets d)"
    "u \<notin> tr_id ` set (transactions d)" "wr_id rs \<noteq> wr_id rt"
    by (auto simp: transfer_effect_def)
  moreover from this have "wr_id rs \<noteq> []" "wr_id rt \<noteq> []" using change_transfer(3) by (metis keys_ok_def)+
  moreover note transfer_rows [OF change_transfer(1)]
  ultimately show ?case
    using double_entry_append [OF change_transfer(4,3), of
      "completed_row u ref TransactionTypeTransfer (cents v a) (Some (wr_id rs)) (wr_id rt) now" d']
    by (auto simp: completed_row_def entry_row_def shows_entry_def)
next
  case change_register
  then show ?case by (auto simp: effect_defs double_entry_def entries_of_def)
next
  case change_outside
  then show ?case by (auto simp: double_entry_def entries_of_def)
qed

end
