(* ===== verification/Runs.thy ===== *)
theory Runs
  imports Books
begin

text \<open>
  Runs of the service: each step is one call of an operation of a service, with any
  arguments, in any environment. The refinement lemma says that a step is a step of the
  abstract machine of the books, so the invariants of the books and of the database hold in
  every reachable state.
\<close>

section \<open>Steps and reachable states\<close>

text \<open>\<open>P\<close> restricts the amounts that are requested.\<close>

inductive serves :: "'d lib \<Rightarrow> ('d \<Rightarrow> bool) \<Rightarrow> world \<Rightarrow> world \<Rightarrow> bool" for L P where
  serve_Register: "Register L rr w = (a, w') \<Longrightarrow> serves L P w w'"
| serve_TopUp: "TopUp L uid tr w = (b, w') \<Longrightarrow> P (TopUpRequest_Amount tr) \<Longrightarrow> serves L P w w'"
| serve_Transfer: "Transfer L uid xr w = (c, w') \<Longrightarrow> P (TransferRequest_Amount xr) \<Longrightarrow> serves L P w w'"
| serve_Login: "Login L cfg lr w = (e, w') \<Longrightarrow> serves L P w w'"
| serve_CreateLog: "CreateLog al w = (f, w') \<Longrightarrow> serves L P w w'"
| serve_CreateAndPushNotification:
    "CreateAndPushNotification L uid title msg w = (g, w') \<Longrightarrow> serves L P w w'"
| serve_MarkAsRead: "MarkAsRead nid uid w = (f, w') \<Longrightarrow> serves L P w w'"
| serve_ClearAll: "ClearAll uid w = (f, w') \<Longrightarrow> serves L P w w'"
| serve_GetTransactions: "GetTransactions L uid ty p w = (h, w') \<Longrightarrow> serves L P w w'"
| serve_GetTransactionDetail: "GetTransactionDetail L uid t w = (i, w') \<Longrightarrow> serves L P w w'"
| serve_GetAllTransactions: "GetAllTransactions L ty st p w = (h, w') \<Longrightarrow> serves L P w w'"
| serve_GetTransactionDetailAdmin: "GetTransactionDetailAdmin L t w = (i, w') \<Longrightarrow> serves L P w w'"
| serve_GetWalletByUserID: "GetWalletByUserID L uid w = (j, w') \<Longrightarrow> serves L P w w'"
| serve_GetLedgerEntries: "GetLedgerEntries L uid ty p w = (k, w') \<Longrightarrow> serves L P w w'"
| serve_GetLogs: "GetLogs uid p w = (l, w') \<Longrightarrow> serves L P w w'"
| serve_GetAllLogs: "GetAllLogs ou oa p w = (l, w') \<Longrightarrow> serves L P w w'"
| serve_GetNotifications: "GetNotifications uid p w = (m, w') \<Longrightarrow> serves L P w w'"
| serve_GetAllUsers: "GetAllUsers L p w = (n, w') \<Longrightarrow> serves L P w w'"

inductive reachable :: "'d lib \<Rightarrow> ('d \<Rightarrow> bool) \<Rightarrow> world \<Rightarrow> bool" for L P where
  reachable_start: "committed w = empty_db \<Longrightarrow> work w = None \<Longrightarrow> reachable L P w"
| reachable_step: "reachable L P w \<Longrightarrow> serves L P w w' \<Longrightarrow> reachable L P w'"

lemma serves_keeps: "serves L P w w' \<Longrightarrow> world_keeps w w'"
  by (induction rule: serves.induct)
    (rule ok_services [THEN stepsD] ok_readers [THEN stepsD], assumption)+

text \<open>Every step of the service is a step of the abstract machine.\<close>

lemma wallet_nonempty: "length wallet = 12 \<and> b \<Longrightarrow> wallet \<noteq> []"
  by auto

lemma change_off: "off_books w w' \<Longrightarrow> change v P (committed w) (committed w')"
  by (rule change_outside) (simp_all add: off_books_def)

lemma Register_change:
  assumes "Register L req w = (res, w')" and "decimal_laws L v"
  shows "change v P (committed w) (committed w')"
  using assms
proof (cases rule: Register_cases)
  case rejected
  then show ?thesis by (intro change_outside) simp_all
next
  case lost
  then show ?thesis by (intro change_register) auto
next
  case completed
  then show ?thesis by (intro change_register) auto
qed

lemma seed_change:
  assumes "seed_main L email password w = (res, w')" and "decimal_laws L v"
  shows "change v P (committed w) (committed w')"
  using assms
proof (cases rule: seed_cases)
  case rejected
  then show ?thesis by (intro change_outside) (simp_all add: same_accounts_def)
next
  case taken
  then show ?thesis by (intro change_outside) (simp_all add: same_accounts_def)
next
  case inserted
  then show ?thesis by (intro change_register) (auto simp: account_inserted_def)
qed

lemma TopUp_change:
  assumes "TopUp L uid req w = (res, w')" and "decimal_laws L v" and "db_ok (committed w)"
    and "P (TopUpRequest_Amount req)"
  shows "change v P (committed w) (committed w')"
  using assms(1-3)
proof (cases rule: TopUp_cases)
  case rejected
  then show ?thesis by (intro change_outside) simp_all
next
  case lost
  then show ?thesis using assms(4) by (intro change_topup)
next
  case completed
  then show ?thesis using assms(4) by (intro change_topup)
qed

lemma Transfer_change:
  assumes "Transfer L uid req w = (res, w')" and "decimal_laws L v" and "db_ok (committed w)"
    and "P (TransferRequest_Amount req)"
  shows "change v P (committed w) (committed w')"
  using assms(1-3)
proof (cases rule: Transfer_cases)
  case rejected
  then show ?thesis by (intro change_outside) simp_all
next
  case lost
  then show ?thesis using assms(4) by (intro change_transfer)
next
  case completed
  then show ?thesis using assms(4) by (intro change_transfer)
qed

lemma serves_change:
  assumes "serves L P w w'" and "decimal_laws L v" and "db_ok (committed w)"
  shows "change v P (committed w) (committed w')"
  using assms
proof (induction rule: serves.induct)
  case serve_Register
  then show ?case by (intro Register_change)
next
  case serve_TopUp
  then show ?case by (intro TopUp_change)
next
  case serve_Transfer
  then show ?case by (intro Transfer_change)
qed (rule change_off, (rule off_services [THEN stepsD] off_quiet, (assumption | rule quiet_services [THEN stepsD], assumption))+)+

section \<open>Invariants of every reachable state\<close>

definition books_cover :: "db \<Rightarrow> bool" where
  "books_cover d \<longleftrightarrow> (\<forall>r \<in> set (wallets d). ledger_balance d (wr_id r) \<le> wr_balance r)"

definition books_agree :: "db \<Rightarrow> bool" where
  "books_agree d \<longleftrightarrow> (\<forall>r \<in> set (wallets d). wr_balance r = ledger_balance d (wr_id r))"

lemma reachable_world_ok: "reachable L P w \<Longrightarrow> world_ok w"
proof (induction rule: reachable.induct)
  case (reachable_start w)
  then show ?case by (simp add: world_ok_def db_ok_defs empty_db_def)
next
  case (reachable_step w w')
  then show ?case using serves_keeps [of L P w w'] by (simp add: world_keeps_def)
qed

lemma reachable_db_ok: "reachable L P w \<Longrightarrow> db_ok (committed w)"
  using reachable_world_ok by (auto simp: world_ok_def)

lemma reachable_change_induct:
  assumes "reachable L P w" and "decimal_laws L v"
    and "I empty_db" and "\<And>d d'. change v P d d' \<Longrightarrow> I d \<Longrightarrow> I d'"
  shows "I (committed w)"
  using assms(1)
proof (induction rule: reachable.induct)
  case reachable_start
  then show ?case using assms(3) by simp
next
  case (reachable_step w w')
  then show ?case using assms(2,4) serves_change reachable_db_ok by metis
qed

text \<open>What every step of the books keeps, whatever amounts are requested.\<close>

definition books_inv :: "db \<Rightarrow> bool" where
  "books_inv d \<longleftrightarrow> keys_ok d \<and> double_entry d \<and> books_cover d \<and> topped_up d \<le> total_balance d"

lemma books_inv_empty: "books_inv empty_db"
  by (simp add: books_inv_def keys_ok_def double_entry_def books_cover_def topped_up_def total_balance_def empty_db_def)

lemma books_inv_change:
  assumes ch: "change v P d d'" and I: "books_inv d"
  shows "books_inv d'"
proof -
  have "0 \<le> excess d' x" if "x \<in> set (wallets d')" for x
    using excess_change [OF ch _ that] I by (auto simp: books_inv_def books_cover_def excess_def)
  then have "books_cover d'" by (auto simp: books_cover_def excess_def)
  then show ?thesis
    using I keys_ok_change [OF ch] double_entry_change [OF ch] total_change [OF ch] by (auto simp: books_inv_def)
qed

lemma reachable_books:
  assumes "reachable L P w" and "decimal_laws L v"
  shows "books_inv (committed w)"
  using assms
  by (rule reachable_change_induct [where I = books_inv]) (auto intro: books_inv_empty books_inv_change)

text \<open>What it keeps when no amount ends in half a hundredth: the ledger explains every balance.\<close>

definition books_exact :: "db \<Rightarrow> bool" where
  "books_exact d \<longleftrightarrow> books_agree d \<and> total_balance d = topped_up d"

lemma books_exact_change:
  assumes ch: "change v P d d'" and no: "\<And>a. P a \<Longrightarrow> \<not> half_cent v a"
    and I: "keys_ok d \<and> books_exact d"
  shows "keys_ok d' \<and> books_exact d'"
proof -
  have "excess d' x = 0" if "x \<in> set (wallets d')" for x
    using excess_change [OF ch _ that] I no by (auto simp: books_exact_def books_agree_def excess_def)
  then have "books_agree d'" by (auto simp: books_agree_def excess_def)
  then show ?thesis
    using I keys_ok_change [OF ch] total_change [OF ch] no by (auto simp: books_exact_def)
qed

lemma reachable_books_exact:
  assumes "reachable L P w" and "decimal_laws L v" and "\<And>a. P a \<Longrightarrow> \<not> half_cent v a"
  shows "keys_ok (committed w) \<and> books_exact (committed w)"
  using assms(1,2)
proof (rule reachable_change_induct)
  show "keys_ok empty_db \<and> books_exact empty_db"
    by (simp add: keys_ok_def books_exact_def books_agree_def topped_up_def total_balance_def empty_db_def)
qed (use books_exact_change assms(3) in blast)

end
