(* ===== verification/Totality.thy ===== *)
theory Totality
  imports Runs
begin

text \<open>
  When the services succeed. In an environment where no interaction fails, the identifiers a
  request generates are functions of the environment and of the tick it starts at
  (\<open>alphanumeric\<close>, \<open>ref_at\<close>, \<open>ledger_id_at\<close>), and a request succeeds when its wallets exist, its
  amount fits and those identifiers are new.
\<close>

text \<open>The proofs run the program forward by rewriting with \<open>bindE_run\<close> and \<open>wrapE_run\<close>.\<close>

lemma returnE_run: "returnE x s = (Inr x, s)"
  by (simp add: returnE_def)

section \<open>Generated identifiers\<close>

definition alphanumeric :: "env \<Rightarrow> nat \<Rightarrow> nat \<Rightarrow> string" where
  "alphanumeric e t n = map (\<lambda>k. charset ! (the (rand e (t + k)) mod 36)) [0..<n]"

definition ref_at :: "env \<Rightarrow> nat \<Rightarrow> string" where
  "ref_at e t = ''TXN-'' @ Format_20060102 (local_date e (clock e (t + 8))) @ ''-'' @ alphanumeric e t 8"

definition ledger_id_at :: "env \<Rightarrow> nat \<Rightarrow> string" where
  "ledger_id_at e t = ''LED-'' @ alphanumeric e t 10"

definition wallet_id_at :: "env \<Rightarrow> nat \<Rightarrow> string" where
  "wallet_id_at e t = ''WLT-'' @ alphanumeric e t 8"

text \<open>The calendar of the years up to 9999.\<close>

definition calendar_ok :: "env \<Rightarrow> bool" where
  "calendar_ok e \<longleftrightarrow> (\<forall>t y m d. local_date e t = (y, m, d) \<longrightarrow> y < 10000 \<and> m < 100 \<and> d < 100)"

lemma randomAlphanumeric_run:
  "healthy (env w) \<Longrightarrow>
     randomAlphanumeric n w = (Inr (alphanumeric (env w) (tick w) n), w\<lparr>tick := tick w + n\<rparr>)"
proof (induction n arbitrary: w)
  case (Suc n)
  then obtain r where r: "rand (env w) (tick w) = Some r"
    by (auto simp: healthy_def) (metis option.exhaust)
  have "alphanumeric (env w) (tick w) (Suc n)
      = charset ! (r mod 36) # alphanumeric (env w) (Suc (tick w)) n"
    by (simp add: alphanumeric_def upt_conv_Cons map_Suc_upt [symmetric] r del: upt_Suc)
  moreover have "randomAlphanumeric n (next_tick w)
      = (Inr (alphanumeric (env w) (Suc (tick w)) n), (next_tick w)\<lparr>tick := Suc (tick w) + n\<rparr>)"
    using Suc.IH [of "next_tick w"] Suc.prems by simp
  ultimately show ?case
    using r by (simp add: bindE_def wrapE_def rand_Int_def returnE_def next_tick_def)
qed (simp add: returnE_def alphanumeric_def)

lemma GenerateTransactionRef_run:
  "healthy (env w) \<Longrightarrow>
     GenerateTransactionRef w = (Inr (ref_at (env w) (tick w)), w\<lparr>tick := tick w + 9\<rparr>)"
  by (simp add: GenerateTransactionRef_def bindE_def randomAlphanumeric_run time_Now_def ref_at_def
      next_tick_def)

lemma GenerateLedgerEntryID_run:
  "healthy (env w) \<Longrightarrow>
     GenerateLedgerEntryID w = (Inr (ledger_id_at (env w) (tick w)), w\<lparr>tick := tick w + 10\<rparr>)"
  by (simp add: GenerateLedgerEntryID_def bindE_def randomAlphanumeric_run returnE_def ledger_id_at_def)

lemma GenerateWalletID_run:
  "healthy (env w) \<Longrightarrow>
     GenerateWalletID w = (Inr (wallet_id_at (env w) (tick w)), w\<lparr>tick := tick w + 8\<rparr>)"
  by (simp add: GenerateWalletID_def bindE_def randomAlphanumeric_run returnE_def wallet_id_at_def)

lemma length_alphanumeric [simp]: "length (alphanumeric e t n) = n"
  by (simp add: alphanumeric_def)

lemma varchar_ids: "varchar 20 (ledger_id_at e t)" "varchar 20 (wallet_id_at e t)"
  by (rule varchar_length, simp add: ledger_id_at_def wallet_id_at_def)+

lemma varchar_ref: "calendar_ok e \<Longrightarrow> varchar 30 (ref_at e t)"
proof (rule varchar_length)
  assume cal: "calendar_ok e"
  obtain y m d where ymd: "local_date e (clock e (t + 8)) = (y, m, d)" by (metis prod_cases3)
  then have "length (Format_20060102 (y, m, d)) = 8"
    using cal by (intro Format_length) (auto simp: calendar_ok_def)
  then show "length (ref_at e t) \<le> 30" by (simp add: ref_at_def ymd)
qed

lemma varchar_constants:
  "varchar 20 TransactionTypeTopUp" "varchar 20 TransactionTypeTransfer"
  "varchar 20 TransactionStatusPending" "varchar 20 TransactionStatusCompleted"
  "varchar 10 EntryTypeDebit" "varchar 10 EntryTypeCredit" "varchar 10 UserRoleUser" "varchar 10 UserRoleAdmin" "varchar 3 ''IDR''"
  by (rule varchar_length, simp add: model_constants)+

section \<open>The parts of both operations\<close>

lemma create_pending_run:
  assumes "work w = Some (d, now)" and env: "healthy (env w)" and laws: "decimal_laws L v"
    and "varchar 30 ref" and "ty \<in> {TransactionTypeTopUp, TransactionTypeTransfer}"
    and "varchar_opt 20 source" and "references source (wallets d)"
    and "target \<noteq> []" and "varchar 20 target" and "target \<in> wr_id ` set (wallets d)"
    and "0 < cents v a" and "cents v a < 10 ^ 18"
    and "u \<notin> tr_id ` set (transactions d)" and "ref \<notin> tr_reference_no ` set (transactions d)"
    and t: "u = uuids (env w) (tick w + 2)" "t = tick w + 3"
  shows "create_pending L ref ty a source target w = (Inr (transaction_of L (pending_row u ref ty (cents v a) source target now)),
    w\<lparr>tick := t, work := Some (d\<lparr>transactions := transactions d @ [pending_row u ref ty (cents v a) source target now]\<rparr>, now)\<rparr>)"
proof -
  have "\<exists>x w'. create_pending L ref ty a source target w = (Inr x, w') \<and>
      x = transaction_of L (pending_row u ref ty (cents v a) source target now) \<and>
      w' = w\<lparr>tick := t, work := Some (d\<lparr>transactions := transactions d @
        [pending_row u ref ty (cents v a) source target now]\<rparr>, now)\<rparr>"
    unfolding create_pending_def bindE_Inr uuid_New_Inr time_Now_Inr
    using assms(1,4-16) env
    by (auto simp: transactionRepo_Create_Tx [OF _ laws, where d = d and now = now] healthy_def varchar_constants
        pending_row_def next_tick_def numeral_3_eq_3)
  then show ?thesis by simp
qed

lemma write_entry_run:
  assumes "work w = Some (d, now)" and env: "healthy (env w)" and laws: "decimal_laws L v"
    and "ty \<in> {EntryTypeDebit, EntryTypeCredit}" and "0 < cents v a" and "cents v a < 10 ^ 18"
    and "varchar 20 i" and "i \<in> wr_id ` set (wallets d)" and "u \<in> tr_id ` set (transactions d)"
    and "entry \<notin> lr_id ` set (ledger_entries d)" and t: "entry = ledger_id_at (env w) (tick w)" "t = tick w + 12"
  shows "\<exists>e d'. write_entry L u i ty a w = (Inr e, w\<lparr>tick := t, work := Some (d', now)\<rparr>) \<and>
    transactions d' = transactions d \<and> wallets d' = wallets d \<and>
    lr_id ` set (ledger_entries d') = insert entry (lr_id ` set (ledger_entries d))"
proof -
  let ?d = "d\<lparr>ledger_entries := ledger_entries d @ [entry_row entry u i ty (cents v a) now]\<rparr>"
  have "\<exists>e. write_entry L u i ty a w = (Inr e, w\<lparr>tick := t, work := Some (?d, now)\<rparr>)"
    unfolding write_entry_def bindE_Inr wrapE_Inr time_Now_Inr
    using assms(1,4-12) env
    by (auto simp: GenerateLedgerEntryID_run ledgerRepo_Create_Tx [OF _ laws, where d = d and now = now] healthy_def
        varchar_ids varchar_constants next_tick_def)
  then obtain e where "write_entry L u i ty a w = (Inr e, w\<lparr>tick := t, work := Some (?d, now)\<rparr>)" ..
  then show ?thesis by (intro exI [of _ e] exI [of _ ?d]) (simp add: entry_row_def)
qed

lemma write_entry_at:
  assumes env: "healthy (env w)" and laws: "decimal_laws L v"
    and "ty \<in> {EntryTypeDebit, EntryTypeCredit}" and "0 < cents v a" and "cents v a < 10 ^ 18"
    and "varchar 20 i" and "i \<in> wr_id ` set (wallets d)" and "u \<in> tr_id ` set (transactions d)"
    and "ledger_id_at (env w) t \<notin> lr_id ` set (ledger_entries d)" and t': "t' = t + 12"
  obtains e d' where "write_entry L u i ty a (w\<lparr>tick := t, work := Some (d, now)\<rparr>) = (Inr e, w\<lparr>tick := t', work := Some (d', now)\<rparr>)"
    "transactions d' = transactions d" "wallets d' = wallets d"
    "lr_id ` set (ledger_entries d') = insert (ledger_id_at (env w) t) (lr_id ` set (ledger_entries d))"
proof -
  let ?w = "w\<lparr>tick := t, work := Some (d, now)\<rparr>"
  have "work ?w = Some (d, now)" "healthy (env ?w)" "ledger_id_at (env w) t = ledger_id_at (env ?w) (tick ?w)" "t' = tick ?w + 12"
    using env t' by simp_all
  from write_entry_run [OF this(1,2) laws assms(3-8) assms(9) this(3,4)] obtain e d' where
    d': "write_entry L u i ty a ?w = (Inr e, ?w\<lparr>tick := t', work := Some (d', now)\<rparr>)"
      "transactions d' = transactions d" "wallets d' = wallets d"
      "lr_id ` set (ledger_entries d') = insert (ledger_id_at (env w) t) (lr_id ` set (ledger_entries d))"
    by blast
  show thesis by (rule that [of e d']) (use d' in simp_all)
qed

lemma UpdateBalance_run:
  assumes "work w = Some (d, now)" and "healthy (env w)" and laws: "decimal_laws L v"
    and "i \<in> wr_id ` set (wallets d)" and "0 \<le> cents v b" and "cents v b < 10 ^ 18" and "t = tick w + 1"
  shows "\<exists>d'. walletRepo_UpdateBalance L Tx i b w = (Inr (), w\<lparr>tick := t, work := Some (d', now)\<rparr>) \<and>
    transactions d' = transactions d \<and> ledger_entries d' = ledger_entries d \<and>
    wr_id ` set (wallets d') = wr_id ` set (wallets d)"
proof -
  let ?d = "d\<lparr>wallets := update_where (\<lambda>r. wr_id r = i)
      (\<lambda>r. r\<lparr>wr_balance := cents v b, wr_updated_at := now\<rparr>) (wallets d)\<rparr>"
  have "walletRepo_UpdateBalance L Tx i b w = (Inr (), w\<lparr>tick := t, work := Some (?d, now)\<rparr>)"
    using assms by (simp add: walletRepo_UpdateBalance_Tx [OF assms(1) laws] healthy_def next_tick_def)
  then show ?thesis by (intro exI [of _ ?d]) (simp add: image_update_where)
qed

lemma UpdateStatus_run:
  assumes "work w = Some (d, now)" and "healthy (env w)" and "u \<in> tr_id ` set (transactions d)" and "t = tick w + 1"
  shows "\<exists>d'. transactionRepo_UpdateStatus Tx u TransactionStatusCompleted w =
    (Inr (), w\<lparr>tick := t, work := Some (d', now)\<rparr>)"
  using assms by (auto simp: transactionRepo_UpdateStatus_Tx [OF assms(1)] healthy_def next_tick_def varchar_constants)

section \<open>Top-up\<close>

definition topup_keys_fresh :: "world \<Rightarrow> bool" where
  "topup_keys_fresh w \<longleftrightarrow>
     uuids (env w) (tick w + 14) \<notin> tr_id ` set (transactions (committed w)) \<and>
     ref_at (env w) (tick w + 3) \<notin> tr_reference_no ` set (transactions (committed w)) \<and>
     ledger_id_at (env w) (tick w + 16) \<notin> lr_id ` set (ledger_entries (committed w))"

lemma topUp_statements_run:
  assumes work: "work w = Some (d, now)" and env: "healthy (env w)" "calendar_ok (env w)"
    and laws: "decimal_laws L v" and ok: "wallets_ok d" and r: "r \<in> set (wallets d)"
    and fits: "0 < cents v a" "wr_balance r + cents v a < 10 ^ 18"
    and wid: "wr_id r \<noteq> []" "varchar 20 (wr_id r)"
    and fresh: "uuids (env w) (tick w + 12) \<notin> tr_id ` set (transactions d)"
      "ref_at (env w) (tick w + 1) \<notin> tr_reference_no ` set (transactions d)"
      "ledger_id_at (env w) (tick w + 14) \<notin> lr_id ` set (ledger_entries d)"
  shows "\<exists>x u d'. topUp_statements L (wallet_of L r) a w = (Inr x, u) \<and> env u = env w \<and> work u = Some (d', now)"
proof -
  let ?i = "wr_id r" and ?c = "cents v a" and ?e = "env w" and ?t = "tick w"
  let ?st = "\<lambda>k d. (locking ?i (Some (wallet_of L r)) w)\<lparr>tick := ?t + k, work := Some (d, now)\<rparr>"
  have ok_at: "fault ?e n = NoFault" for n using env(1) by (simp add: healthy_def)
  have i: "?i \<in> wr_id ` set (wallets d)" "wallet_with_id d ?i = Some r" using ok r wallet_with_id_mem by simp_all
  have bal: "0 \<le> wr_balance r" "?c < 10 ^ 18" using ok r fits by (auto simp: wallets_ok_def)
  let ?nb = "Decimal_Add L (cents_decimal L (wr_balance r)) a"
  have nb: "cents v ?nb = wr_balance r + ?c"
    using cents_add [OF laws bal(1), of a] cents_pos [OF fits(1)] by simp
  have lock: "walletRepo_FindByIDForUpdate L Tx ?i w = (Inr (Some (wallet_of L r)), ?st 1 d)"
    using work i ok_at by (cases w) (simp add: FindByIDForUpdate_Inr next_tick_def locking_def)
  have ref: "GenerateTransactionRef (?st 1 d) = (Inr (ref_at ?e (?t + 1)), ?st 10 d)"
    using env by (simp add: GenerateTransactionRef_run)
  let ?row = "pending_row (uuids ?e (?t + 12)) (ref_at ?e (?t + 1)) TransactionTypeTopUp ?c None ?i now"
  let ?d1 = "d\<lparr>transactions := transactions d @ [?row]\<rparr>"
  have create: "create_pending L (ref_at ?e (?t + 1)) TransactionTypeTopUp a None ?i (?st 10 d)
     = (Inr (transaction_of L ?row), ?st 13 ?d1)"
    using env fits bal wid fresh i
    by (subst create_pending_run [where w = "?st 10 d" and d = d and now = now and u = "uuids ?e (?t + 12)" and t = "?t + 13",
        OF _ _ laws]) (simp_all add: varchar_ref varchar_opt_def references_def add.commute)
  obtain d2 where gain: "walletRepo_UpdateBalance L Tx ?i ?nb (?st 13 ?d1) = (Inr (), ?st 14 d2)" and
    d2: "transactions d2 = transactions ?d1" "ledger_entries d2 = ledger_entries d" "wr_id ` set (wallets d2) = wr_id ` set (wallets d)"
    using UpdateBalance_run [OF _ _ laws, of "?st 13 ?d1" ?d1 now ?i ?nb "?t + 14"] env fits bal i(1) nb by auto
  obtain e d3 where entry: "write_entry L (uuids ?e (?t + 12)) ?i EntryTypeCredit a (?st 14 d2) = (Inr e, ?st 26 d3)"
    and d3: "transactions d3 = transactions ?d1"
    by (rule write_entry_at [where w = "locking ?i (Some (wallet_of L r)) w", OF _ laws,
          of EntryTypeCredit a ?i d2 "uuids ?e (?t + 12)" "?t + 14" "?t + 26" now])
      (use env(1) fits(1) bal(2) wid(2) fresh(3) i(1) d2 in simp_all)
  obtain d4 where fin: "transactionRepo_UpdateStatus Tx (uuids ?e (?t + 12)) TransactionStatusCompleted (?st 26 d3)
     = (Inr (), ?st 27 d4)"
    using UpdateStatus_run [of "?st 26 d3" d3 now "uuids ?e (?t + 12)" "?t + 27"] env d3 by auto
  have "topUp_statements L (wallet_of L r) a w = (Inr (transaction_of L ?row, ?nb), ?st 27 d4)"
    unfolding topUp_statements_def topUp_rest_def Let_def
    by (simp only: wallet_of_simps bindE_run lock option.case wrapE_run ref create gain entry fin
        transaction_of_simps pending_row_simps returnE_def)
  then show ?thesis by (intro exI conjI, assumption) simp_all
qed

lemma healthy_fault: "healthy e \<Longrightarrow> fault e n = NoFault"
  by (simp add: healthy_def)

text \<open>A transaction around statements that run, in a healthy environment.\<close>

lemma transaction_run:
  assumes env: "healthy (env w)"
    and body: "body ((next_tick w)\<lparr>work := Some (committed w, clock (env w) (tick w))\<rparr>) = (Inr x, u)"
    and u: "env u = env w" "work u = Some (d, now)"
    and k: "\<And>x s. k x s = (Inr (f x), s\<lparr>spawned := spawned s @ g x\<rparr>)"
  shows "\<exists>w'. bindE (wrapE (Wrap m1) tx_Begin) (\<lambda>_. deferE tx_Rollback (bindE body (\<lambda>x.
      bindE (wrapE (Wrap m2) tx_Commit) (\<lambda>_. k x)))) w = (Inr (f x), w') \<and> env w' = env w"
  using body u healthy_fault [OF env]
  by (simp add: bindE_def wrapE_def tx_Begin_def deferE_def tx_Commit_def tx_Rollback_def k)

lemma TopUp_run:
  assumes env: "healthy (env w)" "calendar_ok (env w)" and laws: "decimal_laws L v"
    and ok: "db_ok (committed w)" and r: "wallet_of_user (committed w) uid = Some r"
    and fits: "0 < cents v (TopUpRequest_Amount req)"
      "wr_balance r + cents v (TopUpRequest_Amount req) < 10 ^ 18"
    and wid: "wr_id r \<noteq> []" "varchar 20 (wr_id r)" and fresh: "topup_keys_fresh w"
  shows "\<exists>res w'. TopUp L uid req w = (Inr res, w') \<and> env w' = env w"
proof -
  have wok: "wallets_ok (committed w)" using ok by (simp add: db_ok_def)
  have mem: "r \<in> set (wallets (committed w))" using wallet_of_user_Some [OF r] by simp
  have find: "walletRepo_FindByUserID L uid w = (Inr (Some (wallet_of L r)), next_tick w)"
    using wallet_by_user.find_run [OF healthy_fault [OF env(1)], of L uid] r by simp
  let ?w = "next_tick w"
  let ?u = "(next_tick ?w)\<lparr>work := Some (committed ?w, clock (env ?w) (tick ?w))\<rparr>"
  have "\<exists>x u d'. topUp_statements L (wallet_of L r) (TopUpRequest_Amount req) ?u = (Inr x, u) \<and>
      env u = env ?u \<and> work u = Some (d', clock (env ?w) (tick ?w))"
    using env fresh by (intro topUp_statements_run [OF _ _ _ laws wok mem fits wid])
      (simp_all add: topup_keys_fresh_def add.commute numeral_3_eq_3)
  then obtain x u d' where st: "topUp_statements L (wallet_of L r) (TopUpRequest_Amount req) ?u = (Inr x, u)"
    and u: "env u = env w" "work u = Some (d', clock (env ?w) (tick ?w))"
    by auto
  have tx: "TopUp L uid req w = bindE (wrapE (Wrap ''failed to begin transaction'') tx_Begin) (\<lambda>_.
     deferE tx_Rollback (bindE (topUp_statements L (wallet_of L r) (TopUpRequest_Amount req)) (\<lambda>x.
     bindE (wrapE (Wrap ''failed to commit transaction'') tx_Commit) (\<lambda>_.
     topUp_answer L uid (TopUpRequest_Amount req) (wallet_of L r) x)))) (next_tick w)"
    by (simp add: TopUp_def bindE_run [where m = "walletRepo_FindByUserID L uid", OF find])
  show ?thesis
    unfolding tx using transaction_run [where w = ?w and x = x and
        body = "topUp_statements L (wallet_of L r) (TopUpRequest_Amount req)", OF _ st _ _ topUp_answer_run] env u
    by fastforce
qed

section \<open>Transfer\<close>

lemma debit_cents_bounds:
  assumes pos: "0 < cents v a" and enough: "v a \<le> of_int b / 100"
  shows "0 \<le> debit_cents v a" "debit_cents v a \<le> b"
proof -
  have "0 \<le> v a" using cents_pos [OF pos] by simp
  then have "cents v a = debit_cents v a + (if half_cent v a then 1 else 0)" by (rule debit_cents_eq)
  then show "0 \<le> debit_cents v a" using pos by (simp split: if_splits)
  show "debit_cents v a \<le> b" using enough by (simp add: debit_cents_def ceiling_le_iff)
qed


definition transfer_keys_fresh :: "world \<Rightarrow> bool" where
  "transfer_keys_fresh w \<longleftrightarrow>
     uuids (env w) (tick w + 16) \<notin> tr_id ` set (transactions (committed w)) \<and>
     ref_at (env w) (tick w + 5) \<notin> tr_reference_no ` set (transactions (committed w)) \<and>
     ledger_id_at (env w) (tick w + 19) \<notin> lr_id ` set (ledger_entries (committed w)) \<and>
     ledger_id_at (env w) (tick w + 31) \<notin> lr_id ` set (ledger_entries (committed w)) \<and>
     ledger_id_at (env w) (tick w + 19) \<noteq> ledger_id_at (env w) (tick w + 31)"

lemma transfer_writes_run:
  assumes work: "work w = Some (d, now)" and env: "healthy (env w)" "calendar_ok (env w)"
    and laws: "decimal_laws L v" and ok: "wallets_ok d"
    and mem: "rs \<in> set (wallets d)" "rt \<in> set (wallets d)" "wr_id rs \<noteq> wr_id rt"
    and enough: "v a \<le> of_int (wr_balance rs) / 100"
    and fits: "0 < cents v a" "wr_balance rt + cents v a < 10 ^ 18"
    and wid: "wr_id rt \<noteq> []" "varchar 20 (wr_id rs)" "varchar 20 (wr_id rt)" and ref: "varchar 30 ref"
    and fresh: "uuids (env w) (tick w + 2) \<notin> tr_id ` set (transactions d)"
      "ref \<notin> tr_reference_no ` set (transactions d)"
      "ledger_id_at (env w) (tick w + 5) \<notin> lr_id ` set (ledger_entries d)"
      "ledger_id_at (env w) (tick w + 17) \<notin> lr_id ` set (ledger_entries d)"
      "ledger_id_at (env w) (tick w + 5) \<noteq> ledger_id_at (env w) (tick w + 17)"
  shows "\<exists>x d'. transfer_writes L (wallet_of L rs) (wallet_of L rt) a ref w
    = (Inr x, w\<lparr>tick := tick w + 30, work := Some (d', now)\<rparr>)"
proof -
  let ?i = "wr_id rs" and ?j = "wr_id rt" and ?c = "cents v a" and ?e = "env w" and ?t = "tick w"
  let ?st = "\<lambda>k d. w\<lparr>tick := ?t + k, work := Some (d, now)\<rparr>" and ?u = "uuids (env w) (tick w + 2)"
  have i: "?i \<in> wr_id ` set (wallets d)" "?j \<in> wr_id ` set (wallets d)" using mem by simp_all
  have bal: "0 \<le> wr_balance rs" "wr_balance rs < 10 ^ 18" "0 \<le> wr_balance rt" "?c < 10 ^ 18"
    using ok mem fits by (auto simp: wallets_ok_def)
  let ?pb = "Decimal_Sub L (cents_decimal L (wr_balance rs)) a" and ?gb = "Decimal_Add L (cents_decimal L (wr_balance rt)) a"
  have nb: "cents v ?pb = wr_balance rs - debit_cents v a" "cents v ?gb = wr_balance rt + ?c"
    using cents_sub [OF laws enough] cents_add [OF laws bal(3), of a] cents_pos [OF fits(1)] by simp_all
  note l = debit_cents_bounds [OF fits(1) enough]
  let ?row = "pending_row ?u ref TransactionTypeTransfer ?c (Some ?i) ?j now"
  let ?d1 = "d\<lparr>transactions := transactions d @ [?row]\<rparr>"
  have create: "create_pending L ref TransactionTypeTransfer a (Some ?i) ?j w = (Inr (transaction_of L ?row), ?st 3 ?d1)"
    using ref fits bal wid fresh i
    by (subst create_pending_run [where u = ?u and t = "?t + 3", OF work env(1) laws])
      (simp_all add: varchar_opt_def references_def)
  obtain d2 where pay: "walletRepo_UpdateBalance L Tx ?i ?pb (?st 3 ?d1) = (Inr (), ?st 4 d2)" and
    d2: "transactions d2 = transactions ?d1" "ledger_entries d2 = ledger_entries d" "wr_id ` set (wallets d2) = wr_id ` set (wallets d)"
    using UpdateBalance_run [OF _ _ laws, of "?st 3 ?d1" ?d1 now ?i ?pb "?t + 4"] env bal i nb l by auto
  obtain d3 where gain: "walletRepo_UpdateBalance L Tx ?j ?gb (?st 4 d2) = (Inr (), ?st 5 d3)" and
    d3: "transactions d3 = transactions ?d1" "ledger_entries d3 = ledger_entries d" "wr_id ` set (wallets d3) = wr_id ` set (wallets d)"
    using UpdateBalance_run [OF _ _ laws, of "?st 4 d2" d2 now ?j ?gb "?t + 5"] env bal i nb fits d2 by auto
  obtain e1 d4 where debit: "write_entry L ?u ?i EntryTypeDebit a (?st 5 d3) = (Inr e1, ?st 17 d4)" and
    d4: "transactions d4 = transactions ?d1" "wallets d4 = wallets d3"
      "lr_id ` set (ledger_entries d4) = insert (ledger_id_at ?e (?t + 5)) (lr_id ` set (ledger_entries d))"
    by (rule write_entry_at [OF env(1) laws, of EntryTypeDebit a ?i d3 ?u "?t + 5" "?t + 17" now])
      (use fits(1) bal(4) wid(2) fresh(3) i(1) d3 in simp_all)
  obtain e2 d5 where credit: "write_entry L ?u ?j EntryTypeCredit a (?st 17 d4) = (Inr e2, ?st 29 d5)" and
    d5: "transactions d5 = transactions ?d1"
    by (rule write_entry_at [OF env(1) laws, of EntryTypeCredit a ?j d4 ?u "?t + 17" "?t + 29" now])
      (use fits(1) bal(4) wid(3) fresh(4,5) i(2) d3 d4 in simp_all)
  obtain d6 where fin: "transactionRepo_UpdateStatus Tx ?u TransactionStatusCompleted (?st 29 d5) = (Inr (), ?st 30 d6)"
    using UpdateStatus_run [of "?st 29 d5" d5 now ?u "?t + 30"] env d5 by auto
  have "transfer_writes L (wallet_of L rs) (wallet_of L rt) a ref w = (Inr (transaction_of L ?row, ?pb), ?st 30 d6)"
    unfolding transfer_writes_def Let_def
    by (simp only: wallet_of_simps bindE_run create pay gain debit credit fin
        transaction_of_simps pending_row_simps returnE_def)
  then show ?thesis by blast
qed

lemma transfer_statements_run:
  assumes work: "work w = Some (d, now)" and env: "healthy (env w)" "calendar_ok (env w)"
    and laws: "decimal_laws L v" and ok: "wallets_ok d"
    and mem: "rs \<in> set (wallets d)" "rt \<in> set (wallets d)" "wr_id rs \<noteq> wr_id rt"
    and enough: "v a \<le> of_int (wr_balance rs) / 100"
    and fits: "0 < cents v a" "wr_balance rt + cents v a < 10 ^ 18"
    and wid: "wr_id rt \<noteq> []" "varchar 20 (wr_id rs)" "varchar 20 (wr_id rt)"
    and fresh: "uuids (env w) (tick w + 13) \<notin> tr_id ` set (transactions d)"
      "ref_at (env w) (tick w + 2) \<notin> tr_reference_no ` set (transactions d)"
      "ledger_id_at (env w) (tick w + 16) \<notin> lr_id ` set (ledger_entries d)"
      "ledger_id_at (env w) (tick w + 28) \<notin> lr_id ` set (ledger_entries d)"
      "ledger_id_at (env w) (tick w + 16) \<noteq> ledger_id_at (env w) (tick w + 28)"
  shows "\<exists>x u d'. transfer_statements L (wallet_of L rs) (wallet_of L rt) a w = (Inr x, u) \<and>
    env u = env w \<and> tick u = tick w + 41 \<and> work u = Some (d', now)"
proof -
  have ok_at: "fault (env w) n = NoFault" for n using env(1) by (simp add: healthy_def)
  have id: "wallet_with_id d (wr_id rs) = Some rs" "wallet_with_id d (wr_id rt) = Some rt"
    using ok mem by (simp_all add: wallet_with_id_mem)
  obtain w2 where lock: "transfer_lock L (wallet_of L rs) (wallet_of L rt) w
      = (Inr (Some (wallet_of L rs), Some (wallet_of L rt)), w2)"
    and w2: "env w2 = env w" "tick w2 = tick w + 2" "work w2 = work w"
    using ok_at id by (simp add: transfer_lock_Inr [OF work])
  let ?u = "w2\<lparr>tick := tick w + 11\<rparr>"
  have ref: "GenerateTransactionRef w2 = (Inr (ref_at (env w) (tick w + 2)), ?u)"
    using env w2 by (simp add: GenerateTransactionRef_run)
  have "\<exists>x d'. transfer_writes L (wallet_of L rs) (wallet_of L rt) a (ref_at (env w) (tick w + 2)) ?u
    = (Inr x, ?u\<lparr>tick := tick ?u + 30, work := Some (d', now)\<rparr>)"
    using work env fresh w2
    by (intro transfer_writes_run [OF _ _ _ laws ok mem enough fits wid varchar_ref]) (simp_all add: add.commute)
  then obtain txn nb d' where writes: "transfer_writes L (wallet_of L rs) (wallet_of L rt) a
      (ref_at (env w) (tick w + 2)) ?u = (Inr (txn, nb), ?u\<lparr>tick := tick ?u + 30, work := Some (d', now)\<rparr>)"
    by auto
  have "\<not> Decimal_LessThan L (cents_decimal L (wr_balance rs)) a"
    using enough laws by (simp add: decimal_laws_simps cents_decimal_value)
  then have "transfer_statements L (wallet_of L rs) (wallet_of L rt) a w
    = (Inr (wallet_of L rs, wallet_of L rt, txn, nb), ?u\<lparr>tick := tick ?u + 30, work := Some (d', now)\<rparr>)"
    unfolding transfer_statements_def transfer_rest_def transfer_locked_def
    by (simp only: bindE_run wrapE_run lock prod.case option.case wallet_of_simps simp_thms if_True if_False
        returnE_run ref writes)
  then show ?thesis using w2 by auto
qed

lemma Transfer_runs:
  assumes env: "healthy (env w)" "calendar_ok (env w)" and laws: "decimal_laws L v"
    and ok: "db_ok (committed w)" and rs: "wallet_of_user (committed w) uid = Some rs"
    and rt: "wallet_with_id (committed w) (TransferRequest_TargetWalletID req) = Some rt"
    and ne: "wr_id rs \<noteq> wr_id rt"
    and enough: "v (TransferRequest_Amount req) \<le> of_int (wr_balance rs) / 100"
    and fits: "0 < cents v (TransferRequest_Amount req)"
      "wr_balance rt + cents v (TransferRequest_Amount req) < 10 ^ 18"
    and wid: "wr_id rt \<noteq> []" "varchar 20 (wr_id rs)" "varchar 20 (wr_id rt)"
    and fresh: "transfer_keys_fresh w"
  shows Transfer_run: "\<exists>res w'. Transfer L uid req w = (Inr res, w') \<and> env w' = env w"
    and Transfer_body_run: "\<exists>x u d'. transfer_statements L (wallet_of L rs) (wallet_of L rt) (TransferRequest_Amount req)
        ((next_tick (next_tick (next_tick w)))\<lparr>work := Some (committed w, clock (env w) (tick w + 2))\<rparr>) = (Inr x, u) \<and>
      env u = env w \<and> tick u = tick w + 44 \<and> work u = Some (d', clock (env w) (tick w + 2))"
proof -
  let ?a = "TransferRequest_Amount req"
  have wok: "wallets_ok (committed w)" using ok by (simp add: db_ok_def)
  have mem: "rs \<in> set (wallets (committed w))" "rt \<in> set (wallets (committed w))"
    and tid: "TransferRequest_TargetWalletID req = wr_id rt"
    using wallet_of_user_Some [OF rs] wallet_with_id_Some [OF rt] by simp_all
  have source: "walletRepo_FindByUserID L uid w = (Inr (Some (wallet_of L rs)), next_tick w)"
    using wallet_by_user.find_run [OF healthy_fault [OF env(1)], of L uid] rs by simp
  let ?w = "next_tick (next_tick w)"
  have target: "walletRepo_FindByID L (wr_id rt) (next_tick w) = (Inr (Some (wallet_of L rt)), ?w)"
    using wallet_by_id.find_run [of "next_tick w" L "wr_id rt"] healthy_fault [OF env(1)] rt tid by simp
  let ?u = "(next_tick ?w)\<lparr>work := Some (committed ?w, clock (env ?w) (tick ?w))\<rparr>"
  let ?body = "transfer_statements L (wallet_of L rs) (wallet_of L rt) ?a"
  have "\<exists>x u d'. ?body ?u = (Inr x, u) \<and> env u = env ?u \<and> tick u = tick ?u + 41 \<and> work u = Some (d', clock (env ?w) (tick ?w))"
    using env fresh by (intro transfer_statements_run [OF _ _ _ laws wok mem ne enough fits wid])
      (simp_all add: transfer_keys_fresh_def add.commute eval_nat_numeral)
  then obtain x u d' where st: "?body ?u = (Inr x, u)"
    and u: "env u = env w" "tick u = tick w + 44" "work u = Some (d', clock (env ?w) (tick ?w))"
    by auto
  then show "\<exists>x u d'. transfer_statements L (wallet_of L rs) (wallet_of L rt) ?a
        ((next_tick ?w)\<lparr>work := Some (committed w, clock (env w) (tick w + 2))\<rparr>) = (Inr x, u) \<and>
      env u = env w \<and> tick u = tick w + 44 \<and> work u = Some (d', clock (env w) (tick w + 2))"
    by (intro exI [of _ x] exI [of _ u] exI [of _ d']) simp
  have tx: "Transfer L uid req w = bindE (wrapE (Wrap ''failed to begin transaction'') tx_Begin) (\<lambda>_.
     deferE tx_Rollback (bindE ?body (\<lambda>x.
     bindE (wrapE (Wrap ''failed to commit transaction'') tx_Commit) (\<lambda>_.
     transfer_answer L uid ?a x)))) ?w"
    using ne by (simp add: Transfer_def bindE_run [where m = "walletRepo_FindByUserID L uid", OF source] tid
        bindE_run [where m = "walletRepo_FindByID L (wr_id rt)", OF target])
  show "\<exists>res w'. Transfer L uid req w = (Inr res, w') \<and> env w' = env w"
    unfolding tx using transaction_run [where w = ?w and x = x and body = ?body,
        OF _ st _ _ transfer_answer_run] env u
    by fastforce
qed

section \<open>Registration\<close>

definition register_keys_fresh :: "world \<Rightarrow> bool" where
  "register_keys_fresh w \<longleftrightarrow>
     uuids (env w) (tick w + 3) \<notin> ur_id ` set (users (committed w)) \<and>
     uuids (env w) (tick w + 3) \<notin> wr_user_id ` set (wallets (committed w)) \<and>
     wallet_id_at (env w) (tick w + 4) \<notin> wr_id ` set (wallets (committed w))"

lemma account_statements_run:
  assumes work: "work w = Some (d, now)" and env: "healthy (env w)"
    and laws: "decimal_laws L v" and len: "varchar 255 email" "varchar 255 hash"
    and role: "role = UserRoleUser \<or> role = UserRoleAdmin"
    and new: "email \<notin> ur_email ` set (users d)"
    and fresh: "uuids (env w) (tick w) \<notin> ur_id ` set (users d)"
      "uuids (env w) (tick w) \<notin> wr_user_id ` set (wallets d)"
      "wallet_id_at (env w) (Suc (tick w)) \<notin> wr_id ` set (wallets d)"
  shows "\<exists>x d'. account_statements L role email hash w
    = (Inr x, w\<lparr>tick := tick w + 12, work := Some (d', now)\<rparr>)"
proof -
  let ?e = "env w" and ?t = "tick w"
  let ?st = "\<lambda>k d. w\<lparr>tick := ?t + k, work := Some (d, now)\<rparr>"
  have ok_at: "fault ?e n = NoFault" for n using env by (simp add: healthy_def)
  let ?u = "user_entry (uuids ?e ?t) email hash role now"
  let ?d1 = "d\<lparr>users := users d @ [?u]\<rparr>"
  have user: "userRepo_Create Tx email hash role w = (Inr (user_of ?u), ?st 1 ?d1)"
  proof -
    have "varchar 10 role" using role varchar_constants by blast
    moreover have "role = ''USER'' \<or> role = ''ADMIN''" using role by (simp add: model_constants)
    ultimately show ?thesis
      using ok_at len new fresh by (simp add: userRepo_Create_Tx [OF work] next_tick_def)
  qed
  have wid: "GenerateWalletID (?st 1 ?d1) = (Inr (wallet_id_at ?e (?t + 1)), ?st 9 ?d1)"
    using env by (simp add: GenerateWalletID_run)
  have nows: "time_Now (?st 9 ?d1) = (Inr (clock ?e (?t + 9)), ?st 10 ?d1)"
    "time_Now (?st 10 ?d1) = (Inr (clock ?e (?t + 10)), ?st 11 ?d1)"
    by (simp_all add: time_Now_def next_tick_def)
  have zero: "cents v (Decimal_Zero L) = 0"
    using round_half_away_of_int [of 0] laws by (simp add: cents_def decimal_laws_simps)
  let ?x = "wallet_entry (wallet_id_at ?e (?t + 1)) (uuids ?e ?t) 0 ''IDR'' now"
  have wallet: "walletRepo_Create L Tx
       \<lparr>Wallet_ID = wallet_id_at ?e (?t + 1), Wallet_UserID = uuids ?e ?t,
        Wallet_Balance = Decimal_Zero L, Wallet_Currency = ''IDR'', Wallet_CreatedAt = t1,
        Wallet_UpdatedAt = t2\<rparr> (?st 11 ?d1)
     = (Inr (wallet_of L ?x), ?st 12 (?d1\<lparr>wallets := wallets d @ [?x]\<rparr>))" for t1 t2
    using ok_at fresh
    by (simp add: walletRepo_Create_Tx [where d = ?d1 and now = now, OF _ laws] zero next_tick_def
        varchar_ids varchar_constants user_entry_def)
  have id: "User_ID (user_of ?u) = uuids ?e ?t" by (simp add: user_entry_def)
  have "account_statements L role email hash w
    = (Inr (user_of ?u, wallet_id_at ?e (?t + 1)), ?st 12 (?d1\<lparr>wallets := wallets d @ [?x]\<rparr>))"
    unfolding account_statements_def
    by (simp only: bindE_run wrapE_run user wid nows wallet id returnE_run)
  then show ?thesis by blast
qed

lemma Register_run:
  assumes env: "healthy (env w)" and laws: "decimal_laws L v"
    and new: "user_with_email (committed w) (RegisterRequest_Email req) = None"
    and hash: "\<And>salt. \<exists>h. Bcrypt_Generate L salt (RegisterRequest_Password req) = Some h \<and> varchar 255 h"
    and len: "varchar 255 (RegisterRequest_Email req)" and fresh: "register_keys_fresh w"
  shows "\<exists>res w'. Register L req w = (Inr res, w') \<and> env w' = env w"
proof -
  let ?e = "RegisterRequest_Email req" and ?p = "RegisterRequest_Password req"
  have find: "userRepo_FindByEmail ?e w = (Inr None, next_tick w)"
    using user_by_email.find_run [OF healthy_fault [OF env], of ?e] new by simp
  obtain salt where "rand (env w) (Suc (tick w)) = Some salt"
    using env unfolding healthy_def by blast
  moreover obtain h where h: "Bcrypt_Generate L salt ?p = Some h" "varchar 255 h" using hash by blast
  ultimately have hashed: "wrapE (Wrap ''failed to hash password'') (HashPassword L ?p) (next_tick w)
      = (Inr h, next_tick (next_tick w))"
    by (simp add: wrapE_def HashPassword_def)
  let ?w = "next_tick (next_tick w)"
  let ?u = "(next_tick ?w)\<lparr>work := Some (committed ?w, clock (env ?w) (tick ?w))\<rparr>"
  have absent: "?e \<notin> ur_email ` set (users (committed w))"
    using new by (auto simp: user_with_email_def find_None_iff)
  have "\<exists>x d'. account_statements L UserRoleUser ?e h ?u
      = (Inr x, ?u\<lparr>tick := tick ?u + 12, work := Some (d', clock (env ?w) (tick ?w))\<rparr>)"
    using env absent fresh unfolding register_keys_fresh_def
    by (intro account_statements_run [OF _ _ laws len h(2)], simp_all add: numeral_eq_Suc) blast+
  then obtain x d' where st: "register_statements L ?e h ?u
      = (Inr x, ?u\<lparr>tick := tick ?u + 12, work := Some (d', clock (env ?w) (tick ?w))\<rparr>)"
    unfolding register_statements_Inr by blast
  have tx: "Register L req w = bindE (wrapE (Wrap ''failed to begin transaction'') tx_Begin) (\<lambda>_.
     deferE tx_Rollback (bindE (register_statements L ?e h) (\<lambda>x.
     bindE (wrapE (Wrap ''failed to commit transaction'') tx_Commit) (\<lambda>_.
     bindE (go_publish ''REGISTER'' (UUID_String L (User_ID (fst x))) (JObj
       [(''wallet_id'', JStr (snd x))])) (\<lambda>_.
     returnE
       \<lparr>RegisterResponse_UserID = User_ID (fst x),
        RegisterResponse_Email = User_Email (fst x),
        RegisterResponse_WalletID = snd x,
        RegisterResponse_CreatedAt = User_CreatedAt (fst x)\<rparr>))))) ?w"
    by (simp add: Register_def bindE_run [where m = "userRepo_FindByEmail ?e", OF find] case_prod_unfold
        bindE_run [where m = "wrapE (Wrap ''failed to hash password'') (HashPassword L ?p)", OF hashed])
  show ?thesis
    unfolding tx using transaction_run [where w = ?w and x = x and body = "register_statements L ?e h",
        OF _ st _ _ publish_return] env
    by fastforce
qed

end
