(* ===== verification/Sample.thy ===== *)
theory Sample
  imports Totality
begin

text \<open>
  An instance of the third-party functions that satisfies the laws, and small states to run
  the code in: decimals are a coefficient and an exponent of ten, their text is unary.
\<close>

section \<open>Decimals\<close>

type_synonym dec = "int \<times> int"

definition dec_value :: "dec \<Rightarrow> rat" where
  "dec_value x = of_int (fst x) * 10 powi snd x"

definition dec_align :: "int \<Rightarrow> dec \<Rightarrow> int" where
  "dec_align e x = fst x * 10 ^ nat (snd x - e)"

definition dec_min :: "dec \<Rightarrow> dec \<Rightarrow> int" where
  "dec_min x y = min (snd x) (snd y)"

definition dec_add :: "dec \<Rightarrow> dec \<Rightarrow> dec" where
  "dec_add x y = (dec_align (dec_min x y) x + dec_align (dec_min x y) y, dec_min x y)"

definition dec_sub :: "dec \<Rightarrow> dec \<Rightarrow> dec" where
  "dec_sub x y = (dec_align (dec_min x y) x - dec_align (dec_min x y) y, dec_min x y)"

definition dec_less :: "dec \<Rightarrow> dec \<Rightarrow> bool" where
  "dec_less x y = (dec_align (dec_min x y) x < dec_align (dec_min x y) y)"

lemma dec_align_value: "e \<le> snd x \<Longrightarrow> of_int (dec_align e x) * 10 powi e = dec_value x"
proof -
  assume "e \<le> snd x"
  then have "(10::rat) ^ nat (snd x - e) * 10 powi e = 10 powi snd x"
    by (subst power_int_of_nat [symmetric]) (simp flip: power_int_add)
  then show ?thesis by (simp add: dec_align_def dec_value_def mult.assoc)
qed

lemma dec_laws:
  "dec_value (dec_add x y) = dec_value x + dec_value y"
  "dec_value (dec_sub x y) = dec_value x - dec_value y"
  "dec_less x y \<longleftrightarrow> dec_value x < dec_value y"
proof -
  let ?e = "dec_min x y"
  have x: "of_int (dec_align ?e x) * 10 powi ?e = dec_value x"
    and y: "of_int (dec_align ?e y) * 10 powi ?e = dec_value y"
    by (rule dec_align_value, simp add: dec_min_def)+
  show "dec_value (dec_add x y) = dec_value x + dec_value y"
    unfolding x [symmetric] y [symmetric] by (simp add: dec_value_def dec_add_def distrib_right)
  show "dec_value (dec_sub x y) = dec_value x - dec_value y"
    unfolding x [symmetric] y [symmetric] by (simp add: dec_value_def dec_sub_def left_diff_distrib)
  have "(0::rat) < 10 powi ?e" by simp
  then show "dec_less x y \<longleftrightarrow> dec_value x < dec_value y"
    unfolding x [symmetric] y [symmetric] dec_less_def by (simp del: zero_less_power_int)
qed

subsection \<open>Text\<close>

definition int_text :: "int \<Rightarrow> string" where
  "int_text i = (if i < 0 then ''-'' @ replicate (nat (- i)) CHR ''1'' else replicate (nat i) CHR ''1'')"

definition text_int :: "string \<Rightarrow> int" where
  "text_int s = (case s of [] \<Rightarrow> 0 | c # t \<Rightarrow>
     if c = CHR ''-'' then - int (length t) else int (length s))"

lemma text_int_text: "text_int (int_text i) = i"
proof (cases "nat i")
  case 0
  then show ?thesis by (cases "i < 0") (simp_all add: text_int_def int_text_def)
next
  case (Suc n)
  then show ?thesis by (simp add: text_int_def int_text_def split: list.splits) arith
qed

definition dec_text :: "dec \<Rightarrow> string" where
  "dec_text x = int_text (fst x) @ ''e'' @ int_text (snd x)"

definition text_numeric :: "string \<Rightarrow> numeric option" where
  "text_numeric s =
     Some \<lparr>Numeric_Int = Some (text_int (takeWhile (\<lambda>c. c \<noteq> CHR ''e'') s)),
           Numeric_Exp = text_int (tl (dropWhile (\<lambda>c. c \<noteq> CHR ''e'') s)), Numeric_Valid = True\<rparr>"

lemma e_not_in_text: "c \<in> set (int_text i) \<Longrightarrow> c \<noteq> CHR ''e''"
  by (auto simp: int_text_def split: if_splits)

lemma text_numeric_dec:
  "text_numeric (dec_text x) = Some \<lparr>Numeric_Int = Some (fst x), Numeric_Exp = snd x, Numeric_Valid = True\<rparr>"
  using e_not_in_text [of _ "fst x"]
  by (simp add: text_numeric_def dec_text_def takeWhile_append2 dropWhile_append2 text_int_text)

section \<open>Identifiers\<close>

definition uuid_text :: "uuid \<Rightarrow> string" where
  "uuid_text u = replicate (unat u) CHR ''1''"

definition text_uuid :: "string \<Rightarrow> uuid option" where
  "text_uuid s = Some (of_nat (length s))"

lemma text_uuid_text: "text_uuid (uuid_text u) = Some u"
  by (simp add: text_uuid_def uuid_text_def)

section \<open>Hashes and tokens\<close>

definition framed :: "string \<Rightarrow> string" where
  "framed s = replicate (length s) CHR ''1'' @ CHR ''0'' # s"

definition unframe :: "string \<Rightarrow> string \<times> string" where
  "unframe t = (let n = length (takeWhile (\<lambda>c. c = CHR ''1'') t); r = drop (Suc n) t in (take n r, drop n r))"

lemma unframe_framed: "unframe (framed s @ t) = (s, t)"
proof -
  have "takeWhile (\<lambda>c. c = CHR ''1'') (replicate (length s) CHR ''1'' @ CHR ''0'' # s @ t)
      = replicate (length s) CHR ''1''"
    by (subst takeWhile_append2) auto
  then show ?thesis by (simp add: unframe_def framed_def Let_def)
qed

definition sign_sample :: "Claims \<Rightarrow> string \<Rightarrow> string option" where
  "sign_sample c secret = Some (framed secret @ framed (uuid_text (Claims_UserID c)) @
     framed (Claims_Email c) @ framed (Claims_Role c) @ framed (int_text (Claims_ExpiresAt c)) @
     int_text (Claims_IssuedAt c))"

definition parse_sample :: "string \<Rightarrow> (string \<Rightarrow> string option) \<Rightarrow> time \<Rightarrow> (Claims \<times> bool) option" where
  "parse_sample tok keyfunc now =
     (let (k, t1) = unframe tok; (u, t2) = unframe t1; (e, t3) = unframe t2;
          (r, t4) = unframe t3; (x, i) = unframe t4
      in case text_uuid u of None \<Rightarrow> None | Some uid \<Rightarrow>
         if keyfunc ''HS256'' = Some k \<and> now < text_int x
         then Some (\<lparr>Claims_UserID = uid, Claims_Email = e, Claims_Role = r,
                     Claims_ExpiresAt = text_int x, Claims_IssuedAt = text_int i\<rparr>, True)
         else None)"

section \<open>The instance\<close>

definition sample_lib :: "dec lib" where
  "sample_lib =
     \<lparr>Decimal_Add = dec_add, Decimal_Sub = dec_sub, Decimal_LessThan = dec_less,
      Decimal_Zero = (0, 0), Decimal_String = dec_text, Decimal_NewFromBigInt = Pair,
      Decimal_MarshalJSON = (\<lambda>x. JStr (dec_text x)),
      Decimal_UnmarshalJSON = (\<lambda>j. case j of JStr s \<Rightarrow>
        map_option (\<lambda>n. (the (Numeric_Int n), Numeric_Exp n)) (text_numeric s) | _ \<Rightarrow> None),
      Numeric_Scan = text_numeric,
      Numeric_decode = (\<lambda>c. \<lparr>Numeric_Int = Some c, Numeric_Exp = -2, Numeric_Valid = True\<rparr>),
      UUID_String = uuid_text, UUID_Parse = text_uuid,
      Bcrypt_Generate = (\<lambda>salt p. if length p \<le> 72 then Some (CHR ''$'' # p) else None),
      Bcrypt_Compare = (\<lambda>h p. h = CHR ''$'' # p),
      Jwt_NewNumericDate = (\<lambda>t. t), Jwt_SignedString = sign_sample, Jwt_ParseWithClaims = parse_sample,
      Time_MarshalJSON = (\<lambda>t. JStr (int_text t)),
      Time_UnmarshalJSON = (\<lambda>j. case j of JStr s \<Rightarrow> Some (text_int s) | _ \<Rightarrow> None)\<rparr>"

lemma sample_decimal_laws: "decimal_laws sample_lib dec_value"
  by (simp add: decimal_laws_def sample_lib_def dec_laws text_numeric_dec numeric_value_def
        split_paired_All split_paired_Ex del: split_paired_All)
    (simp add: dec_value_def power_int_minus)

lemma sample_uuid_laws: "uuid_laws sample_lib"
  by (simp add: uuid_laws_def sample_lib_def text_uuid_text)

lemma sample_bcrypt_laws: "bcrypt_laws sample_lib"
  by (simp add: bcrypt_laws_def sample_lib_def)

lemma sample_jwt_laws: "jwt_laws sample_lib"
  by (simp add: jwt_laws_def sample_lib_def sign_sample_def parse_sample_def unframe_framed
      text_uuid_text text_int_text)

section \<open>Sample states\<close>

definition sample_env :: env where
  "sample_env = \<lparr>fault = (\<lambda>_. NoFault), rand = (\<lambda>n. Some n), uuids = (\<lambda>n. of_nat (10 + n)),
     clock = (\<lambda>n. 1000 + int n), plan = (\<lambda>_ i. i), local_date = (\<lambda>_. (2026, 6, 3))\<rparr>"

definition sample_user :: "uuid \<Rightarrow> string \<Rightarrow> user_row" where
  "sample_user u e = user_entry u e ''$secret'' UserRoleUser 1"

definition sample_db :: db where
  "sample_db = empty_db\<lparr>users := [sample_user 1 ''ann'', sample_user 2 ''bob''],
     wallets := [wallet_entry ''WLT-A'' 1 1000 ''IDR'' 1, wallet_entry ''WLT-B'' 2 0 ''IDR'' 1]\<rparr>"

definition sample_world :: world where
  "sample_world = \<lparr>env = sample_env, tick = 0, committed = sample_db, work = None,
     spawned = [], published = [], redis = (\<lambda>_. None), audited = [], row_locks = []\<rparr>"

end
