(* ===== verification/Causality.thy ===== *)
theory Causality
  imports Totality
begin

text \<open>
  Nothing looks ahead: what a program does up to some tick depends only on what the environment
  answers before that tick. So a run in a healthy environment is also the beginning of the runs in
  which something fails later.
\<close>

definition until :: "nat \<Rightarrow> env \<Rightarrow> env \<Rightarrow> bool" where
  "until n e e' \<longleftrightarrow> local_date e' = local_date e \<and> (\<forall>k < n. fault e' k = fault e k \<and> rand e' k = rand e k \<and>
     uuids e' k = uuids e k \<and> clock e' k = clock e k \<and> plan e' k = plan e k)"

lemma until_less: "until n e e' \<Longrightarrow> m \<le> n \<Longrightarrow> until m e e'"
  by (simp add: until_def)

definition causal :: "'a go \<Rightarrow> bool" where
  "causal m \<longleftrightarrow> (\<forall>w x u. m w = (x, u) \<longrightarrow> env u = env w \<and> tick w \<le> tick u \<and>
     (\<forall>e. until (tick u) (env w) e \<longrightarrow> m (w\<lparr>env := e\<rparr>) = (x, u\<lparr>env := e\<rparr>)))"

lemma causalI:
  assumes "\<And>w x u. m w = (x, u) \<Longrightarrow> env u = env w \<and> tick w \<le> tick u"
    and "\<And>w x u e. m w = (x, u) \<Longrightarrow> until (tick u) (env w) e \<Longrightarrow> m (w\<lparr>env := e\<rparr>) = (x, u\<lparr>env := e\<rparr>)"
  shows "causal m"
  using assms unfolding causal_def by blast

lemma causalD:
  assumes "causal m" and "m w = (x, u)"
  shows "env u = env w" "tick w \<le> tick u" "until (tick u) (env w) e \<Longrightarrow> m (w\<lparr>env := e\<rparr>) = (x, u\<lparr>env := e\<rparr>)"
  using assms unfolding causal_def by blast+

section \<open>Combinators\<close>

lemma causal_returnE: "causal (returnE x)"
  by (simp add: causal_def returnE_def)

lemma causal_throwE: "causal (throwE e)"
  by (simp add: causal_def throwE_def)

lemma causal_tryE:
  assumes m: "causal m" and f: "\<And>r. causal (f r)"
  shows "causal (tryE m f)"
proof -
  have step: "env u = env w \<and> tick w \<le> tick u \<and>
      (\<forall>e. until (tick u) (env w) e \<longrightarrow> tryE m f (w\<lparr>env := e\<rparr>) = (x, u\<lparr>env := e\<rparr>))"
    if run: "tryE m f w = (x, u)" for w x u
  proof -
    obtain r v where r: "m w = (r, v)" by fastforce
    then have s: "f r v = (x, u)" using run by (simp add: tryE_def)
    note one = causalD [OF m r] and two = causalD [OF f s]
    have "tryE m f (w\<lparr>env := e\<rparr>) = (x, u\<lparr>env := e\<rparr>)" if "until (tick u) (env w) e" for e
      using one(3) [OF until_less [OF that two(2)]] two(3) [of e] that one(1) by (simp add: tryE_def)
    then show ?thesis using one two by simp
  qed
  show ?thesis unfolding causal_def using step by blast
qed

lemma bindE_tryE: "bindE m f = tryE m (\<lambda>r. case r of Inl e \<Rightarrow> throwE e | Inr x \<Rightarrow> f x)"
  by (rule ext) (auto simp: bindE_def tryE_def throwE_def split: prod.splits sum.splits)

lemma wrapE_tryE: "wrapE g m = tryE m (\<lambda>r. case r of Inl e \<Rightarrow> throwE (g e) | Inr x \<Rightarrow> returnE x)"
  by (rule ext) (auto simp: wrapE_def tryE_def throwE_def returnE_def split: prod.splits sum.splits)

lemma causal_sum: "(\<And>x. causal (m x)) \<Longrightarrow> (\<And>x. causal (f x)) \<Longrightarrow> causal (case v of Inl x \<Rightarrow> m x | Inr x \<Rightarrow> f x)"
  by (cases v) auto

lemma causal_bindE: "causal m \<Longrightarrow> (\<And>x. causal (f x)) \<Longrightarrow> causal (bindE m f)"
  unfolding bindE_tryE by (intro causal_tryE causal_sum causal_throwE)

lemma causal_wrapE: "causal m \<Longrightarrow> causal (wrapE g m)"
  unfolding wrapE_tryE by (intro causal_tryE causal_sum causal_throwE causal_returnE)

lemma causal_if: "causal m \<Longrightarrow> causal n \<Longrightarrow> causal (if b then m else n)"
  by simp

lemma causal_option: "causal m \<Longrightarrow> (\<And>x. causal (f x)) \<Longrightarrow> causal (case v of None \<Rightarrow> m | Some x \<Rightarrow> f x)"
  by (cases v) auto

lemma causal_prod: "(\<And>x y. causal (f x y)) \<Longrightarrow> causal (case v of (x, y) \<Rightarrow> f x y)"
  by (cases v) auto

lemmas causal_control = causal_returnE causal_throwE causal_bindE causal_tryE causal_wrapE causal_sum causal_if
  causal_option causal_prod

section \<open>The interactions\<close>

lemma causal_time_Now: "causal time_Now"
  by (simp add: causal_def time_Now_def until_def next_tick_def)

lemma causal_uuid_New: "causal uuid_New"
  by (simp add: causal_def uuid_New_def until_def next_tick_def)

lemma causal_rand_Int: "causal (rand_Int n)"
  by (auto simp: causal_def rand_Int_def until_def next_tick_def split: option.splits)

lemma causal_note_lock: "causal (note_lock i row)"
  by (simp add: causal_def note_lock_def locking_def)

lemma causal_local_date: "causal (\<lambda>w. (Inr (f (local_date (env w))), w))"
  by (simp add: causal_def until_def)

lemma causal_run_stmt: "causal (run_stmt Tx q)"
proof (rule causalI)
  fix w x u assume run: "run_stmt Tx q w = (x, u)"
  then show now: "env u = env w \<and> tick w \<le> tick u"
    by (auto simp: run_stmt_def split: option.splits fault.splits prod.splits sum.splits)
  fix e assume e: "until (tick u) (env w) e"
  have "tick u = Suc (tick w)"
    using run by (auto simp: run_stmt_def split: option.splits fault.splits prod.splits sum.splits)
  then have same: "fault e (tick w) = fault (env w) (tick w)" "uuids e (tick w) = uuids (env w) (tick w)"
    "plan e (tick w) = plan (env w) (tick w)"
    using e by (simp_all add: until_def)
  then have ctx: "stmt_ctx_of now (w\<lparr>env := e\<rparr>) = stmt_ctx_of now w" for now by (simp add: stmt_ctx_of_def)
  show "run_stmt Tx q (w\<lparr>env := e\<rparr>) = (x, u\<lparr>env := e\<rparr>)"
    using run by (auto simp: run_stmt_def same ctx next_tick_def
        split: option.splits fault.splits prod.splits sum.splits)
qed

lemma causal_randomAlphanumeric: "causal (randomAlphanumeric n)"
  by (induction n) (auto intro!: causal_control causal_rand_Int)

lemma causal_generators: "causal GenerateTransactionRef" "causal GenerateLedgerEntryID"
  unfolding GenerateTransactionRef_def GenerateLedgerEntryID_def
  by (intro causal_control causal_randomAlphanumeric causal_time_Now
      causal_local_date [where f = "\<lambda>d. ''TXN-'' @ Format_20060102 (d t) @ ''-'' @ s" for t s])+

lemmas causal_parts = causal_control causal_run_stmt causal_uuid_New causal_time_Now causal_note_lock causal_generators

lemma causal_transfer_statements: "causal (transfer_statements L s t a)"
  unfolding transfer_statements_def transfer_lock_def transfer_rest_def transfer_locked_def transfer_writes_def Let_def
    create_pending_def write_entry_def walletRepo_FindByIDForUpdate_def find_or_nil_def conn.case
    transactionRepo_Create_def walletRepo_UpdateBalance_def ledgerRepo_Create_def transactionRepo_UpdateStatus_def
  by (intro causal_parts)

section \<open>A transfer whose commit is not answered\<close>

text \<open>
  The transfer that would return a response (\<open>Transfer_run\<close>), in an environment that differs only
  at the commit, whose answer is lost: the caller gets the error, the transfer is in the database.
\<close>

lemma Transfer_commit_lost:
  assumes env: "healthy (env w)" "calendar_ok (env w)" and laws: "decimal_laws L v"
    and ok: "db_ok (committed w)" and rs: "wallet_of_user (committed w) uid = Some rs"
    and rt: "wallet_with_id (committed w) (TransferRequest_TargetWalletID req) = Some rt"
    and ne: "wr_id rs \<noteq> wr_id rt"
    and enough: "v (TransferRequest_Amount req) \<le> of_int (wr_balance rs) / 100"
    and fits: "0 < cents v (TransferRequest_Amount req)"
      "wr_balance rt + cents v (TransferRequest_Amount req) < 10 ^ 18"
    and wid: "wr_id rt \<noteq> []" "varchar 20 (wr_id rs)" "varchar 20 (wr_id rt)"
    and fresh: "transfer_keys_fresh w"
    and e: "until (tick w + 44) (env w) e" "fault e (tick w + 44) = Lost"
  shows "\<exists>w'. Transfer L uid req (w\<lparr>env := e\<rparr>) = (Inl (Wrap ''failed to commit transaction'' (SQL ConnFailed)), w') \<and>
    committed w' \<noteq> committed w \<and> spawned w' = spawned w"
proof -
  let ?a = "TransferRequest_Amount req" and ?e = "w\<lparr>env := e\<rparr>"
  let ?body = "transfer_statements L (wallet_of L rs) (wallet_of L rt) ?a"
  let ?w = "next_tick (next_tick w)" and ?we = "next_tick (next_tick ?e)"
  let ?u = "(next_tick ?w)\<lparr>work := Some (committed w, clock (env w) (tick w + 2))\<rparr>"
  let ?ue = "(next_tick ?we)\<lparr>work := Some (committed w, clock e (tick w + 2))\<rparr>"
  obtain x u d' where body: "?body ?u = (Inr x, u)" and u: "env u = env w" "tick u = tick w + 44"
    "work u = Some (d', clock (env w) (tick w + 2))"
    using Transfer_body_run [OF env laws ok rs rt ne enough fits wid fresh] by blast
  have mem: "rs \<in> set (wallets (committed w))" "rt \<in> set (wallets (committed w))"
    and tid: "TransferRequest_TargetWalletID req = wr_id rt"
    using wallet_of_user_Some [OF rs] wallet_with_id_Some [OF rt] by simp_all
  have "wallets_ok (committed w)" using ok by (simp add: db_ok_def)
  moreover obtain ls lt txn nb where x: "x = (ls, lt, txn, nb)" by (cases x)
  ultimately have "transfer_effect v rs rt ?a (Transaction_ID txn) (Transaction_ReferenceNo txn)
      (clock (env w) (tick w + 2)) (committed w) d'"
    using transfer_statements_post [OF _ laws _ mem ne body [unfolded x]] u(3) by simp
  from transfer_rows [OF this] have moved: "d' \<noteq> committed w" by auto
  have quiet: "committed u = committed w" "spawned u = spawned w"
    using stepsD [OF quiet_transfer_statements body] by (simp_all add: quiet_def)
  have calm: "fault e (tick w) = NoFault" "fault e (Suc (tick w)) = NoFault" "fault e (Suc (Suc (tick w))) = NoFault"
    and now: "clock e (Suc (Suc (tick w))) = clock (env w) (Suc (Suc (tick w)))"
    using e(1) env(1) by (simp_all add: until_def healthy_def)
  have source: "walletRepo_FindByUserID L uid ?e = (Inr (Some (wallet_of L rs)), next_tick ?e)"
    using wallet_by_user.find_run [of ?e L uid] rs calm by simp
  have target: "walletRepo_FindByID L (wr_id rt) (next_tick ?e) = (Inr (Some (wallet_of L rt)), ?we)"
    using wallet_by_id.find_run [of "next_tick ?e" L "wr_id rt"] calm rt tid by simp
  have "?body (?u\<lparr>env := e\<rparr>) = (Inr x, u\<lparr>env := e\<rparr>)"
    using causalD(3) [OF causal_transfer_statements body, of e] e(1) u(2) by simp
  moreover have "?u\<lparr>env := e\<rparr> = ?ue" using now by (cases w) (simp add: next_tick_def)
  ultimately have st: "?body ?ue = (Inr x, u\<lparr>env := e\<rparr>)" by simp
  have tx: "Transfer L uid req ?e = bindE (wrapE (Wrap ''failed to begin transaction'') tx_Begin) (\<lambda>_.
     deferE tx_Rollback (bindE ?body (\<lambda>x.
     bindE (wrapE (Wrap ''failed to commit transaction'') tx_Commit) (\<lambda>_.
     transfer_answer L uid ?a x)))) ?we"
    using ne by (simp add: Transfer_def bindE_run [where m = "walletRepo_FindByUserID L uid", OF source] tid
        bindE_run [where m = "walletRepo_FindByID L (wr_id rt)", OF target])
  have "tx_Begin ?we = (Inr (), ?ue)" using calm by (simp add: tx_Begin_def)
  moreover have "tx_Commit (u\<lparr>env := e\<rparr>) =
      (Inl (SQL ConnFailed), (next_tick (u\<lparr>env := e\<rparr>))\<lparr>committed := d', work := None\<rparr>)"
    using u e(2) by (simp add: tx_Commit_def)
  ultimately show ?thesis
    unfolding tx using st moved quiet by (simp add: bindE_def wrapE_def deferE_def tx_Rollback_def)
qed

end
