(* ===== verification/MoneyProperties.thy ===== *)
theory MoneyProperties
  imports Sample Causality
begin

text \<open>
  The properties of the operations that move money, \<open>TopUp\<close> and \<open>Transfer\<close>, with a witness
  for each: the operation run on a small database in which everything its hypotheses ask for
  holds.
\<close>

section \<open>The sample runs\<close>

lemma sample_env_ok: "healthy (env sample_world)" "calendar_ok (env sample_world)"
  by (simp_all add: sample_world_def sample_env_def healthy_def calendar_ok_def)

lemma sample_db_ok: "db_ok (committed sample_world)"
  by (auto simp: sample_world_def sample_db_def sample_user_def user_entry_def wallet_entry_def
      empty_db_def db_ok_defs model_constants)

definition ann_wallet :: wallet_row where
  "ann_wallet = wallet_entry ''WLT-A'' 1 1000 ''IDR'' 1"

definition bob_wallet :: wallet_row where
  "bob_wallet = wallet_entry ''WLT-B'' 2 0 ''IDR'' 1"

lemma sample_wallets:
  "wallet_of_user (committed sample_world) 1 = Some ann_wallet"
  "wallet_with_id (committed sample_world) ''WLT-B'' = Some bob_wallet"
  "wallet_with_id (committed sample_world) ''WLT-A'' = Some ann_wallet"
  "wallet_of_user (committed sample_world) 3 = None"
  by (simp_all add: sample_world_def sample_db_def wallet_of_user_def wallet_with_id_def
      wallet_entry_def ann_wallet_def bob_wallet_def)

lemma sample_amounts: "cents dec_value (250, -2) = 250" "cents dec_value (5, -3) = 1"
  "cents dec_value (5000, -2) = 5000" "dec_value (250, -2) \<le> 10" "dec_value (5, -3) \<le> 10"
  "\<not> dec_value (5000, -2) \<le> 10"
  "half_cent dec_value (5, -3)" "\<not> half_cent dec_value (250, -2)"
  by code_simp+

lemma sample_short: "varchar 20 ''WLT-A''" "varchar 20 ''WLT-B''"
  by (rule varchar_length, simp)+

lemma sample_fresh: "topup_keys_fresh sample_world" "transfer_keys_fresh sample_world"
  by (simp_all add: topup_keys_fresh_def transfer_keys_fresh_def sample_world_def sample_db_def
      empty_db_def ledger_id_at_def alphanumeric_def sample_env_def charset_def upt_rec)

lemma sample_topup:
  "\<exists>res w'. TopUp sample_lib 1 \<lparr>TopUpRequest_Amount = (250, -2)\<rparr> sample_world = (Inr res, w')"
  using TopUp_run [where req = "\<lparr>TopUpRequest_Amount = (250, -2)\<rparr>",
      OF sample_env_ok sample_decimal_laws sample_db_ok sample_wallets(1)]
  by (auto simp: sample_amounts sample_fresh sample_short ann_wallet_def wallet_entry_def)

lemma sample_transfer:
  assumes "a \<in> {(250, -2), (5, -3)}"
  shows "\<exists>res w'. Transfer sample_lib 1
    \<lparr>TransferRequest_TargetWalletID = ''WLT-B'', TransferRequest_Amount = a\<rparr> sample_world = (Inr res, w')"
proof -
  have "\<exists>res w'. Transfer sample_lib 1
      \<lparr>TransferRequest_TargetWalletID = ''WLT-B'', TransferRequest_Amount = a\<rparr> sample_world = (Inr res, w') \<and>
      env w' = env sample_world"
    using assms
    by (intro Transfer_run [OF sample_env_ok sample_decimal_laws sample_db_ok sample_wallets(1)])
      (auto simp: sample_amounts sample_fresh sample_short sample_wallets ann_wallet_def bob_wallet_def wallet_entry_def)
  then show ?thesis by blast
qed

section \<open>Top-up\<close>

text \<open>
  C6. A top-up that returns a response has credited the user's wallet with the amount rounded
  to hundredths, appended one completed transaction and one credit entry with fresh keys, and
  changed nothing else in the database; the response and the one event it starts carry the
  data of that transaction.
\<close>

theorem TopUp_commits:
  assumes "decimal_laws L v" and "db_ok (committed w)" and "TopUp L uid req w = (Inr res, w')"
  shows "\<exists>r u ref now. wallet_of_user (committed w) uid = Some r \<and>
    topup_effect v r (TopUpRequest_Amount req) u ref now (committed w) (committed w') \<and>
    res = topup_response L r (TopUpRequest_Amount req) u ref now \<and>
    spawned w' = spawned w @ [topup_event L uid res]"
  using assms(3,1,2) by (cases rule: TopUp_cases) auto

theorem TopUp_commits_witness:
  "\<exists>res w' r u ref now.
    TopUp sample_lib 1 \<lparr>TopUpRequest_Amount = (250, -2)\<rparr> sample_world = (Inr res, w') \<and>
    topup_effect dec_value r (250, -2) u ref now (committed sample_world) (committed w')"
  using sample_topup TopUp_commits [OF sample_decimal_laws sample_db_ok] by fastforce

text \<open>
  A top-up is atomic in every environment: an error leaves the committed database as it
  was and starts no event, except the error of a commit whose answer was lost, after which
  the whole effect, and nothing less, is in the database.
\<close>

theorem TopUp_atomic:
  assumes "decimal_laws L v" and "db_ok (committed w)" and "TopUp L uid req w = (Inl e, w')"
  shows "spawned w' = spawned w \<and> (committed w' = committed w \<or>
    e = Wrap ''failed to commit transaction'' (SQL ConnFailed) \<and>
    (\<exists>r u ref now. wallet_of_user (committed w) uid = Some r \<and>
       topup_effect v r (TopUpRequest_Amount req) u ref now (committed w) (committed w')))"
  using assms(3,1,2) by (cases rule: TopUp_cases) auto

lemma sample_topup_unknown:
  "TopUp sample_lib 3 req sample_world = (Inl ErrWalletNotFound, next_tick sample_world)"
  using wallet_by_user.find_run [of sample_world sample_lib 3]
  by (simp add: TopUp_def bindE_def sample_wallets healthy_fault [OF sample_env_ok(1)] throwE_def)

theorem TopUp_atomic_witness:
  "spawned (next_tick sample_world) = spawned sample_world"
  using TopUp_atomic [OF sample_decimal_laws sample_db_ok sample_topup_unknown] by blast

text \<open>
  When no interaction fails, the wallet exists, the amount is at least half a hundredth
  after rounding and fits, and the generated identifiers are new, a top-up returns a response.
\<close>

theorem TopUp_total:
  assumes "healthy (env w)" and "calendar_ok (env w)" and "decimal_laws L v" and "db_ok (committed w)"
    and "wallet_of_user (committed w) uid = Some r" and "wr_id r \<noteq> []" and "varchar 20 (wr_id r)"
    and "0 < cents v (TopUpRequest_Amount req)"
    and "wr_balance r + cents v (TopUpRequest_Amount req) < 10 ^ 18" and "topup_keys_fresh w"
  shows "\<exists>res w'. TopUp L uid req w = (Inr res, w')"
  using TopUp_run [OF assms(1-5,8,9,6,7,10)] by blast

theorem TopUp_total_witness:
  "\<exists>res w'. TopUp sample_lib 1 \<lparr>TopUpRequest_Amount = (250, -2)\<rparr> sample_world = (Inr res, w')"
  by (rule TopUp_total [OF sample_env_ok sample_decimal_laws sample_db_ok sample_wallets(1)])
    (simp_all add: sample_amounts sample_fresh sample_short ann_wallet_def wallet_entry_def)

section \<open>Transfer\<close>

text \<open>
  C1. A transfer that returns a response moved money from the user's wallet to the wallet
  named in the request: the payer had the amount, one completed transaction, one debit and
  one credit entry with fresh keys were appended, and nothing else changed.
\<close>

theorem Transfer_commits:
  assumes "decimal_laws L v" and "db_ok (committed w)" and "Transfer L uid req w = (Inr res, w')"
  shows "\<exists>rs rt u ref now. wallet_of_user (committed w) uid = Some rs \<and>
    wallet_with_id (committed w) (TransferRequest_TargetWalletID req) = Some rt \<and>
    transfer_effect v rs rt (TransferRequest_Amount req) u ref now (committed w) (committed w') \<and>
    res = transfer_response L rs rt (TransferRequest_Amount req) u ref now \<and>
    spawned w' = spawned w @ [transfer_event L uid res]"
  using assms(3,1,2) by (cases rule: Transfer_cases) auto

definition sample_request :: "dec \<Rightarrow> dec TransferRequest" where
  "sample_request a = \<lparr>TransferRequest_TargetWalletID = ''WLT-B'', TransferRequest_Amount = a\<rparr>"

lemma sample_transfers:
  "\<exists>res w'. Transfer sample_lib 1 (sample_request (250, -2)) sample_world = (Inr res, w')"
  "\<exists>res w'. Transfer sample_lib 1 (sample_request (5, -3)) sample_world = (Inr res, w')"
  using sample_transfer by (simp_all add: sample_request_def)

theorem Transfer_commits_witness:
  "\<exists>res w' rs rt u ref now.
    Transfer sample_lib 1 (sample_request (250, -2)) sample_world = (Inr res, w') \<and>
    transfer_effect dec_value rs rt (250, -2) u ref now (committed sample_world) (committed w')"
  using sample_transfers(1) Transfer_commits [OF sample_decimal_laws sample_db_ok]
  by (fastforce simp: sample_request_def)

text \<open>
  C14. When no interaction fails, both wallets exist and differ, the payer's balance covers
  the amount, the payee's can hold it and the generated identifiers are new, a transfer
  returns a response.
\<close>

theorem Transfer_total:
  assumes "healthy (env w)" and "calendar_ok (env w)" and "decimal_laws L v" and "db_ok (committed w)"
    and "wallet_of_user (committed w) uid = Some rs"
    and "wallet_with_id (committed w) (TransferRequest_TargetWalletID req) = Some rt"
    and "wr_id rs \<noteq> wr_id rt" and "v (TransferRequest_Amount req) \<le> of_int (wr_balance rs) / 100"
    and "0 < cents v (TransferRequest_Amount req)"
    and "wr_balance rt + cents v (TransferRequest_Amount req) < 10 ^ 18"
    and "wr_id rt \<noteq> []" and "varchar 20 (wr_id rs)" and "varchar 20 (wr_id rt)"
    and "transfer_keys_fresh w"
  shows "\<exists>res w'. Transfer L uid req w = (Inr res, w')"
  using Transfer_run [OF assms] by blast

theorem Transfer_total_witness:
  "\<exists>res w'. Transfer sample_lib 1 (sample_request (250, -2)) sample_world = (Inr res, w')"
  by (rule Transfer_total [where rt = bob_wallet, OF sample_env_ok sample_decimal_laws sample_db_ok
        sample_wallets(1)])
    (simp_all add: sample_amounts sample_fresh sample_short sample_wallets ann_wallet_def
      bob_wallet_def wallet_entry_def sample_request_def)

section \<open>Refusals\<close>

text \<open>The errors of a transfer that the data decide, in the order the code checks them.\<close>

definition transfer_refusal :: "('d \<Rightarrow> rat) \<Rightarrow> db \<Rightarrow> uuid \<Rightarrow> 'd TransferRequest \<Rightarrow> error option" where
  "transfer_refusal v d uid req =
     (case wallet_of_user d uid of
        None \<Rightarrow> Some ErrWalletNotFound
      | Some rs \<Rightarrow>
          if wr_id rs = TransferRequest_TargetWalletID req then Some ErrSelfTransfer
          else (case wallet_with_id d (TransferRequest_TargetWalletID req) of
             None \<Rightarrow> Some ErrTargetWalletNotFound
           | Some rt \<Rightarrow>
               if of_int (wr_balance rs) / 100 < v (TransferRequest_Amount req)
               then Some ErrInsufficientBalance else None))"

lemma transfer_statements_insufficient:
  assumes "work w = Some (d, now)" and "healthy (env w)" and "decimal_laws L v"
    and "wallet_with_id d (wr_id rs) = Some rs" and "wallet_with_id d (wr_id rt) = Some rt"
    and "of_int (wr_balance rs) / 100 < v a"
  shows "\<exists>u. transfer_statements L (wallet_of L rs) (wallet_of L rt) a w = (Inl ErrInsufficientBalance, u)"
proof -
  obtain w2 where lock: "transfer_lock L (wallet_of L rs) (wallet_of L rt) w
      = (Inr (Some (wallet_of L rs), Some (wallet_of L rt)), w2)"
    using assms healthy_fault by (simp add: transfer_lock_Inr [OF assms(1)])
  have "Decimal_LessThan L (cents_decimal L (wr_balance rs)) a"
    using assms by (simp add: decimal_laws_simps cents_decimal_value)
  then show ?thesis
    by (simp add: transfer_statements_def transfer_rest_def lock transfer_locked_def bindE_def returnE_def throwE_def)
qed

lemma Transfer_refused_error:
  assumes env: "healthy (env w)" and laws: "decimal_laws L v" and ok: "db_ok (committed w)"
    and refusal: "transfer_refusal v (committed w) uid req = Some e"
  shows "fst (Transfer L uid req w) = Inl e"
proof -
  have source: "walletRepo_FindByUserID L uid w
      = (Inr (map_option (wallet_of L) (wallet_of_user (committed w) uid)), next_tick w)"
    using wallet_by_user.find_run [OF healthy_fault [OF env]] .
  have target: "walletRepo_FindByID L i (next_tick w)
      = (Inr (map_option (wallet_of L) (wallet_with_id (committed w) i)), next_tick (next_tick w))" for i
    using wallet_by_id.find_run [of "next_tick w" L i] healthy_fault [OF env] by simp
  show ?thesis
  proof (cases "wallet_of_user (committed w) uid")
    case None
    then show ?thesis
      using refusal source by (simp add: Transfer_def bindE_def throwE_def transfer_refusal_def)
  next
    case rs: (Some rs)
    show ?thesis
    proof (cases "wr_id rs = TransferRequest_TargetWalletID req \<or>
        wallet_with_id (committed w) (TransferRequest_TargetWalletID req) = None")
      case True
      then show ?thesis
        using refusal source target rs
        by (auto simp: Transfer_def bindE_def throwE_def transfer_refusal_def split: if_splits)
    next
      case False
      then obtain rt where rt: "wallet_with_id (committed w) (TransferRequest_TargetWalletID req) = Some rt"
        by auto
      have id: "wallet_with_id (committed w) (wr_id rs) = Some rs"
        "wr_id rt = TransferRequest_TargetWalletID req"
        using ok wallet_of_user_Some [OF rs] wallet_with_id_Some [OF rt]
        by (auto simp: db_ok_def wallet_with_id_mem)
      have less: "of_int (wr_balance rs) / 100 < v (TransferRequest_Amount req)" "e = ErrInsufficientBalance"
        using refusal rs rt False by (auto simp: transfer_refusal_def split: if_splits)
      let ?w = "next_tick (next_tick w)"
      let ?u = "(next_tick ?w)\<lparr>work := Some (committed ?w, clock (env ?w) (tick ?w))\<rparr>"
      obtain u where "transfer_statements L (wallet_of L rs) (wallet_of L rt) (TransferRequest_Amount req) ?u
          = (Inl ErrInsufficientBalance, u)"
        using transfer_statements_insufficient [of ?u "committed w" _ L v rs rt] env laws id rt less by auto
      then show ?thesis
        using source target [of "TransferRequest_TargetWalletID req"] rs rt False id less healthy_fault [OF env]
        by (auto simp: Transfer_def bindE_def throwE_def wrapE_def tx_Begin_def deferE_def)
    qed
  qed
qed

text \<open>
  C11. When no interaction fails, a transfer without a wallet, to the payer's own wallet, to an
  unknown wallet or of more than the balance is refused with exactly the error the code
  documents for it, in that order, and leaves the database and the events alone.
\<close>

theorem Transfer_refused:
  assumes env: "healthy (env w)" and laws: "decimal_laws L v" and ok: "db_ok (committed w)"
    and refusal: "transfer_refusal v (committed w) uid req = Some e"
  shows "\<exists>w'. Transfer L uid req w = (Inl e, w') \<and> committed w' = committed w \<and> spawned w' = spawned w"
proof -
  obtain w' where run: "Transfer L uid req w = (Inl e, w')"
    using Transfer_refused_error [OF env laws ok refusal] by (cases "Transfer L uid req w") simp
  then have "committed w' = committed w \<and> spawned w' = spawned w"
    using laws ok
  proof (cases rule: Transfer_cases)
    case lost
    then show ?thesis using refusal
      by (auto simp: transfer_refusal_def split: option.splits if_splits)
  qed simp_all
  then show ?thesis using run by blast
qed

theorem Transfer_refused_witness:
  "\<exists>w'. Transfer sample_lib 1 (sample_request (5000, -2)) sample_world = (Inl ErrInsufficientBalance, w') \<and>
    committed w' = committed sample_world \<and> spawned w' = spawned sample_world"
  by (rule Transfer_refused [OF sample_env_ok(1) sample_decimal_laws sample_db_ok])
    (use sample_amounts(6) in \<open>simp add: transfer_refusal_def sample_wallets sample_request_def ann_wallet_def
      wallet_entry_def not_le\<close>)

section \<open>Atomicity\<close>

text \<open>
  C7. A transfer is atomic in every environment: an error leaves the committed database as it
  was and starts no event, except the error of a commit whose answer was lost, after which
  both the debit and the credit are in the database.
\<close>

theorem Transfer_atomic:
  assumes "decimal_laws L v" and "db_ok (committed w)" and "Transfer L uid req w = (Inl e, w')"
  shows "spawned w' = spawned w \<and> (committed w' = committed w \<or>
    e = Wrap ''failed to commit transaction'' (SQL ConnFailed) \<and>
    (\<exists>rs rt u ref now. wallet_of_user (committed w) uid = Some rs \<and>
       wallet_with_id (committed w) (TransferRequest_TargetWalletID req) = Some rt \<and>
       transfer_effect v rs rt (TransferRequest_Amount req) u ref now (committed w) (committed w')))"
  using assms(3,1,2) by (cases rule: Transfer_cases) auto

text \<open>
  Two transfers of Ann's that fail. The first asks for more than she has: the transaction is open
  and both rows are locked when it is refused, and it is rolled back. The second loses the answer of its commit, its
  45th interaction.
\<close>

definition lost_env :: env where
  "lost_env = sample_env\<lparr>fault := (\<lambda>n. if n = 44 then Lost else NoFault)\<rparr>"

lemma sample_transfer_insufficient:
  "\<exists>w'. Transfer sample_lib 1 (sample_request (5000, -2)) sample_world = (Inl ErrInsufficientBalance, w')"
proof -
  have "fst (Transfer sample_lib 1 (sample_request (5000, -2)) sample_world) = Inl ErrInsufficientBalance"
    by (rule Transfer_refused_error [OF sample_env_ok(1) sample_decimal_laws sample_db_ok])
      (use sample_amounts(6) in \<open>simp add: transfer_refusal_def sample_wallets sample_request_def ann_wallet_def
        wallet_entry_def not_le\<close>)
  then show ?thesis by (metis prod.collapse)
qed

lemma sample_transfer_lost:
  "\<exists>w'. Transfer sample_lib 1 (sample_request (250, -2)) (sample_world\<lparr>env := lost_env\<rparr>) =
      (Inl (Wrap ''failed to commit transaction'' (SQL ConnFailed)), w') \<and>
    committed w' \<noteq> committed sample_world \<and> spawned w' = spawned sample_world"
proof -
  have "until (tick sample_world + 44) (env sample_world) lost_env"
    and "fault lost_env (tick sample_world + 44) = Lost"
    by (simp_all add: until_def lost_env_def sample_world_def sample_env_def)
  then show ?thesis
    by (intro Transfer_commit_lost [OF sample_env_ok sample_decimal_laws sample_db_ok sample_wallets(1)])
      (auto simp: sample_amounts sample_fresh sample_short sample_wallets ann_wallet_def bob_wallet_def
        wallet_entry_def sample_request_def)
qed

theorem Transfer_atomic_witness:
  "(\<exists>w'. Transfer sample_lib 1 (sample_request (5000, -2)) sample_world = (Inl ErrInsufficientBalance, w') \<and>
      committed w' = committed sample_world \<and> spawned w' = []) \<and>
   (\<exists>w' u ref now. Transfer sample_lib 1 (sample_request (250, -2)) (sample_world\<lparr>env := lost_env\<rparr>) =
        (Inl (Wrap ''failed to commit transaction'' (SQL ConnFailed)), w') \<and>
      transfer_effect dec_value ann_wallet bob_wallet (250, -2) u ref now (committed sample_world) (committed w') \<and>
      spawned w' = [])"
proof -
  let ?w = "sample_world\<lparr>env := lost_env\<rparr>"
  have start: "committed ?w = committed sample_world" "spawned sample_world = []"
    by (simp_all add: sample_world_def)
  obtain u where "Transfer sample_lib 1 (sample_request (5000, -2)) sample_world = (Inl ErrInsufficientBalance, u)"
    using sample_transfer_insufficient by blast
  note rolled_back = this Transfer_atomic [OF sample_decimal_laws sample_db_ok this]
  obtain v where lost: "Transfer sample_lib 1 (sample_request (250, -2)) ?w =
      (Inl (Wrap ''failed to commit transaction'' (SQL ConnFailed)), v)" "committed v \<noteq> committed sample_world"
    using sample_transfer_lost by blast
  have "db_ok (committed ?w)" unfolding start by (rule sample_db_ok)
  from Transfer_atomic [OF sample_decimal_laws this lost(1)] have
    "spawned v = []" "\<exists>x ref now. transfer_effect dec_value ann_wallet bob_wallet (250, -2) x ref now
        (committed sample_world) (committed v)"
    using lost(2) start by (auto simp: sample_wallets sample_request_def)
  then show ?thesis using rolled_back lost(1) start(2) by auto
qed

section \<open>Conservation\<close>

text \<open>
  C13. A transfer conserves money up to one hundredth. Whatever happens, the sum of all balances is
  afterwards what it was, unless the amount ends in half a hundredth: then both new balances are
  rounded half up, and a transfer that is carried out creates exactly one hundredth.
\<close>

theorem Transfer_conserves:
  assumes "decimal_laws L v" and "db_ok (committed w)" and "Transfer L uid req w = (res, w')"
  shows "total_balance (committed w') = total_balance (committed w) +
    (if half_cent v (TransferRequest_Amount req) \<and> committed w' \<noteq> committed w then 1 else 0)"
proof -
  let ?a = "TransferRequest_Amount req"
  have moved: "total_balance d' = total_balance (committed w) + (if half_cent v ?a then 1 else 0) \<and> d' \<noteq> committed w"
    if e: "transfer_effect v rs rt ?a u ref now (committed w) d'" for rs rt u ref now d'
  proof -
    have ids: "wr_id rs \<in> wr_id ` set (wallets (committed w))" "wr_id rt \<in> wr_id ` set (wallets (committed w))"
      and "distinct (map wr_id (wallets (committed w)))"
      using e assms(2) by (auto simp: effect_defs db_ok_defs)
    moreover have "0 \<le> v ?a" using e cents_pos [of v ?a] by (auto simp: transfer_effect_def)
    then have "cents v ?a = debit_cents v ?a + (if half_cent v ?a then 1 else 0)"
      by (rule debit_cents_eq)
    ultimately have "total_balance d' = total_balance (committed w) + (if half_cent v ?a then 1 else 0)"
      using e by (auto simp: effect_defs total_balance_def sum_post)
    moreover have "d' \<noteq> committed w" using transfer_rows [OF e] by auto
    ultimately show ?thesis ..
  qed
  from assms(3,1,2) show ?thesis
    by (cases rule: Transfer_cases) (auto dest!: moved)
qed

theorem Transfer_conserves_witness:
  "\<exists>res w' res2 w2. Transfer sample_lib 1 (sample_request (250, -2)) sample_world = (Inr res, w') \<and>
    total_balance (committed w') = total_balance (committed sample_world) \<and>
    Transfer sample_lib 1 (sample_request (5, -3)) sample_world = (Inr res2, w2) \<and>
    total_balance (committed w2) = total_balance (committed sample_world) + 1"
proof -
  obtain res w' res2 w2 where run: "Transfer sample_lib 1 (sample_request (250, -2)) sample_world = (Inr res, w')"
    "Transfer sample_lib 1 (sample_request (5, -3)) sample_world = (Inr res2, w2)"
    using sample_transfers by blast
  have "committed w2 \<noteq> committed sample_world"
    using run(2) sample_decimal_laws sample_db_ok
    by (cases rule: Transfer_cases) (auto dest!: transfer_rows)
  then show ?thesis
    using run Transfer_conserves [OF sample_decimal_laws sample_db_ok run(1)]
      Transfer_conserves [OF sample_decimal_laws sample_db_ok run(2)] sample_amounts(7,8)
    by (simp add: sample_request_def)
qed

text \<open>
  C12. No balance is ever driven below zero, and the payer of a completed transfer had the whole
  amount: after the transfer its balance is what it was less the rounded amount, never negative,
  and the payee's has grown by the rounded amount.
\<close>

theorem Transfer_balances:
  assumes "decimal_laws L v" and "db_ok (committed w)" and "Transfer L uid req w = (Inr res, w')"
  shows "\<exists>rs rt rs' rt'. wallet_of_user (committed w) uid = Some rs \<and>
    wallet_with_id (committed w) (TransferRequest_TargetWalletID req) = Some rt \<and>
    wallet_with_id (committed w') (wr_id rs) = Some rs' \<and>
    wallet_with_id (committed w') (wr_id rt) = Some rt' \<and>
    v (TransferRequest_Amount req) \<le> of_int (wr_balance rs) / 100 \<and>
    wr_balance rs' = wr_balance rs - debit_cents v (TransferRequest_Amount req) \<and> 0 \<le> wr_balance rs' \<and>
    wr_balance rt' = wr_balance rt + cents v (TransferRequest_Amount req)"
proof -
  let ?a = "TransferRequest_Amount req"
  obtain rs rt u ref now where
    r: "wallet_of_user (committed w) uid = Some rs"
      "wallet_with_id (committed w) (TransferRequest_TargetWalletID req) = Some rt" and
    e: "transfer_effect v rs rt ?a u ref now (committed w) (committed w')"
    using assms(3,1,2) by (cases rule: Transfer_cases) auto
  have id: "wallet_with_id (committed w) (wr_id rs) = Some rs" "wallet_with_id (committed w) (wr_id rt) = Some rt"
    using e assms(2) by (auto simp: transfer_effect_def db_ok_def wallet_with_id_mem)
  have find_post: "find (\<lambda>r. wr_id r = k) (post i c now ws) = map_option
      (\<lambda>r. if wr_id r = i then r\<lparr>wr_balance := wr_balance r + c, wr_updated_at := now\<rparr> else r)
      (find (\<lambda>r. wr_id r = k) ws)" for k i c ws
    by (induction ws) (auto simp: post_def update_where_def)
  have "0 \<le> wr_balance rs - debit_cents v ?a"
    using debit_cents_bounds(2) [of v ?a "wr_balance rs"] e by (simp add: transfer_effect_def)
  then show ?thesis
    using r id e by (auto simp: effect_defs wallet_with_id_def find_post)
qed

theorem Transfer_balances_witness:
  "\<exists>res w' rs'. Transfer sample_lib 1 (sample_request (250, -2)) sample_world = (Inr res, w') \<and>
    wallet_with_id (committed w') ''WLT-A'' = Some rs' \<and> 0 \<le> wr_balance rs'"
proof -
  obtain res w' where run: "Transfer sample_lib 1 (sample_request (250, -2)) sample_world = (Inr res, w')"
    using sample_transfers(1) by blast
  from Transfer_balances [OF sample_decimal_laws sample_db_ok this]
  show ?thesis using run by (auto simp: sample_wallets ann_wallet_def wallet_entry_def)
qed

end
