(* ===== verification/BooksProperties.thy ===== *)
theory BooksProperties
  imports Sample
begin

text \<open>
  The properties of every state the service can reach, from an empty database, by any
  sequence of calls of its operations in any environment; and the sample state, reached by
  a registration and a top-up, in which they are evaluated.
\<close>

section \<open>A reachable state\<close>

definition start_world :: world where
  "start_world = \<lparr>env = sample_env, tick = 0, committed = empty_db, work = None,
     spawned = [], published = [], redis = (\<lambda>_. None), audited = [], row_locks = []\<rparr>"

lemma start_world_simps: "committed start_world = empty_db" "work start_world = None"
    "env start_world = sample_env" "tick start_world = 0"
  by (simp_all add: start_world_def)

lemma reachable_start_world: "reachable L P start_world"
  by (rule reachable_start) (simp_all add: start_world_simps)

definition ann_request :: RegisterRequest where
  "ann_request = \<lparr>RegisterRequest_Email = ''ann'', RegisterRequest_Password = ''password'',
     RegisterRequest_ConfirmPassword = ''password''\<rparr>"

lemma sample_healthy: "healthy sample_env" "calendar_ok sample_env"
  by (simp_all add: sample_env_def healthy_def calendar_ok_def)

lemma short: "length s \<le> 255 \<Longrightarrow> varchar 255 s"
  by (rule varchar_length)

lemma start_register: "\<exists>res w'. Register sample_lib ann_request start_world = (Inr res, w') \<and> env w' = sample_env"
proof -
  have "\<exists>res w'. Register sample_lib ann_request start_world = (Inr res, w') \<and> env w' = env start_world"
  proof (rule Register_run [OF _ sample_decimal_laws])
    show "\<exists>h. Bcrypt_Generate sample_lib salt (RegisterRequest_Password ann_request) = Some h \<and> varchar 255 h" for salt
      by (simp add: sample_lib_def ann_request_def short)
  qed (simp_all add: start_world_simps sample_healthy empty_db_def user_with_email_def short
      register_keys_fresh_def ann_request_def)
  then show ?thesis by (simp add: start_world_simps)
qed

lemma sample_reachable:
  assumes "P (250, -2)"
  shows "\<exists>w. reachable sample_lib P w \<and> transactions (committed w) \<noteq> []"
proof -
  obtain res w1 where w1: "Register sample_lib ann_request start_world = (Inr res, w1)" "env w1 = sample_env"
    using start_register by blast
  have r1: "reachable sample_lib P w1"
    by (rule reachable_step [OF reachable_start_world serve_Register [OF w1(1)]])
  have ok: "db_ok (committed w1)" by (rule reachable_db_ok [OF r1])
  obtain u wallet hash now where e: "register_effect UserRoleUser ''ann'' hash u wallet now empty_db (committed w1)"
    and shape: "length wallet = 12"
    using w1(1) sample_decimal_laws by (cases rule: Register_cases) (auto simp: ann_request_def start_world_simps)
  have d: "wallets (committed w1) = [wallet_entry wallet u 0 ''IDR'' now]"
    "transactions (committed w1) = []" "ledger_entries (committed w1) = []"
    using e by (simp_all add: register_effect_def empty_db_def)
  have r: "wallet_of_user (committed w1) u = Some (wallet_entry wallet u 0 ''IDR'' now)"
    by (simp add: wallet_of_user_def d wallet_entry_def)
  have c: "cents dec_value (250, -2) = 250" by code_simp
  have "\<exists>res w'. TopUp sample_lib u \<lparr>TopUpRequest_Amount = (250, -2)\<rparr> w1 = (Inr res, w') \<and> env w' = env w1"
    using shape by (intro TopUp_run [OF _ _ sample_decimal_laws ok r])
      (auto simp: w1(2) sample_healthy c wallet_entry_def varchar_length topup_keys_fresh_def d)
  then obtain res2 w2 where w2: "TopUp sample_lib u \<lparr>TopUpRequest_Amount = (250, -2)\<rparr> w1 = (Inr res2, w2)"
    by blast
  have "reachable sample_lib P w2"
    using assms by (intro reachable_step [OF r1] serve_TopUp [OF w2]) simp
  moreover have "transactions (committed w2) \<noteq> []"
    using w2 sample_decimal_laws ok by (cases rule: TopUp_cases) (auto simp: effect_defs)
  ultimately show ?thesis by blast
qed

section \<open>The properties\<close>

text \<open>
  C2. The service implements the abstract machine of the books: in every reachable state, one
  call of any operation, in any environment, changes the committed database by the effect of
  one top-up, one transfer, one registration, or not at all as far as wallets, transactions
  and ledger are concerned.
\<close>

theorem service_refines_books:
  assumes "decimal_laws L v" and "reachable L P w" and "serves L P w w'"
  shows "change v P (committed w) (committed w')"
  using serves_change [OF assms(3,1) reachable_db_ok [OF assms(2)]] .

theorem service_refines_books_witness:
  "\<exists>w' :: world. change dec_value (\<lambda>_. True) (committed start_world) (committed w') \<and> wallets (committed w') \<noteq> []"
proof -
  obtain res w' where run: "Register sample_lib ann_request start_world = (Inr res, w')"
    using start_register by blast
  have "wallets (committed w') \<noteq> []"
    using run sample_decimal_laws by (cases rule: Register_cases) (auto simp: register_effect_def)
  then show ?thesis
    using service_refines_books [OF sample_decimal_laws reachable_start_world serve_Register [OF run], of "\<lambda>_. True"]
    by blast
qed

text \<open>
  C9. Double entry. In every reachable state every transaction is COMPLETED, a top-up has
  exactly one ledger entry, a credit of its amount to its target, and a transfer exactly two,
  the debit of its source and the credit of its target, two different wallets, both of its
  amount.
\<close>

theorem ledger_is_double_entry:
  assumes "decimal_laws L v" and "reachable L P w" and "t \<in> set (transactions (committed w))"
  shows "tr_status t = TransactionStatusCompleted \<and> posted t (entries_of (committed w) (tr_id t))"
  using reachable_books [OF assms(2,1)] assms(3) by (auto simp: books_inv_def double_entry_def)

theorem ledger_is_double_entry_witness:
  "\<exists>(w :: world) t. t \<in> set (transactions (committed w)) \<and> posted t (entries_of (committed w) (tr_id t))"
proof -
  obtain w where w: "reachable sample_lib (\<lambda>_. True) w" "transactions (committed w) \<noteq> []"
    using sample_reachable [of "\<lambda>_. True"] by auto
  from w(2) have "hd (transactions (committed w)) \<in> set (transactions (committed w))" by simp
  from this conjunct2 [OF ledger_is_double_entry [OF sample_decimal_laws w(1) this]]
  show ?thesis by (intro exI conjI)
qed

text \<open>
  C8. Reconciliation. In every reachable state, when no requested amount ends in half a
  hundredth, the balance of every wallet is exactly its credits less its debits in the ledger,
  and the sum of all balances is exactly the money topped up.
\<close>

theorem books_reconcile:
  assumes "decimal_laws L v" and "reachable L (\<lambda>a. \<not> half_cent v a) w"
  shows "books_agree (committed w) \<and> total_balance (committed w) = topped_up (committed w)"
  using reachable_books_exact [OF assms(2,1)] by (simp add: books_exact_def)

theorem books_reconcile_witness:
  "\<exists>w :: world. transactions (committed w) \<noteq> [] \<and> books_agree (committed w) \<and>
    total_balance (committed w) = topped_up (committed w)"
proof -
  have "\<not> half_cent dec_value (250, -2)" by code_simp
  then obtain w where w: "reachable sample_lib (\<lambda>a. \<not> half_cent dec_value a) w" "transactions (committed w) \<noteq> []"
    using sample_reachable [of "\<lambda>a. \<not> half_cent dec_value a"] by blast
  then show ?thesis using books_reconcile [OF sample_decimal_laws w(1)] w(2) by blast
qed

text \<open>
  C10. Integrity. In every reachable state keys are unique, references resolve, every balance
  lies between 0 and 10^16, every amount is positive, each user has one wallet at most and a
  known role.
\<close>

theorem database_integrity:
  assumes "reachable L P w"
  shows "db_ok (committed w)"
  by (rule reachable_db_ok [OF assms])

theorem database_integrity_witness:
  "\<exists>w :: world. transactions (committed w) \<noteq> [] \<and> db_ok (committed w)"
proof -
  obtain w where w: "reachable sample_lib (\<lambda>_. True) w" "transactions (committed w) \<noteq> []"
    using sample_reachable [of "\<lambda>_. True"] by auto
  show ?thesis using w(2) database_integrity [OF w(1)] by (intro exI conjI)
qed

end
