(* ===== verification/History.thy ===== *)
theory History
  imports Runs "HOL-Library.Sublist"
begin

text \<open>
  The history is append-only: no operation of the service changes or removes a user, a
  transaction, a ledger entry or an audit log, and no wallet ever changes its identity, its
  owner or its currency. The relation \<open>grows\<close> is a preorder (an instance of \<open>step_order\<close>),
  so it holds between any two states of a run.
\<close>

definition wallet_names :: "db \<Rightarrow> (string \<times> uuid \<times> string \<times> time) list" where
  "wallet_names d = map (\<lambda>r. (wr_id r, wr_user_id r, wr_currency r, wr_created_at r)) (wallets d)"

definition grows :: "db \<Rightarrow> db \<Rightarrow> bool" where
  "grows d d' \<longleftrightarrow> prefix (users d) (users d') \<and> prefix (transactions d) (transactions d') \<and>
     prefix (ledger_entries d) (ledger_entries d') \<and> prefix (audit_logs d) (audit_logs d') \<and>
     prefix (wallet_names d) (wallet_names d')"

definition world_grows :: "world \<Rightarrow> world \<Rightarrow> bool" where
  "world_grows w w' \<longleftrightarrow> grows (committed w) (committed w')"

lemma grows_refl [simp]: "grows d d"
  by (simp add: grows_def)

lemma grows_trans: "grows d d' \<Longrightarrow> grows d' d'' \<Longrightarrow> grows d d''"
  by (auto simp: grows_def intro: prefix_order.trans)

interpretation grows_order: step_order world_grows
  by unfold_locales (auto simp: world_grows_def intro: grows_trans)

section \<open>The writers\<close>

lemma wallet_names_post [simp]: "wallet_names (d\<lparr>wallets := post i c now (wallets d)\<rparr>) = wallet_names d"
  by (simp add: wallet_names_def post_def update_where_def comp_def)

lemma names_post:
  "map (\<lambda>r. (wr_id r, wr_user_id r, wr_currency r, wr_created_at r)) (post i c now ws) =
   map (\<lambda>r. (wr_id r, wr_user_id r, wr_currency r, wr_created_at r)) ws"
  by (simp add: post_def update_where_def comp_def)

lemma grows_effects:
  "topup_effect v r a u ref now d d' \<Longrightarrow> grows d d'"
  "transfer_effect v rs rt a u ref now d d' \<Longrightarrow> grows d d'"
  "register_effect role email hash u wallet now d d' \<Longrightarrow> grows d d'"
  by (auto simp: effect_defs register_effect_def grows_def wallet_names_def names_post)

lemma grows_run_stmt:
  "(\<And>c d x d'. q c d = (Inr x, d') \<Longrightarrow> grows d d') \<Longrightarrow> steps world_grows (run_stmt Pool q)"
  by (auto simp: steps_def run_stmt_def world_grows_def split: fault.splits prod.splits sum.splits)

lemma grows_writes:
  "steps world_grows (run_stmt Pool (CreateAuditLog i u a ip e))"
  "steps world_grows (run_stmt Pool (CreateNotification u t m))"
  "steps world_grows (run_stmt Pool (MarkNotificationAsRead n u))"
  "steps world_grows (run_stmt Pool (ClearNotificationsByUserID u))"
  by (rule grows_run_stmt, auto simp: CreateAuditLog_def CreateNotification_def grows_def wallet_names_def
      MarkNotificationAsRead_def ClearNotificationsByUserID_def succ Let_def)+

lemma grows_quiet: "quiet w w' \<Longrightarrow> world_grows w w'"
  by (simp add: quiet_def world_grows_def)

lemma steps_grows_quiet: "steps quiet m \<Longrightarrow> steps world_grows m"
  by (simp add: steps_def grows_quiet)

lemma grows_events: "steps world_grows (go_publish ty u data)" "steps world_grows (redis_Publish ch p)"
  by (auto simp: steps_def go_publish_def redis_Publish_def world_grows_def split: fault.splits)

lemmas grows_parts = grows_order.steps_intros grows_writes grows_events
  quiet_time_Now [THEN steps_grows_quiet] quiet_generators [THEN steps_grows_quiet]
  user_by_email.find_quiet [THEN steps_grows_quiet]

lemma grows_services:
  "steps world_grows (Login L cfg lr)"
  "steps world_grows (CreateLog al)"
  "steps world_grows (CreateAndPushNotification L uid title msg)"
  "steps world_grows (MarkAsRead nid uid)"
  "steps world_grows (ClearAll uid)"
  unfolding Login_def GenerateToken_def CreateLog_def CreateAndPushNotification_def MarkAsRead_def
    ClearAll_def auditRepo_Create_def notificationRepo_Create_def notificationRepo_MarkAsRead_def
    notificationRepo_ClearAll_def Let_def
  by (intro grows_parts)+

lemma grows_money:
  assumes laws: "decimal_laws L v" and ok: "db_ok (committed w)"
  shows "TopUp L uid tr w = (a, w') \<Longrightarrow> world_grows w w'"
    and "Transfer L uid xr w = (b, w') \<Longrightarrow> world_grows w w'"
    and "Register L rr w = (c, w') \<Longrightarrow> world_grows w w'"
proof -
  assume "TopUp L uid tr w = (a, w')"
  from this laws ok show "world_grows w w'"
    by (cases rule: TopUp_cases) (auto simp: world_grows_def intro: grows_effects)
next
  assume "Transfer L uid xr w = (b, w')"
  from this laws ok show "world_grows w w'"
    by (cases rule: Transfer_cases) (auto simp: world_grows_def intro: grows_effects)
next
  assume "Register L rr w = (c, w')"
  from this laws show "world_grows w w'"
    by (cases rule: Register_cases) (auto simp: world_grows_def intro: grows_effects)
qed

lemma serves_grows:
  assumes "serves L P w w'" and "decimal_laws L v" and "db_ok (committed w)"
  shows "world_grows w w'"
  using assms
proof (induction rule: serves.induct)
  case serve_Register
  then show ?case by (intro grows_money(3))
next
  case serve_TopUp
  then show ?case by (intro grows_money(1))
next
  case serve_Transfer
  then show ?case by (intro grows_money(2))
qed (rule grows_services [THEN stepsD] quiet_services [THEN steps_grows_quiet, THEN stepsD], assumption)+

section \<open>Runs of several operations\<close>

lemma reachable_serves: "(serves L P)\<^sup>*\<^sup>* w w' \<Longrightarrow> reachable L P w \<Longrightarrow> reachable L P w'"
  by (induction rule: rtranclp.induct) (auto intro: reachable_step)

lemma run_grows:
  assumes "(serves L P)\<^sup>*\<^sup>* w w'" and "decimal_laws L v" and "reachable L P w"
  shows "world_grows w w'"
  using assms(1)
proof (induction rule: rtranclp_induct)
  case base
  show ?case by (simp add: world_grows_def)
next
  case (step w1 w2)
  have "db_ok (committed w1)"
    using reachable_serves [OF step.hyps(1) assms(3)] by (rule reachable_db_ok)
  then show ?case
    using step.IH serves_grows [OF step.hyps(2) assms(2)] by (auto simp: world_grows_def intro: grows_trans)
qed

section \<open>What writing an audit log does\<close>

lemma CreateLog_effect:
  "case CreateLog l w of (r, w') \<Rightarrow>
     committed w' = committed w \<and> (\<exists>e. r = Inl e) \<or>
     (\<exists>i now. committed w' = (committed w)\<lparr>audit_logs := audit_logs (committed w) @
          [\<lparr>ar_id = i, ar_user_id = AuditLog_UserID l, ar_action = AuditLog_Action l,
            ar_ip_address = AuditLog_IPAddress l, ar_endpoint = AuditLog_Endpoint l,
            ar_created_at = now\<rparr>]\<rparr> \<and>
        i \<notin> ar_id ` set (audit_logs (committed w)) \<and> length i = 14 \<and> take 4 i = ''AUD-'' \<and>
        (r = Inr () \<or> r = Inl (Wrap ''create audit log query failed'' (SQL ConnFailed))))"
proof -
  obtain g u where gen: "GenerateAuditLogID w = (g, u)" by (cases "GenerateAuditLogID w")
  have q: "env u = env w" "committed u = committed w"
    using stepsD [OF quiet_generators(4) gen] by (simp_all add: quiet_def)
  show ?thesis
  proof (cases g)
    case (Inl e)
    then show ?thesis using q gen by (simp add: CreateLog_def bindE_def)
  next
    case (Inr i)
    note shape = GenerateAuditLogID_shape [OF gen [unfolded Inr]]
    let ?q = "CreateAuditLog i (Some (AuditLog_UserID l)) (AuditLog_Action l) (AuditLog_IPAddress l) (AuditLog_Endpoint l)
      (stmt_ctx_of (clock (env w) (tick u)) u) (committed w)"
    obtain s d' where stmt: "?q = (s, d')" by (cases ?q)
    show ?thesis
    proof (cases s)
      case (Inl e)
      then show ?thesis
        using gen Inr stmt q
        by (auto simp: CreateLog_def bindE_def auditRepo_Create_def wrapE_def run_stmt_def returnE_def
            split: fault.splits)
    next
      case (Inr r)
      then have "i \<notin> ar_id ` set (audit_logs (committed w))"
        "d' = (committed w)\<lparr>audit_logs := audit_logs (committed w) @
          [\<lparr>ar_id = i, ar_user_id = AuditLog_UserID l, ar_action = AuditLog_Action l,
            ar_ip_address = AuditLog_IPAddress l, ar_endpoint = AuditLog_Endpoint l,
            ar_created_at = clock (env w) (tick u)\<rparr>]\<rparr>"
        using stmt by (auto simp: CreateAuditLog_def succ Let_def)
      then show ?thesis
        using gen \<open>g = Inr i\<close> stmt q Inr shape
        by (auto simp: CreateLog_def bindE_def auditRepo_Create_def wrapE_def run_stmt_def returnE_def
            split: fault.splits)
    qed
  qed
qed

end
