(* ===== verification/AuthProperties.thy ===== *)
theory AuthProperties
  imports History BooksProperties
begin

text \<open>
  The properties of registration, login and tokens, each with a witness on the sample state of
  \<open>BooksProperties\<close>.
\<close>

section \<open>Registration\<close>

text \<open>
  C18. A registration that returns a response has added exactly one user, with the role USER and
  a bcrypt hash of the password, and one empty wallet in rupiah with a WLT- identifier, all
  keys fresh; the response and the event carry that user and that wallet.
\<close>

theorem Register_commits:
  assumes "decimal_laws L v" and "Register L req w = (Inr res, w')"
  shows "\<exists>u wallet hash now.
    register_effect UserRoleUser (RegisterRequest_Email req) hash u wallet now (committed w) (committed w') \<and>
    (\<exists>salt. Bcrypt_Generate L salt (RegisterRequest_Password req) = Some hash) \<and>
    length wallet = 12 \<and> take 4 wallet = ''WLT-'' \<and> set (drop 4 wallet) \<subseteq> set charset \<and>
    res = register_response u (RegisterRequest_Email req) wallet now \<and>
    spawned w' = spawned w @ [register_event L u wallet]"
  using assms(2,1)
proof (cases rule: Register_cases)
  case completed
  then show ?thesis unfolding hash_of_def by blast
qed simp_all

theorem Register_commits_witness:
  "\<exists>w' :: world. \<exists>u wallet hash now.
    register_effect UserRoleUser ''ann'' hash u wallet now empty_db (committed w') \<and> length wallet = 12"
proof -
  obtain res w' where run: "Register sample_lib ann_request start_world = (Inr res, w')"
    using start_register by blast
  from Register_commits [OF sample_decimal_laws run]
  have "\<exists>u wallet hash now. register_effect UserRoleUser ''ann'' hash u wallet now empty_db (committed w') \<and> length wallet = 12"
    by (auto simp: start_world_simps ann_request_def)
  then show ?thesis by blast
qed

text \<open>
  Registration is atomic in every environment: an error leaves neither a user without a
  wallet nor a wallet without a user, unless only the answer to the commit was lost, and then
  both are there.
\<close>

theorem Register_atomic:
  assumes "decimal_laws L v" and "Register L req w = (Inl e, w')"
  shows "spawned w' = spawned w \<and> (committed w' = committed w \<or>
    e = Wrap ''failed to commit transaction'' (SQL ConnFailed) \<and>
    (\<exists>u wallet hash now.
       register_effect UserRoleUser (RegisterRequest_Email req) hash u wallet now (committed w) (committed w')))"
  using assms(2,1) by (cases rule: Register_cases) auto

lemma user_with_email_Some: "user_with_email d e = Some r \<Longrightarrow> r \<in> set (users d) \<and> e = ur_email r"
  by (auto simp: user_with_email_def find_Some_iff)

lemma Register_conflict:
  assumes "healthy (env w)" and "user_with_email (committed w) (RegisterRequest_Email req) = Some r"
  shows "Register L req w = (Inl ErrEmailConflict, next_tick w)"
  using user_by_email.find_run [OF healthy_fault [OF assms(1)], of "RegisterRequest_Email req"] assms(2)
  by (simp add: Register_def bindE_def throwE_def)

lemma sample_conflict:
  "Register sample_lib ann_request sample_world = (Inl ErrEmailConflict, next_tick sample_world)"
  by (rule Register_conflict [where r = "sample_user 1 ''ann''"])
    (simp_all add: sample_world_def sample_healthy sample_db_def user_with_email_def sample_user_def
      user_entry_def ann_request_def)

theorem Register_atomic_witness: "spawned (next_tick sample_world) = spawned sample_world"
  using Register_atomic [OF sample_decimal_laws sample_conflict] by blast

text \<open>
  When no interaction fails, an address that is already registered is refused with
  ErrEmailConflict before anything is hashed or written, and a new one that fits its column is
  registered when the generated identifiers are new.
\<close>

theorem Register_decides:
  assumes "healthy (env w)" and "decimal_laws L v"
    and "\<And>salt. \<exists>h. Bcrypt_Generate L salt (RegisterRequest_Password req) = Some h \<and> varchar 255 h"
    and "varchar 255 (RegisterRequest_Email req)" and "register_keys_fresh w"
  shows "if RegisterRequest_Email req \<in> ur_email ` set (users (committed w))
    then Register L req w = (Inl ErrEmailConflict, next_tick w)
    else \<exists>res w'. Register L req w = (Inr res, w')"
proof (cases "user_with_email (committed w) (RegisterRequest_Email req)")
  case None
  then have "RegisterRequest_Email req \<notin> ur_email ` set (users (committed w))"
    by (auto simp: user_with_email_def find_None_iff)
  then show ?thesis using Register_run [OF assms(1,2) None assms(3-5)] by auto
next
  case (Some r)
  then have "RegisterRequest_Email req \<in> ur_email ` set (users (committed w))"
    using user_with_email_Some by blast
  then show ?thesis using Register_conflict [OF assms(1) Some] by simp
qed

lemma sample_hash:
  "\<exists>h. Bcrypt_Generate sample_lib salt (RegisterRequest_Password ann_request) = Some h \<and> varchar 255 h"
  by (simp add: sample_lib_def ann_request_def short)

theorem Register_decides_witness:
  "\<exists>res w'. Register sample_lib ann_request start_world = (Inr res, w')"
proof -
  have "healthy (env start_world)" "varchar 255 (RegisterRequest_Email ann_request)"
    "register_keys_fresh start_world"
    by (simp_all add: start_world_simps sample_healthy empty_db_def short register_keys_fresh_def ann_request_def)
  from Register_decides [OF this(1) sample_decimal_laws sample_hash this(2,3)]
  show ?thesis by (simp add: start_world_simps empty_db_def)
qed

section \<open>Login\<close>

definition login_claims :: "'d lib \<Rightarrow> Config \<Rightarrow> user_row \<Rightarrow> time \<Rightarrow> time \<Rightarrow> Claims" where
  "login_claims L cfg r t1 t2 =
     \<lparr>Claims_UserID = ur_id r, Claims_Email = ur_email r, Claims_Role = ur_role r,
      Claims_ExpiresAt = Jwt_NewNumericDate L (t1 + duration_time (Config_JWTExpiration cfg)),
      Claims_IssuedAt = Jwt_NewNumericDate L t2\<rparr>"

definition login_response :: "user_row \<Rightarrow> LoginResponse" where
  "login_response r = \<lparr>LoginResponse_UserID = ur_id r, LoginResponse_Email = ur_email r,
     LoginResponse_Role = ur_role r\<rparr>"

definition credentials :: "'d lib \<Rightarrow> db \<Rightarrow> LoginRequest \<Rightarrow> user_row option" where
  "credentials L d req =
     (case user_with_email d (LoginRequest_Email req) of
        None \<Rightarrow> None
      | Some r \<Rightarrow> if Bcrypt_Compare L (ur_password_hash r) (LoginRequest_Password req) then Some r else None)"

lemma Login_Inr:
  assumes "healthy (env w)" and "jwt_laws L" and "credentials L (committed w) req = Some r"
  shows "\<exists>token w'. Login L cfg req w = (Inr (login_response r, token), w') \<and> committed w' = committed w \<and>
    Jwt_SignedString L (login_claims L cfg r (clock (env w) (Suc (tick w))) (clock (env w) (Suc (Suc (tick w)))))
      (Config_JWTSecret cfg) = Some token"
proof -
  have r: "user_with_email (committed w) (LoginRequest_Email req) = Some r"
    "Bcrypt_Compare L (ur_password_hash r) (LoginRequest_Password req)"
    using assms(3) by (auto simp: credentials_def split: option.splits if_splits)
  have find: "userRepo_FindByEmail (LoginRequest_Email req) w = (Inr (Some (user_of r)), next_tick w)"
    using user_by_email.find_run [OF healthy_fault [OF assms(1)], of "LoginRequest_Email req"] r by simp
  let ?c = "login_claims L cfg r (clock (env w) (Suc (tick w))) (clock (env w) (Suc (Suc (tick w))))"
  obtain token where token: "Jwt_SignedString L ?c (Config_JWTSecret cfg) = Some token"
    using assms(2) unfolding jwt_laws_def by blast
  have gen: "GenerateToken L (ur_id r) (ur_email r) (ur_role r) (Config_JWTSecret cfg)
      (Config_JWTExpiration cfg) (next_tick w) = (Inr token, next_tick (next_tick (next_tick w)))"
    using token by (simp add: GenerateToken_def bindE_def time_Now_def login_claims_def Let_def returnE_def)
  show ?thesis
    using token r
    by (simp add: Login_def bindE_def wrapE_def find gen CheckPassword_def user_of_simps
        login_response_def go_publish_def returnE_def)
qed

lemma Login_Inl:
  assumes "healthy (env w)" and "credentials L (committed w) req = None"
  shows "Login L cfg req w = (Inl ErrInvalidCredentials, next_tick w)"
  using user_by_email.find_run [OF healthy_fault [OF assms(1)], of "LoginRequest_Email req"] assms(2)
  by (auto simp: Login_def bindE_def throwE_def credentials_def CheckPassword_def user_of_simps
      split: option.splits if_splits)

text \<open>
  C19. When no interaction fails, login succeeds exactly when a user with that address exists and
  bcrypt accepts the password for its hash; it returns that user's identity and role with the
  token signed for it. An unknown address and a wrong password get the same error, and nothing
  is written either way.
\<close>

theorem Login_decides:
  assumes "healthy (env w)" and "jwt_laws L"
  shows "\<exists>res w'. Login L cfg req w = (res, w') \<and> committed w' = committed w \<and>
    (case credentials L (committed w) req of
       None \<Rightarrow> res = Inl ErrInvalidCredentials
     | Some r \<Rightarrow> \<exists>token. res = Inr (login_response r, token) \<and>
         Jwt_SignedString L (login_claims L cfg r (clock (env w) (Suc (tick w)))
           (clock (env w) (Suc (Suc (tick w))))) (Config_JWTSecret cfg) = Some token)"
proof (cases "credentials L (committed w) req")
  case None
  then show ?thesis using Login_Inl [OF assms(1) None] by simp
next
  case (Some r)
  then show ?thesis using Login_Inr [OF assms Some] by fastforce
qed

definition ann_login :: LoginRequest where
  "ann_login = \<lparr>LoginRequest_Email = ''ann'', LoginRequest_Password = ''secret''\<rparr>"

definition sample_config :: Config where
  "sample_config = \<lparr>Config_ServerPort = ''8080'', Config_DatabaseURL = ''postgres'', Config_RedisURL = ''redis'',
     Config_RabbitMQURL = ''amqp'', Config_JWTSecret = ''key'', Config_JWTExpiration = 5000000000,
     Config_CookieSecure = True\<rparr>"

theorem Login_decides_witness:
  "\<exists>r token w'. Login sample_lib sample_config ann_login sample_world = (Inr (r, token), w') \<and>
    LoginResponse_UserID r = 1"
proof -
  have "credentials sample_lib (committed sample_world) ann_login = Some (sample_user 1 ''ann'')"
    by (simp add: credentials_def sample_world_def sample_db_def user_with_email_def sample_user_def
        user_entry_def ann_login_def sample_lib_def)
  moreover have "healthy (env sample_world)" by (simp add: sample_world_def sample_healthy)
  ultimately show ?thesis
    using Login_decides [OF _ sample_jwt_laws, of sample_world sample_config ann_login]
    by (auto simp: login_response_def sample_user_def user_entry_def)
qed

section \<open>From registration to an authorised request\<close>

lemma find_append_Some: "find p xs = Some x \<Longrightarrow> find p (xs @ ys) = Some x"
  by (induction xs) auto

lemma user_with_email_grows: "grows d d' \<Longrightarrow> user_with_email d e = Some r \<Longrightarrow> user_with_email d' e = Some r"
  by (auto simp: grows_def user_with_email_def prefix_def find_append_Some)

lemma register_effect_user:
  assumes "register_effect role e hash u wallet now d d'"
  shows "user_with_email d' e = Some (user_entry u e hash role now)"
proof -
  have "find (\<lambda>r. ur_email r = e) (users d) = None"
    using assms by (auto simp: register_effect_def find_None_iff)
  moreover have "find p xs = None \<Longrightarrow> find p (xs @ ys) = find p ys" for p :: "user_row \<Rightarrow> bool" and xs ys
    by (induction xs) (auto split: if_splits)
  ultimately show ?thesis
    using assms by (simp add: register_effect_def user_with_email_def user_entry_def)
qed

lemma ParseToken_run:
  assumes laws: "jwt_laws L" and tok: "Jwt_SignedString L (login_claims L cfg r t1 t2) (Config_JWTSecret cfg) = Some token"
    and now: "clock (env w) (tick w) \<le> t1 + duration_time (Config_JWTExpiration cfg) - 1000000"
  shows "ParseToken L token (Config_JWTSecret cfg) w = (Inr (login_claims L cfg r t1 t2), next_tick w)"
proof -
  let ?c = "login_claims L cfg r t1 t2" and ?k = "hmac_key (Config_JWTSecret cfg)"
  have "clock (env w) (tick w) < Claims_ExpiresAt ?c"
    using conjunct1 [OF laws [unfolded jwt_laws_def], THEN spec, of "t1 + duration_time (Config_JWTExpiration cfg)"] now
    by (simp add: login_claims_def)
  moreover have "Jwt_NewNumericDate L (Claims_ExpiresAt ?c) = Claims_ExpiresAt ?c"
    "Jwt_NewNumericDate L (Claims_IssuedAt ?c) = Claims_IssuedAt ?c"
    using laws by (simp_all add: jwt_laws_def login_claims_def)
  ultimately have "Jwt_ParseWithClaims L token ?k (clock (env w) (tick w)) = Some (?c, True)"
    using laws tok unfolding jwt_laws_def by (simp add: hmac_key_def)
  then show ?thesis by (simp add: ParseToken_def bindE_def time_Now_def returnE_def)
qed

text \<open>
  C15. Whoever has registered can log in: after a registration and any further operations of the
  service, when no interaction fails, login with the same address and password returns the
  registered user with the role USER, and until one second before the configured expiration
  the token it returns parses to that user's identity.
\<close>

theorem Register_then_Login:
  assumes "decimal_laws L v" and "bcrypt_laws L" and "jwt_laws L" and "reachable L P w"
    and "Register L req w = (Inr res, w1)" and "(serves L P)\<^sup>*\<^sup>* w1 w2" and "healthy (env w2)"
    and "LoginRequest_Email lreq = RegisterRequest_Email req"
    and "LoginRequest_Password lreq = RegisterRequest_Password req"
  shows "\<exists>r token w3. Login L cfg lreq w2 = (Inr (r, token), w3) \<and>
    LoginResponse_UserID r = RegisterResponse_UserID res \<and> LoginResponse_Role r = UserRoleUser \<and>
    (\<forall>w4. clock (env w4) (tick w4) \<le> clock (env w2) (Suc (tick w2)) + duration_time (Config_JWTExpiration cfg) - 1000000 \<longrightarrow>
       (\<exists>c. ParseToken L token (Config_JWTSecret cfg) w4 = (Inr c, next_tick w4) \<and>
          Claims_UserID c = RegisterResponse_UserID res \<and> Claims_Role c = UserRoleUser))"
proof -
  let ?e = "RegisterRequest_Email req"
  obtain u hash wallet now where
    e: "register_effect UserRoleUser ?e hash u wallet now (committed w) (committed w1)"
    and res: "res = register_response u ?e wallet now" and hash: "hash_of L (RegisterRequest_Password req) hash"
    using assms(5,1) by (cases rule: Register_cases) auto
  let ?r = "user_entry u ?e hash UserRoleUser now"
  have "reachable L P w1"
    using assms(4,5) by (auto intro: reachable_step serve_Register)
  then have "user_with_email (committed w2) ?e = Some ?r"
    using run_grows [OF assms(6,1)] register_effect_user [OF e] user_with_email_grows
    by (auto simp: world_grows_def)
  moreover have "Bcrypt_Compare L hash (RegisterRequest_Password req)"
    using hash assms(2) by (auto simp: hash_of_def bcrypt_laws_def)
  ultimately have "credentials L (committed w2) lreq = Some ?r"
    using assms(8,9) by (simp add: credentials_def user_entry_def)
  from Login_Inr [OF assms(7,3) this, of cfg] obtain token w3 where
    login: "Login L cfg lreq w2 = (Inr (login_response ?r, token), w3)" and
    tok: "Jwt_SignedString L (login_claims L cfg ?r (clock (env w2) (Suc (tick w2)))
      (clock (env w2) (Suc (Suc (tick w2))))) (Config_JWTSecret cfg) = Some token"
    by blast
  have fields: "LoginResponse_UserID (login_response ?r) = u" "LoginResponse_Role (login_response ?r) = UserRoleUser"
    "Claims_UserID (login_claims L cfg ?r t1 t2) = u" "Claims_Role (login_claims L cfg ?r t1 t2) = UserRoleUser"
    for t1 t2 by (simp_all add: login_response_def login_claims_def user_entry_def)
  have "RegisterResponse_UserID res = u" by (simp add: res register_response_def)
  then show ?thesis
    using login fields ParseToken_run [OF assms(3) tok] by blast
qed

theorem Register_then_Login_witness:
  "\<exists>res r token w1 w3. Register sample_lib ann_request start_world = (Inr res, w1) \<and>
    Login sample_lib sample_config \<lparr>LoginRequest_Email = ''ann'', LoginRequest_Password = ''password''\<rparr> w1
      = (Inr (r, token), w3) \<and> LoginResponse_UserID r = RegisterResponse_UserID res"
proof -
  obtain res w1 where run: "Register sample_lib ann_request start_world = (Inr res, w1)"
    and env: "env w1 = sample_env"
    using start_register by blast
  let ?l = "\<lparr>LoginRequest_Email = ''ann'', LoginRequest_Password = ''password''\<rparr>"
  have "LoginRequest_Email ?l = RegisterRequest_Email ann_request"
    "LoginRequest_Password ?l = RegisterRequest_Password ann_request" "healthy (env w1)"
    by (simp_all add: ann_request_def env sample_healthy)
  from Register_then_Login [where P = "\<lambda>_. True" and cfg = sample_config, OF sample_decimal_laws sample_bcrypt_laws sample_jwt_laws
      reachable_start_world run rtranclp.rtrancl_refl this(3,1,2)]
  show ?thesis using run by blast
qed

end
