(* ===== verification/PagedServices.thy ===== *)
theory PagedServices
  imports Runs
begin

text \<open>
  The list operations of the services all have one shape: defaults, a paginated query, the
  page count, a response. What they return is proved once in the interface \<open>pager\<close>, for any
  response type, and reaches each service through its interpretation.
\<close>

section \<open>The common shape\<close>

definition list_page :: "(goint \<Rightarrow> goint \<Rightarrow> ('v list \<times> goint) go) \<Rightarrow> ('v list \<Rightarrow> PaginationResponse \<Rightarrow> 'r) \<Rightarrow>
    PaginationRequest \<Rightarrow> 'r go" where
  "list_page page_op respond p =
     bindE (page_op (Limit (SetDefaults p)) (Offset (SetDefaults p))) (\<lambda>(xs, tot).
     bindE (paginationResponse (SetDefaults p) tot) (\<lambda>pr. returnE (respond xs pr)))"

text \<open>A page request within the bounds in which no arithmetic wraps.\<close>

definition page_in_bounds :: "PaginationRequest \<Rightarrow> bool" where
  "page_in_bounds p \<longleftrightarrow> 1 \<le> sint (Page p) \<and> 1 \<le> sint (Limit p) \<and> sint (Limit p) < 2 ^ 31 \<and>
     (sint (Page p) - 1) * sint (Limit p) < 2 ^ 31"

definition page_summary :: "PaginationRequest \<Rightarrow> nat \<Rightarrow> PaginationResponse \<Rightarrow> bool" where
  "page_summary p n pr \<longleftrightarrow> CurrentPage pr = Page p \<and> PerPage pr = Limit p \<and>
     sint (TotalItems pr) = int n \<and>
     sint (TotalPages pr) = (int n + sint (Limit p) - 1) div sint (Limit p)"

lemma sint_go_len: "int (length xs) < 2 ^ 63 \<Longrightarrow> sint (go_len xs) = int (length xs)"
  using sint_word_of_int_64 [of "int (length xs)"] by (simp add: go_len_def)

lemma paginationResponse_run:
  assumes "1 \<le> sint (Limit p)" and "sint (Limit p) < 2 ^ 31" and "int (length xs) < 2 ^ 62"
  shows "\<exists>pr. paginationResponse p (go_len xs) w = (Inr pr, w) \<and> page_summary p (length xs) pr"
proof -
  have len: "sint (go_len xs) = int (length xs)" using assms(3) by (intro sint_go_len) simp
  obtain tp where "totalPages (go_len xs) p = Some tp"
    "sint tp = (sint (go_len xs) + sint (Limit p) - 1) div sint (Limit p)"
    using totalPages_eq [of "go_len xs" p] assms len by auto
  then show ?thesis
    using len by (simp add: paginationResponse_def returnE_def page_summary_def)
qed

lemma paginationResponse_state: "snd (paginationResponse p n w) = w"
  by (simp add: paginationResponse_def throwE_def returnE_def split: option.splits)

lemma Limit_nonzero: "Limit (SetDefaults p) \<noteq> 0"
  using SetDefaults_pos [of p] by auto

lemma paginationResponse_total: "\<exists>pr. paginationResponse (SetDefaults p) n w = (Inr pr, w)"
  by (simp add: paginationResponse_def totalPages_def go_div_def Limit_nonzero returnE_def)

lemma int32_mod: "int32 a = ucast a"
  unfolding int32_def by transfer (simp add: take_bit_signed_take_bit)

text \<open>Pages \<open>2 ^ 32\<close> apart have the same offset once it is cut to 32 bits.\<close>

definition far_page :: "PaginationRequest \<Rightarrow> PaginationRequest" where
  "far_page p = p\<lparr>Page := Page p + 2 ^ 32\<rparr>"

lemma far_page_simps [simp]: "Limit (far_page p) = Limit p" "Page (far_page p) = Page p + 2 ^ 32"
  by (simp_all add: far_page_def)

lemma int32_Offset_far [simp]: "int32 (Offset (far_page p)) = int32 (Offset p)"
proof -
  have "(ucast ((2 ^ 32 :: goint) * l) :: goint32) = 0" for l
    by transfer (simp add: take_bit_eq_mod mod_mod_cancel)
  moreover have "Offset (far_page p) = Offset p + 2 ^ 32 * Limit p"
    by (simp add: Offset_def algebra_simps)
  moreover have "(ucast (a + b) :: goint32) = ucast a + ucast b" for a b :: goint
    by transfer (subst take_bit_add [symmetric], simp add: take_bit_take_bit)
  ultimately show ?thesis by (simp add: int32_mod)
qed

text \<open>An offset in the upper half of 32 bits turns negative.\<close>

lemma sint_upper_half:
  fixes x :: int assumes "2 ^ 31 \<le> x" "x < 2 ^ 32"
  shows "sint (word_of_int x :: goint32) = x - 2 ^ 32"
proof -
  have same: "word_of_int x = (word_of_int (x - 2 ^ 32) :: goint32)"
    by (simp add: word_of_int_eq_iff take_bit_eq_mod flip: mod_diff_right_eq)
  have "sint (word_of_int (x - 2 ^ 32) :: goint32) = x - 2 ^ 32"
    using assms by (subst signed_of_int) (simp add: signed_take_bit_int_eq_self)
  then show ?thesis by (simp only: same)
qed

section \<open>What a list operation returns\<close>

context pager
begin

lemma list_page_run:
  assumes "healthy (env w)" and "page_in_bounds p" and "db_ok (committed w)"
    and "int (length (listing (committed w) (plan (env w) (tick w)))) < 2 ^ 62"
  shows "\<exists>pr. list_page page_op respond p w =
      (Inr (respond (page_of (nat (sint (Limit p))) (nat (sint (Page p)))
         (listing (committed w) (plan (env w) (tick w)))) pr), next_tick (next_tick w)) \<and>
    page_summary p (length (listing (committed w) (plan (env w) (tick w)))) pr"
proof -
  let ?xs = "listing (committed w) (plan (env w) (tick w))" and ?w = "next_tick (next_tick w)"
  have b: "1 \<le> sint (Page p)" "1 \<le> sint (Limit p)" "sint (Limit p) < 2 ^ 31"
    "(sint (Page p) - 1) * sint (Limit p) < 2 ^ 31"
    using assms(2) by (auto simp: page_in_bounds_def)
  have ofs: "sint (int32 (Offset p)) = (sint (Page p) - 1) * sint (Limit p)"
    and lim: "sint (int32 (Limit p)) = sint (Limit p)"
    using sint_int32_Offset [OF b(1,2,4)] sint_int32 [of "Limit p"] b by simp_all
  have nat_ofs: "nat ((sint (Page p) - 1) * sint (Limit p)) = (nat (sint (Page p)) - 1) * nat (sint (Limit p))"
    using b by (simp add: nat_mult_distrib nat_diff_distrib)
  have page: "page_op (Limit p) (Offset p) w
      = (Inr (page_of (nat (sint (Limit p))) (nat (sint (Page p))) ?xs, go_len ?xs), ?w)"
    using page_run [of w "Offset p" "Limit p"] assms(1,3) b total_listing [of "committed w" "plan (env w) (tick w)"]
    by (simp add: ofs lim nat_ofs page_of_def)
  obtain pr where pr: "paginationResponse p (go_len ?xs) ?w = (Inr pr, ?w)" "page_summary p (length ?xs) pr"
    using paginationResponse_run [OF b(2,3) assms(4)] by blast
  have "list_page page_op respond p w =
      (Inr (respond (page_of (nat (sint (Limit p))) (nat (sint (Page p))) ?xs) pr), ?w)"
    by (simp add: list_page_def SetDefaults_id [OF b(1,2)] bindE_def page pr(1) returnE_def)
  with pr(2) show ?thesis by blast
qed

lemma list_page_members:
  assumes "list_page page_op respond p w = (Inr r, w')"
  shows "\<exists>xs pr. r = respond xs pr \<and> set xs \<subseteq> set (listing (committed w) (plan (env w) (tick w)))"
proof -
  obtain xs n u pr where "page_op (Limit (SetDefaults p)) (Offset (SetDefaults p)) w = (Inr (xs, n), u)"
    "r = respond xs pr"
    using assms by (auto simp: list_page_def succ)
  then show ?thesis using page_members by blast
qed

lemma list_page_far:
  assumes "1 \<le> sint (Page p)" and "sint (Page p) < 2 ^ 62" and "1 \<le> sint (Limit p)"
    and "list_page page_op respond p w = (Inr r, w')"
  shows "\<exists>xs pr pr'. r = respond xs pr \<and>
    list_page page_op respond (far_page p) w = (Inr (respond xs pr'), w')"
proof -
  let ?q = "far_page p"
  have "sint (Page p + 2 ^ 32) = sint (Page p) + 2 ^ 32"
    using sint_of_int_word [of "Page p" "2 ^ 32"] assms(1,2) by simp
  then have defaults: "SetDefaults p = p" "SetDefaults ?q = ?q"
    using assms by (simp_all add: SetDefaults_id)
  obtain xs n u pr where page: "page_op (Limit p) (Offset p) w = (Inr (xs, n), u)"
    and pr: "paginationResponse p n u = (Inr pr, w')" "r = respond xs pr"
    using assms(4) by (auto simp: list_page_def defaults succ)
  have "u = w'" using paginationResponse_state [of p n u] pr(1) by simp
  have "page_op (Limit ?q) (Offset ?q) w = (Inr (xs, n), u)"
    using page unfolding page_Inr by (simp add: int32_Offset_far)
  moreover obtain pr' where "paginationResponse ?q n u = (Inr pr', u)"
    using paginationResponse_total [of ?q n u] by (auto simp: defaults)
  ultimately have "list_page page_op respond ?q w = (Inr (respond xs pr'), w')"
    by (simp add: list_page_def defaults bindE_def returnE_def \<open>u = w'\<close>)
  then show ?thesis using pr(2) by blast
qed

lemma list_page_negative:
  assumes "1 \<le> sint (Page p)" and "1 \<le> sint (Limit p)"
    and "2 ^ 31 \<le> (sint (Page p) - 1) * sint (Limit p)" and "(sint (Page p) - 1) * sint (Limit p) < 2 ^ 32"
  shows "\<exists>e. fst (list_page page_op respond p w) = Inl e"
proof -
  have ofs: "sint (Offset p) = (sint (Page p) - 1) * sint (Limit p)"
    using assms by (intro sint_Offset) auto
  have "sint (int32 (Offset p)) = (sint (Page p) - 1) * sint (Limit p) - 2 ^ 32"
    unfolding int32_def ofs by (rule sint_upper_half [OF assms(3,4)])
  then have "sint (int32 (Offset p)) < 0" using assms(4) by simp
  then show ?thesis
    using page_negative_offset [of "Offset p" "Limit p" w]
    by (auto simp: list_page_def SetDefaults_id [OF assms(1,2)] bindE_def split: prod.splits sum.splits)
qed

end

section \<open>The services are of that shape\<close>

lemma services_list_page:
  "GetAllTransactions L ty st p = list_page (transactionRepo_FindAll L ty st)
     (\<lambda>xs pr. \<lparr>TransactionList_Transactions = map transactionResponse xs, TransactionList_Pagination = pr\<rparr>) p"
  "GetLogs uid p = list_page (auditRepo_FindByUserID uid)
     (\<lambda>xs pr. \<lparr>AuditLogList_Logs = map auditLogResponse xs, AuditLogList_Pagination = pr\<rparr>) p"
  "GetAllLogs ou oa p = list_page (auditRepo_FindAll ou oa)
     (\<lambda>xs pr. \<lparr>AuditLogList_Logs = map auditLogResponse xs, AuditLogList_Pagination = pr\<rparr>) p"
  "GetNotifications uid p = list_page (notificationRepo_FindByUserID uid)
     (\<lambda>xs pr. \<lparr>NotificationList_Notifications = map notificationResponse xs, NotificationList_Pagination = pr\<rparr>) p"
  "GetAllUsers L p = list_page (userRepo_FindAll L)
     (\<lambda>xs pr. \<lparr>AdminUserList_Users = map adminUserResponse xs, AdminUserList_Pagination = pr\<rparr>) p"
  by (simp_all add: GetAllTransactions_def GetLogs_def GetAllLogs_def GetNotifications_def GetAllUsers_def
      list_page_def Let_def)

lemma wallet_services_list_page:
  "GetTransactions L uid ty p = bindE (walletRepo_FindByUserID L uid) (\<lambda>found.
     case found of None \<Rightarrow> throwE ErrWalletNotFound | Some wallet \<Rightarrow>
     list_page (transactionRepo_FindByWalletID L (Wallet_ID wallet) ty)
       (\<lambda>xs pr. \<lparr>TransactionList_Transactions = map transactionResponse xs, TransactionList_Pagination = pr\<rparr>) p)"
  "GetLedgerEntries L uid ty p = bindE (walletRepo_FindByUserID L uid) (\<lambda>found.
     case found of None \<Rightarrow> throwE ErrWalletNotFound | Some wallet \<Rightarrow>
     list_page (ledgerRepo_FindByWalletID L (Wallet_ID wallet) ty)
       (\<lambda>xs pr. \<lparr>LedgerList_Entries = map ledgerEntryResponse xs, LedgerList_Pagination = pr\<rparr>) p)"
  unfolding GetTransactions_def GetLedgerEntries_def list_page_def Let_def by (rule refl)+

end
