(* ===== verification/ReadProperties.thy ===== *)
theory ReadProperties
  imports PagedServices BooksProperties MoneyProperties
begin

text \<open>
  The properties of the operations that read: who sees what, which page they get, and that
  nothing changes.
\<close>

section \<open>Whose transactions\<close>

definition party :: "wallet_row \<Rightarrow> transaction_row \<Rightarrow> bool" where
  "party r t \<longleftrightarrow> tr_source_wallet_id t = Some (wr_id r) \<or> tr_target_wallet_id t = Some (wr_id r)"

definition detail_of :: "'d lib \<Rightarrow> db \<Rightarrow> (nat \<Rightarrow> nat) \<Rightarrow> transaction_row \<Rightarrow> 'd TransactionDetailResponse" where
  "detail_of L d pl t =
     \<lparr>Detail_Transaction = transactionResponse (transaction_of L t),
      Detail_LedgerEntries = map (\<lambda>e. ledgerEntryResponse (entry_of L e)) (transaction_entries (tr_id t) d pl)\<rparr>"

lemma of_wallet_party: "of_wallet (Some (wr_id r)) t = party r t"
  by (auto simp: of_wallet_def sql_eq_def party_def split: option.splits)

text \<open>
  C16. In every reachable state, when no interaction fails, the detail of a transaction is shown
  to the owner of its source or target wallet, with exactly the ledger entries of that
  transaction, and to nobody else: a user without a wallet, an unknown transaction and a
  stranger each get their own error.
\<close>

theorem GetTransactionDetail_decides:
  assumes "healthy (env w)" and "decimal_laws L v" and "reachable L P w"
  shows "fst (GetTransactionDetail L uid t w) =
    (case wallet_of_user (committed w) uid of
       None \<Rightarrow> Inl ErrWalletNotFound
     | Some r \<Rightarrow>
         (case transaction_with_id (committed w) t of
            None \<Rightarrow> Inl ErrTransactionNotFound
          | Some tr \<Rightarrow> if party r tr then Inr (detail_of L (committed w) (plan (env w) (Suc (Suc (tick w)))) tr)
                       else Inl ErrUnauthorized))"
proof -
  have wallet: "walletRepo_FindByUserID L uid w
      = (Inr (map_option (wallet_of L) (wallet_of_user (committed w) uid)), next_tick w)"
    using wallet_by_user.find_run [OF healthy_fault [OF assms(1)]] .
  have trans: "transactionRepo_FindByID L t (next_tick w)
      = (Inr (map_option (transaction_of L) (transaction_with_id (committed w) t)), next_tick (next_tick w))"
    using transaction_by_id.find_run [of "next_tick w" L t] healthy_fault [OF assms(1)] by simp
  have entries: "ledgerRepo_FindByTransactionID L i (next_tick (next_tick w))
      = (Inr (map (entry_of L) (transaction_entries i (committed w) (plan (env w) (Suc (Suc (tick w)))))),
         next_tick (next_tick (next_tick w)))" for i
    using healthy_fault [OF assms(1)] by (simp add: ledgerRepo_FindByTransactionID_Inr)
  have named: "wr_id r \<noteq> []" if "wallet_of_user (committed w) uid = Some r" for r
    using reachable_books [OF assms(3,2)] wallet_of_user_Some [OF that]
    by (auto simp: books_inv_def keys_ok_def image_iff)
  show ?thesis
  proof (cases "wallet_of_user (committed w) uid")
    case None
    then show ?thesis by (simp add: GetTransactionDetail_def bindE_def wallet throwE_def)
  next
    case r: (Some r)
    show ?thesis
    proof (cases "transaction_with_id (committed w) t")
      case None
      then show ?thesis by (simp add: GetTransactionDetail_def bindE_def wallet trans throwE_def r)
    next
      case (Some tr)
      then show ?thesis
        using r named [OF r]
        by (auto simp: GetTransactionDetail_def bindE_def wallet trans throwE_def returnE_def entries
            party_def detail_of_def comp_def split: option.splits)
    qed
  qed
qed

theorem GetTransactionDetail_decides_witness:
  "fst (GetTransactionDetail sample_lib 1 5 start_world) = Inl ErrWalletNotFound"
proof -
  have "healthy (env start_world)" by (simp add: start_world_simps sample_healthy)
  from GetTransactionDetail_decides [OF this sample_decimal_laws reachable_start_world, of 1 5]
  show ?thesis by (simp add: start_world_simps empty_db_def wallet_of_user_def)
qed

lemma set_listing [simp]: "set (order_desc key (scan pl xs)) = set xs"
proof -
  have "mset (order_desc key (scan pl xs)) = mset xs" by (simp add: order_desc_def)
  then show ?thesis by (metis set_mset_mset)
qed

lemma image_chain: "S \<subseteq> f ` A \<Longrightarrow> g ` S \<subseteq> (\<lambda>x. g (f x)) ` A"
  by auto

lemma GetTransactions_own:
  assumes "GetTransactions L uid ty p w = (Inr res, w')"
  shows "\<exists>r. wallet_of_user (committed w) uid = Some r \<and>
    set (TransactionList_Transactions res) \<subseteq> (\<lambda>t. transactionResponse (transaction_of L t)) `
      {t \<in> set (transactions (committed w)). party r t \<and> of_type ty (tr_type t)}"
  using assms unfolding wallet_services_list_page(1)
proof (cases rule: wallet_by_user.find_bind_cases)
  case goes_on
  then obtain r where r: "wallet_of_user (committed w) uid = Some r"
    and l: "list_page (transactionRepo_FindByWalletID L (wr_id r) ty) (\<lambda>xs pr.
      \<lparr>TransactionList_Transactions = map transactionResponse xs, TransactionList_Pagination = pr\<rparr>) p
      (next_tick w) = (Inr res, w')"
    by (auto simp: throwE_def split: option.splits)
  have "\<exists>xs pr. res = \<lparr>TransactionList_Transactions = map transactionResponse xs, TransactionList_Pagination = pr\<rparr> \<and>
      set xs \<subseteq> transaction_of L ` {t \<in> set (transactions (committed w)). party r t \<and> of_type ty (tr_type t)}"
    using wallet_txns.list_page_members [OF l] by (simp add: wallet_transactions_def of_wallet_party eq_commute [of uid])
  then show ?thesis using r by (elim exE conjE) (simp, erule image_chain)
qed simp

lemma GetLedgerEntries_own:
  assumes "GetLedgerEntries L uid ty p w = (Inr res, w')"
  shows "\<exists>r. wallet_of_user (committed w) uid = Some r \<and>
    set (LedgerList_Entries res) \<subseteq> (\<lambda>e. ledgerEntryResponse (entry_of L e)) `
      {e \<in> set (ledger_entries (committed w)). lr_wallet_id e = wr_id r \<and> of_type ty (lr_entry_type e)}"
  using assms unfolding wallet_services_list_page(2)
proof (cases rule: wallet_by_user.find_bind_cases)
  case goes_on
  then obtain r where r: "wallet_of_user (committed w) uid = Some r"
    and l: "list_page (ledgerRepo_FindByWalletID L (wr_id r) ty) (\<lambda>xs pr.
      \<lparr>LedgerList_Entries = map ledgerEntryResponse xs, LedgerList_Pagination = pr\<rparr>) p
      (next_tick w) = (Inr res, w')"
    by (auto simp: throwE_def split: option.splits)
  have "\<exists>xs pr. res = \<lparr>LedgerList_Entries = map ledgerEntryResponse xs, LedgerList_Pagination = pr\<rparr> \<and>
      set xs \<subseteq> entry_of L ` {e \<in> set (ledger_entries (committed w)). lr_wallet_id e = wr_id r \<and> of_type ty (lr_entry_type e)}"
    using wallet_ledger.list_page_members [OF l] by (simp add: wallet_entries_def eq_commute [of uid])
  then show ?thesis using r by (elim exE conjE) (simp, erule image_chain)
qed simp

lemma GetLogs_own:
  assumes "GetLogs uid p w = (Inr res, w')"
  shows "set (AuditLogList_Logs res) \<subseteq> (\<lambda>a. auditLogResponse (audit_log_of a)) `
    {a \<in> set (audit_logs (committed w)). ar_user_id a = uid}"
proof -
  have "\<exists>xs pr. res = \<lparr>AuditLogList_Logs = map auditLogResponse xs, AuditLogList_Pagination = pr\<rparr> \<and>
      set xs \<subseteq> audit_log_of ` {a \<in> set (audit_logs (committed w)). ar_user_id a = uid}"
    using user_audit.list_page_members [OF assms [unfolded services_list_page(2)]] by (simp add: audit_listing_def audit_matches_def of_type_def eq_commute [of uid])
  then show ?thesis by (elim exE conjE) (simp, erule image_chain)
qed

lemma GetNotifications_own:
  assumes "GetNotifications uid p w = (Inr res, w')"
  shows "set (NotificationList_Notifications res) \<subseteq> (\<lambda>n. notificationResponse (notification_entity n)) `
    {n \<in> set (notifications (committed w)). nr_user_id n = uid}"
proof -
  have "\<exists>xs pr. res = \<lparr>NotificationList_Notifications = map notificationResponse xs, NotificationList_Pagination = pr\<rparr> \<and>
      set xs \<subseteq> notification_entity ` {n \<in> set (notifications (committed w)). nr_user_id n = uid}"
    using user_notifications.list_page_members [OF assms [unfolded services_list_page(4)]] by (simp add: notification_listing_def eq_commute [of uid])
  then show ?thesis by (elim exE conjE) (simp, erule image_chain)
qed

text \<open>
  C22. Privacy in every environment: whatever a user's lists return are rows of that user, of the
  requested type: transactions of the user's wallet, ledger entries of the user's wallet, the
  user's audit log and the user's notifications.
\<close>

theorem lists_are_own:
  "(GetTransactions L uid ty p w = (Inr res1, w1) \<longrightarrow>
     (\<exists>r. wallet_of_user (committed w) uid = Some r \<and>
       set (TransactionList_Transactions res1) \<subseteq> (\<lambda>t. transactionResponse (transaction_of L t)) `
         {t \<in> set (transactions (committed w)). party r t \<and> of_type ty (tr_type t)})) \<and>
   (GetLedgerEntries L uid ty p w = (Inr res2, w2) \<longrightarrow>
     (\<exists>r. wallet_of_user (committed w) uid = Some r \<and>
       set (LedgerList_Entries res2) \<subseteq> (\<lambda>e. ledgerEntryResponse (entry_of L e)) `
         {e \<in> set (ledger_entries (committed w)). lr_wallet_id e = wr_id r \<and> of_type ty (lr_entry_type e)})) \<and>
   (GetLogs uid p w = (Inr res3, w3) \<longrightarrow>
     set (AuditLogList_Logs res3) \<subseteq> (\<lambda>a. auditLogResponse (audit_log_of a)) `
       {a \<in> set (audit_logs (committed w)). ar_user_id a = uid}) \<and>
   (GetNotifications uid p w = (Inr res4, w4) \<longrightarrow>
     set (NotificationList_Notifications res4) \<subseteq> (\<lambda>n. notificationResponse (notification_entity n)) `
       {n \<in> set (notifications (committed w)). nr_user_id n = uid})"
  by (intro conjI impI) (rule GetTransactions_own GetLedgerEntries_own GetLogs_own GetNotifications_own, assumption)+

definition first_page :: PaginationRequest where
  "first_page = \<lparr>Page = 1, Limit = 10\<rparr>"

section \<open>Which page\<close>

lemma page_of_map: "page_of l i (map f xs) = map f (page_of l i xs)"
  by (simp add: page_of_def take_map drop_map)

lemma length_listing [simp]: "length (order_desc key (scan pl xs)) = length xs"
  by (metis mset_scan mset_sort order_desc_def size_mset)

definition wallet_history :: "db \<Rightarrow> string \<Rightarrow> string option \<Rightarrow> transaction_row list" where
  "wallet_history d i ty = filter (\<lambda>t. of_wallet (Some i) t \<and> of_type ty (tr_type t)) (transactions d)"

lemma wallet_transactions_mset: "mset (wallet_transactions i ty d pl) = mset (wallet_history d i ty)"
  by (simp add: wallet_transactions_def wallet_history_def order_desc_def)

lemma wallet_transactions_sorted: "sorted (map (\<lambda>t. - tr_created_at t) (wallet_transactions i ty d pl))"
  by (simp add: wallet_transactions_def order_desc_def)

text \<open>
  When no interaction fails, a request for a page within bounds returns exactly that page of
  the wallet's transactions of the requested type, newest first, with the number of them all and
  the number of pages rounded up.
\<close>

theorem GetTransactions_page:
  assumes "healthy (env w)" and "db_ok (committed w)" and "page_in_bounds p"
    and "wallet_of_user (committed w) uid = Some r" and "int (length (transactions (committed w))) < 2 ^ 62"
  shows "\<exists>pr pl. fst (GetTransactions L uid ty p w) = Inr
      \<lparr>TransactionList_Transactions = map (\<lambda>t. transactionResponse (transaction_of L t))
         (page_of (nat (sint (Limit p))) (nat (sint (Page p))) (wallet_transactions (wr_id r) ty (committed w) pl)),
       TransactionList_Pagination = pr\<rparr> \<and>
    page_summary p (length (wallet_history (committed w) (wr_id r) ty)) pr \<and>
    sorted (map (\<lambda>t. - tr_created_at t) (wallet_transactions (wr_id r) ty (committed w) pl)) \<and>
    mset (wallet_transactions (wr_id r) ty (committed w) pl) = mset (wallet_history (committed w) (wr_id r) ty)"
proof -
  let ?pl = "plan (env w) (Suc (tick w))"
  have wallet: "walletRepo_FindByUserID L uid w = (Inr (Some (wallet_of L r)), next_tick w)"
    using wallet_by_user.find_run [OF healthy_fault [OF assms(1)], of L uid] assms(4) by simp
  have "length (wallet_history (committed w) (wr_id r) ty) \<le> length (transactions (committed w))"
    by (simp add: wallet_history_def)
  then have len: "int (length (wallet_history (committed w) (wr_id r) ty)) < 2 ^ 62" using assms(5) by linarith
  from wallet_txns.list_page_run [where w = "next_tick w" and p = p and L = L and i = "wr_id r" and ty = ty and respond = "\<lambda>xs pr.
      \<lparr>TransactionList_Transactions = map transactionResponse xs, TransactionList_Pagination = pr\<rparr>"]
  obtain pr where "list_page (transactionRepo_FindByWalletID L (wr_id r) ty) (\<lambda>xs pr.
      \<lparr>TransactionList_Transactions = map transactionResponse xs, TransactionList_Pagination = pr\<rparr>) p (next_tick w)
    = (Inr \<lparr>TransactionList_Transactions = map transactionResponse (page_of (nat (sint (Limit p)))
         (nat (sint (Page p))) (map (transaction_of L) (wallet_transactions (wr_id r) ty (committed w) ?pl))),
       TransactionList_Pagination = pr\<rparr>, next_tick (next_tick (next_tick w)))"
    and pr: "page_summary p (length (wallet_history (committed w) (wr_id r) ty)) pr"
    using assms(1-3) len by (auto simp: wallet_transactions_def wallet_history_def)
  then have "fst (GetTransactions L uid ty p w) = Inr
      \<lparr>TransactionList_Transactions = map (\<lambda>t. transactionResponse (transaction_of L t))
         (page_of (nat (sint (Limit p))) (nat (sint (Page p))) (wallet_transactions (wr_id r) ty (committed w) ?pl)),
       TransactionList_Pagination = pr\<rparr>"
    by (simp add: wallet_services_list_page bindE_def wallet page_of_map comp_def)
  then show ?thesis
    using pr wallet_transactions_mset wallet_transactions_sorted by blast
qed

lemma sample_page:
  "healthy (env sample_world)" "page_in_bounds first_page"
  "int (length (transactions (committed sample_world))) < 2 ^ 62"
  by (simp_all add: sample_world_def sample_healthy page_in_bounds_def first_page_def sample_db_def empty_db_def)

theorem GetTransactions_page_witness:
  "\<exists>res. fst (GetTransactions sample_lib 1 None first_page sample_world) = Inr res \<and>
    TransactionList_Transactions res = []"
proof -
  have "transactions (committed sample_world) = []"
    by (simp add: sample_world_def sample_db_def empty_db_def)
  then have "wallet_transactions i ty (committed sample_world) pl = []" for i ty pl
    by (metis filter.simps(1) mset_zero_iff mset.simps(1) wallet_history_def wallet_transactions_mset)
  then show ?thesis
    using GetTransactions_page [OF sample_page(1) sample_db_ok sample_page(2) sample_wallets(1) sample_page(3),
        of sample_lib None] by (auto simp: page_of_def)
qed

theorem lists_are_own_witness:
  "\<exists>res w'. GetTransactions sample_lib 1 None first_page sample_world = (Inr res, w') \<and>
    set (TransactionList_Transactions res) \<subseteq> (\<lambda>t. transactionResponse (transaction_of sample_lib t)) ` {}"
proof -
  obtain res w' where run: "GetTransactions sample_lib 1 None first_page sample_world = (Inr res, w')"
    using GetTransactions_page [OF sample_page(1) sample_db_ok sample_page(2) sample_wallets(1) sample_page(3),
        of sample_lib None] by (metis prod.collapse)
  have "transactions (committed sample_world) = []"
    by (simp add: sample_world_def sample_db_def empty_db_def)
  with run conjunct1 [OF lists_are_own [of sample_lib 1 None first_page sample_world res w']]
  show ?thesis by auto
qed

lemma wallet_transactions_plan:
  assumes "distinct (map tr_created_at (wallet_history d i ty))"
  shows "wallet_transactions i ty d pl = wallet_transactions i ty d pl'"
proof -
  let ?c = "\<lambda>pl. \<lparr>sc_now = 0, sc_uuid = 0, sc_plan = pl\<rparr>"
  have "wallet_transactions i ty d pl = select_all_desc (?c pl) tr_created_at
      (\<lambda>t. of_wallet (Some i) t \<and> of_type ty (tr_type t)) (transactions d)" for pl
    by (simp add: wallet_transactions_def select_all_desc_def)
  then show ?thesis
    using select_all_desc_plan [of tr_created_at _ "transactions d"] assms by (simp add: wallet_history_def)
qed

lemma GetTransactions_Inr:
  assumes "GetTransactions L uid ty p w = (Inr res, w')" and "page_in_bounds p"
  shows "\<exists>r pl. wallet_of_user (committed w) uid = Some r \<and> TransactionList_Transactions res =
    map (\<lambda>t. transactionResponse (transaction_of L t)) (page_of (nat (sint (Limit p))) (nat (sint (Page p)))
      (wallet_transactions (wr_id r) ty (committed w) pl))"
  using assms(1) unfolding wallet_services_list_page(1)
proof (cases rule: wallet_by_user.find_bind_cases)
  case goes_on
  have b: "1 \<le> sint (Page p)" "1 \<le> sint (Limit p)" "sint (Limit p) < 2 ^ 31"
    "(sint (Page p) - 1) * sint (Limit p) < 2 ^ 31"
    using assms(2) by (auto simp: page_in_bounds_def)
  have nat_ofs: "nat ((sint (Page p) - 1) * sint (Limit p)) = (nat (sint (Page p)) - 1) * nat (sint (Limit p))"
    using b by (simp add: nat_mult_distrib nat_diff_distrib)
  from goes_on obtain r where r: "wallet_of_user (committed w) uid = Some r"
    and l: "list_page (transactionRepo_FindByWalletID L (wr_id r) ty) (\<lambda>xs pr.
      \<lparr>TransactionList_Transactions = map transactionResponse xs, TransactionList_Pagination = pr\<rparr>) p
      (next_tick w) = (Inr res, w')"
    by (auto simp: throwE_def split: option.splits)
  then show ?thesis
    using b sint_int32_Offset [OF b(1,2,4)] sint_int32 [of "Limit p"]
    by (auto simp: list_page_def SetDefaults_id [OF b(1,2)] succ wallet_txns.page_Inr nat_ofs page_of_def
        take_map drop_map comp_def)
qed simp

text \<open>
  C20. Paging is complete: when no two transactions of a wallet were created at the same instant,
  the first k pages, read one after the other from the same data, are together the whole history,
  newest first, every transaction exactly once, for every k that reaches the end.
\<close>

theorem GetTransactions_pages_cover:
  assumes "\<And>i. i \<in> {1..k} \<Longrightarrow> \<exists>w'. GetTransactions L uid ty \<lparr>Page = of_nat i, Limit = l\<rparr> (ws i) = (Inr (rs i), w')"
    and "\<And>i. i \<in> {1..k} \<Longrightarrow> committed (ws i) = d" and "wallet_of_user d uid = Some r"
    and "1 \<le> sint l" and "int k * sint l < 2 ^ 31"
    and "distinct (map tr_created_at (wallet_history d (wr_id r) ty))"
    and "int (length (wallet_history d (wr_id r) ty)) \<le> int k * sint l"
  shows "concat (map (\<lambda>i. TransactionList_Transactions (rs i)) [1..<Suc k]) =
    map (\<lambda>t. transactionResponse (transaction_of L t)) (wallet_transactions (wr_id r) ty d (\<lambda>i. i))"
proof -
  let ?f = "\<lambda>t. transactionResponse (transaction_of L t)" and ?h = "wallet_transactions (wr_id r) ty d (\<lambda>i. i)"
  have page: "TransactionList_Transactions (rs i) = page_of (nat (sint l)) i (map ?f ?h)" if i: "i \<in> {1..k}" for i
  proof -
    let ?p = "\<lparr>Page = of_nat i, Limit = l\<rparr>"
    have "int k \<le> int k * sint l" using assms(4) by (simp add: mult_le_cancel_left1)
    moreover have "int i \<le> int k" using i by simp
    ultimately have small: "int i < 2 ^ 31" using assms(5) by linarith
    then have page: "sint (of_nat i :: goint) = int i"
      using sint_word_of_int_64 [of "int i"] by simp
    have "sint l \<le> int k * sint l" "(int i - 1) * sint l \<le> int k * sint l"
      using i assms(4) by (auto simp: mult_le_cancel_right1 intro: mult_right_mono)
    then have "sint l < 2 ^ 31" "(int i - 1) * sint l < 2 ^ 31" using assms(5) by linarith+
    then have "page_in_bounds ?p"
      using i assms(4) by (simp add: page_in_bounds_def page)
    then obtain r' pl where "wallet_of_user (committed (ws i)) uid = Some r'" and
      "TransactionList_Transactions (rs i) = map ?f (page_of (nat (sint l)) i (wallet_transactions (wr_id r') ty (committed (ws i)) pl))"
      using assms(1) [OF i] GetTransactions_Inr [of L uid ty ?p "ws i" "rs i"] by (auto simp: page)
    moreover have "wallet_transactions (wr_id r) ty d pl = ?h"
      by (rule wallet_transactions_plan [OF assms(6)])
    ultimately show ?thesis using assms(2) [OF i] assms(3) by (simp add: page_of_map)
  qed
  have "length ?h = length (wallet_history d (wr_id r) ty)"
    by (metis size_mset wallet_transactions_mset)
  then have "length (map ?f ?h) \<le> k * nat (sint l)"
    using assms(4,7) zle_int [of _ "k * nat (sint l)"] by simp
  moreover have "0 < nat (sint l)" using assms(4) by simp
  moreover have "map (\<lambda>i. TransactionList_Transactions (rs i)) [1..<Suc k]
      = map (\<lambda>i. page_of (nat (sint l)) i (map ?f ?h)) [1..<Suc k]"
    using page by (intro map_cong) auto
  ultimately show ?thesis by (simp only: pages_cover)
qed

theorem GetTransactions_pages_cover_witness:
  "\<exists>res w'. GetTransactions sample_lib 1 None first_page sample_world = (Inr res, w') \<and>
    TransactionList_Transactions res = map (\<lambda>t. transactionResponse (transaction_of sample_lib t))
      (wallet_transactions ''WLT-A'' None sample_db (\<lambda>i. i))"
proof -
  obtain res w' where run: "GetTransactions sample_lib 1 None first_page sample_world = (Inr res, w')"
    using GetTransactions_page [OF sample_page(1) sample_db_ok sample_page(2) sample_wallets(1) sample_page(3),
        of sample_lib None] by (metis prod.collapse)
  have d: "committed sample_world = sample_db" "wallet_history sample_db i ty = []" for i ty
    by (simp_all add: sample_world_def sample_db_def empty_db_def wallet_history_def)
  have "concat (map (\<lambda>i. TransactionList_Transactions res) [1..<Suc 1]) =
    map (\<lambda>t. transactionResponse (transaction_of sample_lib t)) (wallet_transactions (wr_id ann_wallet) None sample_db (\<lambda>i. i))"
  proof (rule GetTransactions_pages_cover [where l = 10 and uid = 1 and ws = "\<lambda>_. sample_world"])
    show "\<exists>w'. GetTransactions sample_lib 1 None \<lparr>Page = of_nat i, Limit = 10\<rparr> sample_world = (Inr res, w')"
      if "i \<in> {1..1}" for i using run that by (auto simp: first_page_def)
  qed (use sample_wallets(1) in \<open>simp_all add: d\<close>)
  then show ?thesis using run by (simp add: ann_wallet_def wallet_entry_def)
qed

text \<open>
  C21. Page numbers wrap: the offset is cut to 32 bits, so page n + 2^32 shows the rows of page n
  under its own number, and a page whose offset lies between 2^31 and 2^32 is an error, never an
  empty page.
\<close>

theorem GetTransactions_far_pages:
  assumes "1 \<le> sint (Page p)" and "1 \<le> sint (Limit p)"
  shows "(sint (Page p) < 2 ^ 62 \<longrightarrow> GetTransactions L uid ty p w = (Inr res, w') \<longrightarrow>
      (\<exists>res'. GetTransactions L uid ty (p\<lparr>Page := Page p + 2 ^ 32\<rparr>) w = (Inr res', w') \<and>
        TransactionList_Transactions res' = TransactionList_Transactions res)) \<and>
    (2 ^ 31 \<le> (sint (Page p) - 1) * sint (Limit p) \<longrightarrow> (sint (Page p) - 1) * sint (Limit p) < 2 ^ 32 \<longrightarrow>
      (\<exists>e. fst (GetTransactions L uid ty p w) = Inl e))"
proof (intro conjI impI)
  let ?f = "\<lambda>xs pr. \<lparr>TransactionList_Transactions = map transactionResponse xs, TransactionList_Pagination = pr\<rparr>"
  assume far: "sint (Page p) < 2 ^ 62" and "GetTransactions L uid ty p w = (Inr res, w')"
  from this(2) show "\<exists>res'. GetTransactions L uid ty (p\<lparr>Page := Page p + 2 ^ 32\<rparr>) w = (Inr res', w') \<and>
      TransactionList_Transactions res' = TransactionList_Transactions res"
    unfolding wallet_services_list_page(1) [of L uid ty p]
  proof (cases rule: wallet_by_user.find_bind_cases)
    case goes_on
    then obtain r where r: "wallet_of_user (committed w) uid = Some r"
      and l: "list_page (transactionRepo_FindByWalletID L (wr_id r) ty) ?f p (next_tick w) = (Inr res, w')"
      by (auto simp: throwE_def split: option.splits)
    obtain xs pr pr' where "res = ?f xs pr"
      "list_page (transactionRepo_FindByWalletID L (wr_id r) ty) ?f (far_page p) (next_tick w) = (Inr (?f xs pr'), w')"
      using wallet_txns.list_page_far [OF assms(1) far assms(2) l] by blast
    moreover have "walletRepo_FindByUserID L uid w = (Inr (Some (wallet_of L r)), next_tick w)"
      using wallet_by_user.find_run [OF goes_on(2), of L uid] r by simp
    ultimately show ?thesis
      unfolding far_page_def [symmetric] by (simp add: wallet_services_list_page(1) bindE_def)
  qed simp
next
  assume wrap: "2 ^ 31 \<le> (sint (Page p) - 1) * sint (Limit p)" "(sint (Page p) - 1) * sint (Limit p) < 2 ^ 32"
  show "\<exists>e. fst (GetTransactions L uid ty p w) = Inl e"
    using wallet_txns.list_page_negative [OF assms wrap]
    by (auto simp: wallet_services_list_page(1) bindE_def throwE_def split: prod.splits sum.splits option.splits)
qed

theorem GetTransactions_far_pages_witness:
  "\<exists>e. fst (GetTransactions sample_lib 1 None \<lparr>Page = 214748366, Limit = 10\<rparr> sample_world) = Inl e"
  using conjunct2 [OF GetTransactions_far_pages [of "\<lparr>Page = 214748366, Limit = 10\<rparr>" sample_lib 1 None
      sample_world undefined undefined]] by simp

section \<open>Reading changes nothing\<close>

text \<open>
  No reading operation changes the committed database, starts an event or publishes a
  message, in any environment and whatever it returns.
\<close>

theorem readers_change_nothing:
  "quiet w (snd (GetTransactions L uid ty p w)) \<and> quiet w (snd (GetTransactionDetail L uid t w)) \<and>
   quiet w (snd (GetAllTransactions L ty st p w)) \<and> quiet w (snd (GetTransactionDetailAdmin L t w)) \<and>
   quiet w (snd (GetWalletByUserID L uid w)) \<and> quiet w (snd (GetLedgerEntries L uid ty p w)) \<and>
   quiet w (snd (GetLogs uid p w)) \<and> quiet w (snd (GetAllLogs ou oa p w)) \<and>
   quiet w (snd (GetNotifications uid p w)) \<and> quiet w (snd (GetAllUsers L p w))"
  by (intro conjI) (rule quiet_services [unfolded steps_def, THEN spec])+

lemma filter_find:
  "distinct (map f xs) \<Longrightarrow> filter (\<lambda>x. f x = y) xs = (case find (\<lambda>x. f x = y) xs of None \<Rightarrow> [] | Some x \<Rightarrow> [x])"
proof (induction xs)
  case (Cons x xs)
  have "find (\<lambda>z. f z = y) xs = None" if "f x = y"
    using Cons.prems that by (auto simp: find_None_iff intro: rev_image_eqI)
  then show ?case using Cons by (auto split: option.splits)
qed simp

lemma left_join_wallets_map:
  assumes "db_ok d"
  shows "left_join_wallets d = map (\<lambda>u. (u, wallet_of_user d (ur_id u))) (users d)"
proof -
  have "filter (\<lambda>w. wr_user_id w = i) (wallets d)
      = (case wallet_of_user d i of None \<Rightarrow> [] | Some w \<Rightarrow> [w])" for i
    using assms by (simp add: wallet_of_user_def filter_find db_ok_def wallets_ok_def)
  then have one: "(\<lambda>u. let ws = filter (\<lambda>w. wr_user_id w = ur_id u) (wallets d)
      in if ws = [] then [(u, None)] else map (\<lambda>w. (u, Some w)) ws) = (\<lambda>u. [(u, wallet_of_user d (ur_id u))])"
    by (intro ext) (simp split: option.splits)
  show ?thesis unfolding left_join_wallets_def one by simp
qed

text \<open>
  The administrator's list shows every user with the wallet they own: when no interaction
  fails, a page within bounds is that page of the users, newest first, each exactly once with
  identity, role, wallet and balance, and the totals count the users.
\<close>

theorem GetAllUsers_page:
  assumes "healthy (env w)" and "db_ok (committed w)" and "page_in_bounds p"
    and "int (length (users (committed w))) < 2 ^ 62"
  shows "\<exists>pr us. fst (GetAllUsers L p w) = Inr \<lparr>AdminUserList_Users =
      map (\<lambda>u. adminUserResponse (user_with_wallet_of L u)) (page_of (nat (sint (Limit p))) (nat (sint (Page p))) us),
      AdminUserList_Pagination = pr\<rparr> \<and>
    page_summary p (length (users (committed w))) pr \<and> sorted (map (\<lambda>(u, _). - ur_created_at u) us) \<and>
    mset us = image_mset (\<lambda>u. (u, wallet_of_user (committed w) (ur_id u))) (mset (users (committed w)))"
proof -
  let ?us = "all_users (committed w) (plan (env w) (tick w))"
  have len: "length ?us = length (users (committed w))"
    by (simp add: all_users_def left_join_wallets_map [OF assms(2)])
  obtain pr where "fst (GetAllUsers L p w) = Inr \<lparr>AdminUserList_Users = map adminUserResponse
      (page_of (nat (sint (Limit p))) (nat (sint (Page p))) (map (user_with_wallet_of L) ?us)),
      AdminUserList_Pagination = pr\<rparr>" "page_summary p (length (users (committed w))) pr"
    using users_page.list_page_run [where L = L and respond = "\<lambda>xs pr.
        \<lparr>AdminUserList_Users = map adminUserResponse xs, AdminUserList_Pagination = pr\<rparr>", OF assms(1,3,2)] assms(4)
    by (auto simp: services_list_page(5) len)
  moreover have "sorted (map (\<lambda>(u, _). - ur_created_at u) ?us)"
    by (simp add: all_users_def order_desc_def case_prod_unfold)
  moreover have "mset ?us = image_mset (\<lambda>u. (u, wallet_of_user (committed w) (ur_id u))) (mset (users (committed w)))"
    by (simp add: all_users_def order_desc_def left_join_wallets_map [OF assms(2)])
  ultimately show ?thesis by (auto simp: page_of_map comp_def)
qed

theorem GetAllUsers_page_witness:
  "\<exists>res. fst (GetAllUsers sample_lib first_page sample_world) = Inr res \<and>
    length (AdminUserList_Users res) = 2"
proof -
  have "int (length (users (committed sample_world))) < 2 ^ 62" and two: "length (users (committed sample_world)) = 2"
    by (simp_all add: sample_world_def sample_db_def)
  from GetAllUsers_page [OF sample_page(1) sample_db_ok sample_page(2) this(1), of sample_lib] obtain pr us where
    "fst (GetAllUsers sample_lib first_page sample_world) = Inr \<lparr>AdminUserList_Users =
       map (\<lambda>u. adminUserResponse (user_with_wallet_of sample_lib u)) (page_of 10 1 us), AdminUserList_Pagination = pr\<rparr>"
    and us: "mset us = image_mset (\<lambda>u. (u, wallet_of_user (committed sample_world) (ur_id u))) (mset (users (committed sample_world)))"
    by (auto simp: first_page_def)
  moreover have "length us = 2" using arg_cong [OF us, of size] two by simp
  ultimately show ?thesis by (simp add: page_of_def)
qed

end
