(* ===== verification/LogProperties.thy ===== *)
theory LogProperties
  imports History BooksProperties MoneyProperties
begin

text \<open>
  The properties of the logs, the notifications, the identifiers and the numbers that cross the
  border to the database.
\<close>

section \<open>History\<close>

text \<open>
  C17. The history is append-only: between any two states of a run, users, transactions, ledger
  entries and audit logs are only added at the end, none is ever changed or removed, and no
  wallet changes its identifier, owner or currency.
\<close>

theorem history_is_append_only:
  assumes "decimal_laws L v" and "reachable L P w" and "(serves L P)\<^sup>*\<^sup>* w w'"
  shows "grows (committed w) (committed w')"
  using run_grows [OF assms(3,1,2)] by (simp add: world_grows_def)

theorem history_is_append_only_witness:
  "\<exists>w' :: world. users (committed w') \<noteq> [] \<and> grows (committed start_world) (committed w')"
proof -
  obtain res w' where run: "Register sample_lib ann_request start_world = (Inr res, w')"
    using start_register by blast
  have "users (committed w') \<noteq> []"
    using run sample_decimal_laws by (cases rule: Register_cases) (auto simp: register_effect_def)
  moreover have "(serves sample_lib (\<lambda>_. True))\<^sup>*\<^sup>* start_world w'"
    using run by (intro r_into_rtranclp serve_Register)
  ultimately show ?thesis
    using history_is_append_only [OF sample_decimal_laws reachable_start_world] by blast
qed

section \<open>Audit log\<close>

text \<open>
  Whatever it returns, writing an audit log adds at most one entry at the end of the audit
  log and touches nothing else; the entry has a fresh AUD- identifier, the user, action, address
  and endpoint it was given, and the time of the database, whatever identifier and time the
  caller had set.
\<close>

theorem CreateLog_appends:
  "case CreateLog l w of (r, w') \<Rightarrow>
     committed w' = committed w \<and> (\<exists>e. r = Inl e) \<or>
     (\<exists>i now. committed w' = (committed w)\<lparr>audit_logs := audit_logs (committed w) @
          [\<lparr>ar_id = i, ar_user_id = AuditLog_UserID l, ar_action = AuditLog_Action l,
            ar_ip_address = AuditLog_IPAddress l, ar_endpoint = AuditLog_Endpoint l,
            ar_created_at = now\<rparr>]\<rparr> \<and>
        i \<notin> ar_id ` set (audit_logs (committed w)) \<and> length i = 14 \<and> take 4 i = ''AUD-'' \<and>
        (r = Inr () \<or> r = Inl (Wrap ''create audit log query failed'' (SQL ConnFailed))))"
  by (rule CreateLog_effect)

section \<open>Notifications\<close>

definition marked :: "uuid \<Rightarrow> uuid \<Rightarrow> notification_row list \<Rightarrow> notification_row list" where
  "marked nid uid ns = map (\<lambda>n. if nr_id n = nid \<and> nr_user_id n = uid then n\<lparr>nr_is_read := True\<rparr> else n) ns"

text \<open>
  C23. Marking as read and clearing reach only the notifications of the user who asks, in every
  environment: those of other users and everything else in the database stay as they were; a
  successful marking sets the flag of the one notification named, and a successful clearing
  leaves the user none.
\<close>

theorem notifications_isolated:
  "(case MarkAsRead nid uid w of (r, w') \<Rightarrow>
      committed w' = (committed w)\<lparr>notifications := notifications (committed w')\<rparr> \<and>
      filter (\<lambda>n. nr_user_id n \<noteq> uid) (notifications (committed w')) =
        filter (\<lambda>n. nr_user_id n \<noteq> uid) (notifications (committed w)) \<and>
      (case r of
         Inl e \<Rightarrow> notifications (committed w') \<in> {notifications (committed w), marked nid uid (notifications (committed w))}
       | Inr _ \<Rightarrow> notifications (committed w') = marked nid uid (notifications (committed w)))) \<and>
   (case ClearAll uid w of (r, w') \<Rightarrow>
      committed w' = (committed w)\<lparr>notifications := notifications (committed w')\<rparr> \<and>
      filter (\<lambda>n. nr_user_id n \<noteq> uid) (notifications (committed w')) =
        filter (\<lambda>n. nr_user_id n \<noteq> uid) (notifications (committed w)) \<and>
      (case r of
         Inl e \<Rightarrow> notifications (committed w') \<in> {notifications (committed w),
           filter (\<lambda>n. nr_user_id n \<noteq> uid) (notifications (committed w))}
       | Inr _ \<Rightarrow> notifications (committed w') =
           filter (\<lambda>n. nr_user_id n \<noteq> uid) (notifications (committed w))))"
proof -
  have others: "filter (\<lambda>n. nr_user_id n \<noteq> uid) (marked nid uid ns) = filter (\<lambda>n. nr_user_id n \<noteq> uid) ns" for ns
    by (induction ns) (auto simp: marked_def)
  have select: "notification_of (Some uid) = (\<lambda>n. nr_user_id n = uid)"
    by (auto simp: notification_of_def sql_eq_def)
  have mark: "update_where (\<lambda>r. nr_id r = nid \<and> nr_user_id r = uid) (nr_is_read_update (\<lambda>_. True)) ns
      = marked nid uid ns" for ns
    by (simp add: update_where_def marked_def)
  show ?thesis
    by (auto simp: MarkAsRead_def ClearAll_def notificationRepo_MarkAsRead_def notificationRepo_ClearAll_def
        wrapE_def run_stmt_def MarkNotificationAsRead_def ClearNotificationsByUserID_def modify_def
        select sql_eq_def mark delete_where_def others comp_def split: fault.splits)
qed

text \<open>
  C24. A notification is published only after it is stored, once at most, and only on the channel
  of the user it belongs to; a failure to publish does not undo it.
\<close>

theorem notification_stored_before_push:
  "case CreateAndPushNotification L uid title msg w of (r, w') \<Rightarrow>
     (case r of
        Inl e \<Rightarrow> published w' = published w
      | Inr n \<Rightarrow> \<exists>row. n = notification_entity row \<and> nr_user_id row = uid \<and> nr_title row = title \<and>
          nr_message row = msg \<and> \<not> nr_is_read row \<and>
          committed w' = (committed w)\<lparr>notifications := notifications (committed w) @ [row]\<rparr> \<and>
          published w' \<in> {published w, published w @
            [(''user:notifications:'' @ UUID_String L uid, notification_json L n)]})"
proof -
  let ?q = "CreateNotification (Some uid) title msg (stmt_ctx_of (clock (env w) (tick w)) w) (committed w)"
  obtain s d' where stmt: "?q = (s, d')" by (cases ?q)
  show ?thesis
  proof (cases s)
    case (Inl e)
    then show ?thesis
      using stmt by (auto simp: CreateAndPushNotification_def notificationRepo_Create_def bindE_def
          wrapE_def run_stmt_def split: fault.splits)
  next
    case (Inr row)
    then have "nr_user_id row = uid" "nr_title row = title" "nr_message row = msg" "\<not> nr_is_read row"
      "d' = (committed w)\<lparr>notifications := notifications (committed w) @ [row]\<rparr>"
      using stmt by (auto simp: CreateNotification_def succ Let_def)
    then show ?thesis
      using stmt Inr by (auto simp: CreateAndPushNotification_def notificationRepo_Create_def bindE_def
          wrapE_def run_stmt_def tryE_def redis_Publish_def returnE_def split: fault.splits)
  qed
qed

section \<open>Identifiers and amounts\<close>

text \<open>
  Every generated identifier has its prefix and its length, consists of characters of the
  alphabet, and fits the column it is stored in, for every random source and every date of a
  four-digit year.
\<close>

theorem generated_identifiers_fit:
  assumes "calendar_ok (env w)"
  shows "(GenerateWalletID w = (Inr a, w1) \<longrightarrow>
      length a = 12 \<and> take 4 a = ''WLT-'' \<and> set (drop 4 a) \<subseteq> set charset \<and> varchar 20 a) \<and>
    (GenerateLedgerEntryID w = (Inr b, w2) \<longrightarrow>
      length b = 14 \<and> take 4 b = ''LED-'' \<and> set (drop 4 b) \<subseteq> set charset \<and> varchar 20 b) \<and>
    (GenerateAuditLogID w = (Inr c, w3) \<longrightarrow>
      length c = 14 \<and> take 4 c = ''AUD-'' \<and> set (drop 4 c) \<subseteq> set charset \<and> varchar 20 c) \<and>
    (GenerateTransactionRef w = (Inr r, w4) \<longrightarrow>
      length r = 21 \<and> take 4 r = ''TXN-'' \<and> r ! 12 = CHR ''-'' \<and> set (drop 13 r) \<subseteq> set charset \<and> varchar 30 r)"
proof (intro conjI impI)
  assume run: "GenerateTransactionRef w = (Inr r, w4)"
  then obtain s u where s: "randomAlphanumeric 8 w = (Inr s, u)"
    and r: "r = ''TXN-'' @ Format_20060102 (local_date (env u) (clock (env u) (tick u))) @ ''-'' @ s"
    by (auto simp: GenerateTransactionRef_def succ)
  have "env u = env w" using stepsD [OF quiet_randomAlphanumeric s] by (simp add: quiet_def)
  then obtain f where f: "f = Format_20060102 (local_date (env u) (clock (env u) (tick u)))" "length f = 8"
    using assms by (metis Format_length calendar_ok_def prod_cases3)
  have shape: "length s = 8" "set s \<subseteq> set charset"
    using randomAlphanumeric_shape [OF s] by simp_all
  show "length r = 21" "take 4 r = ''TXN-''" "r ! 12 = CHR ''-''" "set (drop 13 r) \<subseteq> set charset" "varchar 30 r"
    using f(2) shape unfolding r f(1) [symmetric] by (auto simp: nth_append intro: varchar_length)
qed (auto dest!: GenerateWalletID_shape GenerateLedgerEntryID_shape GenerateAuditLogID_shape intro: varchar_length)

theorem generated_identifiers_fit_witness:
  "\<exists>a w'. GenerateWalletID start_world = (Inr a, w') \<and> length a = 12"
proof -
  obtain s where "randomAlphanumeric 8 start_world = (Inr s, start_world\<lparr>tick := tick start_world + 8\<rparr>)"
    using randomAlphanumeric_healthy [of start_world 8] by (auto simp: start_world_simps sample_healthy)
  then have run: "GenerateWalletID start_world = (Inr (''WLT-'' @ s), start_world\<lparr>tick := tick start_world + 8\<rparr>)"
    by (simp add: GenerateWalletID_def bindE_def returnE_def)
  have "calendar_ok (env start_world)" by (simp add: start_world_simps sample_healthy)
  from generated_identifiers_fit [OF this] run show ?thesis by blast
qed

text \<open>
  Amounts survive the trip to the database to the hundredth: converting to the driver's
  numeric type and back is exact, and what a NUMERIC(18,2) column hands back is within half a
  hundredth of what was stored, and equal to it when it is a whole number of hundredths.
\<close>

theorem amount_roundtrip:
  assumes "decimal_laws L v"
  shows "v (numericToDecimal L (decimalToNumeric L x)) = v x \<and>
    \<bar>v (numericToDecimal L (Numeric_decode L (round_half_away (v x * 100)))) - v x\<bar> \<le> 1 / 200 \<and>
    (v x * 100 \<in> \<int> \<longrightarrow> v (numericToDecimal L (Numeric_decode L (round_half_away (v x * 100)))) = v x)"
proof (intro conjI impI)
  show "v (numericToDecimal L (decimalToNumeric L x)) = v x"
    by (rule numericToDecimal_value [OF assms decimalToNumeric_value [OF assms]])
  have decoded: "v (numericToDecimal L (Numeric_decode L c)) = of_int c / 100" for c
    using cents_decimal_value [OF assms] by (simp add: cents_decimal_def)
  show "\<bar>v (numericToDecimal L (Numeric_decode L (round_half_away (v x * 100)))) - v x\<bar> \<le> 1 / 200"
    using round_half_away_error [of "v x * 100"] unfolding decoded by linarith
  assume "v x * 100 \<in> \<int>"
  then obtain k where "v x * 100 = of_int k" by (elim Ints_cases)
  then show "v (numericToDecimal L (Numeric_decode L (round_half_away (v x * 100)))) = v x"
    unfolding decoded by simp
qed

theorem amount_roundtrip_witness:
  "dec_value (numericToDecimal sample_lib (decimalToNumeric sample_lib (5, -3))) = dec_value (5, -3)"
  using amount_roundtrip [OF sample_decimal_laws, of "(5, -3)"] by blast

end
