(* ===== verification/Events.thy ===== *)
theory Events
  imports Broker AccountServices
begin

text \<open>
  Events on the way from a request to the workers: \<open>publishEvent\<close>
  (\<open>internal/service/auth_service.go\<close>), the event of the audit middleware
  (\<open>internal/middleware/audit_middleware.go\<close>), and how \<open>encoding/json\<close> decodes an event
  into the structs of the workers (\<open>internal/worker\<close>). JSON texts are modelled by the value
  they denote; a text that is not JSON is \<open>None\<close>.
\<close>

section \<open>Encoding\<close>

definition event_json :: "'d lib \<Rightarrow> time \<Rightarrow> string \<Rightarrow> string \<Rightarrow> string \<Rightarrow> string \<Rightarrow> json \<Rightarrow> json" where
  "event_json L now eventType userID ipAddress endpoint data = JObj
     [(''event_type'', JStr eventType), (''user_id'', JStr userID), (''data'', data),
      (''timestamp'', Time_MarshalJSON L now), (''ip_address'', JStr ipAddress),
      (''endpoint'', JStr endpoint)]"

text \<open>The body of the goroutine \<open>sp\<close>, run when the clock shows \<open>now\<close>; \<open>nil_ch\<close>: no channel.\<close>

definition publishEvent :: "'d lib \<Rightarrow> bool \<Rightarrow> time \<Rightarrow> spawn \<Rightarrow> unit amqp_op" where
  "publishEvent L nil_ch now sp =
     (if nil_ch then returnE ()
      else PublishWithContext ''wallet_events'' (''wallet.event.'' @ spawn_EventType sp)
        (Some (event_json L now (spawn_EventType sp) (spawn_UserID sp) [] [] (spawn_Data sp))))"

section \<open>Decoding\<close>

text \<open>
  A key selects the field of that name, ignoring case (ASCII letters here); a later key
  overrides an earlier one, an unknown key is skipped, \<open>null\<close> changes nothing, and a value of
  the wrong kind is an error.
\<close>

definition lower :: "char \<Rightarrow> char" where
  "lower c = (let n = of_char c :: nat in if 65 \<le> n \<and> n \<le> 90 then char_of (n + 32) else c)"

definition same_key :: "string \<Rightarrow> string \<Rightarrow> bool" where
  "same_key a b \<longleftrightarrow> map lower a = map lower b"

type_synonym 's field = "string \<times> (json \<Rightarrow> 's \<Rightarrow> 's option)"

fun decode_fields :: "'s field list \<Rightarrow> (string \<times> json) list \<Rightarrow> 's \<Rightarrow> 's option" where
  "decode_fields fs [] s = Some s"
| "decode_fields fs ((k, j) # kvs) s =
     (case find (\<lambda>(name, _). same_key name k) fs of
        None \<Rightarrow> decode_fields fs kvs s
      | Some (_, put) \<Rightarrow>
          (case put j s of None \<Rightarrow> None | Some s' \<Rightarrow> decode_fields fs kvs s'))"

definition json_Unmarshal :: "'s field list \<Rightarrow> 's \<Rightarrow> json option \<Rightarrow> 's option" where
  "json_Unmarshal fs zero text =
     (case text of
        None \<Rightarrow> None
      | Some (JObj kvs) \<Rightarrow> decode_fields fs kvs zero
      | Some JNull \<Rightarrow> Some zero
      | Some _ \<Rightarrow> None)"

definition string_field :: "((string \<Rightarrow> string) \<Rightarrow> 's \<Rightarrow> 's) \<Rightarrow> json \<Rightarrow> 's \<Rightarrow> 's option" where
  "string_field update j s =
     (case j of JStr x \<Rightarrow> Some (update (\<lambda>_. x) s) | JNull \<Rightarrow> Some s | _ \<Rightarrow> None)"

text \<open>A field whose type has its own \<open>UnmarshalJSON\<close>, for which \<open>null\<close> is a no-op.\<close>

definition custom_field :: "(json \<Rightarrow> 'a option) \<Rightarrow> (('a \<Rightarrow> 'a) \<Rightarrow> 's \<Rightarrow> 's) \<Rightarrow> json \<Rightarrow> 's \<Rightarrow> 's option" where
  "custom_field unmarshal update j s =
     (if j = JNull then Some s else map_option (\<lambda>x. update (\<lambda>_. x) s) (unmarshal j))"

text \<open>\<open>json.RawMessage\<close>: the value as it is, \<open>None\<close> when the key is missing.\<close>

definition raw_field :: "((json option \<Rightarrow> json option) \<Rightarrow> 's \<Rightarrow> 's) \<Rightarrow> json \<Rightarrow> 's \<Rightarrow> 's option" where
  "raw_field update j s = Some (update (\<lambda>_. Some j) s)"

subsection \<open>The structs of the workers\<close>

record WalletEventMsg =
  WalletEventMsg_EventType :: string
  WalletEventMsg_UserID :: string
  WalletEventMsg_Data :: "json option"
  WalletEventMsg_Timestamp :: time
  WalletEventMsg_IPAddress :: string
  WalletEventMsg_Endpoint :: string

definition decode_event :: "'d lib \<Rightarrow> json option \<Rightarrow> WalletEventMsg option" where
  "decode_event L = json_Unmarshal
     [(''event_type'', string_field WalletEventMsg_EventType_update),
      (''user_id'', string_field WalletEventMsg_UserID_update),
      (''data'', raw_field WalletEventMsg_Data_update),
      (''timestamp'', custom_field (Time_UnmarshalJSON L) WalletEventMsg_Timestamp_update),
      (''ip_address'', string_field WalletEventMsg_IPAddress_update),
      (''endpoint'', string_field WalletEventMsg_Endpoint_update)]
     \<lparr>WalletEventMsg_EventType = [], WalletEventMsg_UserID = [], WalletEventMsg_Data = None,
      WalletEventMsg_Timestamp = 0, WalletEventMsg_IPAddress = [], WalletEventMsg_Endpoint = []\<rparr>"

record AuditEventMessage =
  AuditEventMessage_UserID :: string
  AuditEventMessage_Action :: string
  AuditEventMessage_IPAddress :: string
  AuditEventMessage_Endpoint :: string

definition decode_audit_data :: "json option \<Rightarrow> AuditEventMessage option" where
  "decode_audit_data = json_Unmarshal
     [(''user_id'', string_field AuditEventMessage_UserID_update),
      (''action'', string_field AuditEventMessage_Action_update),
      (''ip_address'', string_field AuditEventMessage_IPAddress_update),
      (''endpoint'', string_field AuditEventMessage_Endpoint_update)]
     \<lparr>AuditEventMessage_UserID = [], AuditEventMessage_Action = [],
      AuditEventMessage_IPAddress = [], AuditEventMessage_Endpoint = []\<rparr>"

record RegisterEventData =
  RegisterEventData_WalletID :: string

definition decode_register_data :: "json option \<Rightarrow> RegisterEventData option" where
  "decode_register_data = json_Unmarshal
     [(''wallet_id'', string_field RegisterEventData_WalletID_update)]
     \<lparr>RegisterEventData_WalletID = []\<rparr>"

record 'd TopUpEventData =
  TopUpEventData_TransactionID :: string
  TopUpEventData_ReferenceNo :: string
  TopUpEventData_WalletID :: string
  TopUpEventData_Amount :: 'd
  TopUpEventData_BalanceAfter :: 'd

definition decode_topup_data :: "'d lib \<Rightarrow> json option \<Rightarrow> 'd TopUpEventData option" where
  "decode_topup_data L = json_Unmarshal
     [(''transaction_id'', string_field TopUpEventData_TransactionID_update),
      (''reference_no'', string_field TopUpEventData_ReferenceNo_update),
      (''wallet_id'', string_field TopUpEventData_WalletID_update),
      (''amount'', custom_field (Decimal_UnmarshalJSON L) TopUpEventData_Amount_update),
      (''balance_after'', custom_field (Decimal_UnmarshalJSON L) TopUpEventData_BalanceAfter_update)]
     \<lparr>TopUpEventData_TransactionID = [], TopUpEventData_ReferenceNo = [], TopUpEventData_WalletID = [],
      TopUpEventData_Amount = Decimal_Zero L, TopUpEventData_BalanceAfter = Decimal_Zero L\<rparr>"

record 'd TransferEventData =
  TransferEventData_TransactionID :: string
  TransferEventData_ReferenceNo :: string
  TransferEventData_SourceWalletID :: string
  TransferEventData_TargetWalletID :: string
  TransferEventData_Amount :: 'd
  TransferEventData_BalanceAfter :: 'd

definition decode_transfer_data :: "'d lib \<Rightarrow> json option \<Rightarrow> 'd TransferEventData option" where
  "decode_transfer_data L = json_Unmarshal
     [(''transaction_id'', string_field TransferEventData_TransactionID_update),
      (''reference_no'', string_field TransferEventData_ReferenceNo_update),
      (''source_wallet_id'', string_field TransferEventData_SourceWalletID_update),
      (''target_wallet_id'', string_field TransferEventData_TargetWalletID_update),
      (''amount'', custom_field (Decimal_UnmarshalJSON L) TransferEventData_Amount_update),
      (''balance_after'', custom_field (Decimal_UnmarshalJSON L) TransferEventData_BalanceAfter_update)]
     \<lparr>TransferEventData_TransactionID = [], TransferEventData_ReferenceNo = [],
      TransferEventData_SourceWalletID = [], TransferEventData_TargetWalletID = [],
      TransferEventData_Amount = Decimal_Zero L, TransferEventData_BalanceAfter = Decimal_Zero L\<rparr>"

section \<open>Round trips\<close>

text \<open>
  What the code relies on: a marshalled time (of the years 1 to 9999, which RFC 3339 covers) or
  decimal is not \<open>null\<close> and unmarshals to an equal time, to a decimal with the same text.
\<close>

definition json_time :: "time \<Rightarrow> bool" where
  "json_time t \<longleftrightarrow> 0 \<le> t \<and> t < 315537897600000000"

definition event_laws :: "'d lib \<Rightarrow> bool" where
  "event_laws L \<longleftrightarrow>
     (\<forall>t. json_time t \<longrightarrow> Time_MarshalJSON L t \<noteq> JNull \<and> Time_UnmarshalJSON L (Time_MarshalJSON L t) = Some t) \<and>
     (\<forall>x. Decimal_MarshalJSON L x \<noteq> JNull \<and>
        (\<exists>y. Decimal_UnmarshalJSON L (Decimal_MarshalJSON L x) = Some y \<and>
             Decimal_String L y = Decimal_String L x))"

lemma event_laws_time:
  "event_laws L \<Longrightarrow> json_time t \<Longrightarrow> custom_field (Time_UnmarshalJSON L) update (Time_MarshalJSON L t) s = Some (update (\<lambda>_. t) s)"
  by (simp add: event_laws_def custom_field_def)

lemma event_laws_decimal:
  assumes "event_laws L"
  obtains y where "Decimal_String L y = Decimal_String L x"
    "\<And>update s :: 's. custom_field (Decimal_UnmarshalJSON L) update (Decimal_MarshalJSON L x) s = Some (update (\<lambda>_. y) s)"
  using assms unfolding event_laws_def custom_field_def by (metis option.simps(9))

lemma decode_event_json:
  assumes "event_laws L" and "json_time now"
  shows "decode_event L (Some (event_json L now ty u ip ep data)) = Some
    \<lparr>WalletEventMsg_EventType = ty, WalletEventMsg_UserID = u, WalletEventMsg_Data = Some data,
     WalletEventMsg_Timestamp = now, WalletEventMsg_IPAddress = ip, WalletEventMsg_Endpoint = ep\<rparr>"
  by (simp add: decode_event_def json_Unmarshal_def event_json_def same_key_def lower_def Let_def
      string_field_def raw_field_def event_laws_time [OF assms])

end
