(* ===== verification/Workers.thy ===== *)
theory Workers
  imports Events History
begin

text \<open>
  The consumers of the events (\<open>internal/worker\<close>): what each worker does with a message, how it
  settles the delivery, and the queue it consumes, with requests of the service, publications and
  lost answers interleaved in any order.
\<close>

section \<open>Audit worker\<close>

definition pick :: "string \<Rightarrow> string \<Rightarrow> string" where
  "pick override value = (if override \<noteq> [] then override else value)"

definition audit_entry :: "uuid \<Rightarrow> WalletEventMsg \<Rightarrow> AuditLog" where
  "audit_entry uid evt =
     (let plain = \<lparr>AuditLog_ID = [], AuditLog_UserID = uid,
            AuditLog_Action = WalletEventMsg_EventType evt,
            AuditLog_IPAddress = WalletEventMsg_IPAddress evt,
            AuditLog_Endpoint = WalletEventMsg_Endpoint evt,
            AuditLog_CreatedAt = WalletEventMsg_Timestamp evt\<rparr>
      in if WalletEventMsg_EventType evt = ''AUDIT''
         then case decode_audit_data (WalletEventMsg_Data evt) of
             None \<Rightarrow> plain
           | Some auditData \<Rightarrow> plain
               \<lparr>AuditLog_Action := pick (AuditEventMessage_Action auditData) (AuditLog_Action plain),
                AuditLog_IPAddress := pick (AuditEventMessage_IPAddress auditData) (AuditLog_IPAddress plain),
                AuditLog_Endpoint := pick (AuditEventMessage_Endpoint auditData) (AuditLog_Endpoint plain)\<rparr>
         else plain)"

definition AuditWorker_processMessage :: "'d lib \<Rightarrow> message \<Rightarrow> unit go" where
  "AuditWorker_processMessage L msg =
     (case decode_event L (msg_Body msg) of
        None \<Rightarrow> throwE (Wrap ''failed to unmarshal wallet event message'' (Failed ''json''))
      | Some evt \<Rightarrow>
          (case UUID_Parse L (WalletEventMsg_UserID evt) of
             None \<Rightarrow> throwE (Wrap ''invalid user id in event'' (Failed ''uuid''))
           | Some uid \<Rightarrow> CreateLog (audit_entry uid evt)))"

section \<open>Notification worker\<close>

definition notify :: "'d lib \<Rightarrow> string \<Rightarrow> uuid \<Rightarrow> string \<Rightarrow> string \<Rightarrow> unit go" where
  "notify L failure userID title message =
     bindE (wrapE (Wrap failure) (CreateAndPushNotification L userID title message)) (\<lambda>_. returnE ())"

text \<open>Both notifications of a transfer are best effort: their errors are only logged.\<close>

definition notify_transfer :: "'d lib \<Rightarrow> uuid \<Rightarrow> 'd TransferEventData \<Rightarrow> unit go" where
  "notify_transfer L userID data =
     tryE (CreateAndPushNotification L userID ''Transfer Berhasil''
       (''Transfer sebesar Rp '' @ Decimal_String L (TransferEventData_Amount data) @
        '' ke dompet '' @ TransferEventData_TargetWalletID data @ '' berhasil. Ref: '' @
        TransferEventData_ReferenceNo data @ ''.'')) (\<lambda>_.
     bindE (wrapE (Wrap ''failed to find target wallet'')
       (walletRepo_FindByID L (TransferEventData_TargetWalletID data))) (\<lambda>found.
     case found of
       None \<Rightarrow> returnE ()
     | Some targetWallet \<Rightarrow>
         tryE (CreateAndPushNotification L (Wallet_UserID targetWallet) ''Transfer Diterima''
           (''Anda menerima transfer sebesar Rp '' @ Decimal_String L (TransferEventData_Amount data) @
            '' dari dompet '' @ TransferEventData_SourceWalletID data @ ''. Ref: '' @
            TransferEventData_ReferenceNo data @ ''.'')) (\<lambda>_.
         returnE ())))"

definition notify_event :: "'d lib \<Rightarrow> uuid \<Rightarrow> WalletEventMsg \<Rightarrow> unit go" where
  "notify_event L userID evt =
     (let type = WalletEventMsg_EventType evt in
      if type = ''REGISTER'' then
        (case decode_register_data (WalletEventMsg_Data evt) of
           None \<Rightarrow> throwE (Wrap ''failed to unmarshal register data'' (Failed ''json''))
         | Some data \<Rightarrow> notify L ''failed to create register notification'' userID ''Pendaftaran Berhasil''
             (''Selamat datang! Dompet Anda dengan ID '' @ RegisterEventData_WalletID data @
              '' telah berhasil dibuat.''))
      else if type = ''LOGIN'' then
        notify L ''failed to create login notification'' userID ''Login Berhasil''
          ''Anda baru saja masuk ke akun Anda.''
      else if type = ''TOPUP'' then
        (case decode_topup_data L (WalletEventMsg_Data evt) of
           None \<Rightarrow> throwE (Wrap ''failed to unmarshal topup data'' (Failed ''json''))
         | Some data \<Rightarrow> notify L ''failed to create topup notification'' userID ''Top-up Berhasil''
             (''Top-up sebesar Rp '' @ Decimal_String L (TopUpEventData_Amount data) @
              '' berhasil. Ref: '' @ TopUpEventData_ReferenceNo data @ ''.''))
      else if type = ''TRANSFER'' then
        (case decode_transfer_data L (WalletEventMsg_Data evt) of
           None \<Rightarrow> throwE (Wrap ''failed to unmarshal transfer data'' (Failed ''json''))
         | Some data \<Rightarrow> notify_transfer L userID data)
      else returnE ())"

text \<open>A user id that does not parse is \<open>uuid.Nil\<close>; only an \<open>AUDIT\<close> event gets past it.\<close>

definition NotificationWorker_processMessage :: "'d lib \<Rightarrow> message \<Rightarrow> unit go" where
  "NotificationWorker_processMessage L msg =
     (case decode_event L (msg_Body msg) of
        None \<Rightarrow> throwE (Wrap ''failed to unmarshal notification event'' (Failed ''json''))
      | Some evt \<Rightarrow>
          (case UUID_Parse L (WalletEventMsg_UserID evt) of
             None \<Rightarrow> if WalletEventMsg_EventType evt \<noteq> ''AUDIT''
               then throwE (Wrap ''invalid user id'' (Failed ''uuid'')) else notify_event L 0 evt
           | Some userID \<Rightarrow> notify_event L userID evt))"

section \<open>Settling a delivery\<close>

datatype settlement = Ack | Nack (requeue: bool)

definition consume_delivery :: "(message \<Rightarrow> unit go) \<Rightarrow> message \<Rightarrow> settlement go" where
  "consume_delivery processMessage msg =
     tryE (processMessage msg) (\<lambda>r. case r of Inl e \<Rightarrow> returnE (Nack True) | Inr _ \<Rightarrow> returnE Ack)"

definition AuditWorker_delivery :: "'d lib \<Rightarrow> message \<Rightarrow> settlement go" where
  "AuditWorker_delivery L = consume_delivery (AuditWorker_processMessage L)"

definition NotificationWorker_delivery :: "'d lib \<Rightarrow> message \<Rightarrow> settlement go" where
  "NotificationWorker_delivery L = consume_delivery (NotificationWorker_processMessage L)"

text \<open>The analytics worker logs every event and acknowledges it.\<close>

definition AnalyticsWorker_delivery :: "message \<Rightarrow> settlement go" where
  "AnalyticsWorker_delivery msg = returnE Ack"

text \<open>The broker forgets a message that is acknowledged, or rejected without requeueing.\<close>

definition settle :: "settlement \<Rightarrow> message \<Rightarrow> message list \<Rightarrow> message list" where
  "settle st m q = (case st of Ack \<Rightarrow> remove1 m q | Nack r \<Rightarrow> if r then q else remove1 m q)"

text \<open>
  One worker at its queue. Any message may be delivered next, a settlement may be lost (the
  broker then delivers the message again), a message may arrive, and between two deliveries the
  service takes a step.
\<close>

inductive consumes :: "(message \<Rightarrow> settlement go) \<Rightarrow> (world \<Rightarrow> world \<Rightarrow> bool) \<Rightarrow>
    message list \<times> world \<Rightarrow> message list \<times> world \<Rightarrow> bool" for delivery serve where
  consume_settled: "m \<in> set q \<Longrightarrow> delivery m w = (Inr st, w') \<Longrightarrow>
     consumes delivery serve (q, w) (settle st m q, w')"
| consume_lost: "m \<in> set q \<Longrightarrow> delivery m w = (r, w') \<Longrightarrow> consumes delivery serve (q, w) (q, w')"
| consume_arrives: "consumes delivery serve (q, w) (q @ [m], w)"
| consume_serves: "serve w w' \<Longrightarrow> consumes delivery serve (q, w) (q, w')"

inductive_cases consumes_cases: "consumes delivery serve (q, w) (q', w')"

section \<open>What leaves a queue\<close>

lemma consume_delivery_Inr:
  "consume_delivery process m w = (Inr st, w') \<longleftrightarrow>
     process m w = (Inr (), w') \<and> st = Ack \<or> (\<exists>e. process m w = (Inl e, w') \<and> st = Nack True)"
  by (auto simp: consume_delivery_def tryE_def returnE_def split: prod.splits sum.splits)

lemma consume_delivery_snd: "snd (consume_delivery process m w) = snd (process m w)"
  by (auto simp: consume_delivery_def tryE_def returnE_def split: prod.splits sum.splits)

text \<open>
  A message that is in the queue less often than before has been processed without an error: the
  run goes through that processing, and from the queue without the message on to its end.
\<close>

lemma leaves_after_success:
  assumes "(consumes (consume_delivery process) serve)\<^sup>*\<^sup>* (q, w) (q', w')"
    and "count (mset q') m < count (mset q) m"
  shows "\<exists>q1 w1 w2. (consumes (consume_delivery process) serve)\<^sup>*\<^sup>* (q, w) (q1, w1) \<and> m \<in> set q1 \<and>
    process m w1 = (Inr (), w2) \<and> (consumes (consume_delivery process) serve)\<^sup>*\<^sup>* (remove1 m q1, w2) (q', w')"
  using assms
proof (induction "(q', w')" arbitrary: q' w' rule: rtranclp_induct)
  case (step y)
  obtain q1 w1 where y: "y = (q1, w1)" by (cases y)
  note last = step.hyps(2) [unfolded y]
  show ?case
  proof (cases "count (mset q1) m < count (mset q) m")
    case True
    then show ?thesis using step.hyps(3) [OF y] last by (meson rtranclp.rtrancl_into_rtrancl)
  next
    case False
    then have less: "count (mset q') m < count (mset q1) m" using step.prems by simp
    then have "m \<in> set q1" by (metis count_mset_0_iff less_nat_zero_code)
    moreover have "process m w1 = (Inr (), w') \<and> q' = remove1 m q1"
      using last
    proof (rule consumes_cases)
      fix m' st
      assume "q' = settle st m' q1" "consume_delivery process m' w1 = (Inr st, w')"
      then show ?thesis
        using less by (auto simp: settle_def consume_delivery_Inr split: if_splits)
    qed (use less in \<open>auto split: if_splits\<close>)
    ultimately show ?thesis using step.hyps(1) y by blast
  qed
qed simp

text \<open>
  The contract of a worker that leaves a record of each message it acknowledges: deliveries and
  the rest of the service only add to the record. Its lemma is delivery at least once.
\<close>

locale recorder =
  fixes delivery :: "message \<Rightarrow> settlement go" and serve :: "world \<Rightarrow> world \<Rightarrow> bool"
    and inv :: "world \<Rightarrow> bool" and entry :: "message \<Rightarrow> 'e" and recorded :: "world \<Rightarrow> 'e multiset"
  assumes delivery_inv: "inv w \<Longrightarrow> delivery m w = (r, w') \<Longrightarrow> inv w'"
    and serve_inv: "inv w \<Longrightarrow> serve w w' \<Longrightarrow> inv w'"
    and serve_keeps: "inv w \<Longrightarrow> serve w w' \<Longrightarrow> recorded w \<subseteq># recorded w'"
    and delivery_keeps: "inv w \<Longrightarrow> delivery m w = (r, w') \<Longrightarrow> recorded w \<subseteq># recorded w'"
    and delivery_records: "inv w \<Longrightarrow> delivery m w = (Inr st, w') \<Longrightarrow> st \<noteq> Nack True \<Longrightarrow>
      add_mset (entry m) (recorded w) \<subseteq># recorded w'"
begin

lemma run_inv: "(consumes delivery serve)\<^sup>*\<^sup>* (q, w) (q', w') \<Longrightarrow> inv w \<Longrightarrow> inv w'"
proof (induction "(q', w')" arbitrary: q' w' rule: rtranclp_induct)
  case (step y)
  then show ?case
    by (cases y) (auto elim!: consumes_cases intro: delivery_inv serve_inv)
qed simp

lemma step_records:
  assumes "consumes delivery serve (q, w) (q', w')" and "inv w"
  shows "image_mset entry (mset q - mset q') + recorded w \<subseteq># recorded w'"
  using assms(1)
proof (rule consumes_cases)
  fix m st
  assume q': "q' = settle st m q" and m: "m \<in> set q" and run: "delivery m w = (Inr st, w')"
  show ?thesis
  proof (cases "st = Nack True")
    case True
    then show ?thesis using q' delivery_keeps [OF assms(2) run] by (simp add: settle_def)
  next
    case False
    then have "mset q - mset q' = {#m#}"
      using q' m by (cases st) (auto simp: settle_def dest!: in_multiset_in_set [THEN iffD2] multi_member_split)
    then show ?thesis using delivery_records [OF assms(2) run False] by simp
  qed
qed (auto intro: delivery_keeps serve_keeps assms(2))

lemma at_least_once:
  assumes "(consumes delivery serve)\<^sup>*\<^sup>* (q, w) (q', w')" and "inv w"
  shows "image_mset entry (mset q - mset q') + recorded w \<subseteq># recorded w'"
  using assms(1)
proof (induction "(q', w')" arbitrary: q' w' rule: rtranclp_induct)
  case (step y)
  obtain q1 w1 where y: "y = (q1, w1)" by (cases y)
  have IH: "image_mset entry (mset q - mset q1) + recorded w \<subseteq># recorded w1"
    using step.hyps(3) [OF y] .
  have here: "image_mset entry (mset q1 - mset q') + recorded w1 \<subseteq># recorded w'"
    using step.hyps(2) run_inv [OF step.hyps(1) [unfolded y] assms(2)] unfolding y by (rule step_records)
  have "mset q - mset q' \<subseteq># (mset q - mset q1) + (mset q1 - mset q')"
    by (rule mset_subset_eqI) simp
  then have "image_mset entry (mset q - mset q') \<subseteq>#
      image_mset entry (mset q - mset q1) + image_mset entry (mset q1 - mset q')"
    by (metis image_mset_subseteq_mono image_mset_union)
  then have "image_mset entry (mset q - mset q') + recorded w \<subseteq>#
      image_mset entry (mset q1 - mset q') + (image_mset entry (mset q - mset q1) + recorded w)"
    by (metis (no_types, lifting) add.commute add.left_commute mset_subset_eq_mono_add_right_cancel)
  also have "\<dots> \<subseteq># recorded w'"
    using here IH by (metis mset_subset_eq_mono_add_left_cancel subset_mset.order_trans)
  finally show ?case .
qed simp

end

section \<open>The audit worker records what it acknowledges\<close>

definition entry_content :: "AuditLog \<Rightarrow> uuid \<times> string \<times> string \<times> string" where
  "entry_content l = (AuditLog_UserID l, AuditLog_Action l, AuditLog_IPAddress l, AuditLog_Endpoint l)"

definition row_content :: "audit_row \<Rightarrow> uuid \<times> string \<times> string \<times> string" where
  "row_content r = (ar_user_id r, ar_action r, ar_ip_address r, ar_endpoint r)"

text \<open>What a message asks to record; \<open>None\<close> for a message that is no event.\<close>

definition audit_content :: "'d lib \<Rightarrow> message \<Rightarrow> (uuid \<times> string \<times> string \<times> string) option" where
  "audit_content L msg =
     (case decode_event L (msg_Body msg) of
        None \<Rightarrow> None
      | Some evt \<Rightarrow> map_option (\<lambda>uid. entry_content (audit_entry uid evt))
          (UUID_Parse L (WalletEventMsg_UserID evt)))"

definition audit_records :: "world \<Rightarrow> (uuid \<times> string \<times> string \<times> string) option multiset" where
  "audit_records w = image_mset (\<lambda>r. Some (row_content r)) (mset (audit_logs (committed w)))"

lemma CreateLog_records:
  assumes "CreateLog l w = (r, w')"
  shows "audit_records w' = audit_records w \<and> r \<noteq> Inr () \<or>
    audit_records w' = add_mset (Some (entry_content l)) (audit_records w)"
  using CreateLog_effect [where l = l and w = w] assms
  by (auto simp: audit_records_def entry_content_def row_content_def)

lemma AuditWorker_records:
  assumes "AuditWorker_processMessage L m w = (r, w')"
  shows "audit_records w' = audit_records w \<and> r \<noteq> Inr () \<or>
    audit_records w' = add_mset (audit_content L m) (audit_records w)"
  using assms CreateLog_records
  by (auto simp: AuditWorker_processMessage_def audit_content_def throwE_def split: option.splits)

lemma AuditWorker_keeps: "steps world_keeps (AuditWorker_processMessage L m)"
  unfolding AuditWorker_processMessage_def
  by (auto intro: ok_services ok_order.steps_throwE split: option.splits)

definition lawful_world :: "'d lib \<Rightarrow> world \<Rightarrow> bool" where
  "lawful_world L w \<longleftrightarrow> world_ok w \<and> (\<exists>v. decimal_laws L v)"

lemma serves_records: "lawful_world L w \<Longrightarrow> serves L P w w' \<Longrightarrow> audit_records w \<subseteq># audit_records w'"
proof -
  assume w: "lawful_world L w" "serves L P w w'"
  then have "world_grows w w'"
    using serves_grows by (auto simp: lawful_world_def world_ok_def)
  then obtain zs where "audit_logs (committed w') = audit_logs (committed w) @ zs"
    by (auto simp: world_grows_def grows_def elim: prefixE)
  then show ?thesis by (simp add: audit_records_def)
qed

interpretation audit: recorder "AuditWorker_delivery L" "serves L P" "lawful_world L"
    "audit_content L" audit_records for L :: "'d lib" and P
proof (unfold_locales)
  fix m w r w' st
  assume w: "lawful_world L w"
  show "lawful_world L w'" if "AuditWorker_delivery L m w = (r, w')"
    using w stepsD [OF AuditWorker_keeps [of L m], of w] consume_delivery_snd [of "AuditWorker_processMessage L" m w] that
    by (auto simp: AuditWorker_delivery_def lawful_world_def world_keeps_def prod_eq_iff)
  show "lawful_world L w'" if "serves L P w w'"
    using w serves_keeps [OF that] by (auto simp: lawful_world_def world_keeps_def)
  show "audit_records w \<subseteq># audit_records w'" if "serves L P w w'"
    by (rule serves_records [OF w that])
  show "audit_records w \<subseteq># audit_records w'" if "AuditWorker_delivery L m w = (r, w')"
    using AuditWorker_records [of L m w] consume_delivery_snd [of "AuditWorker_processMessage L" m w] that
    by (cases "AuditWorker_processMessage L m w") (auto simp: AuditWorker_delivery_def)
  show "add_mset (audit_content L m) (audit_records w) \<subseteq># audit_records w'"
    if "AuditWorker_delivery L m w = (Inr st, w')" "st \<noteq> Nack True"
    using that AuditWorker_records [of L m w] by (auto simp: AuditWorker_delivery_def consume_delivery_Inr)
qed

end
