(* ===== verification/Notices.thy ===== *)
theory Notices
  imports Workers Totality
begin

text \<open>
  What the notification worker stores: the effect of one notification in every environment and
  its success in a healthy one, for a message that the transaction service has published.
\<close>

definition nr_content :: "notification_row \<Rightarrow> uuid \<times> string \<times> string" where
  "nr_content n = (nr_user_id n, nr_title n, nr_message n)"

definition notified :: "db \<Rightarrow> (uuid \<times> string \<times> string) list \<Rightarrow> db \<Rightarrow> bool" where
  "notified d cs d' \<longleftrightarrow> (\<exists>ns. d' = d\<lparr>notifications := notifications d @ ns\<rparr> \<and> map nr_content ns = cs)"

lemma notified_refl: "notified d [] d"
  by (simp add: notified_def)

lemma notified_trans: "notified d cs d' \<Longrightarrow> notified d' cs' d'' \<Longrightarrow> notified d (cs @ cs') d''"
  by (auto simp: notified_def)

lemma notified_same: "notified d cs d' \<Longrightarrow> users d' = users d \<and> wallets d' = wallets d"
  by (auto simp: notified_def)

lemma CreateAndPushNotification_effect:
  assumes "CreateAndPushNotification L uid title msg w = (r, w')"
  shows "env w' = env w \<and> (\<exists>cs. notified (committed w) cs (committed w') \<and> (cs = [] \<or> cs = [(uid, title, msg)]))"
proof -
  let ?q = "CreateNotification (Some uid) title msg (stmt_ctx_of (clock (env w) (tick w)) w) (committed w)"
  obtain s d' where stmt: "?q = (s, d')" by (cases ?q)
  have "notified (committed w) [(uid, title, msg)] d'" if "s = Inr row" for row
    using stmt that by (auto simp: CreateNotification_def succ Let_def notified_def nr_content_def)
  then show ?thesis
    using assms stmt notified_refl [of "committed w"]
    by (cases s) (auto simp: CreateAndPushNotification_def notificationRepo_Create_def bindE_def tryE_def
        wrapE_def run_stmt_def redis_Publish_def returnE_def split: fault.splits)
qed

text \<open>A healthy environment: the notification is stored, with the next UUID as its key.\<close>

lemma CreateAndPushNotification_run:
  assumes "healthy (env w)" and "uid \<in> ur_id ` set (users (committed w))" and "varchar 100 title"
    and "uuids (env w) (tick w) \<notin> nr_id ` set (notifications (committed w))"
  shows "\<exists>n w'. CreateAndPushNotification L uid title msg w = (Inr n, w') \<and> env w' = env w \<and>
    tick w' = tick w + 2 \<and> notified (committed w) [(uid, title, msg)] (committed w') \<and>
    nr_id ` set (notifications (committed w')) =
      insert (uuids (env w) (tick w)) (nr_id ` set (notifications (committed w)))"
proof -
  have ok: "fault (env w) k = NoFault" for k using assms(1) by (simp add: healthy_def)
  let ?row = "\<lparr>nr_id = uuids (env w) (tick w), nr_user_id = uid, nr_title = title, nr_message = msg,
    nr_is_read = False, nr_created_at = clock (env w) (tick w)\<rparr>"
  let ?d = "(committed w)\<lparr>notifications := notifications (committed w) @ [?row]\<rparr>"
  have "CreateNotification (Some uid) title msg (stmt_ctx_of (clock (env w) (tick w)) w) (committed w)
      = (Inr ?row, ?d)"
    using assms(2-4)
    by (simp add: CreateNotification_def bindE_def not_null_def read_def returnE_def checkE_run modify_def Let_def)
  then have "notificationRepo_Create uid title msg w
      = (Inr (notification_entity ?row), (next_tick w)\<lparr>committed := ?d\<rparr>)"
    using ok by (simp add: notificationRepo_Create_def bindE_def wrapE_def run_stmt_def returnE_def)
  moreover have "notified (committed w) [(uid, title, msg)] ?d"
    by (auto simp: notified_def nr_content_def)
  ultimately show ?thesis
    using ok by (simp add: CreateAndPushNotification_def bindE_def tryE_def redis_Publish_def returnE_def)
qed

section \<open>The event of a transfer, seen by the worker\<close>

text \<open>The message that \<open>publishEvent\<close> hands to the broker for the goroutine \<open>sp\<close>.\<close>

definition event_message :: "'d lib \<Rightarrow> time \<Rightarrow> spawn \<Rightarrow> message" where
  "event_message L now sp =
     \<lparr>msg_RoutingKey = ''wallet.event.'' @ spawn_EventType sp,
      msg_Body = Some (event_json L now (spawn_EventType sp) (spawn_UserID sp) [] [] (spawn_Data sp))\<rparr>"

lemma decode_event_message:
  assumes "event_laws L" and "json_time now"
  shows "decode_event L (msg_Body (event_message L now sp)) = Some
    \<lparr>WalletEventMsg_EventType = spawn_EventType sp, WalletEventMsg_UserID = spawn_UserID sp,
     WalletEventMsg_Data = Some (spawn_Data sp), WalletEventMsg_Timestamp = now,
     WalletEventMsg_IPAddress = [], WalletEventMsg_Endpoint = []\<rparr>"
  by (simp add: event_message_def decode_event_json [OF assms])

lemma decode_transfer_event:
  assumes "event_laws L"
  obtains d where "decode_transfer_data L (Some (spawn_Data (transfer_event L uid res))) = Some d"
    "Decimal_String L (TransferEventData_Amount d) = Decimal_String L (TransferResponse_Amount res)"
    "Decimal_String L (TransferEventData_BalanceAfter d) = Decimal_String L (TransferResponse_BalanceAfter res)"
    "TransferEventData_ReferenceNo d = TransferResponse_ReferenceNo res"
    "TransferEventData_SourceWalletID d = TransferResponse_SourceWalletID res"
    "TransferEventData_TargetWalletID d = TransferResponse_TargetWalletID res"
    "TransferEventData_TransactionID d = UUID_String L (TransferResponse_TransactionID res)"
proof -
  obtain a b where dec: "Decimal_String L a = Decimal_String L (TransferResponse_Amount res)"
    "\<And>upd s :: 'a TransferEventData. custom_field (Decimal_UnmarshalJSON L) upd (Decimal_MarshalJSON L (TransferResponse_Amount res)) s = Some (upd (\<lambda>_. a) s)"
    "Decimal_String L b = Decimal_String L (TransferResponse_BalanceAfter res)"
    "\<And>upd s :: 'a TransferEventData. custom_field (Decimal_UnmarshalJSON L) upd (Decimal_MarshalJSON L (TransferResponse_BalanceAfter res)) s = Some (upd (\<lambda>_. b) s)"
    using event_laws_decimal [OF assms, where 's = "'a TransferEventData"] by metis
  let ?d = "\<lparr>TransferEventData_TransactionID = UUID_String L (TransferResponse_TransactionID res),
    TransferEventData_ReferenceNo = TransferResponse_ReferenceNo res,
    TransferEventData_SourceWalletID = TransferResponse_SourceWalletID res,
    TransferEventData_TargetWalletID = TransferResponse_TargetWalletID res,
    TransferEventData_Amount = a, TransferEventData_BalanceAfter = b\<rparr>"
  have "decode_transfer_data L (Some (spawn_Data (transfer_event L uid res))) = Some ?d"
    by (simp add: decode_transfer_data_def json_Unmarshal_def transfer_event_def same_key_def lower_def
        Let_def string_field_def dec(2,4))
  then show thesis using that [of ?d] dec(1,3) by simp
qed

definition sender_notice :: "'d lib \<Rightarrow> uuid \<Rightarrow> 'd TransferResponse \<Rightarrow> uuid \<times> string \<times> string" where
  "sender_notice L uid res =
     (uid, ''Transfer Berhasil'', ''Transfer sebesar Rp '' @ Decimal_String L (TransferResponse_Amount res) @
        '' ke dompet '' @ TransferResponse_TargetWalletID res @ '' berhasil. Ref: '' @
        TransferResponse_ReferenceNo res @ ''.'')"

definition receiver_notice :: "'d lib \<Rightarrow> uuid \<Rightarrow> 'd TransferResponse \<Rightarrow> uuid \<times> string \<times> string" where
  "receiver_notice L uid res =
     (uid, ''Transfer Diterima'', ''Anda menerima transfer sebesar Rp '' @
        Decimal_String L (TransferResponse_Amount res) @ '' dari dompet '' @
        TransferResponse_SourceWalletID res @ ''. Ref: '' @ TransferResponse_ReferenceNo res @ ''.'')"

text \<open>What the worker runs for it: two notifications around a lookup.\<close>

definition transfer_notices :: "'d lib \<Rightarrow> uuid \<Rightarrow> 'd TransferResponse \<Rightarrow> unit go" where
  "transfer_notices L uid res =
     (case sender_notice L uid res of (_, title, msg) \<Rightarrow>
     tryE (CreateAndPushNotification L uid title msg) (\<lambda>_.
     bindE (wrapE (Wrap ''failed to find target wallet'')
       (walletRepo_FindByID L (TransferResponse_TargetWalletID res))) (\<lambda>found.
     case found of None \<Rightarrow> returnE () | Some wal \<Rightarrow>
     case receiver_notice L (Wallet_UserID wal) res of (payee, title, msg) \<Rightarrow>
     tryE (CreateAndPushNotification L payee title msg) (\<lambda>_. returnE ()))))"

lemma NotificationWorker_transfer:
  assumes "event_laws L" and "uuid_laws L" and "json_time now"
  shows "NotificationWorker_processMessage L (event_message L now (transfer_event L uid res)) =
    transfer_notices L uid res"
proof -
  obtain d where d: "decode_transfer_data L (Some (spawn_Data (transfer_event L uid res))) = Some d"
    "Decimal_String L (TransferEventData_Amount d) = Decimal_String L (TransferResponse_Amount res)"
    "TransferEventData_ReferenceNo d = TransferResponse_ReferenceNo res"
    "TransferEventData_SourceWalletID d = TransferResponse_SourceWalletID res"
    "TransferEventData_TargetWalletID d = TransferResponse_TargetWalletID res"
    using decode_transfer_event [OF assms(1)] by metis
  have "spawn_EventType (transfer_event L uid res) = ''TRANSFER''"
    "UUID_Parse L (spawn_UserID (transfer_event L uid res)) = Some uid"
    using assms(2) by (simp_all add: transfer_event_def uuid_laws_def)
  then show ?thesis
    by (simp add: NotificationWorker_processMessage_def decode_event_message [OF assms(1,3)] notify_event_def d
        notify_transfer_def transfer_notices_def sender_notice_def receiver_notice_def
        cong: option.case_cong)
qed

section \<open>Its effect\<close>

lemma transfer_notices_effect:
  assumes "transfer_notices L uid res w = (r, w')"
    and "wallet_with_id (committed w) (TransferResponse_TargetWalletID res) = Some rt"
  shows "\<exists>s p. notified (committed w) (s @ p) (committed w') \<and> (s = [] \<or> s = [sender_notice L uid res]) \<and>
    (p = [] \<or> p = [receiver_notice L (wr_user_id rt) res])"
proof -
  obtain t1 m1 where s: "sender_notice L uid res = (uid, t1, m1)" by (simp add: sender_notice_def)
  obtain t2 m2 where p: "receiver_notice L (wr_user_id rt) res = (wr_user_id rt, t2, m2)"
    by (simp add: receiver_notice_def)
  obtain r1 w1 where one: "CreateAndPushNotification L uid t1 m1 w = (r1, w1)"
    by (cases "CreateAndPushNotification L uid t1 m1 w")
  obtain cs where cs: "notified (committed w) cs (committed w1)" "cs = [] \<or> cs = [(uid, t1, m1)]"
    using CreateAndPushNotification_effect [OF one] by blast
  then have found: "wallet_with_id (committed w1) (TransferResponse_TargetWalletID res) = Some rt"
    using assms(2) notified_same [OF cs(1)] by (simp add: wallet_with_id_def)
  have rest: "bindE (wrapE (Wrap ''failed to find target wallet'')
      (walletRepo_FindByID L (TransferResponse_TargetWalletID res))) (\<lambda>found.
     case found of None \<Rightarrow> returnE () | Some wal \<Rightarrow>
     case receiver_notice L (Wallet_UserID wal) res of (payee, title, msg) \<Rightarrow>
     tryE (CreateAndPushNotification L payee title msg) (\<lambda>_. returnE ())) w1 = (r, w')"
    using assms(1) by (simp add: transfer_notices_def s tryE_run [where m = "CreateAndPushNotification L uid t1 m1", OF one])
  obtain x w2 where look: "walletRepo_FindByID L (TransferResponse_TargetWalletID res) w1 = (x, w2)"
    by (cases "walletRepo_FindByID L (TransferResponse_TargetWalletID res) w1")
  have w2: "committed w2 = committed w1"
    using wallet_by_id.find_quiet [of L "TransferResponse_TargetWalletID res", THEN stepsD, OF look]
    by (simp add: quiet_def)
  show ?thesis
  proof (cases x)
    case (Inl e)
    then have "committed w' = committed w1"
      using rest look w2 by (auto simp: bindE_def wrapE_def)
    then show ?thesis using cs s by (intro exI [of _ cs] exI [of _ "[]"]) simp
  next
    case (Inr fnd)
    then have "fnd = Some (wallet_of L rt)"
      using look found by (simp add: wallet_by_id.find_Inr)
    then have "tryE (CreateAndPushNotification L (wr_user_id rt) t2 m2) (\<lambda>_. returnE ()) w2 = (r, w')"
      using rest look Inr p by (simp add: bindE_def wrapE_def )
    then obtain r3 where "CreateAndPushNotification L (wr_user_id rt) t2 m2 w2 = (r3, w')"
      by (auto simp: tryE_def returnE_def split: prod.splits)
    from CreateAndPushNotification_effect [OF this] obtain ps where
      "notified (committed w1) ps (committed w')" "ps = [] \<or> ps = [(wr_user_id rt, t2, m2)]"
      by (auto simp: w2)
    with notified_trans [OF cs(1)] cs(2) show ?thesis
      by (intro exI [of _ cs] exI [of _ ps]) (simp add: s p)
  qed
qed

definition notice_keys_fresh :: "world \<Rightarrow> bool" where
  "notice_keys_fresh w \<longleftrightarrow>
     uuids (env w) (tick w) \<notin> nr_id ` set (notifications (committed w)) \<and>
     uuids (env w) (tick w + 3) \<notin> nr_id ` set (notifications (committed w)) \<and>
     uuids (env w) (tick w) \<noteq> uuids (env w) (tick w + 3)"

lemma transfer_notices_run:
  assumes env: "healthy (env w)" and users: "uid \<in> ur_id ` set (users (committed w))"
      "wr_user_id rt \<in> ur_id ` set (users (committed w))"
    and rt: "wallet_with_id (committed w) (TransferResponse_TargetWalletID res) = Some rt"
    and fresh: "notice_keys_fresh w"
  shows "\<exists>w'. transfer_notices L uid res w = (Inr (), w') \<and> notified (committed w)
    [sender_notice L uid res, receiver_notice L (wr_user_id rt) res] (committed w')"
proof -
  obtain t1 m1 where s: "sender_notice L uid res = (uid, t1, m1)" "varchar 100 t1"
    by (simp add: sender_notice_def varchar_length)
  obtain t2 m2 where p: "receiver_notice L (wr_user_id rt) res = (wr_user_id rt, t2, m2)" "varchar 100 t2"
    by (simp add: receiver_notice_def varchar_length)
  obtain n w1 where one: "CreateAndPushNotification L uid t1 m1 w = (Inr n, w1)" "env w1 = env w"
      "tick w1 = tick w + 2" "notified (committed w) [(uid, t1, m1)] (committed w1)"
      "nr_id ` set (notifications (committed w1)) =
         insert (uuids (env w) (tick w)) (nr_id ` set (notifications (committed w)))"
    using CreateAndPushNotification_run [OF env users(1) s(2)] fresh unfolding notice_keys_fresh_def by blast
  have w1: "wallet_with_id (committed w1) (TransferResponse_TargetWalletID res) = Some rt"
    "users (committed w1) = users (committed w)"
    using rt notified_same [OF one(4)] by (simp_all add: wallet_with_id_def)
  have look: "walletRepo_FindByID L (TransferResponse_TargetWalletID res) w1
      = (Inr (Some (wallet_of L rt)), next_tick w1)"
    using env wallet_by_id.find_run [of w1 L] by (simp add: one(2) healthy_def w1)
  have "\<exists>n' w'. CreateAndPushNotification L (wr_user_id rt) t2 m2 (next_tick w1) = (Inr n', w') \<and>
      notified (committed w1) [(wr_user_id rt, t2, m2)] (committed w')"
    using CreateAndPushNotification_run [of "next_tick w1" "wr_user_id rt" t2 L m2] env users(2) p(2) fresh
    by (auto simp: one(2,3,5) w1 notice_keys_fresh_def numeral_3_eq_3)
  then obtain n' w' where two: "CreateAndPushNotification L (wr_user_id rt) t2 m2 (next_tick w1) = (Inr n', w')"
      "notified (committed w1) [(wr_user_id rt, t2, m2)] (committed w')"
    by blast
  have "transfer_notices L uid res w = (Inr (), w')"
    using look two(1)
    by (simp add: transfer_notices_def s one(1) bindE_def wrapE_def p  tryE_def returnE_def)
  then show ?thesis using notified_trans [OF one(4) two(2)] s(1) p(1) by simp
qed

section \<open>Audit entries in a healthy environment\<close>

definition audit_id_at :: "env \<Rightarrow> nat \<Rightarrow> string" where
  "audit_id_at e t = ''AUD-'' @ alphanumeric e t 10"

lemma CreateLog_run:
  assumes "healthy (env w)" and "AuditLog_UserID l \<in> ur_id ` set (users (committed w))"
    and "varchar 255 (AuditLog_Action l)" "varchar 45 (AuditLog_IPAddress l)" "varchar 255 (AuditLog_Endpoint l)"
    and "audit_id_at (env w) (tick w) \<notin> ar_id ` set (audit_logs (committed w))"
  shows "\<exists>w'. CreateLog l w = (Inr (), w')"
proof -
  have "varchar 20 (audit_id_at (env w) (tick w))"
    by (rule varchar_length) (simp add: audit_id_at_def)
  then show ?thesis
    using assms
    by (simp add: CreateLog_def GenerateAuditLogID_def auditRepo_Create_def bindE_def wrapE_def run_stmt_def
        randomAlphanumeric_run audit_id_at_def returnE_def healthy_def CreateAuditLog_def not_null_def
        read_def checkE_run modify_def Let_def)
qed

end
