(* ===== verification/EventProperties.thy ===== *)
theory EventProperties
  imports Notices MoneyProperties Steady
begin

text \<open>
  The properties of events: publishing through a connection that may fail, decoding, the
  queues of the workers, and the way of a transfer to the two people it concerns.
\<close>

lemma sample_event_laws: "event_laws sample_lib"
  by (simp add: event_laws_def sample_lib_def text_int_text text_numeric_dec)

section \<open>Publishing\<close>

text \<open>
  C36. Whatever happens to the connection, publishing an event puts it at most twice, and the same
  number of times and in one piece, into each of the three queues, and dereferences nothing nil.
  As long as no frame that was written gets lost (no confirm is requested, so a success does not say
  that the broker has the event), a success means that it is in every queue; as long as no error hides a
  frame that did arrive, a success means at most once and an error not at all.
\<close>

theorem publishEvent_delivers:
  assumes "channel_ok s" and "covers (amqp s) ''wallet.event.#'' (''wallet.event.'' @ spawn_EventType sp)"
  shows "case publishEvent L False now sp s of (r, s') \<Rightarrow>
    \<exists>k \<le> 2. received s s' k (event_message L now sp) \<and>
      (case r of
         Inr _ \<Rightarrow> (no_drop s \<longrightarrow> 1 \<le> k) \<and> (no_loss s \<longrightarrow> k \<le> 1)
       | Inl e \<Rightarrow> \<not> panics e \<and> (no_loss s \<longrightarrow> k = 0))"
proof -
  obtain r s' where run: "publishEvent L False now sp s = (r, s')"
    by (cases "publishEvent L False now sp s")
  obtain k where "k \<le> 2" "received s s' k (event_message L now sp)"
    "case r of Inr _ \<Rightarrow> (no_drop s \<longrightarrow> 1 \<le> k) \<and> (no_loss s \<longrightarrow> k \<le> 1)
     | Inl e \<Rightarrow> \<not> panics e \<and> (no_loss s \<longrightarrow> k = 0)"
    using PublishWithContext_spec [OF run [unfolded publishEvent_def if_False] assms]
    unfolding event_message_def by blast
  then show ?thesis using run by auto
qed

definition sample_spawn :: spawn where
  "sample_spawn = \<lparr>spawn_EventType = ''LOGIN'', spawn_UserID = ''1'', spawn_Data = JNull\<rparr>"

text \<open>A new channel to a broker that answers: the event is in every queue, once.\<close>

theorem publishEvent_delivers_witness:
  "\<exists>s'. publishEvent sample_lib False 7 sample_spawn (NewSafeChannel steady_amqp) = (Inr (), s') \<and>
     (\<forall>q \<in> set queue_names. contents s' q = [event_message sample_lib 7 sample_spawn])"
proof -
  note ok = steady_amqp_ok
  obtain s' where run: "publishEvent sample_lib False 7 sample_spawn (NewSafeChannel steady_amqp) = (Inr (), s')"
    using steady_publish [OF ok(1,2)] unfolding publishEvent_def if_False by blast
  obtain k where k: "received (NewSafeChannel steady_amqp) s' k (event_message sample_lib 7 sample_spawn)" "k = 1"
    using publishEvent_delivers [where sp = sample_spawn and L = sample_lib and now = 7, OF ok(2,3)] ok(4,5) run by force
  show ?thesis
  proof (intro exI conjI ballI)
    fix q assume "q \<in> set queue_names"
    then show "contents s' q = [event_message sample_lib 7 sample_spawn]"
      using k ok(6) by (simp add: received_def)
  qed (rule run)
qed

text \<open>
  Without confirms a success is no promise: where every frame gets lost, publishing still returns
  \<open>nil\<close>, and no queue has the event.
\<close>

lemma publishEvent_unconfirmed:
  "\<exists>s'. publishEvent sample_lib False 7 sample_spawn (NewSafeChannel (steady_amqp\<lparr>drops := \<lambda>_. True\<rparr>)) = (Inr (), s') \<and>
     (\<forall>q. contents s' q = [])"
proof -
  let ?s = "NewSafeChannel (steady_amqp\<lparr>drops := \<lambda>_. True\<rparr>)"
  have "steady ?s" "channel_ok ?s" "\<forall>n. drops (amqp ?s) n" "\<forall>q. contents ?s q = []"
    by (simp_all add: steady_amqp_def NewSafeChannel_def steady_def channel_ok_def contents_def)
  then show ?thesis using steady_publish [of ?s] unfolding publishEvent_def if_False by metis
qed

section \<open>The event of a transfer\<close>

text \<open>
  What the worker decodes from the event of a transfer is what the service put in: the user,
  the type, the time, the identifiers, and amounts with the same text.
\<close>

theorem transfer_event_roundtrip:
  assumes "event_laws L" and "json_time now"
  shows "\<exists>evt d. decode_event L (msg_Body (event_message L now (transfer_event L uid res))) = Some evt \<and>
    WalletEventMsg_EventType evt = ''TRANSFER'' \<and> WalletEventMsg_UserID evt = UUID_String L uid \<and>
    WalletEventMsg_Timestamp evt = now \<and> decode_transfer_data L (WalletEventMsg_Data evt) = Some d \<and>
    TransferEventData_TransactionID d = UUID_String L (TransferResponse_TransactionID res) \<and>
    TransferEventData_ReferenceNo d = TransferResponse_ReferenceNo res \<and>
    TransferEventData_SourceWalletID d = TransferResponse_SourceWalletID res \<and>
    TransferEventData_TargetWalletID d = TransferResponse_TargetWalletID res \<and>
    Decimal_String L (TransferEventData_Amount d) = Decimal_String L (TransferResponse_Amount res) \<and>
    Decimal_String L (TransferEventData_BalanceAfter d) = Decimal_String L (TransferResponse_BalanceAfter res)"
  by (rule decode_transfer_event [OF assms(1), of uid res])
    (simp add: decode_event_message [OF assms], simp add: transfer_event_def)

theorem transfer_event_roundtrip_witness:
  "\<exists>evt. decode_event sample_lib (msg_Body (event_message sample_lib 7 (transfer_event sample_lib 1 res))) = Some evt"
  using transfer_event_roundtrip [OF sample_event_laws, of 7 1 res] by (auto simp: json_time_def)

section \<open>The queues\<close>

text \<open>
  C39. A message leaves the queue of a worker only after the worker has processed it without an
  error: a run after which the queue holds it less often goes through a delivery of the message that the
  worker processes without an error, and only from there, with the queue without it, on to its end.
  So a message that is not an event, or names no user, is delivered again and again and never leaves.
\<close>

theorem messages_leave_after_success:
  assumes "process \<in> {AuditWorker_processMessage L, NotificationWorker_processMessage L}"
    and "(consumes (consume_delivery process) serve)\<^sup>*\<^sup>* (q, w) (q', w')"
    and "count (mset q') m < count (mset q) m"
  shows "(\<exists>q1 w1 w2. (consumes (consume_delivery process) serve)\<^sup>*\<^sup>* (q, w) (q1, w1) \<and> m \<in> set q1 \<and>
      process m w1 = (Inr (), w2) \<and> (consumes (consume_delivery process) serve)\<^sup>*\<^sup>* (remove1 m q1, w2) (q', w')) \<and>
    (\<exists>evt. decode_event L (msg_Body m) = Some evt \<and>
      (UUID_Parse L (WalletEventMsg_UserID evt) \<noteq> None \<or> WalletEventMsg_EventType evt = ''AUDIT''))"
proof -
  note split = leaves_after_success [OF assms(2,3)]
  then obtain w1 w2 where "process m w1 = (Inr (), w2)" by blast
  then have "\<exists>evt. decode_event L (msg_Body m) = Some evt \<and>
      (UUID_Parse L (WalletEventMsg_UserID evt) \<noteq> None \<or> WalletEventMsg_EventType evt = ''AUDIT'')"
    using assms(1)
    by (auto simp: AuditWorker_processMessage_def NotificationWorker_processMessage_def throwE_def
        split: option.splits if_splits)
  then show ?thesis using split by blast
qed

lemma consumes_run: "consumes delivery serve x y \<Longrightarrow> (consumes delivery serve)\<^sup>*\<^sup>* x y"
  by (rule r_into_rtranclp)

lemma CreateLog_sample:
  "\<exists>w'. AuditWorker_delivery sample_lib (event_message sample_lib 7
     \<lparr>spawn_EventType = ''LOGIN'', spawn_UserID = ''1'', spawn_Data = JNull\<rparr>) sample_world = (Inr Ack, w')"
proof -
  let ?l = "\<lparr>AuditLog_ID = [], AuditLog_UserID = 1, AuditLog_Action = ''LOGIN'', AuditLog_IPAddress = [],
    AuditLog_Endpoint = [], AuditLog_CreatedAt = 7\<rparr>"
  have "\<exists>w'. CreateLog ?l sample_world = (Inr (), w')"
    using sample_env_ok
    by (intro CreateLog_run)
      (auto simp: sample_world_def sample_db_def sample_user_def user_entry_def empty_db_def varchar_length)
  moreover have "UUID_Parse sample_lib ''1'' = Some 1"
    by (simp add: sample_lib_def text_uuid_def)
  ultimately show ?thesis
    by (simp add: AuditWorker_delivery_def consume_delivery_Inr AuditWorker_processMessage_def
        decode_event_message [OF sample_event_laws] json_time_def audit_entry_def)
qed

text \<open>
  Two messages, the event of a login and a text that is no event. The first leaves, after it has
  been processed; the second is still there.
\<close>

theorem messages_leave_after_success_witness:
  "\<exists>m w1 w2 w'. m \<noteq> \<lparr>msg_RoutingKey = ''wallet.event.LOGIN'', msg_Body = None\<rparr> \<and>
     (consumes (consume_delivery (AuditWorker_processMessage sample_lib)) (=))\<^sup>*\<^sup>*
       ([m, \<lparr>msg_RoutingKey = ''wallet.event.LOGIN'', msg_Body = None\<rparr>], sample_world)
       ([\<lparr>msg_RoutingKey = ''wallet.event.LOGIN'', msg_Body = None\<rparr>], w') \<and>
     AuditWorker_processMessage sample_lib m w1 = (Inr (), w2) \<and>
     (\<exists>q1. m \<in> set q1 \<and> (consumes (consume_delivery (AuditWorker_processMessage sample_lib)) (=))\<^sup>*\<^sup>*
       (remove1 m q1, w2) ([\<lparr>msg_RoutingKey = ''wallet.event.LOGIN'', msg_Body = None\<rparr>], w'))"
proof -
  let ?bad = "\<lparr>msg_RoutingKey = ''wallet.event.LOGIN'', msg_Body = None\<rparr> :: message"
  obtain m w' where m: "AuditWorker_delivery sample_lib m sample_world = (Inr Ack, w')"
    using CreateLog_sample by blast
  have good: "m \<noteq> ?bad"
    using m by (auto simp: AuditWorker_delivery_def consume_delivery_Inr AuditWorker_processMessage_def
        decode_event_def json_Unmarshal_def throwE_def split: option.splits)
  have step: "consumes (consume_delivery (AuditWorker_processMessage sample_lib)) (=)
      ([m, ?bad], sample_world) ([?bad], w')"
    using consume_settled [of m "[m, ?bad]" "AuditWorker_delivery sample_lib" sample_world Ack w']
      m good by (simp add: settle_def AuditWorker_delivery_def)
  have "count (mset [?bad]) m < count (mset [m, ?bad]) m" using good by simp
  then obtain q1 w1 w2 where "m \<in> set q1" "AuditWorker_processMessage sample_lib m w1 = (Inr (), w2)"
    "(consumes (consume_delivery (AuditWorker_processMessage sample_lib)) (=))\<^sup>*\<^sup>* (remove1 m q1, w2) ([?bad], w')"
    using messages_leave_after_success [OF _ consumes_run [OF step], of sample_lib m] by blast
  then show ?thesis using consumes_run [OF step] good by blast
qed

section \<open>The notifications of a transfer\<close>

lemma wallet_later:
  assumes "grows d d'" and "db_ok d'" and "wallet_with_id d i = Some r"
  obtains r' where "wallet_with_id d' i = Some r'" "wr_user_id r' = wr_user_id r"
proof -
  have "(wr_id r, wr_user_id r, wr_currency r, wr_created_at r) \<in> set (wallet_names d)"
    using wallet_with_id_Some [OF assms(3)] by (auto simp: wallet_names_def)
  then have "(wr_id r, wr_user_id r, wr_currency r, wr_created_at r) \<in> set (wallet_names d')"
    using assms(1) set_mono_prefix by (auto simp: grows_def)
  then obtain r' where "r' \<in> set (wallets d')" "wr_id r' = wr_id r" "wr_user_id r' = wr_user_id r"
    by (auto simp: wallet_names_def)
  then show thesis
    using that wallet_with_id_mem [of d' r'] assms(2) wallet_with_id_Some [OF assms(3)]
    by (simp add: db_ok_def)
qed

lemma owner_exists: "db_ok d \<Longrightarrow> r \<in> set (wallets d) \<Longrightarrow> wr_user_id r \<in> ur_id ` set (users d)"
  by (simp add: db_ok_def wallets_ok_def)

text \<open>
  C35. A transfer that returned a response has started one event. Whenever a worker processes it
  later, it stores at most one notification for the payer and one for the owner of the target
  wallet, with amount, wallet and reference of the transfer, and changes nothing else; when no
  interaction fails it stores exactly these two, in this order, and acknowledges the event.
\<close>

theorem Transfer_notifies_both:
  assumes "decimal_laws L v" and "event_laws L" and "uuid_laws L" and "json_time now"
    and "db_ok (committed w)" and "Transfer L uid req w = (Inr res, w1)"
    and "grows (committed w1) (committed w2)" and "db_ok (committed w2)"
  shows "\<exists>sp rt. spawned w1 = spawned w @ [sp] \<and>
    wallet_with_id (committed w) (TransferRequest_TargetWalletID req) = Some rt \<and>
    (case NotificationWorker_processMessage L (event_message L now sp) w2 of (r, w3) \<Rightarrow>
      (\<exists>s p. notified (committed w2) (s @ p) (committed w3) \<and> (s = [] \<or> s = [sender_notice L uid res]) \<and>
        (p = [] \<or> p = [receiver_notice L (wr_user_id rt) res])) \<and>
      (healthy (env w2) \<longrightarrow> notice_keys_fresh w2 \<longrightarrow> r = Inr () \<and>
        notified (committed w2) [sender_notice L uid res, receiver_notice L (wr_user_id rt) res] (committed w3)))"
  using assms(6,1,5)
proof (cases rule: Transfer_cases)
  case (completed rs rt u ref tm)
  let ?t = "TransferRequest_TargetWalletID req"
  have res: "res = transfer_response L rs rt (TransferRequest_Amount req) u ref tm"
    using completed(4) by simp
  then have target: "TransferResponse_TargetWalletID res = ?t"
    using wallet_with_id_Some [OF completed(2)] by (simp add: transfer_response_def)
  have grows: "grows (committed w) (committed w2)"
    using grows_effects(2) [OF completed(3)] assms(7) by (rule grows_trans)
  obtain rt2 where rt2: "wallet_with_id (committed w2) ?t = Some rt2" "wr_user_id rt2 = wr_user_id rt"
    using wallet_later [OF grows assms(8) completed(2)] by blast
  have "uid \<in> ur_id ` set (users (committed w))"
    using owner_exists [OF assms(5)] wallet_of_user_Some [OF completed(1)] by blast
  then have users: "uid \<in> ur_id ` set (users (committed w2))"
      "wr_user_id rt2 \<in> ur_id ` set (users (committed w2))"
    using grows owner_exists [OF assms(8)] wallet_with_id_Some [OF rt2(1)]
    by (auto simp: grows_def dest!: set_mono_prefix)
  obtain r w3 where run: "transfer_notices L uid res w2 = (r, w3)"
    by (cases "transfer_notices L uid res w2")
  note effect = transfer_notices_effect [OF run, unfolded target, OF rt2(1), unfolded rt2(2)]
  have "r = Inr () \<and> notified (committed w2)
      [sender_notice L uid res, receiver_notice L (wr_user_id rt) res] (committed w3)"
    if "healthy (env w2)" "notice_keys_fresh w2"
    using transfer_notices_run [OF that(1) users _ that(2), of res L] rt2 run by (auto simp: target)
  then show ?thesis
    using completed(2,5) [folded res] effect
    by (intro exI [of _ "transfer_event L uid res"] exI [of _ rt])
      (simp add: NotificationWorker_transfer [OF assms(2-4)] run)
qed simp_all

lemma transfer_keeps_notifications:
  "transfer_effect v rs rt a u ref now d d' \<Longrightarrow> notifications d' = notifications d"
  by (auto simp: effect_defs)

theorem Transfer_notifies_both_witness:
  "\<exists>res w1 sp w2 w3. Transfer sample_lib 1 (sample_request (250, -2)) sample_world = (Inr res, w1) \<and>
     spawned w1 = [sp] \<and> committed w2 = committed w1 \<and>
     NotificationWorker_processMessage sample_lib (event_message sample_lib 7 sp) w2 = (Inr (), w3) \<and>
     length (notifications (committed w3)) = 2"
proof -
  obtain res w1 where run: "Transfer sample_lib 1 (sample_request (250, -2)) sample_world = (Inr res, w1)"
    using sample_transfers(1) by blast
  define w2 where "w2 = sample_world\<lparr>committed := committed w1\<rparr>"
  have none: "notifications (committed w2) = []"
    using run sample_decimal_laws sample_db_ok
    by (cases rule: Transfer_cases)
      (auto simp: w2_def sample_world_def sample_db_def empty_db_def dest!: transfer_keeps_notifications)
  have "world_ok sample_world"
    using sample_db_ok by (simp add: world_ok_def sample_world_def)
  then have "db_ok (committed w2)"
    using stepsD [OF ok_services(2) run] by (simp add: w2_def world_keeps_def world_ok_def)
  moreover have "healthy (env w2)" "notice_keys_fresh w2"
    using sample_env_ok(1) none by (simp_all add: w2_def notice_keys_fresh_def sample_world_def sample_env_def)
  moreover have "grows (committed w1) (committed w2)" by (simp add: w2_def)
  moreover have "json_time 7" by (simp add: json_time_def)
  ultimately obtain sp cs where sp: "spawned w1 = spawned sample_world @ [sp]" "length cs = 2"
    "fst (NotificationWorker_processMessage sample_lib (event_message sample_lib 7 sp) w2) = Inr ()"
    "notified (committed w2) cs (committed (snd (NotificationWorker_processMessage sample_lib
       (event_message sample_lib 7 sp) w2)))"
    using Transfer_notifies_both [OF sample_decimal_laws sample_event_laws sample_uuid_laws _ sample_db_ok run,
        of 7 w2, unfolded case_prod_unfold] that [where cs = "[_, _]"]
    by (metis (no_types, lifting) length_Cons list.size(3) numeral_2_eq_2)
  obtain w3 where w3: "NotificationWorker_processMessage sample_lib (event_message sample_lib 7 sp) w2 = (Inr (), w3)"
    using sp(3) by (metis prod.collapse)
  have "length (notifications (committed w3)) = length cs"
    using sp(4) none w3 by (auto simp: notified_def)
  then show ?thesis
    using run sp w3 by (intro exI [of _ w3] exI [of _ w2] exI [of _ sp] exI [of _ w1] exI [of _ res])
      (simp add: w2_def sample_world_def)
qed

end
