(* ===== verification/Http.thy ===== *)
theory Http
  imports Events AuthService
begin

text \<open>
  Requests and responses as the handlers see them: the gin context, \<open>internal/utils/response.go\<close>,
  binding and validation with the tags of \<open>internal/dto\<close>, \<open>internal/dto/validator.go\<close>, and the
  JSON of the response types. gin itself is not part of the repository; what is used of it is
  that a handler writes one status and one JSON body, that a bound struct is decoded and then
  validated field by field, the tags of a field in order, and that the value of a query key is
  the first one given.
\<close>

section \<open>Requests and responses\<close>

record http_request =
  Request_Method :: string
  Request_Path :: string
  Request_ClientIP :: string
  Request_Header :: "string \<Rightarrow> string"  \<comment> \<open>empty when missing\<close>
  Request_Cookie :: "string \<Rightarrow> string option"
  Request_Query :: "(string \<times> string) list"
  Request_Body :: "json option"  \<comment> \<open>\<open>None\<close>: not a JSON text\<close>

record http_cookie =
  Cookie_Name :: string
  Cookie_Value :: string
  Cookie_MaxAge :: int
  Cookie_Path :: string
  Cookie_Secure :: bool
  Cookie_HttpOnly :: bool
  Cookie_SameSiteStrict :: bool

record http_response =
  Response_Status :: nat
  Response_Header :: "(string \<times> string) list"
  Response_SetCookie :: "http_cookie list"
  Response_Body :: "json option"

text \<open>The context: the request, the parameters of its path, and the keys the middleware sets.\<close>

record gin_ctx =
  ctx_Request :: http_request
  ctx_Param :: "(string \<times> string) list"
  ctx_userID :: "uuid option"
  ctx_email :: "string option"
  ctx_role :: "string option"

type_synonym handler = "gin_ctx \<Rightarrow> http_response go"

definition first_value :: "(string \<times> string) list \<Rightarrow> string \<Rightarrow> string" where
  "first_value kvs k = (case map_of kvs k of None \<Rightarrow> [] | Some v \<Rightarrow> v)"

definition c_JSON :: "nat \<Rightarrow> json \<Rightarrow> http_response" where
  "c_JSON status body =
     \<lparr>Response_Status = status, Response_Header = [], Response_SetCookie = [], Response_Body = Some body\<rparr>"

definition opt_field :: "string \<Rightarrow> json option \<Rightarrow> (string \<times> json) list" where
  "opt_field k j = (case j of None \<Rightarrow> [] | Some x \<Rightarrow> [(k, x)])"

definition int_json :: "int \<Rightarrow> json" where
  "int_json i = JNum (if i < 0 then CHR ''-'' # show_nat (nat (- i)) else show_nat (nat i))"

definition WriteSuccess :: "nat \<Rightarrow> string \<Rightarrow> json option \<Rightarrow> http_response" where
  "WriteSuccess statusCode message data = c_JSON statusCode (JObj
     ([(''success'', JBool True), (''message'', JStr message)] @ opt_field ''data'' data))"

definition WriteError :: "nat \<Rightarrow> string \<Rightarrow> json option \<Rightarrow> http_response" where
  "WriteError statusCode message errors = c_JSON statusCode (JObj
     ([(''success'', JBool False), (''message'', JStr message), (''error_code'', int_json (int statusCode))] @
      opt_field ''errors'' errors))"

section \<open>Third-party functions of the web layer\<close>

text \<open>
  The texts of errors that are not the repository's own, the validator's \<open>email\<close> check, and the
  sign of the \<open>float64\<close> the validator compares for a decimal.
\<close>

record 'd web =
  Error_text :: "error \<Rightarrow> string"
  Decode_text :: "json option \<Rightarrow> string"
  ParseInt_text :: "string \<Rightarrow> string"
  IsEmail :: "string \<Rightarrow> bool"
  Float64_sign :: "'d \<Rightarrow> int"
  NoRoute :: "http_request \<Rightarrow> http_response"

fun error_text :: "'d web \<Rightarrow> error \<Rightarrow> string" where
  "error_text W ErrSelfTransfer = ''cannot transfer to your own wallet''"
| "error_text W ErrInsufficientBalance = ''insufficient balance''"
| "error_text W ErrUnauthorized = ''unauthorized to view this transaction''"
| "error_text W ErrTransactionNotFound = ''transaction not found''"
| "error_text W ErrTargetWalletNotFound = ''target wallet not found''"
| "error_text W ErrWalletNotFound = ''wallet not found''"
| "error_text W ErrEmailConflict = ''email already registered''"
| "error_text W ErrInvalidCredentials = ''invalid email or password''"
| "error_text W (Wrap m e) = m @ '': '' @ error_text W e"
| "error_text W e = Error_text W e"

section \<open>Validation\<close>

record FieldError =
  FieldError_Field :: string
  FieldError_Tag :: string
  FieldError_Param :: string

datatype binding_error = ValidationErrors "FieldError list" | BindError string

definition field_message :: "FieldError \<Rightarrow> string" where
  "field_message e =
     (let f = FieldError_Field e; p = FieldError_Param e; tag = FieldError_Tag e in
      if tag = ''required'' then f @ '' is required''
      else if tag = ''email'' then f @ '' must be a valid email''
      else if tag = ''min'' then f @ '' must be at least '' @ p @ '' characters''
      else if tag = ''eqfield'' then f @ '' must equal '' @ p
      else if tag = ''gt'' then f @ '' must be greater than '' @ p
      else f @ '' is invalid: '' @ tag)"

fun FormatValidationErrors :: "binding_error \<Rightarrow> string list" where
  "FormatValidationErrors (ValidationErrors es) = map field_message es"
| "FormatValidationErrors (BindError text) = [text]"

text \<open>The first tag of a field that fails, each with its parameter and whether it holds.\<close>

definition check_field :: "string \<Rightarrow> (string \<times> string \<times> bool) list \<Rightarrow> FieldError list" where
  "check_field f tags =
     (case find (\<lambda>(_, _, holds). \<not> holds) tags of
        None \<Rightarrow> []
      | Some (tag, p, _) \<Rightarrow> [\<lparr>FieldError_Field = f, FieldError_Tag = tag, FieldError_Param = p\<rparr>])"

definition validated :: "('a \<Rightarrow> FieldError list) \<Rightarrow> 'a \<Rightarrow> binding_error + 'a" where
  "validated check x = (case check x of [] \<Rightarrow> Inr x | es \<Rightarrow> Inl (ValidationErrors es))"

definition ShouldBindJSON ::
  "'d web \<Rightarrow> (json option \<Rightarrow> 'a option) \<Rightarrow> ('a \<Rightarrow> FieldError list) \<Rightarrow> http_request \<Rightarrow> binding_error + 'a" where
  "ShouldBindJSON W decode check r =
     (case decode (Request_Body r) of
        None \<Rightarrow> Inl (BindError (Decode_text W (Request_Body r)))
      | Some x \<Rightarrow> validated check x)"

subsection \<open>The requests\<close>

definition decode_RegisterRequest :: "json option \<Rightarrow> RegisterRequest option" where
  "decode_RegisterRequest = json_Unmarshal
     [(''email'', string_field RegisterRequest_Email_update),
      (''password'', string_field RegisterRequest_Password_update),
      (''confirm_password'', string_field RegisterRequest_ConfirmPassword_update)]
     \<lparr>RegisterRequest_Email = [], RegisterRequest_Password = [], RegisterRequest_ConfirmPassword = []\<rparr>"

definition check_RegisterRequest :: "'d web \<Rightarrow> RegisterRequest \<Rightarrow> FieldError list" where
  "check_RegisterRequest W r =
     check_field ''Email'' [(''required'', [], RegisterRequest_Email r \<noteq> []),
       (''email'', [], IsEmail W (RegisterRequest_Email r))] @
     check_field ''Password'' [(''required'', [], RegisterRequest_Password r \<noteq> []),
       (''min'', ''8'', 8 \<le> characters (RegisterRequest_Password r))] @
     check_field ''ConfirmPassword'' [(''required'', [], RegisterRequest_ConfirmPassword r \<noteq> []),
       (''eqfield'', ''Password'', RegisterRequest_ConfirmPassword r = RegisterRequest_Password r)]"

definition decode_LoginRequest :: "json option \<Rightarrow> LoginRequest option" where
  "decode_LoginRequest = json_Unmarshal
     [(''email'', string_field LoginRequest_Email_update),
      (''password'', string_field LoginRequest_Password_update)]
     \<lparr>LoginRequest_Email = [], LoginRequest_Password = []\<rparr>"

definition check_LoginRequest :: "'d web \<Rightarrow> LoginRequest \<Rightarrow> FieldError list" where
  "check_LoginRequest W r =
     check_field ''Email'' [(''required'', [], LoginRequest_Email r \<noteq> []),
       (''email'', [], IsEmail W (LoginRequest_Email r))] @
     check_field ''Password'' [(''required'', [], LoginRequest_Password r \<noteq> [])]"

definition check_amount :: "'d web \<Rightarrow> 'd \<Rightarrow> FieldError list" where
  "check_amount W a = check_field ''Amount''
     [(''required'', [], Float64_sign W a \<noteq> 0), (''gt'', ''0'', 0 < Float64_sign W a)]"

definition decode_TopUpRequest :: "'d lib \<Rightarrow> json option \<Rightarrow> 'd TopUpRequest option" where
  "decode_TopUpRequest L = json_Unmarshal
     [(''amount'', custom_field (Decimal_UnmarshalJSON L) TopUpRequest_Amount_update)]
     \<lparr>TopUpRequest_Amount = Decimal_Zero L\<rparr>"

definition check_TopUpRequest :: "'d web \<Rightarrow> 'd TopUpRequest \<Rightarrow> FieldError list" where
  "check_TopUpRequest W r = check_amount W (TopUpRequest_Amount r)"

definition decode_TransferRequest :: "'d lib \<Rightarrow> json option \<Rightarrow> 'd TransferRequest option" where
  "decode_TransferRequest L = json_Unmarshal
     [(''target_wallet_id'', string_field TransferRequest_TargetWalletID_update),
      (''amount'', custom_field (Decimal_UnmarshalJSON L) TransferRequest_Amount_update)]
     \<lparr>TransferRequest_TargetWalletID = [], TransferRequest_Amount = Decimal_Zero L\<rparr>"

definition check_TransferRequest :: "'d web \<Rightarrow> 'd TransferRequest \<Rightarrow> FieldError list" where
  "check_TransferRequest W r =
     check_field ''TargetWalletID'' [(''required'', [], TransferRequest_TargetWalletID r \<noteq> [])] @
     check_amount W (TransferRequest_Amount r)"

subsection \<open>The query of a page\<close>

definition digits_value :: "string \<Rightarrow> int option" where
  "digits_value s =
     (if s \<noteq> [] \<and> (\<forall>c \<in> set s. CHR ''0'' \<le> c \<and> c \<le> CHR ''9'')
      then Some (foldl (\<lambda>v c. v * 10 + (of_char c - 48)) 0 s) else None)"

text \<open>\<open>strconv.ParseInt(s, 10, 64)\<close>; \<open>None\<close>: a syntax or range error.\<close>

definition ParseInt :: "string \<Rightarrow> goint option" where
  "ParseInt s =
     (let v = (case s of [] \<Rightarrow> None | c # t \<Rightarrow>
            if c = CHR ''-'' then map_option uminus (digits_value t)
            else if c = CHR ''+'' then digits_value t else digits_value s)
      in case v of None \<Rightarrow> None
       | Some i \<Rightarrow> if - (2 ^ 63) \<le> i \<and> i < 2 ^ 63 then Some (word_of_int i) else None)"

text \<open>A missing key leaves the zero value, an empty value is read as 0.\<close>

definition int_query :: "(string \<times> string) list \<Rightarrow> string \<Rightarrow> goint option" where
  "int_query q k = (case first_value q k of [] \<Rightarrow> Some 0 | v \<Rightarrow> ParseInt v)"

definition check_PaginationRequest :: "PaginationRequest \<Rightarrow> FieldError list" where
  "check_PaginationRequest p =
     check_field ''Page'' [(''min'', ''1'', 1 \<le> sint (Page p))] @
     check_field ''Limit'' [(''min'', ''1'', 1 \<le> sint (Limit p)), (''max'', ''100'', sint (Limit p) \<le> 100)]"

definition ShouldBindQuery :: "'d web \<Rightarrow> http_request \<Rightarrow> binding_error + PaginationRequest" where
  "ShouldBindQuery W r =
     (case int_query (Request_Query r) ''page'' of
        None \<Rightarrow> Inl (BindError (ParseInt_text W (first_value (Request_Query r) ''page'')))
      | Some page \<Rightarrow>
          (case int_query (Request_Query r) ''limit'' of
             None \<Rightarrow> Inl (BindError (ParseInt_text W (first_value (Request_Query r) ''limit'')))
           | Some limit \<Rightarrow> validated check_PaginationRequest \<lparr>Page = page, Limit = limit\<rparr>))"

end
