(* ===== verification/Handlers.thy ===== *)
theory Handlers
  imports Http AccountServices
begin

text \<open>
  The JSON of the responses (\<open>internal/dto\<close>) and the handlers of \<open>internal/handler\<close>: read the
  user from the context, bind and validate the request, call the service, map its error to a
  status. A nil dereference of the service is a panic of the handler too; every other error
  becomes a response.
\<close>

section \<open>JSON of the responses\<close>

definition TopUpResponse_json :: "'d lib \<Rightarrow> 'd TopUpResponse \<Rightarrow> json" where
  "TopUpResponse_json L r = JObj
     [(''transaction_id'', JStr (UUID_String L (TopUpResponse_TransactionID r))),
      (''reference_no'', JStr (TopUpResponse_ReferenceNo r)),
      (''type'', JStr (TopUpResponse_Type r)),
      (''status'', JStr (TopUpResponse_Status r)),
      (''amount'', Decimal_MarshalJSON L (TopUpResponse_Amount r)),
      (''wallet_id'', JStr (TopUpResponse_WalletID r)),
      (''balance_after'', Decimal_MarshalJSON L (TopUpResponse_BalanceAfter r)),
      (''created_at'', Time_MarshalJSON L (TopUpResponse_CreatedAt r))]"

definition TransferResponse_json :: "'d lib \<Rightarrow> 'd TransferResponse \<Rightarrow> json" where
  "TransferResponse_json L r = JObj
     [(''transaction_id'', JStr (UUID_String L (TransferResponse_TransactionID r))),
      (''reference_no'', JStr (TransferResponse_ReferenceNo r)),
      (''type'', JStr (TransferResponse_Type r)),
      (''status'', JStr (TransferResponse_Status r)),
      (''amount'', Decimal_MarshalJSON L (TransferResponse_Amount r)),
      (''source_wallet_id'', JStr (TransferResponse_SourceWalletID r)),
      (''target_wallet_id'', JStr (TransferResponse_TargetWalletID r)),
      (''balance_after'', Decimal_MarshalJSON L (TransferResponse_BalanceAfter r)),
      (''created_at'', Time_MarshalJSON L (TransferResponse_CreatedAt r))]"

definition TransactionResponse_fields :: "'d lib \<Rightarrow> 'd TransactionResponse \<Rightarrow> (string \<times> json) list" where
  "TransactionResponse_fields L r =
     [(''transaction_id'', JStr (UUID_String L (TransactionResponse_TransactionID r))),
      (''reference_no'', JStr (TransactionResponse_ReferenceNo r)),
      (''type'', JStr (TransactionResponse_Type r)),
      (''status'', JStr (TransactionResponse_Status r)),
      (''amount'', Decimal_MarshalJSON L (TransactionResponse_Amount r)),
      (''source_wallet_id'', case TransactionResponse_SourceWalletID r of None \<Rightarrow> JNull | Some i \<Rightarrow> JStr i),
      (''target_wallet_id'', JStr (TransactionResponse_TargetWalletID r)),
      (''created_at'', Time_MarshalJSON L (TransactionResponse_CreatedAt r))]"

definition LedgerEntryResponse_json :: "'d lib \<Rightarrow> 'd LedgerEntryResponse \<Rightarrow> json" where
  "LedgerEntryResponse_json L r = JObj
     [(''entry_id'', JStr (LedgerEntryResponse_EntryID r)),
      (''transaction_id'', JStr (UUID_String L (LedgerEntryResponse_TransactionID r))),
      (''wallet_id'', JStr (LedgerEntryResponse_WalletID r)),
      (''entry_type'', JStr (LedgerEntryResponse_EntryType r)),
      (''amount'', Decimal_MarshalJSON L (LedgerEntryResponse_Amount r)),
      (''created_at'', Time_MarshalJSON L (LedgerEntryResponse_CreatedAt r))]"

text \<open>The embedded struct's fields come first, at the same level.\<close>

definition TransactionDetailResponse_json :: "'d lib \<Rightarrow> 'd TransactionDetailResponse \<Rightarrow> json" where
  "TransactionDetailResponse_json L r = JObj (TransactionResponse_fields L (Detail_Transaction r) @
     [(''ledger_entries'', JArr (map (LedgerEntryResponse_json L) (Detail_LedgerEntries r)))])"

definition PaginationResponse_json :: "PaginationResponse \<Rightarrow> json" where
  "PaginationResponse_json p = JObj
     [(''current_page'', int_json (sint (CurrentPage p))), (''per_page'', int_json (sint (PerPage p))),
      (''total_items'', int_json (sint (TotalItems p))), (''total_pages'', int_json (sint (TotalPages p)))]"

text \<open>A list struct: its rows under their key, then the pagination.\<close>

definition list_json :: "string \<Rightarrow> json list \<Rightarrow> PaginationResponse \<Rightarrow> json" where
  "list_json k rows p = JObj [(k, JArr rows), (''pagination'', PaginationResponse_json p)]"

definition TransactionListResponse_json :: "'d lib \<Rightarrow> 'd TransactionListResponse \<Rightarrow> json" where
  "TransactionListResponse_json L r = list_json ''transactions''
     (map (\<lambda>t. JObj (TransactionResponse_fields L t)) (TransactionList_Transactions r)) (TransactionList_Pagination r)"

definition LedgerListResponse_json :: "'d lib \<Rightarrow> 'd LedgerListResponse \<Rightarrow> json" where
  "LedgerListResponse_json L r = list_json ''entries''
     (map (LedgerEntryResponse_json L) (LedgerList_Entries r)) (LedgerList_Pagination r)"

definition AuditLogResponse_json :: "'d lib \<Rightarrow> AuditLogResponse \<Rightarrow> json" where
  "AuditLogResponse_json L r = JObj
     [(''log_id'', JStr (AuditLogResponse_LogID r)),
      (''user_id'', JStr (UUID_String L (AuditLogResponse_UserID r))),
      (''action'', JStr (AuditLogResponse_Action r)),
      (''ip_address'', JStr (AuditLogResponse_IPAddress r)),
      (''endpoint'', JStr (AuditLogResponse_Endpoint r)),
      (''created_at'', Time_MarshalJSON L (AuditLogResponse_CreatedAt r))]"

definition AuditLogListResponse_json :: "'d lib \<Rightarrow> AuditLogListResponse \<Rightarrow> json" where
  "AuditLogListResponse_json L r = list_json ''logs''
     (map (AuditLogResponse_json L) (AuditLogList_Logs r)) (AuditLogList_Pagination r)"

definition NotificationResponse_json :: "'d lib \<Rightarrow> NotificationResponse \<Rightarrow> json" where
  "NotificationResponse_json L r = JObj
     [(''id'', JStr (UUID_String L (NotificationResponse_ID r))),
      (''user_id'', JStr (UUID_String L (NotificationResponse_UserID r))),
      (''title'', JStr (NotificationResponse_Title r)),
      (''message'', JStr (NotificationResponse_Message r)),
      (''is_read'', JBool (NotificationResponse_IsRead r)),
      (''created_at'', Time_MarshalJSON L (NotificationResponse_CreatedAt r))]"

definition NotificationListResponse_json :: "'d lib \<Rightarrow> NotificationListResponse \<Rightarrow> json" where
  "NotificationListResponse_json L r = list_json ''notifications''
     (map (NotificationResponse_json L) (NotificationList_Notifications r)) (NotificationList_Pagination r)"

definition WalletResponse_json :: "'d lib \<Rightarrow> 'd WalletResponse \<Rightarrow> json" where
  "WalletResponse_json L r = JObj
     [(''wallet_id'', JStr (WalletResponse_WalletID r)),
      (''user_id'', JStr (UUID_String L (WalletResponse_UserID r))),
      (''balance'', Decimal_MarshalJSON L (WalletResponse_Balance r)),
      (''currency'', JStr (WalletResponse_Currency r)),
      (''created_at'', Time_MarshalJSON L (WalletResponse_CreatedAt r)),
      (''updated_at'', Time_MarshalJSON L (WalletResponse_UpdatedAt r))]"

definition RegisterResponse_json :: "'d lib \<Rightarrow> RegisterResponse \<Rightarrow> json" where
  "RegisterResponse_json L r = JObj
     [(''user_id'', JStr (UUID_String L (RegisterResponse_UserID r))),
      (''email'', JStr (RegisterResponse_Email r)),
      (''wallet_id'', JStr (RegisterResponse_WalletID r)),
      (''created_at'', Time_MarshalJSON L (RegisterResponse_CreatedAt r))]"

definition LoginResponse_json :: "'d lib \<Rightarrow> LoginResponse \<Rightarrow> json" where
  "LoginResponse_json L r = JObj
     [(''user_id'', JStr (UUID_String L (LoginResponse_UserID r))),
      (''email'', JStr (LoginResponse_Email r)),
      (''role'', JStr (LoginResponse_Role r))]"

definition AdminUserResponse_json :: "'d lib \<Rightarrow> 'd AdminUserResponse \<Rightarrow> json" where
  "AdminUserResponse_json L r = JObj
     [(''user_id'', JStr (UUID_String L (AdminUserResponse_UserID r))),
      (''email'', JStr (AdminUserResponse_Email r)),
      (''role'', JStr (AdminUserResponse_Role r)),
      (''wallet_id'', JStr (AdminUserResponse_WalletID r)),
      (''balance'', Decimal_MarshalJSON L (AdminUserResponse_Balance r)),
      (''created_at'', Time_MarshalJSON L (AdminUserResponse_CreatedAt r))]"

definition AdminUserListResponse_json :: "'d lib \<Rightarrow> 'd AdminUserListResponse \<Rightarrow> json" where
  "AdminUserListResponse_json L r = list_json ''users''
     (map (AdminUserResponse_json L) (AdminUserList_Users r)) (AdminUserList_Pagination r)"

section \<open>The shape of a handler\<close>

text \<open>
  \<open>GetUserIDFromContext\<close> at the head of a handler; \<open>bound\<close>: bind and validate, or answer 400;
  \<open>answer\<close>: call the service, and map its result or its error to a response.
\<close>

definition GetUserIDFromContext :: "gin_ctx \<Rightarrow> string + uuid" where
  "GetUserIDFromContext c =
     (case ctx_userID c of None \<Rightarrow> Inl ''user ID not found in context'' | Some u \<Rightarrow> Inr u)"

definition GetEmailFromContext :: "gin_ctx \<Rightarrow> string + string" where
  "GetEmailFromContext c =
     (case ctx_email c of None \<Rightarrow> Inl ''email not found in context'' | Some e \<Rightarrow> Inr e)"

definition with_user :: "gin_ctx \<Rightarrow> (uuid \<Rightarrow> http_response go) \<Rightarrow> http_response go" where
  "with_user c f =
     (case GetUserIDFromContext c of Inl text \<Rightarrow> returnE (WriteError 401 text None) | Inr u \<Rightarrow> f u)"

definition with_bound :: "binding_error + 'a \<Rightarrow> ('a \<Rightarrow> http_response go) \<Rightarrow> http_response go" where
  "with_bound b f =
     (case b of
        Inl e \<Rightarrow> returnE (WriteError 400 ''Validation failed'' (Some (JArr (map JStr (FormatValidationErrors e)))))
      | Inr x \<Rightarrow> f x)"

definition with_uuid :: "'d lib \<Rightarrow> string \<Rightarrow> string \<Rightarrow> (uuid \<Rightarrow> http_response go) \<Rightarrow> http_response go" where
  "with_uuid L text message f =
     (case UUID_Parse L text of None \<Rightarrow> returnE (WriteError 400 message None) | Some i \<Rightarrow> f i)"

definition error_response :: "'d web \<Rightarrow> (error \<times> nat) list \<Rightarrow> error \<Rightarrow> http_response" where
  "error_response W table e =
     (case find (\<lambda>(target, _). errors_is e target) table of
        Some (_, status) \<Rightarrow> WriteError status (error_text W e) None
      | None \<Rightarrow> WriteError 500 ''Internal server error'' None)"

definition answer ::
  "'d web \<Rightarrow> (error \<times> nat) list \<Rightarrow> ('a \<Rightarrow> http_response) \<Rightarrow> 'a go \<Rightarrow> http_response go" where
  "answer W table success call = tryE call (\<lambda>r. case r of
       Inr x \<Rightarrow> returnE (success x)
     | Inl e \<Rightarrow> if panics e then throwE e else returnE (error_response W table e))"

text \<open>An optional filter of the query: the empty value means no filter.\<close>

definition query_filter :: "gin_ctx \<Rightarrow> string \<Rightarrow> string option" where
  "query_filter c k = (case first_value (Request_Query (ctx_Request c)) k of [] \<Rightarrow> None | v \<Rightarrow> Some v)"

section \<open>Transaction handler\<close>

definition TransactionHandler_TopUp :: "'d lib \<Rightarrow> 'd web \<Rightarrow> handler" where
  "TransactionHandler_TopUp L W c = with_user c (\<lambda>userID.
     with_bound (ShouldBindJSON W (decode_TopUpRequest L) (check_TopUpRequest W) (ctx_Request c)) (\<lambda>req.
     answer W [(ErrWalletNotFound, 404)]
       (\<lambda>res. WriteSuccess 200 ''Top up successful'' (Some (TopUpResponse_json L res)))
       (TopUp L userID req)))"

definition transfer_table :: "(error \<times> nat) list" where
  "transfer_table = [(ErrSelfTransfer, 422), (ErrInsufficientBalance, 400),
     (ErrTargetWalletNotFound, 404), (ErrWalletNotFound, 404)]"

definition TransactionHandler_Transfer :: "'d lib \<Rightarrow> 'd web \<Rightarrow> handler" where
  "TransactionHandler_Transfer L W c = with_user c (\<lambda>userID.
     with_bound (ShouldBindJSON W (decode_TransferRequest L) (check_TransferRequest W) (ctx_Request c)) (\<lambda>req.
     answer W transfer_table
       (\<lambda>res. WriteSuccess 200 ''Transfer successful'' (Some (TransferResponse_json L res)))
       (Transfer L userID req)))"

definition TransactionHandler_GetTransactions :: "'d lib \<Rightarrow> 'd web \<Rightarrow> handler" where
  "TransactionHandler_GetTransactions L W c = with_user c (\<lambda>userID.
     with_bound (ShouldBindQuery W (ctx_Request c)) (\<lambda>pagination.
     answer W [] (\<lambda>res. WriteSuccess 200 ''Transactions retrieved successfully''
         (Some (TransactionListResponse_json L res)))
       (GetTransactions L userID (query_filter c ''type'') pagination)))"

definition TransactionHandler_GetTransactionDetail :: "'d lib \<Rightarrow> 'd web \<Rightarrow> handler" where
  "TransactionHandler_GetTransactionDetail L W c = with_user c (\<lambda>userID.
     with_uuid L (first_value (ctx_Param c) ''transactionId'') ''Invalid transaction ID format'' (\<lambda>txID.
     answer W [(ErrTransactionNotFound, 404), (ErrUnauthorized, 403)]
       (\<lambda>res. WriteSuccess 200 ''Transaction details retrieved successfully''
         (Some (TransactionDetailResponse_json L res)))
       (GetTransactionDetail L userID txID)))"

definition TransactionHandler_GetTransactionsAdmin :: "'d lib \<Rightarrow> 'd web \<Rightarrow> handler" where
  "TransactionHandler_GetTransactionsAdmin L W c =
     with_bound (ShouldBindQuery W (ctx_Request c)) (\<lambda>pagination.
     answer W [] (\<lambda>res. WriteSuccess 200 ''Transactions retrieved successfully''
         (Some (TransactionListResponse_json L res)))
       (GetAllTransactions L (query_filter c ''type'') (query_filter c ''status'') pagination))"

definition TransactionHandler_GetTransactionDetailAdmin :: "'d lib \<Rightarrow> 'd web \<Rightarrow> handler" where
  "TransactionHandler_GetTransactionDetailAdmin L W c =
     with_uuid L (first_value (ctx_Param c) ''transactionId'') ''Invalid transaction ID format'' (\<lambda>txID.
     answer W [(ErrTransactionNotFound, 404)]
       (\<lambda>res. WriteSuccess 200 ''Transaction details retrieved successfully''
         (Some (TransactionDetailResponse_json L res)))
       (GetTransactionDetailAdmin L txID))"

section \<open>Auth handler\<close>

definition access_cookie :: "bool \<Rightarrow> string \<Rightarrow> int \<Rightarrow> http_cookie" where
  "access_cookie secure value maxAge =
     \<lparr>Cookie_Name = ''accessToken'', Cookie_Value = value, Cookie_MaxAge = maxAge, Cookie_Path = ''/'',
      Cookie_Secure = secure, Cookie_HttpOnly = True, Cookie_SameSiteStrict = True\<rparr>"

definition AuthHandler_Register :: "'d lib \<Rightarrow> 'd web \<Rightarrow> handler" where
  "AuthHandler_Register L W c =
     with_bound (ShouldBindJSON W decode_RegisterRequest (check_RegisterRequest W) (ctx_Request c)) (\<lambda>req.
     answer W [(ErrEmailConflict, 409)]
       (\<lambda>res. WriteSuccess 201 ''User registered successfully'' (Some (RegisterResponse_json L res)))
       (Register L req))"

definition AuthHandler_Login :: "'d lib \<Rightarrow> 'd web \<Rightarrow> Config \<Rightarrow> int \<Rightarrow> bool \<Rightarrow> handler" where
  "AuthHandler_Login L W cfg jwtExpiry secure c =
     with_bound (ShouldBindJSON W decode_LoginRequest (check_LoginRequest W) (ctx_Request c)) (\<lambda>req.
     answer W [(ErrInvalidCredentials, 401)]
       (\<lambda>(res, token). (WriteSuccess 200 ''Login successful'' (Some (LoginResponse_json L res)))
          \<lparr>Response_SetCookie := [access_cookie secure token jwtExpiry]\<rparr>)
       (Login L cfg req))"

definition AuthHandler_Logout :: "bool \<Rightarrow> handler" where
  "AuthHandler_Logout secure c = returnE ((WriteSuccess 200 ''Logout successful'' None)
     \<lparr>Response_SetCookie := [access_cookie secure [] (- 1)]\<rparr>)"

definition AuthHandler_GetUsersAdmin :: "'d lib \<Rightarrow> 'd web \<Rightarrow> handler" where
  "AuthHandler_GetUsersAdmin L W c =
     with_bound (ShouldBindQuery W (ctx_Request c)) (\<lambda>pagination.
     answer W [] (\<lambda>res. WriteSuccess 200 ''Users retrieved successfully'' (Some (AdminUserListResponse_json L res)))
       (GetAllUsers L pagination))"

section \<open>Wallet, ledger and audit handlers\<close>

definition WalletHandler_GetMyWallet :: "'d lib \<Rightarrow> 'd web \<Rightarrow> handler" where
  "WalletHandler_GetMyWallet L W c = with_user c (\<lambda>userID.
     answer W [(ErrWalletNotFound, 404)]
       (\<lambda>res. WriteSuccess 200 ''Wallet retrieved successfully'' (Some (WalletResponse_json L res)))
       (GetWalletByUserID L userID))"

definition LedgerHandler_GetLedgerEntries :: "'d lib \<Rightarrow> 'd web \<Rightarrow> handler" where
  "LedgerHandler_GetLedgerEntries L W c = with_user c (\<lambda>userID.
     with_bound (ShouldBindQuery W (ctx_Request c)) (\<lambda>pagination.
     answer W [] (\<lambda>res. WriteSuccess 200 ''Ledger entries retrieved successfully''
         (Some (LedgerListResponse_json L res)))
       (GetLedgerEntries L userID (query_filter c ''entry_type'') pagination)))"

definition AuditHandler_GetAuditLogs :: "'d lib \<Rightarrow> 'd web \<Rightarrow> handler" where
  "AuditHandler_GetAuditLogs L W c = with_user c (\<lambda>userID.
     with_bound (ShouldBindQuery W (ctx_Request c)) (\<lambda>pagination.
     answer W [] (\<lambda>res. WriteSuccess 200 ''Audit logs retrieved successfully'' (Some (AuditLogListResponse_json L res)))
       (GetLogs userID pagination)))"

definition AuditHandler_GetAuditLogsAdmin :: "'d lib \<Rightarrow> 'd web \<Rightarrow> handler" where
  "AuditHandler_GetAuditLogsAdmin L W c =
     with_bound (ShouldBindQuery W (ctx_Request c)) (\<lambda>pagination.
     let logs = (\<lambda>userID. answer W []
       (\<lambda>res. WriteSuccess 200 ''Audit logs retrieved successfully'' (Some (AuditLogListResponse_json L res)))
       (GetAllLogs userID (query_filter c ''action'') pagination))
     in (case query_filter c ''user_id'' of
           None \<Rightarrow> logs None
         | Some uidStr \<Rightarrow> with_uuid L uidStr ''Invalid user_id format'' (\<lambda>uid. logs (Some uid))))"

section \<open>Notification handler\<close>

definition NotificationHandler_GetNotifications :: "'d lib \<Rightarrow> 'd web \<Rightarrow> handler" where
  "NotificationHandler_GetNotifications L W c = with_user c (\<lambda>userID.
     with_bound (ShouldBindQuery W (ctx_Request c)) (\<lambda>pagination.
     answer W [] (\<lambda>res. WriteSuccess 200 ''Notifications retrieved successfully''
         (Some (NotificationListResponse_json L res)))
       (GetNotifications userID pagination)))"

definition NotificationHandler_MarkAsRead :: "'d lib \<Rightarrow> 'd web \<Rightarrow> handler" where
  "NotificationHandler_MarkAsRead L W c = with_user c (\<lambda>userID.
     with_uuid L (first_value (ctx_Param c) ''id'') ''Invalid notification ID format'' (\<lambda>i.
     answer W [] (\<lambda>_. WriteSuccess 200 ''Notification marked as read successfully'' None)
       (MarkAsRead i userID)))"

definition NotificationHandler_ClearAll :: "'d web \<Rightarrow> handler" where
  "NotificationHandler_ClearAll W c = with_user c (\<lambda>userID.
     answer W [] (\<lambda>_. WriteSuccess 200 ''Notifications cleared successfully'' None)
       (ClearAll userID))"

text \<open>
  The event stream: the payloads that reach the user's channel while the client listens
  (\<open>arriving\<close>), each as one \<open>notification\<close> event.
\<close>

definition sse_headers :: "(string \<times> string) list" where
  "sse_headers = [(''Content-Type'', ''text/event-stream''), (''Cache-Control'', ''no-cache''),
     (''Connection'', ''keep-alive''), (''Transfer-Encoding'', ''chunked'')]"

definition notification_channel :: "'d lib \<Rightarrow> uuid \<Rightarrow> string" where
  "notification_channel L userID = ''user:notifications:'' @ UUID_String L userID"

definition NotificationHandler_StreamNotifications ::
  "'d lib \<Rightarrow> gin_ctx \<Rightarrow> (string \<times> json) list \<Rightarrow> http_response + (string \<times> string) list \<times> (string \<times> json) list" where
  "NotificationHandler_StreamNotifications L c arriving =
     (case GetUserIDFromContext c of
        Inl text \<Rightarrow> Inl (WriteError 401 text None)
      | Inr userID \<Rightarrow> Inr (sse_headers, map (\<lambda>(_, payload). (''notification'', payload))
          (filter (\<lambda>(ch, _). ch = notification_channel L userID) arriving)))"

end
