(* ===== verification/Middleware.thy ===== *)
theory Middleware
  imports Handlers "HOL-Library.Sublist"
begin

text \<open>
  \<open>internal/middleware\<close>. A middleware takes the rest of the chain (what \<open>c.Next()\<close> runs) and
  gives a handler; one that does not call it has aborted. Redis is a map from keys to values
  with the time they expire, and every command may fail.
\<close>

type_synonym middleware = "handler \<Rightarrow> handler"

section \<open>Redis commands\<close>

definition redis_live :: "world \<Rightarrow> string \<Rightarrow> (redis_value \<times> time option) option" where
  "redis_live w k =
     (case redis w k of
        None \<Rightarrow> None
      | Some (v, expires) \<Rightarrow>
          (case expires of
             None \<Rightarrow> Some (v, expires)
           | Some t \<Rightarrow> if clock (env w) (tick w) < t then Some (v, expires) else None))"

definition redis_Get :: "string \<Rightarrow> redis_value go" where
  "redis_Get k w =
     (case fault (env w) (tick w) of
        NoFault \<Rightarrow>
          (case redis_live w k of
             None \<Rightarrow> (Inl (Failed ''redis: nil''), next_tick w)
           | Some (v, _) \<Rightarrow> (Inr v, next_tick w))
      | _ \<Rightarrow> (Inl (Failed ''redis''), next_tick w))"

definition redis_put :: "string \<Rightarrow> redis_value \<Rightarrow> time option \<Rightarrow> world \<Rightarrow> world" where
  "redis_put k v expires w = w\<lparr>redis := (redis w)(k \<mapsto> (v, expires))\<rparr>"

definition redis_write :: "'a \<Rightarrow> (world \<Rightarrow> world) \<Rightarrow> 'a go" where
  "redis_write x f w =
     (case fault (env w) (tick w) of
        NoFault \<Rightarrow> (Inr x, f (next_tick w))
      | Lost \<Rightarrow> (Inl (Failed ''redis''), f (next_tick w))
      | Refused \<Rightarrow> (Inl (Failed ''redis''), next_tick w))"

definition redis_Set :: "string \<Rightarrow> redis_value \<Rightarrow> time \<Rightarrow> unit go" where
  "redis_Set k v ttl w = redis_write () (redis_put k v (Some (clock (env w) (tick w) + ttl))) w"

text \<open>
  The rate limit script: \<open>INCR\<close>, then \<open>EXPIRE\<close> when the counter is new. A value that is no
  counter is an error of \<open>INCR\<close>.
\<close>

definition rateLimitScript :: "string \<Rightarrow> time \<Rightarrow> int go" where
  "rateLimitScript k ttl w =
     (case redis_live w k of
        None \<Rightarrow> redis_write 1 (redis_put k (RCounter 1) (Some (clock (env w) (tick w) + ttl))) w
      | Some (RCounter n, expires) \<Rightarrow>
          redis_write (n + 1) (redis_put k (RCounter (n + 1))
            (if n + 1 = 1 then Some (clock (env w) (tick w) + ttl) else expires)) w
      | Some (RCached _, _) \<Rightarrow> (Inl (Failed ''redis''), next_tick w))"

section \<open>CORS, recovery and rate limit\<close>

definition cors_headers :: "http_request \<Rightarrow> (string \<times> string) list" where
  "cors_headers r =
     [(''Access-Control-Allow-Origin'', if Request_Header r ''Origin'' \<noteq> [] then Request_Header r ''Origin'' else ''*''),
      (''Access-Control-Allow-Credentials'', ''true''),
      (''Access-Control-Allow-Headers'', ''Content-Type, Content-Length, Accept-Encoding, X-CSRF-Token, Authorization, accept, origin, Cache-Control, X-Requested-With, Idempotency-Key''),
      (''Access-Control-Allow-Methods'', ''POST, OPTIONS, GET, PUT, DELETE, PATCH'')]"

definition with_headers :: "(string \<times> string) list \<Rightarrow> http_response \<Rightarrow> http_response" where
  "with_headers hs r = r\<lparr>Response_Header := hs @ Response_Header r\<rparr>"

definition CORS :: middleware where
  "CORS next c =
     (if Request_Method (ctx_Request c) = ''OPTIONS''
      then returnE \<lparr>Response_Status = 204, Response_Header = cors_headers (ctx_Request c),
                    Response_SetCookie = [], Response_Body = None\<rparr>
      else bindE (next c) (\<lambda>r. returnE (with_headers (cors_headers (ctx_Request c)) r)))"

text \<open>\<open>gin.Recovery()\<close>: a panic becomes status 500.\<close>

definition Recovery :: middleware where
  "Recovery next c = tryE (next c) (\<lambda>r. case r of
       Inr x \<Rightarrow> returnE x
     | Inl _ \<Rightarrow> returnE \<lparr>Response_Status = 500, Response_Header = [], Response_SetCookie = [], Response_Body = None\<rparr>)"

definition RateLimit :: "int \<Rightarrow> time \<Rightarrow> middleware" where
  "RateLimit maxRequests window next c =
     tryE (rateLimitScript (''ratelimit:'' @ Request_ClientIP (ctx_Request c)) window) (\<lambda>r. case r of
       Inl _ \<Rightarrow> next c
     | Inr current \<Rightarrow>
         if maxRequests < current then returnE (WriteError 429 ''Too many requests. Please try again later.'' None)
         else next c)"

section \<open>Authentication and authorisation\<close>

definition JWTAuth :: "'d lib \<Rightarrow> string \<Rightarrow> middleware" where
  "JWTAuth L secret next c =
     (case Request_Cookie (ctx_Request c) ''accessToken'' of
        None \<Rightarrow> returnE (WriteError 401 ''Unauthorized: please login first'' None)
      | Some tokenString \<Rightarrow> tryE (ParseToken L tokenString secret) (\<lambda>r. case r of
            Inl _ \<Rightarrow> returnE (WriteError 401 ''Unauthorized: invalid or expired token'' None)
          | Inr claims \<Rightarrow> next (c\<lparr>ctx_userID := Some (Claims_UserID claims),
              ctx_email := Some (Claims_Email claims), ctx_role := Some (Claims_Role claims)\<rparr>)))"

definition RoleGuard :: "string list \<Rightarrow> middleware" where
  "RoleGuard allowedRoles next c =
     (case ctx_role c of
        None \<Rightarrow> returnE (WriteError 401 ''Unauthorized: role not found'' None)
      | Some role \<Rightarrow>
          if role \<in> set allowedRoles then next c
          else returnE (WriteError 403 ''Forbidden: you do not have permission to access this resource'' None))"

section \<open>Audit\<close>

definition getAction :: "string \<Rightarrow> string \<Rightarrow> string" where
  "getAction method path =
     (let is = (\<lambda>m s. method = m \<and> suffix s path) in
      if is ''POST'' ''/wallets/topup'' then ''TOPUP''
      else if is ''POST'' ''/transfers'' then ''TRANSFER''
      else if is ''POST'' ''/auth/register'' then ''REGISTER''
      else if is ''POST'' ''/auth/login'' then ''LOGIN''
      else if is ''POST'' ''/auth/logout'' then ''LOGOUT''
      else if is ''GET'' ''/wallets/me'' then ''VIEW_BALANCE''
      else if is ''GET'' ''/admin/transactions'' then ''ADMIN_VIEW_TRANSACTIONS''
      else if method = ''GET'' \<and> (sublist ''/transactions/'' path \<or> sublist ''/admin/transactions/'' path) then
        (if sublist ''/admin/'' path then ''ADMIN_VIEW_TRANSACTION_DETAIL'' else ''VIEW_TRANSACTION_DETAIL'')
      else if is ''GET'' ''/transactions'' then ''VIEW_TRANSACTIONS''
      else if is ''GET'' ''/ledger/entries'' then ''VIEW_LEDGER''
      else if is ''GET'' ''/audit/logs'' then ''VIEW_AUDIT_LOGS''
      else if is ''GET'' ''/admin/audit-logs'' then ''ADMIN_VIEW_AUDIT_LOGS''
      else if is ''GET'' ''/admin/users'' then ''ADMIN_VIEW_USERS''
      else method @ ''_'' @ path)"

definition go_audit :: "audit_spawn \<Rightarrow> unit go" where
  "go_audit a w = (Inr (), w\<lparr>audited := audited w @ [a]\<rparr>)"

definition AuditLog_middleware :: middleware where
  "AuditLog_middleware next c =
     bindE (next c) (\<lambda>r.
     if Response_Status r < 200 \<or> 300 \<le> Response_Status r then returnE r else
     case ctx_userID c of None \<Rightarrow> returnE r | Some userID \<Rightarrow>
     let method = Request_Method (ctx_Request c); path = Request_Path (ctx_Request c) in
     bindE (go_audit \<lparr>as_UserID = userID, as_Action = getAction method path,
       as_IPAddress = Request_ClientIP (ctx_Request c), as_Endpoint = method @ '' '' @ path\<rparr>) (\<lambda>_.
     returnE r))"

text \<open>What that goroutine publishes.\<close>

definition audit_json :: "'d lib \<Rightarrow> time \<Rightarrow> audit_spawn \<Rightarrow> json" where
  "audit_json L now a = event_json L now ''AUDIT'' (UUID_String L (as_UserID a)) (as_IPAddress a) (as_Endpoint a)
     (JObj [(''user_id'', JStr (UUID_String L (as_UserID a))), (''action'', JStr (as_Action a)),
       (''ip_address'', JStr (as_IPAddress a)), (''endpoint'', JStr (as_Endpoint a))])"

definition publishAudit :: "'d lib \<Rightarrow> bool \<Rightarrow> time \<Rightarrow> audit_spawn \<Rightarrow> unit amqp_op" where
  "publishAudit L nil_ch now a =
     (if nil_ch then returnE ()
      else PublishWithContext ''wallet_events'' ''wallet.event.audit'' (Some (audit_json L now a)))"

section \<open>Idempotency\<close>

text \<open>24 hours, in microseconds.\<close>

definition idempotency_ttl :: time where
  "idempotency_ttl = 86400000000"

definition cache_response :: "string \<Rightarrow> http_response \<Rightarrow> unit go" where
  "cache_response key r =
     (if 200 \<le> Response_Status r \<and> Response_Status r < 300
      then tryE (redis_Set (''idempotency:'' @ key) (RCached
        \<lparr>cachedResponse_StatusCode = Response_Status r, cachedResponse_Body = Response_Body r\<rparr>) idempotency_ttl)
        (\<lambda>_. returnE ())
      else returnE ())"

definition cached_response :: "cachedResponse \<Rightarrow> http_response" where
  "cached_response res =
     \<lparr>Response_Status = cachedResponse_StatusCode res,
      Response_Header = [(''Content-Type'', ''application/json''), (''X-Cache'', ''HIT'')],
      Response_SetCookie = [], Response_Body = cachedResponse_Body res\<rparr>"

definition Idempotency :: middleware where
  "Idempotency next c =
     (if Request_Method (ctx_Request c) \<noteq> ''POST'' then next c else
      let key = Request_Header (ctx_Request c) ''Idempotency-Key'' in
      if key = [] then returnE (WriteError 400 ''Idempotency-Key header is required'' None) else
      tryE (redis_Get (''idempotency:'' @ key)) (\<lambda>val. case val of
        Inr (RCached res) \<Rightarrow> returnE (cached_response res)
      | _ \<Rightarrow> bindE (next c) (\<lambda>r. bindE (cache_response key r) (\<lambda>_. returnE r))))"

end
