(* ===== verification/Router.thy ===== *)
theory Router
  imports Middleware
begin

text \<open>
  The router of \<open>cmd/server/main.go\<close>: the routes with the middleware of their groups, and the
  global middleware around them. A path parameter matches one segment that is not empty.
\<close>

datatype segment = Lit string | Param string

record route =
  route_Method :: string
  route_Pattern :: "segment list"
  route_Handler :: handler

text \<open>The segments of a path, without the one before the first slash.\<close>

fun split_slash :: "string \<Rightarrow> string list" where
  "split_slash [] = [[]]"
| "split_slash (c # s) =
     (if c = CHR ''/'' then [] # split_slash s
      else (case split_slash s of [] \<Rightarrow> [[c]] | x # xs \<Rightarrow> (c # x) # xs))"

fun match_segments :: "segment list \<Rightarrow> string list \<Rightarrow> (string \<times> string) list option" where
  "match_segments [] [] = Some []"
| "match_segments (Lit l # ps) (x # xs) = (if l = x then match_segments ps xs else None)"
| "match_segments (Param p # ps) (x # xs) =
     (if x = [] then None else map_option (\<lambda>m. (p, x) # m) (match_segments ps xs))"
| "match_segments _ _ = None"

definition match_route :: "http_request \<Rightarrow> route \<Rightarrow> (string \<times> string) list option" where
  "match_route r rt =
     (if Request_Method r = route_Method rt
      then match_segments (Lit [] # Lit ''api'' # Lit ''v1'' # route_Pattern rt) (split_slash (Request_Path r))
      else None)"

definition in_group :: "middleware list \<Rightarrow> route list \<Rightarrow> route list" where
  "in_group ms rs = map (\<lambda>rt. rt\<lparr>route_Handler := foldr (\<lambda>m h. m h) ms (route_Handler rt)\<rparr>) rs"

text \<open>\<open>int(d.Seconds())\<close>: rounded towards zero.\<close>

definition jwt_seconds :: "Config \<Rightarrow> int" where
  "jwt_seconds S = sint (Config_JWTExpiration S) sdiv 1000000000"

definition public_routes :: "'d lib \<Rightarrow> 'd web \<Rightarrow> Config \<Rightarrow> route list" where
  "public_routes L W S =
     [\<lparr>route_Method = ''POST'', route_Pattern = [Lit ''auth'', Lit ''register''],
       route_Handler = AuthHandler_Register L W\<rparr>,
      \<lparr>route_Method = ''POST'', route_Pattern = [Lit ''auth'', Lit ''login''],
       route_Handler = AuthHandler_Login L W S (jwt_seconds S) (Config_CookieSecure S)\<rparr>]"

text \<open>The stream answers with its headers; its events are not part of the response record.\<close>

definition stream_handler :: "'d lib \<Rightarrow> handler" where
  "stream_handler L c =
     (case NotificationHandler_StreamNotifications L c [] of
        Inl r \<Rightarrow> returnE r
      | Inr (headers, _) \<Rightarrow> returnE
          \<lparr>Response_Status = 200, Response_Header = headers, Response_SetCookie = [], Response_Body = None\<rparr>)"

definition idempotent_routes :: "'d lib \<Rightarrow> 'd web \<Rightarrow> route list" where
  "idempotent_routes L W = in_group [Idempotency]
     [\<lparr>route_Method = ''POST'', route_Pattern = [Lit ''wallets'', Lit ''topup''],
       route_Handler = TransactionHandler_TopUp L W\<rparr>,
      \<lparr>route_Method = ''POST'', route_Pattern = [Lit ''transfers''],
       route_Handler = TransactionHandler_Transfer L W\<rparr>]"

definition user_routes :: "'d lib \<Rightarrow> 'd web \<Rightarrow> Config \<Rightarrow> route list" where
  "user_routes L W S =
     [\<lparr>route_Method = ''POST'', route_Pattern = [Lit ''auth'', Lit ''logout''],
       route_Handler = AuthHandler_Logout (Config_CookieSecure S)\<rparr>,
      \<lparr>route_Method = ''GET'', route_Pattern = [Lit ''wallets'', Lit ''me''],
       route_Handler = WalletHandler_GetMyWallet L W\<rparr>] @
     idempotent_routes L W @
     [\<lparr>route_Method = ''GET'', route_Pattern = [Lit ''transactions''],
       route_Handler = TransactionHandler_GetTransactions L W\<rparr>,
      \<lparr>route_Method = ''GET'', route_Pattern = [Lit ''transactions'', Param ''transactionId''],
       route_Handler = TransactionHandler_GetTransactionDetail L W\<rparr>,
      \<lparr>route_Method = ''GET'', route_Pattern = [Lit ''ledger'', Lit ''entries''],
       route_Handler = LedgerHandler_GetLedgerEntries L W\<rparr>,
      \<lparr>route_Method = ''GET'', route_Pattern = [Lit ''audit'', Lit ''logs''],
       route_Handler = AuditHandler_GetAuditLogs L W\<rparr>,
      \<lparr>route_Method = ''GET'', route_Pattern = [Lit ''notifications''],
       route_Handler = NotificationHandler_GetNotifications L W\<rparr>,
      \<lparr>route_Method = ''PATCH'', route_Pattern = [Lit ''notifications'', Param ''id'', Lit ''read''],
       route_Handler = NotificationHandler_MarkAsRead L W\<rparr>,
      \<lparr>route_Method = ''DELETE'', route_Pattern = [Lit ''notifications''],
       route_Handler = NotificationHandler_ClearAll W\<rparr>,
      \<lparr>route_Method = ''GET'', route_Pattern = [Lit ''notifications'', Lit ''stream''],
       route_Handler = stream_handler L\<rparr>]"

definition admin_routes :: "'d lib \<Rightarrow> 'd web \<Rightarrow> route list" where
  "admin_routes L W = in_group [RoleGuard [''ADMIN'']]
     [\<lparr>route_Method = ''GET'', route_Pattern = [Lit ''admin'', Lit ''users''],
       route_Handler = AuthHandler_GetUsersAdmin L W\<rparr>,
      \<lparr>route_Method = ''GET'', route_Pattern = [Lit ''admin'', Lit ''transactions''],
       route_Handler = TransactionHandler_GetTransactionsAdmin L W\<rparr>,
      \<lparr>route_Method = ''GET'', route_Pattern = [Lit ''admin'', Lit ''transactions'', Param ''transactionId''],
       route_Handler = TransactionHandler_GetTransactionDetailAdmin L W\<rparr>,
      \<lparr>route_Method = ''GET'', route_Pattern = [Lit ''admin'', Lit ''audit-logs''],
       route_Handler = AuditHandler_GetAuditLogsAdmin L W\<rparr>]"

definition protected_routes :: "'d lib \<Rightarrow> 'd web \<Rightarrow> Config \<Rightarrow> route list" where
  "protected_routes L W S =
     in_group [JWTAuth L (Config_JWTSecret S), AuditLog_middleware]
       (user_routes L W S @ admin_routes L W)"

definition routes :: "'d lib \<Rightarrow> 'd web \<Rightarrow> Config \<Rightarrow> route list" where
  "routes L W S = public_routes L W S @ protected_routes L W S"

text \<open>The first route that matches; patterns of one method never overlap here.\<close>

fun find_route :: "route list \<Rightarrow> http_request \<Rightarrow> (handler \<times> (string \<times> string) list) option" where
  "find_route [] r = None"
| "find_route (rt # rts) r =
     (case match_route r rt of Some params \<Rightarrow> Some (route_Handler rt, params) | None \<Rightarrow> find_route rts r)"

definition dispatch :: "'d lib \<Rightarrow> 'd web \<Rightarrow> Config \<Rightarrow> handler" where
  "dispatch L W S c =
     (case find_route (routes L W S) (ctx_Request c) of
        None \<Rightarrow> returnE (NoRoute W (ctx_Request c))
      | Some (h, params) \<Rightarrow> h (c\<lparr>ctx_Param := params\<rparr>))"

text \<open>At most 100 requests per client and minute.\<close>

definition serve_http :: "'d lib \<Rightarrow> 'd web \<Rightarrow> Config \<Rightarrow> http_request \<Rightarrow> http_response go" where
  "serve_http L W S r =
     foldr (\<lambda>m h. m h) [CORS, Recovery, RateLimit 100 60000000] (dispatch L W S)
       \<lparr>ctx_Request = r, ctx_Param = [], ctx_userID = None, ctx_email = None, ctx_role = None\<rparr>"

end
