(* ===== verification/HttpProofs.thy ===== *)
theory HttpProofs
  imports Router AuthProofs TransactionProofs
begin

text \<open>
  How requests pass the middleware. \<open>sealed\<close>: in a given state a handler answers with a status
  of a given set and has no effect. The middleware around it keep that.
\<close>

section \<open>Without effect\<close>

definition effectless :: "world \<Rightarrow> world \<Rightarrow> bool" where
  "effectless w w' \<longleftrightarrow> committed w' = committed w \<and> spawned w' = spawned w \<and>
     published w' = published w \<and> audited w' = audited w"

interpretation effectless: step_order effectless
  by unfold_locales (auto simp: effectless_def)

definition sealed :: "nat set \<Rightarrow> http_response go \<Rightarrow> world \<Rightarrow> bool" where
  "sealed A m w \<longleftrightarrow> (\<exists>r w'. m w = (Inr r, w') \<and> Response_Status r \<in> A \<and> effectless w w')"

lemma sealedE:
  assumes "sealed A m w"
  obtains r w' where "m w = (Inr r, w')" "Response_Status r \<in> A" "effectless w w'"
  using assms unfolding sealed_def by blast

lemma sealed_returnE: "Response_Status r \<in> A \<Longrightarrow> sealed A (returnE r) w"
  by (simp add: sealed_def returnE_def effectless.R_refl)

lemma sealed_mono: "sealed A m w \<Longrightarrow> A \<subseteq> B \<Longrightarrow> sealed B m w"
  unfolding sealed_def by (metis subset_iff)

lemma sealed_tryE:
  assumes "steps effectless m" and "m w = (r, w')" and "sealed A (f r) w'"
  shows "sealed A (tryE m f) w"
proof -
  have "effectless w w'" by (rule stepsD [OF assms(1,2)])
  moreover obtain x w'' where "f r w' = (Inr x, w'')" "Response_Status x \<in> A" "effectless w' w''"
    using assms(3) by (rule sealedE)
  ultimately show ?thesis
    using assms(2) effectless.R_trans by (auto simp: tryE_def sealed_def)
qed

lemma WriteError_status [simp]: "Response_Status (WriteError status text errs) = status"
  by (simp add: WriteError_def c_JSON_def)

lemma WriteSuccess_status [simp]: "Response_Status (WriteSuccess status text data) = status"
  by (simp add: WriteSuccess_def c_JSON_def)

section \<open>The middleware\<close>

lemma effectless_script: "steps effectless (rateLimitScript k ttl)"
  by (auto simp: steps_def rateLimitScript_def redis_write_def redis_put_def effectless_def
      split: option.splits redis_value.splits fault.splits)

lemma effectless_ParseToken: "steps effectless (ParseToken L tok secret)"
  by (auto simp: steps_def ParseToken_def bindE_def time_Now_def throwE_def returnE_def effectless_def
      split: option.splits)

lemma sealed_CORS:
  assumes "sealed A (next c) w"
  shows "sealed (insert 204 A) (CORS next c) w"
proof (cases "Request_Method (ctx_Request c) = ''OPTIONS''")
  case True
  then show ?thesis by (simp add: CORS_def sealed_returnE)
next
  case False
  obtain r w' where "next c w = (Inr r, w')" "Response_Status r \<in> A" "effectless w w'"
    using assms by (rule sealedE)
  then show ?thesis
    using False by (simp add: sealed_def CORS_def bindE_def returnE_def with_headers_def)
qed

lemma sealed_Recovery: "sealed A (next c) w \<Longrightarrow> sealed A (Recovery next c) w"
  by (erule sealedE) (simp add: sealed_def Recovery_def tryE_def returnE_def)

lemma script_state: "rateLimitScript k ttl w = (r, u) \<Longrightarrow> env u = env w \<and> tick u = Suc (tick w)"
  by (auto simp: rateLimitScript_def redis_write_def redis_put_def
      split: option.splits redis_value.splits fault.splits)

lemma sealed_RateLimit:
  assumes "\<And>u. env u = env w \<Longrightarrow> tick u = Suc (tick w) \<Longrightarrow> sealed A (next c) u"
  shows "sealed (insert 429 A) (RateLimit n ttl next c) w"
proof -
  obtain r u where run: "rateLimitScript (''ratelimit:'' @ Request_ClientIP (ctx_Request c)) ttl w = (r, u)"
    by fastforce
  have "sealed A (next c) u" using script_state [OF run] by (intro assms) simp_all
  then show ?thesis
    unfolding RateLimit_def
    by (intro sealed_tryE [OF effectless_script run]) (auto split: sum.splits intro: sealed_returnE sealed_mono)
qed

text \<open>The token a request bears, if it is valid at the time \<open>now\<close>.\<close>

definition bears_token :: "'d lib \<Rightarrow> string \<Rightarrow> time \<Rightarrow> http_request \<Rightarrow> Claims \<Rightarrow> bool" where
  "bears_token L secret now r claims \<longleftrightarrow> (\<exists>tok. Request_Cookie r ''accessToken'' = Some tok \<and>
     Jwt_ParseWithClaims L tok (hmac_key secret) now = Some (claims, True))"

lemma ParseToken_Inr:
  "ParseToken L tok secret w = (Inr claims, w') \<Longrightarrow>
     Jwt_ParseWithClaims L tok (hmac_key secret) (clock (env w) (tick w)) = Some (claims, True)"
  by (auto simp: ParseToken_def bindE_def time_Now_def throwE_def returnE_def split: option.splits if_splits)

lemma sealed_JWTAuth:
  assumes "\<And>claims u. bears_token L secret (clock (env w) (tick w)) (ctx_Request c) claims \<Longrightarrow>
    sealed A (next (c\<lparr>ctx_userID := Some (Claims_UserID claims),
      ctx_email := Some (Claims_Email claims), ctx_role := Some (Claims_Role claims)\<rparr>)) u"
  shows "sealed (insert 401 A) (JWTAuth L secret next c) w"
proof (cases "Request_Cookie (ctx_Request c) ''accessToken''")
  case None
  then show ?thesis by (simp add: JWTAuth_def sealed_returnE)
next
  case (Some tok)
  obtain r u where run: "ParseToken L tok secret w = (r, u)" by fastforce
  have "sealed (insert 401 A) (next (c\<lparr>ctx_userID := Some (Claims_UserID claims),
      ctx_email := Some (Claims_Email claims), ctx_role := Some (Claims_Role claims)\<rparr>)) u"
    if "r = Inr claims" for claims
    using assms [of claims u] ParseToken_Inr [OF run [unfolded that]] Some
    by (auto simp: bears_token_def intro: sealed_mono)
  then show ?thesis
    unfolding JWTAuth_def Some option.case
    by (intro sealed_tryE [OF effectless_ParseToken run]) (auto split: sum.splits intro: sealed_returnE)
qed

lemma sealed_AuditLog:
  assumes "sealed A (next c) w" and "\<forall>s \<in> A. s < 200 \<or> 300 \<le> s"
  shows "sealed A (AuditLog_middleware next c) w"
proof -
  obtain r w' where "next c w = (Inr r, w')" "Response_Status r \<in> A" "effectless w w'"
    using assms(1) by (rule sealedE)
  moreover have "Response_Status r < 200 \<or> 300 \<le> Response_Status r"
    using assms(2) calculation(2) by blast
  ultimately show ?thesis
    by (simp add: sealed_def AuditLog_middleware_def bindE_def returnE_def)
qed

lemma sealed_RoleGuard:
  assumes "\<And>role. ctx_role c = Some role \<Longrightarrow> role \<notin> set roles"
  shows "sealed {401, 403} (RoleGuard roles next c) w"
  using assms by (auto simp: RoleGuard_def sealed_returnE split: option.splits)

section \<open>Routes\<close>

lemma find_route_append:
  "find_route (xs @ ys) r = (case find_route xs r of None \<Rightarrow> find_route ys r | Some x \<Rightarrow> Some x)"
  by (induction xs) (auto split: option.splits)

lemma find_route_in_group:
  "find_route (in_group ms rs) r =
     map_option (\<lambda>(h, params). (foldr (\<lambda>m h. m h) ms h, params)) (find_route rs r)"
  by (induction rs) (auto simp: in_group_def match_route_def split: option.splits)

lemma sealed_serve_http:
  assumes "\<And>u. env u = env w \<Longrightarrow> tick u = Suc (tick w) \<Longrightarrow>
    sealed A (dispatch L W S \<lparr>ctx_Request = r, ctx_Param = [], ctx_userID = None, ctx_email = None, ctx_role = None\<rparr>) u"
  shows "sealed (A \<union> {204, 429}) (serve_http L W S r) w"
proof -
  have "sealed (insert 204 (insert 429 A)) (serve_http L W S r) w"
    using assms by (simp add: serve_http_def) (intro sealed_CORS sealed_Recovery sealed_RateLimit)
  then show ?thesis by (rule sealed_mono) auto
qed

text \<open>A request that matches a protected route and bears no valid token, or none for the role.\<close>

lemma sealed_dispatch:
  assumes "find_route (public_routes L W S) (ctx_Request c) = None"
    and "\<And>h params claims u. find_route (user_routes L W S @ admin_routes L W) (ctx_Request c) = Some (h, params) \<Longrightarrow>
      bears_token L (Config_JWTSecret S) (clock (env w) (tick w)) (ctx_Request c) claims \<Longrightarrow>
      sealed A (h (c\<lparr>ctx_Param := params, ctx_userID := Some (Claims_UserID claims),
        ctx_email := Some (Claims_Email claims), ctx_role := Some (Claims_Role claims)\<rparr>)) u"
    and "\<forall>s \<in> A. s < 200 \<or> 300 \<le> s"
  shows "sealed (A \<union> {401, Response_Status (NoRoute W (ctx_Request c))}) (dispatch L W S c) w"
proof (cases "find_route (user_routes L W S @ admin_routes L W) (ctx_Request c)")
  case None
  then show ?thesis
    using assms(1)
    by (auto simp: dispatch_def routes_def protected_routes_def find_route_append find_route_in_group
        intro!: sealed_returnE)
next
  case (Some p)
  obtain h params where p: "p = (h, params)" by (cases p)
  let ?secret = "Config_JWTSecret S"
  have "sealed (insert 401 A) (JWTAuth L ?secret (AuditLog_middleware h) (c\<lparr>ctx_Param := params\<rparr>)) w"
    using assms(2,3) Some p by (intro sealed_JWTAuth sealed_AuditLog) simp_all
  moreover have "dispatch L W S c = JWTAuth L ?secret (AuditLog_middleware h) (c\<lparr>ctx_Param := params\<rparr>)"
    using assms(1) Some p
    by (simp add: dispatch_def routes_def protected_routes_def find_route_append find_route_in_group)
  ultimately show ?thesis by (auto intro: sealed_mono)
qed

end
