(* ===== verification/HttpProperties.thy ===== *)
theory HttpProperties
  imports HttpProofs MoneyProperties AuthProperties
begin

text \<open>
  The properties of the web layer: who reaches a protected route, what a retried request does,
  how the outcome of a transfer shows in the response, which page requests are refused, and how
  many requests of a client pass.
\<close>

section \<open>Samples\<close>

definition sample_web :: "dec web" where
  "sample_web =
     \<lparr>Error_text = (\<lambda>_. ''error''), Decode_text = (\<lambda>_. ''invalid JSON''), ParseInt_text = (\<lambda>_. ''invalid syntax''),
      IsEmail = (\<lambda>e. CHR ''@'' \<in> set e), Float64_sign = (\<lambda>x. sgn (fst x)),
      NoRoute = (\<lambda>_. WriteError 404 ''page not found'' None)\<rparr>"

definition sample_settings :: Config where
  "sample_settings = \<lparr>Config_ServerPort = ''8080'', Config_DatabaseURL = ''postgres'', Config_RedisURL = ''redis'',
     Config_RabbitMQURL = ''amqp'', Config_JWTSecret = ''secret'', Config_JWTExpiration = 86400000000000,
     Config_CookieSecure = True\<rparr>"

definition get_request :: "string \<Rightarrow> string option \<Rightarrow> http_request" where
  "get_request path tok = \<lparr>Request_Method = ''GET'', Request_Path = path, Request_ClientIP = ''10.0.0.1'',
     Request_Header = (\<lambda>_. []), Request_Cookie = (\<lambda>_. tok), Request_Query = [], Request_Body = None\<rparr>"

section \<open>Who reaches a route\<close>

text \<open>
  C37. A request to a route that is not public, with no cookie or a token that is not valid when it is
  read (forged, malformed, or expired by then; it is read right after the rate limiter's one
  interaction), has no effect and is answered without running the handler: 401, unless the client is over the rate
  limit (429), only asks for the options (204), or the route does not exist.
\<close>

theorem protected_needs_token:
  assumes "find_route (public_routes L W S) r = None"
    and "\<And>claims. \<not> bears_token L (Config_JWTSecret S) (clock (env w) (Suc (tick w))) r claims"
  shows "case serve_http L W S r w of (res, w') \<Rightarrow> effectless w w' \<and>
    (\<exists>resp. res = Inr resp \<and> Response_Status resp \<in> {204, 401, 429, Response_Status (NoRoute W r)})"
proof -
  let ?c = "\<lparr>ctx_Request = r, ctx_Param = [], ctx_userID = None, ctx_email = None, ctx_role = None\<rparr>"
  have "sealed ({} \<union> {401, Response_Status (NoRoute W (ctx_Request ?c))}) (dispatch L W S ?c) u"
    if "env u = env w" "tick u = Suc (tick w)" for u
    using assms that by (intro sealed_dispatch) simp_all
  then have "sealed ({} \<union> {401, Response_Status (NoRoute W r)} \<union> {204, 429}) (serve_http L W S r) w"
    by (intro sealed_serve_http) simp
  then show ?thesis by (rule sealedE) auto
qed

text \<open>A token that was valid until 1000; the request comes at 1000 and the token is read at 1001.\<close>

definition expired_token :: "string option" where
  "expired_token = sign_sample \<lparr>Claims_UserID = 1, Claims_Email = ''ann'', Claims_Role = ''USER'',
     Claims_ExpiresAt = 1000, Claims_IssuedAt = 0\<rparr> ''secret''"

theorem protected_needs_token_witness:
  "(\<exists>claims. bears_token sample_lib ''secret'' 999 (get_request ''/api/v1/wallets/me'' expired_token) claims) \<and>
   (case serve_http sample_lib sample_web sample_settings (get_request ''/api/v1/wallets/me'' expired_token)
      sample_world of (res, w') \<Rightarrow> committed w' = committed sample_world \<and> audited w' = [] \<and>
        (\<exists>resp. res = Inr resp \<and> Response_Status resp \<in> {204, 401, 404, 429}))"
proof -
  let ?r = "get_request ''/api/v1/wallets/me'' expired_token"
  have route: "find_route (public_routes sample_lib sample_web sample_settings) ?r = None"
    by (simp add: public_routes_def match_route_def get_request_def)
  have "\<not> bears_token sample_lib (Config_JWTSecret sample_settings)
      (clock (env sample_world) (Suc (tick sample_world))) ?r claims" for claims
    by (simp add: bears_token_def get_request_def sample_lib_def expired_token_def sign_sample_def parse_sample_def
        unframe_framed text_uuid_text text_int_text sample_world_def sample_env_def)
  note sealed = protected_needs_token [OF route this]
  have "Response_Status (NoRoute sample_web ?r) = 404" by (simp add: sample_web_def)
  moreover have "audited sample_world = []" by (simp add: sample_world_def)
  moreover have "\<exists>claims. bears_token sample_lib ''secret'' 999 ?r claims"
    by (simp add: bears_token_def get_request_def sample_lib_def expired_token_def sign_sample_def parse_sample_def
        unframe_framed text_uuid_text text_int_text hmac_key_def)
  ultimately show ?thesis
    using sealed by (auto simp: effectless_def)
qed

text \<open>
  C38. A request to a route of the administrator by somebody whose token, when it is read, is valid but
  names another role has no effect and is not answered by the handler: 403.
\<close>

theorem admin_needs_role:
  assumes "find_route (public_routes L W S) r = None" and "find_route (user_routes L W S) r = None"
    and "\<And>claims. bears_token L (Config_JWTSecret S) (clock (env w) (Suc (tick w))) r claims \<Longrightarrow>
      Claims_Role claims \<noteq> ''ADMIN''"
  shows "case serve_http L W S r w of (res, w') \<Rightarrow> effectless w w' \<and>
    (\<exists>resp. res = Inr resp \<and> Response_Status resp \<in> {204, 401, 403, 429, Response_Status (NoRoute W r)})"
proof -
  let ?c = "\<lparr>ctx_Request = r, ctx_Param = [], ctx_userID = None, ctx_email = None, ctx_role = None\<rparr>"
  have "sealed ({401, 403} \<union> {401, Response_Status (NoRoute W (ctx_Request ?c))}) (dispatch L W S ?c) u"
    if u: "env u = env w" "tick u = Suc (tick w)" for u
  proof (rule sealed_dispatch)
    show "find_route (public_routes L W S) (ctx_Request ?c) = None" using assms(1) by simp
    fix h params claims v
    assume "find_route (user_routes L W S @ admin_routes L W) (ctx_Request ?c) = Some (h, params)"
      and "bears_token L (Config_JWTSecret S) (clock (env u) (tick u)) (ctx_Request ?c) claims"
    then obtain g where "h = RoleGuard [''ADMIN''] g" and "Claims_Role claims \<noteq> ''ADMIN''"
      using assms(2,3) u by (auto simp: find_route_append admin_routes_def find_route_in_group)
    then show "sealed {401, 403} (h (?c\<lparr>ctx_Param := params, ctx_userID := Some (Claims_UserID claims),
        ctx_email := Some (Claims_Email claims), ctx_role := Some (Claims_Role claims)\<rparr>)) v"
      by (auto intro: sealed_RoleGuard)
  qed simp
  then have "sealed ({401, 403} \<union> {401, Response_Status (NoRoute W r)} \<union> {204, 429}) (serve_http L W S r) w"
    by (intro sealed_serve_http) simp
  then show ?thesis by (rule sealedE) auto
qed

theorem admin_needs_role_witness:
  "case serve_http sample_lib sample_web sample_settings (get_request ''/api/v1/admin/users''
      (sign_sample \<lparr>Claims_UserID = 1, Claims_Email = ''ann'', Claims_Role = ''USER'',
        Claims_ExpiresAt = 9000, Claims_IssuedAt = 0\<rparr> ''secret'')) sample_world of
     (res, w') \<Rightarrow> committed w' = committed sample_world"
    (is "case serve_http _ _ _ ?r _ of (res, w') \<Rightarrow> _")
proof -
  have routes: "find_route (public_routes sample_lib sample_web sample_settings) ?r = None"
    "find_route (user_routes sample_lib sample_web sample_settings) ?r = None"
    by (simp_all add: public_routes_def user_routes_def idempotent_routes_def in_group_def match_route_def get_request_def)
  have "Claims_Role claims \<noteq> ''ADMIN''"
    if "bears_token sample_lib (Config_JWTSecret sample_settings) now ?r claims" for claims and now :: time
    using that
    by (auto simp: bears_token_def get_request_def sample_lib_def sign_sample_def parse_sample_def unframe_framed
        text_uuid_text split: if_splits)
  with admin_needs_role [OF routes, where w = sample_world] show ?thesis
    by (simp add: effectless_def case_prod_unfold)
qed

section \<open>Retries\<close>

lemma cache_response_run:
  assumes "200 \<le> Response_Status r" "Response_Status r < 300" and "cache_response key r u = (x, u')"
  shows "env u' = env u \<and> tick u' = Suc (tick u) \<and> x = Inr () \<and> (fault (env u) (tick u) = NoFault \<longrightarrow>
    redis u' (''idempotency:'' @ key) = Some (RCached \<lparr>cachedResponse_StatusCode = Response_Status r,
      cachedResponse_Body = Response_Body r\<rparr>, Some (clock (env u) (tick u) + idempotency_ttl)))"
  using assms
  by (auto simp: cache_response_def tryE_def redis_Set_def redis_write_def redis_put_def returnE_def next_tick_def
      split: fault.splits)

lemma redis_Get_miss: "redis_live w k = None \<Longrightarrow> \<exists>e. redis_Get k w = (Inl e, next_tick w)"
  by (simp add: redis_Get_def split: fault.splits)

lemma Idempotency_miss:
  assumes "Request_Method (ctx_Request c) = ''POST''" and "Request_Header (ctx_Request c) ''Idempotency-Key'' = key"
    and "key \<noteq> []" and "redis_live w (''idempotency:'' @ key) = None"
  shows "Idempotency h c w = bindE (h c) (\<lambda>r. bindE (cache_response key r) (\<lambda>_. returnE r)) (next_tick w)"
  using redis_Get_miss [OF assms(4)] assms(1-3) by (auto simp: Idempotency_def tryE_def Let_def)

text \<open>
  C27. A successful request with an idempotency key is done once: within 24 hours a second POST with
  the same key, by whatever user, in whatever state, to whatever handler behind the middleware, is
  answered with the status and body of the first and runs nothing. Until that answer is stored,
  nothing holds a request with the same key back: whatever \<open>w3\<close> is, its handler runs.
\<close>

theorem idempotent_retry:
  assumes "Request_Method (ctx_Request c) = ''POST''" and "Request_Header (ctx_Request c) ''Idempotency-Key'' = key"
    and "key \<noteq> []" and "redis_live w (''idempotency:'' @ key) = None"
    and "Idempotency h c w = (Inr r, w1)" and "200 \<le> Response_Status r" "Response_Status r < 300"
    and "healthy (env w1)"
    and "Request_Method (ctx_Request c2) = ''POST''" and "Request_Header (ctx_Request c2) ''Idempotency-Key'' = key"
    and "redis w2 (''idempotency:'' @ key) = redis w1 (''idempotency:'' @ key)"
    and "fault (env w2) (tick w2) = NoFault"
    and "clock (env w2) (tick w2) < clock (env w1) (tick w1 - 1) + idempotency_ttl"
  shows "Idempotency h2 c2 w2 = (Inr (cached_response \<lparr>cachedResponse_StatusCode = Response_Status r,
    cachedResponse_Body = Response_Body r\<rparr>), next_tick w2) \<and>
    (\<forall>w3. redis_live w3 (''idempotency:'' @ key) = None \<longrightarrow>
       Idempotency h2 c2 w3 = bindE (h2 c2) (\<lambda>r2. bindE (cache_response key r2) (\<lambda>_. returnE r2)) (next_tick w3))"
proof -
  have "bindE (h c) (\<lambda>r. bindE (cache_response key r) (\<lambda>_. returnE r)) (next_tick w) = (Inr r, w1)"
    using assms(5) Idempotency_miss [OF assms(1-4)] by simp
  then obtain u x where u: "cache_response key r u = (Inr x, w1)"
    by (auto simp: succ)
  have entry: "redis w1 (''idempotency:'' @ key) = Some (RCached \<lparr>cachedResponse_StatusCode = Response_Status r,
      cachedResponse_Body = Response_Body r\<rparr>, Some (clock (env w1) (tick w1 - 1) + idempotency_ttl))"
    using cache_response_run [OF assms(6,7) u] assms(8) by (simp add: healthy_def)
  then have "redis_Get (''idempotency:'' @ key) w2 = (Inr (RCached \<lparr>cachedResponse_StatusCode = Response_Status r,
      cachedResponse_Body = Response_Body r\<rparr>), next_tick w2)"
    using assms(11-13) by (simp add: redis_Get_def redis_live_def)
  then have "Idempotency h2 c2 w2 = (Inr (cached_response \<lparr>cachedResponse_StatusCode = Response_Status r,
      cachedResponse_Body = Response_Body r\<rparr>), next_tick w2)"
    using assms(3,9,10) by (simp add: Idempotency_def tryE_def returnE_def Let_def)
  then show ?thesis using Idempotency_miss [OF assms(9,10,3)] by blast
qed

definition sample_ctx :: "uuid \<Rightarrow> dec \<Rightarrow> gin_ctx" where
  "sample_ctx u a = \<lparr>ctx_Request = \<lparr>Request_Method = ''POST'', Request_Path = ''/api/v1/transfers'',
       Request_ClientIP = ''10.0.0.1'', Request_Header = (\<lambda>h. if h = ''Idempotency-Key'' then ''k1'' else []),
       Request_Cookie = (\<lambda>_. None), Request_Query = [],
       Request_Body = Some (JObj [(''target_wallet_id'', JStr ''WLT-B''), (''amount'', JStr (dec_text a))])\<rparr>,
     ctx_Param = [], ctx_userID = Some u, ctx_email = None, ctx_role = None\<rparr>"

theorem idempotent_retry_witness:
  "\<exists>w1. Idempotency (\<lambda>_. returnE (WriteSuccess 200 ''paid'' None)) (sample_ctx 1 (250, -2)) sample_world =
       (Inr (WriteSuccess 200 ''paid'' None), w1) \<and>
     snd (Idempotency (TransactionHandler_Transfer sample_lib sample_web) (sample_ctx 2 (5000, -2)) w1) = next_tick w1"
proof -
  let ?c = "sample_ctx 1 (250, -2)" and ?h = "\<lambda>_. returnE (WriteSuccess 200 ''paid'' None) :: http_response go"
  obtain x w1 where run: "Idempotency ?h ?c sample_world = (x, w1)" by (cases "Idempotency ?h ?c sample_world")
  then have "x = Inr (WriteSuccess 200 ''paid'' None)" "env w1 = sample_env" "tick w1 = 2"
    by (auto simp: Idempotency_def sample_ctx_def tryE_def redis_Get_def redis_live_def sample_world_def sample_env_def
        Let_def bindE_def returnE_def cache_response_def redis_Set_def redis_write_def redis_put_def next_tick_def)
  moreover have "redis_live sample_world (''idempotency:'' @ ''k1'') = None"
    by (simp add: redis_live_def sample_world_def)
  ultimately show ?thesis
    using idempotent_retry [where c = ?c and h = ?h and w = sample_world and key = "''k1''" and ?w1.0 = w1 and ?w2.0 = w1 and
        r = "WriteSuccess 200 ''paid'' None" and ?c2.0 = "sample_ctx 2 (5000, -2)"
        and ?h2.0 = "TransactionHandler_Transfer sample_lib sample_web"] run sample_env_ok(1)
    by (simp add: sample_ctx_def sample_world_def healthy_def sample_env_def idempotency_ttl_def)
qed

section \<open>The outcome of a transfer\<close>

lemma check_amount_ok: "check_amount W a = [] \<longleftrightarrow> 0 < Float64_sign W a"
  by (auto simp: check_amount_def check_field_def)

lemma ShouldBindJSON_Inr:
  "ShouldBindJSON W decode check r = Inr x \<longleftrightarrow> decode (Request_Body r) = Some x \<and> check x = []"
  by (auto simp: ShouldBindJSON_def validated_def split: option.splits list.splits)

lemma error_response_status:
  "Response_Status (error_response W table e) \<in> insert 500 (snd ` set table)"
  by (auto simp: error_response_def find_Some_iff split: option.splits) (metis image_eqI nth_mem snd_conv)

lemma answer_cases:
  assumes "Recovery (\<lambda>c. answer W table success (call c)) c w = (r, w')"
  obtains (ok) x where "call c w = (Inr x, w')" "r = Inr (success x)"
  | (error) e resp where "call c w = (Inl e, w')" "r = Inr resp"
      "Response_Status resp \<in> insert 500 (snd ` set table)" "\<not> panics e \<longrightarrow> resp = error_response W table e"
      "panics e \<longrightarrow> Response_Status resp = 500"
proof -
  obtain x u where call: "call c w = (x, u)" by (cases "call c w")
  show thesis
  proof (cases x)
    case (Inr y)
    then show thesis using assms call ok by (auto simp: Recovery_def answer_def tryE_def returnE_def)
  next
    case (Inl e)
    then show thesis
      using assms call error [of e] error_response_status [of W table e]
      by (auto simp: Recovery_def answer_def tryE_def returnE_def throwE_def split: if_splits)
  qed
qed

text \<open>A transfer request is refused by its binding, or answered with the outcome of \<open>Transfer\<close>.\<close>

lemma transfer_handler_cases:
  assumes "Recovery (TransactionHandler_Transfer L W) c w = (r, w')" and "ctx_userID c = Some uid"
  obtains (unbound) resp where "r = Inr resp" "Response_Status resp = 400" "w' = w"
  | (bound) req where "decode_TransferRequest L (Request_Body (ctx_Request c)) = Some req"
      "0 < Float64_sign W (TransferRequest_Amount req)"
      "Recovery (\<lambda>_. answer W transfer_table
        (\<lambda>res. WriteSuccess 200 ''Transfer successful'' (Some (TransferResponse_json L res))) (Transfer L uid req)) c w = (r, w')"
proof (cases "ShouldBindJSON W (decode_TransferRequest L) (check_TransferRequest W) (ctx_Request c)")
  case (Inl e)
  then show thesis using assms unbound
    by (auto simp: Recovery_def tryE_def TransactionHandler_Transfer_def with_user_def
        GetUserIDFromContext_def with_bound_def returnE_def)
next
  case (Inr req)
  moreover from Inr have "decode_TransferRequest L (Request_Body (ctx_Request c)) = Some req"
    "0 < Float64_sign W (TransferRequest_Amount req)"
    by (auto simp: ShouldBindJSON_Inr check_TransferRequest_def check_amount_ok)
  ultimately show thesis using assms bound
    by (simp add: Recovery_def TransactionHandler_Transfer_def with_user_def GetUserIDFromContext_def with_bound_def)
qed

lemma transfer_answer_cases:
  assumes run: "Recovery (\<lambda>_. answer W transfer_table success (Transfer L uid req)) c w = (r, w')"
    and laws: "decimal_laws L v" and ok: "db_ok (committed w)"
  obtains (carried_out) rs rt u ref now where
      "transfer_effect v rs rt (TransferRequest_Amount req) u ref now (committed w) (committed w')"
      "wr_user_id rs = uid" "wr_id rt = TransferRequest_TargetWalletID req"
      "r = Inr (success (transfer_response L rs rt (TransferRequest_Amount req) u ref now))"
  | (refused) resp where "r = Inr resp" "Response_Status resp \<in> {400, 404, 422, 500}"
      "committed w' = committed w" "spawned w' = spawned w"
  | (unknown) resp rs rt u ref now where "r = Inr resp" "Response_Status resp = 500"
      "transfer_effect v rs rt (TransferRequest_Amount req) u ref now (committed w) (committed w')"
      "spawned w' = spawned w"
  using run
proof (cases rule: answer_cases)
  case (ok res)
  from ok(1) laws assms(3) show thesis
  proof (cases rule: Transfer_cases)
    case completed
    then show thesis
      using ok(2) that(1) [OF completed(3)] wallet_of_user_Some [OF completed(1)] wallet_with_id_Some [OF completed(2)]
      by simp
  qed simp_all
next
  case (error e resp)
  have status: "Response_Status resp \<in> {400, 404, 422, 500}"
    using error(3) by (auto simp: transfer_table_def)
  from error(1) laws ok show thesis
  proof (cases rule: Transfer_cases)
    case rejected
    then show thesis using that(2) error(2) status by blast
  next
    case lost
    then have "Response_Status resp = 500"
      using error(4,5) by (auto simp: error_response_def transfer_table_def)
    then show thesis using that(3) error(2) lost by blast
  qed simp_all
qed

text \<open>
  C26. The response to a transfer request tells what happened: with status 200 the transfer is
  committed, its amount was positive for the validator and the response is the body; with 400,
  404, 422 or 500 nothing has changed, except when only the answer to the commit was lost, which
  shows as 500.
\<close>

theorem Transfer_over_http:
  assumes "decimal_laws L v" and "db_ok (committed w)" and "ctx_userID c = Some uid"
  shows "case Recovery (TransactionHandler_Transfer L W) c w of (r, w') \<Rightarrow> \<exists>resp. r = Inr resp \<and>
    (Response_Status resp = 200 \<and> (\<exists>req res rs rt u ref now.
        decode_TransferRequest L (Request_Body (ctx_Request c)) = Some req \<and>
        0 < Float64_sign W (TransferRequest_Amount req) \<and>
        transfer_effect v rs rt (TransferRequest_Amount req) u ref now (committed w) (committed w') \<and>
        wr_user_id rs = uid \<and> wr_id rt = TransferRequest_TargetWalletID req \<and>
        resp = WriteSuccess 200 ''Transfer successful'' (Some (TransferResponse_json L res)) \<and>
        res = transfer_response L rs rt (TransferRequest_Amount req) u ref now) \<or>
     Response_Status resp \<in> {400, 404, 422, 500} \<and> spawned w' = spawned w \<and>
       (committed w' = committed w \<or> Response_Status resp = 500 \<and> (\<exists>rs rt a u ref now.
          transfer_effect v rs rt a u ref now (committed w) (committed w'))))"
proof -
  obtain r w' where run: "Recovery (TransactionHandler_Transfer L W) c w = (r, w')"
    by (cases "Recovery (TransactionHandler_Transfer L W) c w")
  then show ?thesis
    using assms(3)
  proof (cases rule: transfer_handler_cases)
    case unbound
    then show ?thesis using run by auto
  next
    case (bound req)
    from bound(3) assms(1,2) show ?thesis
    proof (cases rule: transfer_answer_cases)
      case (carried_out rs rt u ref now)
      let ?resp = "WriteSuccess 200 ''Transfer successful'' (Some (TransferResponse_json L
        (transfer_response L rs rt (TransferRequest_Amount req) u ref now)))"
      have "\<exists>req' res' rs' rt' u' ref' now'.
          decode_TransferRequest L (Request_Body (ctx_Request c)) = Some req' \<and>
          0 < Float64_sign W (TransferRequest_Amount req') \<and>
          transfer_effect v rs' rt' (TransferRequest_Amount req') u' ref' now' (committed w) (committed w') \<and>
          wr_user_id rs' = uid \<and> wr_id rt' = TransferRequest_TargetWalletID req' \<and>
          ?resp = WriteSuccess 200 ''Transfer successful'' (Some (TransferResponse_json L res')) \<and>
          res' = transfer_response L rs' rt' (TransferRequest_Amount req') u' ref' now'"
        using carried_out(1-3) bound(1,2) by blast
      then show ?thesis using run carried_out(4) by simp
    qed (use run in auto)
  qed
qed

theorem Transfer_over_http_witness:
  "\<exists>resp w'. Recovery (TransactionHandler_Transfer sample_lib sample_web) (sample_ctx 1 (250, -2)) sample_world = (Inr resp, w') \<and>
     Response_Status resp = 200 \<and> (\<exists>rs rt u ref now.
       transfer_effect dec_value rs rt (250, -2) u ref now (committed sample_world) (committed w'))"
proof -
  let ?c = "sample_ctx 1 (250, -2)"
  obtain res w' where run: "Transfer sample_lib 1 (sample_request (250, -2)) sample_world = (Inr res, w')"
    using sample_transfers(1) by blast
  have decode: "decode_TransferRequest sample_lib (Request_Body (ctx_Request ?c)) = Some (sample_request (250, -2))"
    by (simp add: decode_TransferRequest_def json_Unmarshal_def sample_ctx_def same_key_def lower_def Let_def
        string_field_def custom_field_def sample_lib_def text_numeric_dec sample_request_def)
  then have "ShouldBindJSON sample_web (decode_TransferRequest sample_lib) (check_TransferRequest sample_web)
      (ctx_Request ?c) = Inr (sample_request (250, -2))"
    by (simp add: ShouldBindJSON_Inr check_TransferRequest_def check_amount_ok)
      (simp add: check_field_def sample_request_def sample_web_def)
  then have "Recovery (TransactionHandler_Transfer sample_lib sample_web) ?c sample_world =
      (Inr (WriteSuccess 200 ''Transfer successful'' (Some (TransferResponse_json sample_lib res))), w')"
    using run by (simp add: Recovery_def TransactionHandler_Transfer_def with_user_def GetUserIDFromContext_def
        with_bound_def answer_def tryE_def returnE_def sample_ctx_def)
  moreover have "ctx_userID ?c = Some 1" by (simp add: sample_ctx_def)
  ultimately show ?thesis
    using Transfer_over_http [where c = ?c and uid = 1 and W = sample_web, OF sample_decimal_laws sample_db_ok] decode
    by (auto simp: sample_request_def) blast
qed

section \<open>Pages\<close>

text \<open>
  A list request without \<open>page\<close> or without \<open>limit\<close> is refused with 400 and no effect, whoever
  asks: the defaults of \<open>SetDefaults\<close> are never reached over HTTP.
\<close>

theorem missing_page_refused:
  assumes "first_value (Request_Query (ctx_Request c)) ''page'' = [] \<or>
      first_value (Request_Query (ctx_Request c)) ''limit'' = []"
    and "ctx_userID c = Some uid"
    and "h \<in> {TransactionHandler_GetTransactions L W, TransactionHandler_GetTransactionsAdmin L W,
      LedgerHandler_GetLedgerEntries L W, AuditHandler_GetAuditLogs L W, AuditHandler_GetAuditLogsAdmin L W,
      NotificationHandler_GetNotifications L W, AuthHandler_GetUsersAdmin L W}"
  shows "\<exists>resp. h c w = (Inr resp, w) \<and> Response_Status resp = 400"
proof -
  obtain e where e: "ShouldBindQuery W (ctx_Request c) = Inl e"
  proof (cases "ShouldBindQuery W (ctx_Request c)")
    case (Inr p)
    then have "1 \<le> sint (Page p)" "1 \<le> sint (Limit p)"
        "int_query (Request_Query (ctx_Request c)) ''page'' = Some (Page p)"
        "int_query (Request_Query (ctx_Request c)) ''limit'' = Some (Limit p)"
      by (auto simp: ShouldBindQuery_def validated_def check_PaginationRequest_def check_field_def
          split: option.splits list.splits if_splits)
    then show ?thesis using assms(1) by (auto simp: int_query_def)
  qed
  have "with_bound (Inl e :: binding_error + PaginationRequest) f w = (Inr (WriteError 400 ''Validation failed''
      (Some (JArr (map JStr (FormatValidationErrors e))))), w)" for f
    by (simp add: with_bound_def returnE_def)
  then have "h c w = (Inr (WriteError 400 ''Validation failed''
      (Some (JArr (map JStr (FormatValidationErrors e))))), w)"
    using assms(2,3) e
    by (auto simp: TransactionHandler_GetTransactions_def TransactionHandler_GetTransactionsAdmin_def
        LedgerHandler_GetLedgerEntries_def AuditHandler_GetAuditLogs_def AuditHandler_GetAuditLogsAdmin_def
        NotificationHandler_GetNotifications_def AuthHandler_GetUsersAdmin_def with_user_def GetUserIDFromContext_def)
  then show ?thesis by simp
qed

theorem missing_page_refused_witness:
  "\<exists>resp. TransactionHandler_GetTransactions sample_lib sample_web (sample_ctx 1 (250, -2)) sample_world
     = (Inr resp, sample_world) \<and> Response_Status resp = 400"
  by (rule missing_page_refused [where uid = 1 and L = sample_lib and W = sample_web])
    (simp_all add: sample_ctx_def first_value_def)

section \<open>The rate limit\<close>

text \<open>
  How many of a client's requests pass, one after the other; \<open>g\<close> is what happens before a request.
\<close>

fun admitted :: "int \<Rightarrow> time \<Rightarrow> gin_ctx \<Rightarrow> (world \<Rightarrow> world) list \<Rightarrow> world \<Rightarrow> nat" where
  "admitted maxRequests window c [] w = 0"
| "admitted maxRequests window c (g # gs) w =
     (case RateLimit maxRequests window (\<lambda>_. returnE (WriteSuccess 200 ''ok'' None)) c (g w) of
        (r, w') \<Rightarrow> (case r of Inr resp \<Rightarrow> if Response_Status resp = 200 then 1 else 0 | Inl _ \<Rightarrow> 0) +
          admitted maxRequests window c gs w')"

definition leaves_key :: "string \<Rightarrow> (world \<Rightarrow> world) \<Rightarrow> bool" where
  "leaves_key k g \<longleftrightarrow> (\<forall>w. env (g w) = env w \<and> redis (g w) k = redis w k)"

lemma admitted_counting:
  assumes "healthy (env w)" and "\<forall>n. clock (env w) n < t" and "\<forall>g \<in> set gs. leaves_key k g"
    and "k = ''ratelimit:'' @ Request_ClientIP (ctx_Request c)"
    and "redis w k = Some (RCounter j, Some t)" and "1 \<le> j"
  shows "admitted N ttl c gs w = min (length gs) (nat (N - j))"
  using assms(1,2,3,5,6)
proof (induction gs arbitrary: w j)
  case (Cons g gs)
  let ?w' = "redis_put k (RCounter (j + 1)) (Some t) (next_tick (g w))"
  have g: "env (g w) = env w" "redis (g w) k = redis w k"
    using Cons.prems(3) by (simp_all add: leaves_key_def)
  have "rateLimitScript k ttl (g w) = (Inr (j + 1), ?w')"
    using Cons.prems g by (simp add: rateLimitScript_def redis_live_def redis_write_def healthy_def)
  then have here: "RateLimit N ttl (\<lambda>_. returnE (WriteSuccess 200 ''ok'' None)) c (g w) =
      (if N < j + 1 then (Inr (WriteError 429 ''Too many requests. Please try again later.'' None), ?w')
       else (Inr (WriteSuccess 200 ''ok'' None), ?w'))"
    by (simp add: RateLimit_def tryE_def returnE_def assms(4))
  have "admitted N ttl c gs ?w' = min (length gs) (nat (N - (j + 1)))"
    using Cons.prems g by (intro Cons.IH [of ?w' "j + 1"]) (simp_all add: redis_put_def)
  then show ?case using here by (auto simp: min_def)
qed simp

text \<open>
  C40. In one window the first \<open>maxRequests\<close> requests of a client pass and no other, whatever else
  the service does in between, as long as Redis answers.
\<close>

theorem rate_limit_bound:
  assumes "healthy (env w)" and "1 \<le> maxRequests"
    and "redis_live w (''ratelimit:'' @ Request_ClientIP (ctx_Request c)) = None"
    and "\<forall>n. clock (env w) n < clock (env w) (tick w) + window"
    and "\<forall>g \<in> set gs. leaves_key (''ratelimit:'' @ Request_ClientIP (ctx_Request c)) g"
  shows "admitted maxRequests window c (id # gs) w = min (Suc (length gs)) (nat maxRequests)"
proof -
  let ?k = "''ratelimit:'' @ Request_ClientIP (ctx_Request c)"
  let ?w' = "redis_put ?k (RCounter 1) (Some (clock (env w) (tick w) + window)) (next_tick w)"
  have "rateLimitScript ?k window w = (Inr 1, ?w')"
    using assms(1,3) by (simp add: rateLimitScript_def redis_write_def healthy_def)
  then have "RateLimit maxRequests window (\<lambda>_. returnE (WriteSuccess 200 ''ok'' None)) c w =
      (Inr (WriteSuccess 200 ''ok'' None), ?w')"
    using assms(2) by (simp add: RateLimit_def tryE_def returnE_def)
  moreover have "admitted maxRequests window c gs ?w' = min (length gs) (nat (maxRequests - 1))"
    using assms by (intro admitted_counting [where t = "clock (env w) (tick w) + window" and k = ?k and j = 1])
      (simp_all add: redis_put_def)
  ultimately show ?thesis using assms(2) by (simp add: min_def) arith
qed

theorem rate_limit_bound_witness:
  "\<exists>w. healthy (env w) \<and> admitted 100 60000000 (sample_ctx 1 (250, -2)) (replicate 150 id) w = 100"
proof -
  define w where "w = sample_world\<lparr>env := sample_env\<lparr>clock := \<lambda>_. 1000\<rparr>\<rparr>"
  have "healthy (env w)" "redis w = (\<lambda>_. None)" "\<forall>n. clock (env w) n = 1000"
    by (simp_all add: w_def sample_env_def healthy_def sample_world_def)
  then have "admitted 100 60000000 (sample_ctx 1 (250, -2)) (id # replicate 149 id) w = min (Suc 149) (nat 100)"
    by (subst rate_limit_bound) (simp_all add: redis_live_def leaves_key_def)
  moreover have "replicate 150 id = id # replicate 149 (id :: world \<Rightarrow> world)"
    using replicate_Suc [of 149 "id :: world \<Rightarrow> world"] by simp
  ultimately show ?thesis using \<open>healthy (env w)\<close> by (intro exI [of _ w]) simp
qed

end
