(* ===== verification/System.thy ===== *)
theory System
  imports HttpProofs Workers
begin

text \<open>
  The whole process: requests over HTTP and the deliveries of the three workers, in any order and
  in any environment, and the seed command beside it. The interface \<open>served\<close> is a relation on
  states that every service respects; its lemmas carry it through handlers, middleware, routes and
  workers. It is interpreted twice: the books see nothing but steps of the abstract machine with
  amounts the validator has accepted, and the list of administrators does not change.
\<close>

section \<open>Accepted amounts\<close>

text \<open>The amounts the validator accepts.\<close>

definition accepted :: "'d web \<Rightarrow> 'd \<Rightarrow> bool" where
  "accepted W a \<longleftrightarrow> 0 < Float64_sign W a"

lemma bound_amounts:
  "ShouldBindJSON W decode (check_TopUpRequest W) r = Inr tr \<Longrightarrow> accepted W (TopUpRequest_Amount tr)"
  "ShouldBindJSON W decode' (check_TransferRequest W) r = Inr xr \<Longrightarrow> accepted W (TransferRequest_Amount xr)"
  by (auto simp: ShouldBindJSON_def validated_def check_TopUpRequest_def check_TransferRequest_def check_amount_def
      check_field_def accepted_def split: option.splits list.splits if_splits)

definition handler_keeps :: "(world \<Rightarrow> world \<Rightarrow> bool) \<Rightarrow> handler \<Rightarrow> bool" where
  "handler_keeps R h \<longleftrightarrow> (\<forall>c. steps R (h c))"

lemma handler_keepsI: "(\<And>c. steps R (h c)) \<Longrightarrow> handler_keeps R h"
  by (simp add: handler_keeps_def)

lemma handler_keepsD: "handler_keeps R h \<Longrightarrow> steps R (h c)"
  by (simp add: handler_keeps_def)

lemma find_route_keeps:
  "(\<And>rt. rt \<in> set rs \<Longrightarrow> handler_keeps R (route_Handler rt)) \<Longrightarrow> find_route rs r = Some (h, params) \<Longrightarrow>
     handler_keeps R h"
  by (induction rs) (auto split: option.splits)

lemmas handler_defs = TransactionHandler_GetTransactions_def TransactionHandler_GetTransactionDetail_def
  TransactionHandler_GetTransactionsAdmin_def TransactionHandler_GetTransactionDetailAdmin_def
  AuthHandler_Register_def AuthHandler_Login_def AuthHandler_Logout_def AuthHandler_GetUsersAdmin_def
  WalletHandler_GetMyWallet_def LedgerHandler_GetLedgerEntries_def AuditHandler_GetAuditLogs_def
  AuditHandler_GetAuditLogsAdmin_def NotificationHandler_GetNotifications_def
  NotificationHandler_MarkAsRead_def NotificationHandler_ClearAll_def stream_handler_def

section \<open>What every service respects, the process respects\<close>

locale served = step_order R for R :: "world \<Rightarrow> world \<Rightarrow> bool" +
  fixes L :: "'d lib" and W :: "'d web"
  assumes R_same: "committed w' = committed w \<Longrightarrow> work w' = work w \<Longrightarrow> R w w'"
    and R_serves: "serves L (accepted W) w w' \<Longrightarrow> R w w'"
begin

lemma keep_serves: "(\<And>w r w'. m w = (r, w') \<Longrightarrow> serves L (accepted W) w w') \<Longrightarrow> steps R m"
  unfolding steps_def by (metis R_serves prod.collapse)

lemma keep_same: "(\<And>w. committed (snd (m w)) = committed w \<and> work (snd (m w)) = work w) \<Longrightarrow> steps R m"
  by (simp add: steps_def R_same)

lemma keep_redis:
  "steps R (redis_Get k)" "steps R (redis_Set k x ttl)" "steps R (rateLimitScript k ttl)"
  "steps R (go_audit a)" "steps R (ParseToken L tok secret)"
  by (rule keep_same, simp add: redis_Get_def redis_Set_def rateLimitScript_def redis_write_def redis_put_def
      go_audit_def ParseToken_def bindE_def time_Now_def throwE_def returnE_def
      split: option.splits fault.splits redis_value.splits prod.splits)+

lemmas keep_intros = steps_intros keep_redis

text \<open>Handlers.\<close>

lemma keep_answer: "steps R m \<Longrightarrow> steps R (answer W table success m)"
  unfolding answer_def by (intro keep_intros)

lemma keep_with_user: "(\<And>u. steps R (f u)) \<Longrightarrow> steps R (with_user c f)"
  unfolding with_user_def by (intro keep_intros)

lemma keep_with_uuid: "(\<And>u. steps R (f u)) \<Longrightarrow> steps R (with_uuid L t m f)"
  unfolding with_uuid_def by (intro keep_intros)

lemma keep_with_bound:
  "(\<And>x. b = Inr x \<Longrightarrow> steps R (f x)) \<Longrightarrow> steps R (with_bound b f)"
  unfolding with_bound_def by (cases b) (auto intro: keep_intros)

lemma keep_services:
  "steps R (Register L rr)" "steps R (Login L cfg lr)"
    "accepted W (TopUpRequest_Amount tr) \<Longrightarrow> steps R (TopUp L uid tr)"
    "accepted W (TransferRequest_Amount xr) \<Longrightarrow> steps R (Transfer L uid xr)"
    "steps R (CreateLog al)" "steps R (CreateAndPushNotification L uid title msg)"
    "steps R (MarkAsRead nid uid)" "steps R (ClearAll uid)"
    "steps R (GetTransactions L uid ty p)" "steps R (GetTransactionDetail L uid t)"
    "steps R (GetAllTransactions L ty st p)" "steps R (GetTransactionDetailAdmin L t)"
    "steps R (GetWalletByUserID L uid)" "steps R (GetLedgerEntries L uid ty p)"
    "steps R (GetLogs uid p)" "steps R (GetAllLogs ou oa p)"
    "steps R (GetNotifications uid p)" "steps R (GetAllUsers L p)"
  by (rule keep_serves, erule serves.intros, assumption?)+

lemma keep_handlers:
  "handler_keeps R (TransactionHandler_GetTransactions L W)"
    "handler_keeps R (TransactionHandler_GetTransactionDetail L W)"
    "handler_keeps R (TransactionHandler_GetTransactionsAdmin L W)"
    "handler_keeps R (TransactionHandler_GetTransactionDetailAdmin L W)"
    "handler_keeps R (AuthHandler_Register L W)" "handler_keeps R (AuthHandler_Login L W cfg n b)"
    "handler_keeps R (AuthHandler_Logout b)" "handler_keeps R (AuthHandler_GetUsersAdmin L W)"
    "handler_keeps R (WalletHandler_GetMyWallet L W)" "handler_keeps R (LedgerHandler_GetLedgerEntries L W)"
    "handler_keeps R (AuditHandler_GetAuditLogs L W)" "handler_keeps R (AuditHandler_GetAuditLogsAdmin L W)"
    "handler_keeps R (NotificationHandler_GetNotifications L W)"
    "handler_keeps R (NotificationHandler_MarkAsRead L W)" "handler_keeps R (NotificationHandler_ClearAll W)"
    "handler_keeps R (stream_handler L)"
  unfolding handler_keeps_def handler_defs Let_def
  by (intro allI keep_with_user keep_with_bound keep_with_uuid keep_answer keep_services keep_intros)+

lemma keep_money_handlers:
  "handler_keeps R (TransactionHandler_TopUp L W)"
    "handler_keeps R (TransactionHandler_Transfer L W)"
  unfolding handler_keeps_def TransactionHandler_TopUp_def TransactionHandler_Transfer_def
  by (intro allI keep_with_user keep_with_bound keep_answer keep_services bound_amounts; assumption)+

text \<open>Middleware.\<close>

lemma keep_cache_response: "steps R (cache_response key r)"
  unfolding cache_response_def by (intro keep_intros)

lemma keep_middleware:
  assumes "handler_keeps R h"
  shows "handler_keeps R (CORS h)" "handler_keeps R (Recovery h)" "handler_keeps R (RateLimit n ttl h)"
    "handler_keeps R (JWTAuth L secret h)" "handler_keeps R (RoleGuard rs h)"
    "handler_keeps R (AuditLog_middleware h)" "handler_keeps R (Idempotency h)"
proof -
  note h = handler_keepsD [OF assms]
  show "handler_keeps R (CORS h)" "handler_keeps R (Recovery h)" "handler_keeps R (RateLimit n ttl h)"
      "handler_keeps R (JWTAuth L secret h)" "handler_keeps R (RoleGuard rs h)"
      "handler_keeps R (AuditLog_middleware h)"
    unfolding handler_keeps_def CORS_def Recovery_def RateLimit_def JWTAuth_def RoleGuard_def AuditLog_middleware_def Let_def
    by (intro allI keep_intros h)+
  have cached: "steps R (case x of RCached res \<Rightarrow> returnE (cached_response res) | RCounter i \<Rightarrow> m)"
    if "steps R m" for x m
    using that by (cases x) (auto intro: keep_intros)
  show "handler_keeps R (Idempotency h)"
    unfolding handler_keeps_def Idempotency_def Let_def
    by (intro allI keep_intros h cached keep_cache_response)
qed

text \<open>Routes.\<close>

lemma routes_keep:
  assumes "rt \<in> set (routes L W S)"
  shows "handler_keeps R (route_Handler rt)"
  using assms
  by (auto simp: routes_def public_routes_def protected_routes_def user_routes_def idempotent_routes_def
      admin_routes_def in_group_def intro!: keep_middleware keep_handlers keep_money_handlers)

lemma keep_serve_http: "steps R (serve_http L W S r)"
proof -
  have "handler_keeps R (dispatch L W S)"
    unfolding handler_keeps_def dispatch_def
    using find_route_keeps [OF routes_keep, THEN handler_keepsD]
    by (auto split: option.splits intro: keep_intros)
  then show ?thesis
    unfolding serve_http_def by (auto intro!: handler_keepsD keep_middleware)
qed

text \<open>Workers.\<close>

lemma keep_deliveries:
  "steps R (AuditWorker_delivery L m)"
    "steps R (NotificationWorker_delivery L m)"
    "steps R (AnalyticsWorker_delivery m)"
proof -
  have find: "steps R (walletRepo_FindByID L i)" for i
    by (rule keep_same) (simp add: wallet_by_id.find_state)
  have notify: "steps R (notify L f u t m)" for f u t m
    unfolding notify_def by (intro keep_intros keep_services)
  have transfer: "steps R (notify_transfer L u d)" for u d
    unfolding notify_transfer_def by (intro keep_intros keep_services find)
  have event: "steps R (notify_event L u e)" for u e
    unfolding notify_event_def Let_def by (intro keep_intros notify transfer)
  show "steps R (AuditWorker_delivery L m)"
    "steps R (NotificationWorker_delivery L m)"
    "steps R (AnalyticsWorker_delivery m)"
    unfolding AuditWorker_delivery_def NotificationWorker_delivery_def AnalyticsWorker_delivery_def
      consume_delivery_def AuditWorker_processMessage_def NotificationWorker_processMessage_def
    by (intro keep_intros keep_services event)+
qed

end

section \<open>The system\<close>

inductive system_step :: "'d lib \<Rightarrow> 'd web \<Rightarrow> Config \<Rightarrow> world \<Rightarrow> world \<Rightarrow> bool" for L W S where
  system_http: "serve_http L W S r w = (res, w') \<Longrightarrow> system_step L W S w w'"
| system_audit: "AuditWorker_delivery L m w = (st, w') \<Longrightarrow> system_step L W S w w'"
| system_notification: "NotificationWorker_delivery L m w = (st, w') \<Longrightarrow> system_step L W S w w'"
| system_analytics: "AnalyticsWorker_delivery m w = (st, w') \<Longrightarrow> system_step L W S w w'"

text \<open>The server, and the seed command on the same database.\<close>

inductive process_step :: "'d lib \<Rightarrow> 'd web \<Rightarrow> Config \<Rightarrow> world \<Rightarrow> world \<Rightarrow> bool" for L W S where
  process_server: "system_step L W S w w' \<Longrightarrow> process_step L W S w w'"
| process_seed: "seed_main L email password w = (res, w') \<Longrightarrow> process_step L W S w w'"

context served
begin

lemma system_step_keeps: "system_step L W S w w' \<Longrightarrow> R w w'"
proof (induction rule: system_step.induct)
  case system_http
  then show ?case by (rule stepsD [OF keep_serve_http])
qed (erule stepsD [OF keep_deliveries(1)] stepsD [OF keep_deliveries(2)] stepsD [OF keep_deliveries(3)])+

lemma system_run_keeps: "(system_step L W S)\<^sup>*\<^sup>* w w' \<Longrightarrow> R w w'"
proof (induction rule: rtranclp_induct)
  case base
  show ?case by (rule R_refl)
next
  case (step w1 w2)
  show ?case by (rule R_trans [OF step.IH system_step_keeps [OF step.hyps(2)]])
qed

end

section \<open>The books\<close>

definition books_keep :: "'d lib \<Rightarrow> ('d \<Rightarrow> rat) \<Rightarrow> 'd web \<Rightarrow> world \<Rightarrow> world \<Rightarrow> bool" where
  "books_keep L v W w w' \<longleftrightarrow> (decimal_laws L v \<and> world_ok w \<longrightarrow>
     world_ok w' \<and> (change v (accepted W))\<^sup>*\<^sup>* (committed w) (committed w'))"

lemma world_ok_db: "world_ok w \<Longrightarrow> db_ok (committed w)"
  by (simp add: world_ok_def)

lemma books_keepI:
  assumes "world_keeps w w'"
    and "decimal_laws L v \<Longrightarrow> db_ok (committed w) \<Longrightarrow> change v (accepted W) (committed w) (committed w')"
  shows "books_keep L v W w w'"
  using assms world_ok_db [of w] unfolding books_keep_def world_keeps_def by (metis r_into_rtranclp)

interpretation keep_books: served "books_keep L v W" L W for L :: "'d lib" and v W
proof
  fix w w' assume "serves L (accepted W) w w'"
  then show "books_keep L v W w w'"
    by (intro books_keepI serves_keeps serves_change)
qed (auto simp: books_keep_def world_ok_def)

lemma process_step_books: "process_step L W S w w' \<Longrightarrow> books_keep L v W w w'"
proof (induction rule: process_step.induct)
  case process_server
  then show ?case by (rule keep_books.system_step_keeps)
next
  case (process_seed email password w res w')
  then show ?case
    by (intro books_keepI seed_change stepsD [OF ok_seed_main process_seed])
qed

lemma process_run_books: "(process_step L W S)\<^sup>*\<^sup>* w w' \<Longrightarrow> books_keep L v W w w'"
proof (induction rule: rtranclp_induct)
  case base
  show ?case by (rule keep_books.R_refl)
next
  case (step w1 w2)
  show ?case by (rule keep_books.R_trans [OF step.IH process_step_books [OF step.hyps(2)]])
qed

lemma changes_induct:
  assumes "(change v P)\<^sup>*\<^sup>* d d'" and "I d" and "\<And>d d'. change v P d d' \<Longrightarrow> I d \<Longrightarrow> I d'"
  shows "I d'"
  using assms(1) by (induction rule: rtranclp_induct) (use assms(2,3) in blast)+

section \<open>The administrators\<close>

definition admins :: "db \<Rightarrow> user_row list" where
  "admins d = filter (\<lambda>u. ur_role u = UserRoleAdmin) (users d)"

lemma serves_admins:
  assumes "serves L P w w'" and "decimal_laws L v" and "db_ok (committed w)"
  shows "admins (committed w') = admins (committed w)"
proof -
  have off: "off_books x y \<Longrightarrow> admins (committed y) = admins (committed x)" for x y
    by (simp add: off_books_def admins_def)
  show ?thesis
    using assms
  proof (induction rule: serves.induct)
    case serve_Register
    from this(1,2) show ?case
      by (cases rule: Register_cases) (auto simp: admins_def register_effect_def user_entry_def model_constants)
  next
    case serve_TopUp
    from this(1,3,4) show ?case by (cases rule: TopUp_cases) (auto simp: admins_def effect_defs)
  next
    case serve_Transfer
    from this(1,3,4) show ?case by (cases rule: Transfer_cases) (auto simp: admins_def effect_defs)
  qed (rule off, (rule off_services [THEN stepsD] off_quiet, (assumption | rule quiet_services [THEN stepsD], assumption))+)+
qed

definition admins_keep :: "'d lib \<Rightarrow> ('d \<Rightarrow> rat) \<Rightarrow> world \<Rightarrow> world \<Rightarrow> bool" where
  "admins_keep L v w w' \<longleftrightarrow> (decimal_laws L v \<and> world_ok w \<longrightarrow>
     world_ok w' \<and> admins (committed w') = admins (committed w))"

interpretation keep_admins: served "admins_keep L v" L W for L :: "'d lib" and v W
proof
  fix w w' assume "serves L (accepted W) w w'"
  then show "admins_keep L v w w'"
    using serves_keeps serves_admins by (auto simp: admins_keep_def world_keeps_def world_ok_def)
qed (auto simp: admins_keep_def world_ok_def)

section \<open>The history\<close>

definition history_keep :: "'d lib \<Rightarrow> ('d \<Rightarrow> rat) \<Rightarrow> world \<Rightarrow> world \<Rightarrow> bool" where
  "history_keep L v w w' \<longleftrightarrow> (decimal_laws L v \<and> world_ok w \<longrightarrow> world_ok w' \<and> world_grows w w')"

lemma history_keepI:
  "world_keeps w w' \<Longrightarrow> (decimal_laws L v \<Longrightarrow> db_ok (committed w) \<Longrightarrow> world_grows w w') \<Longrightarrow> history_keep L v w w'"
  using world_ok_db [of w] by (auto simp: history_keep_def world_keeps_def)

interpretation keep_history: served "history_keep L v" L W for L :: "'d lib" and v W
proof
  fix w w' assume "serves L (accepted W) w w'"
  then show "history_keep L v w w'"
    by (intro history_keepI serves_keeps serves_grows)
qed (auto simp: history_keep_def world_ok_def world_grows_def intro: grows_trans)

lemma seed_grows:
  assumes "seed_main L email password w = (res, w')" and "decimal_laws L v"
  shows "world_grows w w'"
  using assms
  by (cases rule: seed_cases) (auto simp: same_accounts_def account_inserted_def world_grows_def intro: grows_effects)

lemma process_run_grows: "(process_step L W S)\<^sup>*\<^sup>* w w' \<Longrightarrow> history_keep L v w w'"
proof (induction rule: rtranclp_induct)
  case base
  show ?case by (rule keep_history.R_refl)
next
  case (step w1 w2)
  have "history_keep L v w1 w2"
    using step.hyps(2)
  proof (cases rule: process_step.cases)
    case process_server
    then show ?thesis by (rule keep_history.system_step_keeps)
  next
    case process_seed
    then show ?thesis by (intro history_keepI stepsD [OF ok_seed_main process_seed] seed_grows)
  qed
  then show ?case by (rule keep_history.R_trans [OF step.IH])
qed

end
