(* ===== verification/SystemProperties.thy ===== *)
theory SystemProperties
  imports System BooksProperties HttpProperties
begin

text \<open>The property of the whole process, and a run of it.\<close>

definition register_request :: http_request where
  "register_request = \<lparr>Request_Method = ''POST'', Request_Path = ''/api/v1/auth/register'',
     Request_ClientIP = ''10.0.0.1'', Request_Header = (\<lambda>_. []), Request_Cookie = (\<lambda>_. None), Request_Query = [],
     Request_Body = Some (JObj [(''email'', JStr ''a@b''), (''password'', JStr ''password''),
       (''confirm_password'', JStr ''password'')])\<rparr>"

definition register_data :: RegisterRequest where
  "register_data = \<lparr>RegisterRequest_Email = ''a@b'', RegisterRequest_Password = ''password'',
     RegisterRequest_ConfirmPassword = ''password''\<rparr>"

lemma register_bound:
  "ShouldBindJSON sample_web decode_RegisterRequest (check_RegisterRequest sample_web) register_request = Inr register_data"
proof -
  have "decode_RegisterRequest (Request_Body register_request) = Some register_data"
    by (simp add: decode_RegisterRequest_def json_Unmarshal_def register_request_def same_key_def lower_def Let_def
        string_field_def register_data_def)
  moreover have "check_RegisterRequest sample_web register_data = []"
    by (simp add: check_RegisterRequest_def check_field_def register_data_def sample_web_def characters_def)
  ultimately show ?thesis by (simp add: ShouldBindJSON_Inr)
qed

lemma register_dispatch:
  "dispatch sample_lib sample_web sample_settings
     \<lparr>ctx_Request = register_request, ctx_Param = [], ctx_userID = None, ctx_email = None, ctx_role = None\<rparr> =
   answer sample_web [(ErrEmailConflict, 409)]
     (\<lambda>res. WriteSuccess 201 ''User registered successfully'' (Some (RegisterResponse_json sample_lib res)))
     (Register sample_lib register_data)"
proof -
  have "find_route (routes sample_lib sample_web sample_settings) register_request =
      Some (AuthHandler_Register sample_lib sample_web, [])"
    by (simp add: routes_def public_routes_def match_route_def register_request_def)
  then show ?thesis
    by (simp add: dispatch_def AuthHandler_Register_def with_bound_def register_bound)
qed

lemma register_fields: "Request_Method register_request = ''POST''" "Request_ClientIP register_request = ''10.0.0.1''"
  by (simp_all add: register_request_def)

lemma register_over_http:
  "\<exists>resp w'. serve_http sample_lib sample_web sample_settings register_request start_world = (Inr resp, w') \<and>
     Response_Status resp = 201 \<and> users (committed w') \<noteq> []"
proof -
  let ?w = "redis_put ''ratelimit:10.0.0.1'' (RCounter 1) (Some (clock sample_env 0 + 60000000)) (next_tick start_world)"
  have script: "rateLimitScript ''ratelimit:10.0.0.1'' 60000000 start_world = (Inr 1, ?w)"
    by (simp add: rateLimitScript_def redis_live_def redis_write_def start_world_def sample_env_def)
  have w: "env ?w = sample_env" "committed ?w = empty_db"
    by (simp_all add: redis_put_def start_world_simps)
  have "\<exists>res w'. Register sample_lib register_data ?w = (Inr res, w') \<and> env w' = env ?w"
  proof (rule Register_run [OF _ sample_decimal_laws])
    show "\<exists>h. Bcrypt_Generate sample_lib salt (RegisterRequest_Password register_data) = Some h \<and> varchar 255 h" for salt
      by (simp add: sample_lib_def register_data_def short)
  qed (simp_all add: w sample_healthy empty_db_def user_with_email_def short register_keys_fresh_def register_data_def)
  then obtain res w' where run: "Register sample_lib register_data ?w = (Inr res, w')" by blast
  then have "users (committed w') \<noteq> []"
    using sample_decimal_laws by (cases rule: Register_cases) (auto simp: register_effect_def)
  moreover have "\<exists>resp. serve_http sample_lib sample_web sample_settings register_request start_world = (Inr resp, w') \<and>
      Response_Status resp = 201"
    using script run
    by (simp add: serve_http_def CORS_def Recovery_def RateLimit_def bindE_def tryE_def returnE_def
        register_dispatch answer_def with_headers_def register_fields)
  ultimately show ?thesis by blast
qed

text \<open>
  C25. The whole process. Whatever requests arrive over HTTP, whatever messages reach the workers,
  whenever the seed command runs, in whatever order and environment, starting from an empty
  database: the data are well formed, the ledger is double entry, no balance is below its credits
  less its debits, and the books have changed only by steps of the abstract machine with amounts
  the validator accepts.
\<close>

theorem system_keeps_books:
  assumes "decimal_laws L v" and "committed w0 = empty_db" and "work w0 = None"
    and "(process_step L W S)\<^sup>*\<^sup>* w0 w"
  shows "db_ok (committed w) \<and> books_inv (committed w) \<and>
    (change v (accepted W))\<^sup>*\<^sup>* empty_db (committed w)"
proof -
  have "world_ok w0"
    using assms(2,3) by (simp add: world_ok_def db_ok_defs empty_db_def)
  then have w: "world_ok w" "(change v (accepted W))\<^sup>*\<^sup>* empty_db (committed w)"
    using process_run_books [OF assms(4), of v] assms(1,2) by (simp_all add: books_keep_def)
  have "books_inv (committed w)"
    using w(2) books_inv_empty books_inv_change by (rule changes_induct)
  then show ?thesis using w by (simp add: world_ok_def)
qed

theorem system_keeps_books_witness:
  "\<exists>w :: world. users (committed w) \<noteq> [] \<and> books_inv (committed w)"
proof -
  obtain resp w where run: "serve_http sample_lib sample_web sample_settings register_request start_world = (Inr resp, w)"
    "users (committed w) \<noteq> []"
    using register_over_http by blast
  have "(process_step sample_lib sample_web sample_settings)\<^sup>*\<^sup>* start_world w"
    by (rule r_into_rtranclp) (rule process_server [OF system_http [OF run(1)]])
  then show ?thesis
    using system_keeps_books [OF sample_decimal_laws start_world_simps(1,2)] run(2) by blast
qed

text \<open>
  C29. No request over HTTP and no message makes an administrator, removes one or changes one:
  whatever the server does, the rows of users with the role ADMIN stay as they are. Only the seed
  command inserts them.
\<close>

theorem server_makes_no_admins:
  assumes "decimal_laws L v" and "db_ok (committed w)" and "work w = None"
    and "(system_step L W S)\<^sup>*\<^sup>* w w'"
  shows "filter (\<lambda>u. ur_role u = UserRoleAdmin) (users (committed w')) =
    filter (\<lambda>u. ur_role u = UserRoleAdmin) (users (committed w))"
  using keep_admins.system_run_keeps [OF assms(4), of v] assms(1-3)
  by (simp add: admins_keep_def admins_def world_ok_def)

theorem server_makes_no_admins_witness:
  "\<exists>w :: world. users (committed w) \<noteq> [] \<and> filter (\<lambda>u. ur_role u = UserRoleAdmin) (users (committed w)) = []"
proof -
  obtain resp w where run: "serve_http sample_lib sample_web sample_settings register_request start_world = (Inr resp, w)"
    "users (committed w) \<noteq> []"
    using register_over_http by blast
  have "(system_step sample_lib sample_web sample_settings)\<^sup>*\<^sup>* start_world w"
    by (rule r_into_rtranclp) (rule system_http [OF run(1)])
  moreover have "db_ok (committed start_world)"
    by (simp add: start_world_simps db_ok_defs empty_db_def)
  ultimately show ?thesis
    using server_makes_no_admins [OF sample_decimal_laws _ start_world_simps(2)] run(2)
    by (metis (no_types, lifting) start_world_simps(1) empty_db_def db.select_convs(1) filter.simps(1))
qed

end
