(* ===== verification/SeedProperties.thy ===== *)
theory SeedProperties
  imports SystemProperties
begin

text \<open>
  The seed command: the administrator it inserts can log in and passes the guard of the
  administrator's routes, and running it again changes nothing.
\<close>

section \<open>Running the command\<close>

lemma seed_taken:
  assumes "healthy (env w)" and "user_with_email (committed w) email = Some r"
  shows "seed_main L email password w = (Inr None, next_tick w)"
  using user_by_email.find_run [OF healthy_fault [OF assms(1)], of email] assms(2)
  by (simp add: seed_main_def bindE_def wrapE_def returnE_def)

lemma seed_run:
  assumes env: "healthy (env w)" and laws: "decimal_laws L v"
    and new: "user_with_email (committed w) email = None"
    and hash: "\<And>salt. \<exists>h. Bcrypt_Generate L salt password = Some h \<and> varchar 255 h"
    and len: "varchar 255 email" and fresh: "register_keys_fresh w"
  shows "\<exists>x w'. seed_main L email password w = (Inr (Some x), w') \<and> env w' = env w"
proof -
  let ?w = "next_tick (next_tick w)"
  let ?u = "(next_tick ?w)\<lparr>work := Some (committed ?w, clock (env ?w) (tick ?w))\<rparr>"
  have find: "wrapE (Wrap ''Failed to query existing user'') (userRepo_FindByEmail email) w = (Inr None, next_tick w)"
    using user_by_email.find_run [OF healthy_fault [OF env], of email] new by (simp add: wrapE_def)
  obtain salt where "rand (env w) (Suc (tick w)) = Some salt"
    using env unfolding healthy_def by blast
  moreover obtain h where h: "Bcrypt_Generate L salt password = Some h" "varchar 255 h" using hash by blast
  ultimately have hashed: "wrapE (Wrap ''Failed to hash password'') (HashPassword L password) (next_tick w) = (Inr h, ?w)"
    by (simp add: wrapE_def HashPassword_def)
  have absent: "email \<notin> ur_email ` set (users (committed w))"
    using new by (auto simp: user_with_email_def find_None_iff)
  have "\<exists>x d'. account_statements L UserRoleAdmin email h ?u
      = (Inr x, ?u\<lparr>tick := tick ?u + 12, work := Some (d', clock (env ?w) (tick ?w))\<rparr>)"
    using env absent fresh unfolding register_keys_fresh_def
    by (intro account_statements_run [OF _ _ laws len h(2)], simp_all add: numeral_eq_Suc) blast+
  then obtain x d' where st: "seed_statements L email h ?u
      = (Inr x, ?u\<lparr>tick := tick ?u + 12, work := Some (d', clock (env ?w) (tick ?w))\<rparr>)"
    unfolding seed_statements_Inr by blast
  have ret: "returnE (Some x) s = (Inr (Some x), s\<lparr>spawned := spawned s @ []\<rparr>)" for x :: "User \<times> string" and s
    by (simp add: returnE_def)
  have tx: "seed_main L email password w = bindE (wrapE (Wrap ''Failed to begin transaction'') tx_Begin) (\<lambda>_.
     deferE tx_Rollback (bindE (seed_statements L email h) (\<lambda>x.
     bindE (wrapE (Wrap ''Failed to commit transaction'') tx_Commit) (\<lambda>_. returnE (Some x))))) ?w"
    by (simp add: seed_main_def bindE_run [where m = "wrapE (Wrap ''Failed to query existing user'') (userRepo_FindByEmail email)", OF find]
        bindE_run [where m = "wrapE (Wrap ''Failed to hash password'') (HashPassword L password)", OF hashed])
  show ?thesis
    unfolding tx using transaction_run [where w = ?w and x = x and body = "seed_statements L email h",
        OF _ st _ _ ret] env
    by fastforce
qed

section \<open>From the seed to the administrator's routes\<close>

text \<open>
  C30. Whoever knows the seeded password administers: once the command has inserted its user (over a
  connection pool that it has closed), and
  after anything the server does, login with the address and the password returns the role ADMIN,
  and until one second before the token expires, the token leads through authentication and the
  guard of the administrator's routes to the handler, with that user in its context. Running the
  command again changes nothing.
\<close>

theorem seed_then_administer:
  fixes w1 w2 :: world
  assumes "decimal_laws L v" and "bcrypt_laws L" and "jwt_laws L" and "world_ok w"
    and "seed_command L V email password (b, w) = (Inr (Some (user, wallet)), (b1, w1))"
    and "(process_step L W S)\<^sup>*\<^sup>* w1 w2" and "healthy (env w2)"
  shows "trace b1 = trace b @ [Opened DatabasePool, Closed DatabasePool] \<and>
    seed_main L email password w2 = (Inr None, next_tick w2) \<and>
    (\<exists>r token w3. Login L cfg \<lparr>LoginRequest_Email = email, LoginRequest_Password = password\<rparr> w2 = (Inr (r, token), w3) \<and>
       LoginResponse_Role r = ''ADMIN'' \<and>
       (\<forall>w4 c next. Request_Cookie (ctx_Request c) ''accessToken'' = Some token \<and>
          clock (env w4) (tick w4) \<le> clock (env w2) (Suc (tick w2)) + duration_time (Config_JWTExpiration cfg) - 1000000 \<longrightarrow>
          JWTAuth L (Config_JWTSecret cfg) (RoleGuard [''ADMIN''] next) c w4 =
            next (c\<lparr>ctx_userID := Some (User_ID user), ctx_email := Some email, ctx_role := Some ''ADMIN''\<rparr>) (next_tick w4)))"
proof -
  note run = seed_command_Inr [OF assms(5), THEN conjunct1]
  obtain hash now where
    e: "register_effect UserRoleAdmin email hash (User_ID user) wallet now (committed w) (committed w1)"
    and hash: "hash_of L password hash"
    using run assms(1) by (cases rule: seed_cases) (auto simp: user_entry_def account_inserted_def)
  let ?r = "user_entry (User_ID user) email hash UserRoleAdmin now"
  have "world_ok w1" using stepsD [OF ok_seed_main run] assms(4) by (simp add: world_keeps_def)
  then have row: "user_with_email (committed w2) email = Some ?r"
    using process_run_grows [OF assms(6), of v] assms(1) register_effect_user [OF e] user_with_email_grows
    by (auto simp: history_keep_def world_grows_def)
  have "Bcrypt_Compare L hash password"
    using hash assms(2) by (auto simp: hash_of_def bcrypt_laws_def)
  then have "credentials L (committed w2) \<lparr>LoginRequest_Email = email, LoginRequest_Password = password\<rparr> = Some ?r"
    using row by (simp add: credentials_def user_entry_def)
  from Login_Inr [OF assms(7,3) this, of cfg] obtain token w3 where
    login: "Login L cfg \<lparr>LoginRequest_Email = email, LoginRequest_Password = password\<rparr> w2 =
      (Inr (login_response ?r, token), w3)" and
    tok: "Jwt_SignedString L (login_claims L cfg ?r (clock (env w2) (Suc (tick w2)))
      (clock (env w2) (Suc (Suc (tick w2))))) (Config_JWTSecret cfg) = Some token"
    by blast
  have "JWTAuth L (Config_JWTSecret cfg) (RoleGuard [''ADMIN''] next) c w4 =
      next (c\<lparr>ctx_userID := Some (User_ID user), ctx_email := Some email, ctx_role := Some ''ADMIN''\<rparr>) (next_tick w4)"
    if "Request_Cookie (ctx_Request c) ''accessToken'' = Some token"
      and "clock (env w4) (tick w4) \<le> clock (env w2) (Suc (tick w2)) + duration_time (Config_JWTExpiration cfg) - 1000000"
    for w4 c "next"
    using ParseToken_run [OF assms(3) tok that(2)] that(1)
    by (simp add: JWTAuth_def tryE_def RoleGuard_def login_claims_def user_entry_def model_constants)
  moreover have "LoginResponse_Role (login_response ?r) = ''ADMIN''"
    by (simp add: login_response_def user_entry_def model_constants)
  ultimately show ?thesis using login seed_taken [OF assms(7) row] seed_command_Inr [OF assms(5)] by blast
qed

theorem seed_then_administer_witness:
  "\<exists>user wallet r token (b1 :: boot) (w1 :: world) w3.
    seed_command sample_lib sample_viper emailFlag passwordFlag (sample_boot, start_world) = (Inr (Some (user, wallet)), (b1, w1)) \<and>
    Login sample_lib sample_config \<lparr>LoginRequest_Email = emailFlag, LoginRequest_Password = passwordFlag\<rparr> w1 = (Inr (r, token), w3) \<and>
    LoginResponse_Role r = ''ADMIN''"
proof -
  have "\<exists>x w1. seed_main sample_lib emailFlag passwordFlag start_world = (Inr (Some x), w1) \<and> env w1 = env start_world"
  proof (rule seed_run [OF _ sample_decimal_laws])
    show "\<exists>h. Bcrypt_Generate sample_lib salt passwordFlag = Some h \<and> varchar 255 h" for salt
      by (simp add: sample_lib_def passwordFlag_def short)
  qed (simp_all add: start_world_simps sample_healthy empty_db_def user_with_email_def short register_keys_fresh_def emailFlag_def)
  then obtain user wallet w1 where seed: "seed_main sample_lib emailFlag passwordFlag start_world = (Inr (Some (user, wallet)), w1)"
    and env: "env w1 = env start_world" by force
  have "call_error sample_boot i = None" for i by (simp add: sample_boot_def)
  then obtain b1 where run: "seed_command sample_lib sample_viper emailFlag passwordFlag (sample_boot, start_world)
      = (Inr (Some (user, wallet)), (b1, w1))"
    using seed_command_run [OF _ _ seed] sample_Load by blast
  have "world_ok start_world" by (simp add: world_ok_def start_world_simps db_ok_defs empty_db_def)
  from seed_then_administer [where cfg = sample_config and W = sample_web and S = sample_settings,
      OF sample_decimal_laws sample_bcrypt_laws sample_jwt_laws this run rtranclp.rtrancl_refl]
  show ?thesis using run env by (auto simp: start_world_simps sample_healthy)
qed

end
