(* ===== verification/WorkerLoop.thy ===== *)
theory WorkerLoop
  imports Workers Steady
begin

text \<open>
  The loops of the three workers (\<open>Start\<close> and \<open>consumeLoop\<close>): connect, consume until the channel
  closes or the context is done, connect again. An event says what a \<open>select\<close> has received;
  \<open>Retry\<close> is the pause after a failed attempt, or the first attempt. A closed channel is closed on
  every way out of \<open>consumeLoop\<close>, so the phase alone says which channel is open.
\<close>

section \<open>The machine\<close>

datatype phase = Connecting | Consuming nat | Stopped

datatype loop_event = CtxDone | Retry | Delivered message | MsgsClosed

record loop =
  loop_phase :: phase
  loop_amqp :: SafeChannel
  loop_world :: world

definition Consume :: "string \<Rightarrow> unit amqp_op" where
  "Consume q = bindE (getS (\<lambda>s. queue s q)) (\<lambda>x.
     if x = None then throwE (Failed ''NOT_FOUND'') else request (\<lambda>s. s))"

definition settle_at :: "string \<Rightarrow> settlement \<Rightarrow> message \<Rightarrow> unit amqp_op" where
  "settle_at q st m = request (\<lambda>s. s\<lparr>queue := (queue s)(q := map_option (settle st m) (queue s q))\<rparr>)"

definition open_consumer :: "string \<Rightarrow> SafeChannel \<Rightarrow> phase \<times> SafeChannel" where
  "open_consumer q s =
     (case bindE NewChannel (\<lambda>ch. bindE (Consume q) (\<lambda>_. returnE ch)) s of
        (Inl e, s') \<Rightarrow> (Connecting, s')
      | (Inr ch, s') \<Rightarrow> (Consuming ch, s'))"

text \<open>The error of a settlement is dropped.\<close>

definition consume_message :: "string \<Rightarrow> (message \<Rightarrow> settlement go) \<Rightarrow> message \<Rightarrow> loop \<Rightarrow> loop" where
  "consume_message q delivery m st =
     (case delivery m (loop_world st) of
        (Inl e, w') \<Rightarrow> st\<lparr>loop_world := w'\<rparr>
      | (Inr r, w') \<Rightarrow> st\<lparr>loop_world := w', loop_amqp := snd (settle_at q r m (loop_amqp st))\<rparr>)"

definition loop_step :: "string \<Rightarrow> (message \<Rightarrow> settlement go) \<Rightarrow> loop_event \<Rightarrow> loop \<Rightarrow> loop" where
  "loop_step q delivery ev st =
     (case loop_phase st of
        Stopped \<Rightarrow> st
      | Connecting \<Rightarrow>
          (case ev of
             CtxDone \<Rightarrow> st\<lparr>loop_phase := Stopped\<rparr>
           | Retry \<Rightarrow> (case open_consumer q (loop_amqp st) of (ph, s) \<Rightarrow> st\<lparr>loop_phase := ph, loop_amqp := s\<rparr>)
           | _ \<Rightarrow> st)
      | Consuming ch \<Rightarrow>
          (case ev of
             CtxDone \<Rightarrow> st\<lparr>loop_phase := Stopped\<rparr>
           | MsgsClosed \<Rightarrow> st\<lparr>loop_phase := Connecting\<rparr>
           | Delivered m \<Rightarrow>
               if m \<in> set (contents (loop_amqp st) q) then consume_message q delivery m st else st
           | Retry \<Rightarrow> st))"

definition Start :: "string \<Rightarrow> (message \<Rightarrow> settlement go) \<Rightarrow> loop_event list \<Rightarrow> loop \<Rightarrow> loop" where
  "Start q delivery evs st = fold (loop_step q delivery) evs st"

definition AuditWorker_Start :: "'d lib \<Rightarrow> loop_event list \<Rightarrow> loop \<Rightarrow> loop" where
  "AuditWorker_Start L = Start ''audit_queue'' (AuditWorker_delivery L)"

definition NotificationWorker_Start :: "'d lib \<Rightarrow> loop_event list \<Rightarrow> loop \<Rightarrow> loop" where
  "NotificationWorker_Start L = Start ''notification_queue'' (NotificationWorker_delivery L)"

definition AnalyticsWorker_Start :: "loop_event list \<Rightarrow> loop \<Rightarrow> loop" where
  "AnalyticsWorker_Start = Start ''analytics_queue'' AnalyticsWorker_delivery"

section \<open>Connecting again\<close>

lemma same_contents_request_id: "contents (snd (request (\<lambda>s. s) s)) q = contents s q"
  "channel_ok (snd (request (\<lambda>s. s) s)) = channel_ok s" "amqp (snd (request (\<lambda>s. s) s)) = amqp s"
  by (simp_all add: request_def contents_def channel_ok_def bound_def split: fault.splits)

lemma NewChannel_keeps:
  assumes "NewChannel s = (r, s')" and "channel_ok s"
  shows "amqp s' = amqp s \<and> channel_ok s' \<and> (\<forall>q. contents s' q = contents s q) \<and> (\<forall>e. r = Inl e \<longrightarrow> \<not> panics e)"
proof -
  obtain x t where x: "ensureConnectedLocked s = (x, t)" by (cases "ensureConnectedLocked s")
  note con = ensureConnectedLocked_spec [OF x assms(2)]
  have handle: "amqp (snd (open_handle t)) = amqp t \<and> channel_ok (snd (open_handle t)) = channel_ok t \<and>
      (\<forall>q. contents (snd (open_handle t)) q = contents t q)"
    by (simp add: open_handle_def channel_ok_def bound_def contents_def split: fault.splits)
  show ?thesis
  proof (cases x)
    case (Inl e)
    then show ?thesis using assms(1) x con by (auto simp: NewChannel_def bindE_def connected_def)
  next
    case (Inr a)
    then obtain c where c: "conn_ptr t = Some c" using con by auto
    have "(r, s') = wrapE (Wrap ''failed to open new channel'') open_handle t"
      using assms(1) x Inr c by (simp add: NewChannel_def bindE_def getS_def)
    then have "s' = snd (open_handle t)" "\<And>e. r = Inl e \<Longrightarrow> \<not> panics e"
      by (auto simp: wrapE_def split: prod.splits sum.splits dest: basic_Inl(4))
    then show ?thesis using handle con by (auto simp: connected_def)
  qed
qed

lemma open_consumer_keeps:
  assumes "open_consumer q s = (ph, s')" and "channel_ok s"
  shows "amqp s' = amqp s \<and> channel_ok s' \<and> (\<forall>p. contents s' p = contents s p)"
proof -
  obtain r t where t: "NewChannel s = (r, t)" by (cases "NewChannel s")
  note keeps = NewChannel_keeps [OF t assms(2)]
  show ?thesis
  proof (cases r)
    case (Inl e)
    then show ?thesis using assms(1) t keeps by (auto simp: open_consumer_def bindE_def)
  next
    case (Inr ch)
    have "s' = t \<or> s' = snd (request (\<lambda>s. s) t)"
      using assms(1) t Inr
      by (auto simp: open_consumer_def bindE_def Consume_def getS_def throwE_def returnE_def
          split: prod.splits sum.splits if_splits)
    then show ?thesis using keeps same_contents_request_id by auto
  qed
qed

lemma steady_open_consumer:
  assumes "steady s" and "channel_ok s" and "q \<in> set queue_names"
  shows "\<exists>ch s'. open_consumer q s = (Consuming ch, s')"
proof -
  obtain t where t: "ensureConnectedLocked s = (Inr (), t)" "steady t"
    using steady_connects [OF assms(1)] by blast
  note con = ensureConnectedLocked_spec [OF t(1) assms(2)]
  then obtain c where c: "conn_ptr t = Some c" by auto
  have "queue t q \<noteq> None" using con assms(3) by (auto simp: connected_def channel_ok_def bound_def)
  then obtain x where "queue (next_amqp t) q = Some x" by (auto simp: next_amqp_def)
  then show ?thesis
    using t c by (simp add: open_consumer_def NewChannel_def bindE_def getS_def wrapE_def open_handle_def
        steady_def Consume_def request_def returnE_def)
qed

section \<open>The loop is a consumer of its queue\<close>

lemma settle_at_cases:
  assumes "m \<in> set (contents s q)"
  obtains (settled) "contents (snd (settle_at q st m s)) q = settle st m (contents s q)"
  | (refused) "contents (snd (settle_at q st m s)) q = contents s q"
  using assms
  by (cases "answers (amqp s) (amqp_tick s)"; cases "queue s q")
    (auto simp: settle_at_def request_def contents_def)

lemma settle_at_keeps:
  "amqp (snd (settle_at q st m s)) = amqp s" "channel_ok s \<Longrightarrow> channel_ok (snd (settle_at q st m s))"
  by (auto simp: settle_at_def request_def channel_ok_def bound_def split: fault.splits)

definition loop_view :: "string \<Rightarrow> loop \<Rightarrow> message list \<times> world" where
  "loop_view q st = (contents (loop_amqp st) q, loop_world st)"

lemma consume_message_simulates:
  assumes m: "m \<in> set (contents (loop_amqp st) q)" and ok: "channel_ok (loop_amqp st)"
  shows "channel_ok (loop_amqp (consume_message q delivery m st)) \<and>
    consumes delivery serve (loop_view q st) (loop_view q (consume_message q delivery m st))"
proof (cases "delivery m (loop_world st)")
  case (Pair x w')
  note lost = consume_lost [where delivery = delivery and m = m and serve = serve, OF m Pair]
  show ?thesis
  proof (cases x)
    case (Inl e)
    then show ?thesis using Pair ok lost
      by (simp add: consume_message_def loop_view_def)
  next
    case (Inr r)
    note step = consume_settled [where delivery = delivery and m = m and serve = serve, OF m Pair [unfolded Inr]]
    from m show ?thesis
    proof (cases rule: settle_at_cases [where st = r])
      case settled
      then show ?thesis using Pair Inr ok settle_at_keeps step
        by (simp add: consume_message_def loop_view_def)
    next
      case refused
      then show ?thesis using Pair Inr ok settle_at_keeps lost
        by (simp add: consume_message_def loop_view_def)
    qed
  qed
qed

lemma loop_step_simulates:
  assumes ok: "channel_ok (loop_amqp st)"
  shows "channel_ok (loop_amqp (loop_step q delivery ev st)) \<and>
    (consumes delivery serve)\<^sup>*\<^sup>* (loop_view q st) (loop_view q (loop_step q delivery ev st))"
proof -
  have still: "(consumes delivery serve)\<^sup>*\<^sup>* (loop_view q st) (loop_view q st')" if "loop_view q st' = loop_view q st" for st'
    using that by simp
  have message: ?thesis if "m \<in> set (contents (loop_amqp st) q)"
      "loop_step q delivery ev st = consume_message q delivery m st" for m
    using consume_message_simulates [OF that(1) ok] that(2) by (auto intro: r_into_rtranclp)
  show ?thesis
  proof (cases "loop_phase st")
    case Connecting
    obtain ph s where "open_consumer q (loop_amqp st) = (ph, s)" by (cases "open_consumer q (loop_amqp st)")
    then show ?thesis
      using Connecting ok open_consumer_keeps
      by (cases ev) (auto simp: loop_step_def loop_view_def intro!: still)
  next
    case (Consuming ch)
    then show ?thesis using message ok
      by (cases ev) (auto simp: loop_step_def loop_view_def intro!: still)
  next
    case Stopped
    then show ?thesis using ok by (simp add: loop_step_def)
  qed
qed

text \<open>
  The loop in its surroundings: somebody publishes through the shared channel, and the service
  takes steps.
\<close>

inductive worker_system :: "string \<Rightarrow> (message \<Rightarrow> settlement go) \<Rightarrow> (world \<Rightarrow> world \<Rightarrow> bool) \<Rightarrow> loop \<Rightarrow> loop \<Rightarrow> bool"
  for q delivery serve where
  worker_loops: "worker_system q delivery serve st (loop_step q delivery ev st)"
| worker_receives: "received (loop_amqp st) s k m \<Longrightarrow> worker_system q delivery serve st (st\<lparr>loop_amqp := s\<rparr>)"
| worker_serves: "serve (loop_world st) w \<Longrightarrow> worker_system q delivery serve st (st\<lparr>loop_world := w\<rparr>)"

lemma arrivals: "(consumes delivery serve)\<^sup>*\<^sup>* (ms, w) (ms @ replicate k m, w)"
proof (induction k)
  case (Suc k)
  have "consumes delivery serve (ms @ replicate k m, w) ((ms @ replicate k m) @ [m], w)"
    by (rule consume_arrives)
  moreover have "ms @ replicate (Suc k) m = (ms @ replicate k m) @ [m]"
    by (simp add: replicate_append_same)
  ultimately show ?case using Suc by (metis rtranclp.rtrancl_into_rtrancl)
qed simp

lemma worker_system_simulates:
  assumes "worker_system q delivery serve st st'" and "channel_ok (loop_amqp st)" and "q \<in> set queue_names"
  shows "channel_ok (loop_amqp st') \<and> (consumes delivery serve)\<^sup>*\<^sup>* (loop_view q st) (loop_view q st')"
  using assms
proof (induction rule: worker_system.induct)
  case (worker_loops st ev)
  then show ?case by (intro loop_step_simulates)
next
  case (worker_receives st s k m)
  then show ?case using arrivals by (simp add: received_def loop_view_def)
next
  case (worker_serves st w)
  then show ?case by (auto simp: loop_view_def intro!: consume_serves r_into_rtranclp)
qed

lemma worker_run_simulates:
  assumes "(worker_system q delivery serve)\<^sup>*\<^sup>* st st'" and "channel_ok (loop_amqp st)" and "q \<in> set queue_names"
  shows "channel_ok (loop_amqp st') \<and> (consumes delivery serve)\<^sup>*\<^sup>* (loop_view q st) (loop_view q st')"
  using assms(1)
proof (induction rule: rtranclp_induct)
  case base
  show ?case using assms(2) by simp
next
  case (step u v)
  then show ?case using worker_system_simulates [OF step.hyps(2) _ assms(3)] by (meson rtranclp_trans)
qed

lemma Start_runs: "(worker_system q delivery serve)\<^sup>*\<^sup>* st (Start q delivery evs st)"
proof (induction evs arbitrary: st)
  case (Cons ev evs)
  have "worker_system q delivery serve st (loop_step q delivery ev st)" by (rule worker_loops)
  then show ?case using Cons [of "loop_step q delivery ev st"]
    by (simp add: Start_def)
qed (simp add: Start_def)

section \<open>Stopping and catching up\<close>

lemma loop_stopped: "loop_phase st = Stopped \<Longrightarrow> Start q delivery evs st = st"
  by (induction evs) (simp_all add: Start_def loop_step_def)

lemma Start_append: "Start q delivery (evs @ evs') st = Start q delivery evs' (Start q delivery evs st)"
  by (simp add: Start_def)

lemma CtxDone_stops: "loop_step q delivery CtxDone st = st\<lparr>loop_phase := Stopped\<rparr>"
  by (cases "loop_phase st") (simp_all add: loop_step_def)

lemma settle_at_steady:
  "steady s \<Longrightarrow> m \<in> set (contents s q) \<Longrightarrow> contents (snd (settle_at q Ack m s)) q = remove1 m (contents s q)"
  by (cases "queue s q") (auto simp: settle_at_def request_def steady_def contents_def settle_def)

text \<open>With a broker that answers and deliveries that succeed, the loop empties its queue.\<close>

lemma Start_consumes_all:
  assumes "\<And>m w. m \<in> set ms \<Longrightarrow> I w \<Longrightarrow> \<exists>w'. delivery m w = (Inr Ack, w') \<and> I w'"
    and "loop_phase st = Consuming ch" and "steady (loop_amqp st)" and "contents (loop_amqp st) q = ms"
    and "I (loop_world st)"
  shows "contents (loop_amqp (Start q delivery (map Delivered ms) st)) q = [] \<and>
    loop_world (Start q delivery (map Delivered ms) st) = fold (\<lambda>m w. snd (delivery m w)) ms (loop_world st) \<and>
    I (loop_world (Start q delivery (map Delivered ms) st))"
  using assms
proof (induction ms arbitrary: st)
  case (Cons m ms)
  obtain w' where w': "delivery m (loop_world st) = (Inr Ack, w')" "I w'"
    using Cons.prems(1) [of m] Cons.prems(5) by auto
  let ?st = "st\<lparr>loop_world := w', loop_amqp := snd (settle_at q Ack m (loop_amqp st))\<rparr>"
  have step: "loop_step q delivery (Delivered m) st = ?st"
    using Cons.prems w' by (simp add: loop_step_def consume_message_def)
  have "steady (loop_amqp ?st)"
    using Cons.prems(3) settle_at_keeps(1) by (simp add: steady_def)
  moreover have "contents (loop_amqp ?st) q = ms"
    using settle_at_steady [OF Cons.prems(3), of m q] Cons.prems(4) by simp
  ultimately have "contents (loop_amqp (Start q delivery (map Delivered ms) ?st)) q = [] \<and>
    loop_world (Start q delivery (map Delivered ms) ?st) = fold (\<lambda>m w. snd (delivery m w)) ms (loop_world ?st) \<and>
    I (loop_world (Start q delivery (map Delivered ms) ?st))"
    using Cons.prems(1,2) w'(2) by (intro Cons.IH) auto
  moreover have "Start q delivery (map Delivered (m # ms)) st = Start q delivery (map Delivered ms) ?st"
    using step by (simp add: Start_def)
  ultimately show ?case using w'(1) by auto
qed (simp add: Start_def)

lemma same_phase: "loop_phase st = p \<Longrightarrow> st\<lparr>loop_phase := p\<rparr> = st"
  by (cases st) simp

lemma Start_recovers:
  assumes "loop_phase st \<noteq> Stopped" and "steady (loop_amqp st)" and "channel_ok (loop_amqp st)" and "q \<in> set queue_names"
  shows "\<exists>ch s. Start q delivery [MsgsClosed, Retry] st = st\<lparr>loop_phase := Consuming ch, loop_amqp := s\<rparr> \<and>
    steady s \<and> contents s q = contents (loop_amqp st) q"
proof -
  obtain ch s where s: "open_consumer q (loop_amqp st) = (Consuming ch, s)"
    using steady_open_consumer [OF assms(2-4)] by blast
  then have "steady s \<and> contents s q = contents (loop_amqp st) q"
    using open_consumer_keeps [OF s assms(3)] assms(2) by (simp add: steady_def)
  moreover have "loop_step q delivery MsgsClosed st = st\<lparr>loop_phase := Connecting\<rparr>"
    using assms(1) same_phase [of st Connecting] by (cases "loop_phase st") (simp_all add: loop_step_def)
  ultimately show ?thesis using s by (auto simp: Start_def loop_step_def)
qed

end
