(* ===== verification/WorkerProperties.thy ===== *)
theory WorkerProperties
  imports EventProperties WorkerLoop
begin

text \<open>The properties of the workers' loops: at least once, stopping, and catching up.\<close>

text \<open>
  C28. At least once, for the loop of the audit worker as it runs: connections that break and are
  opened again, settlements that are refused or lost, events published meanwhile, requests of the
  service in between. Every message that has left the audit queue has its own entry in the audit
  log, with the user, action, address and endpoint the message asks for.
\<close>

theorem audit_loop_at_least_once:
  assumes "decimal_laws L v" and "world_ok (loop_world st)" and "channel_ok (loop_amqp st)"
    and "(worker_system ''audit_queue'' (AuditWorker_delivery L) (serves L P))\<^sup>*\<^sup>* st st'"
  shows "image_mset (audit_content L)
      (mset (contents (loop_amqp st) ''audit_queue'') - mset (contents (loop_amqp st') ''audit_queue'')) +
    audit_records (loop_world st) \<subseteq># audit_records (loop_world st')"
proof -
  have "(consumes (AuditWorker_delivery L) (serves L P))\<^sup>*\<^sup>*
      (loop_view ''audit_queue'' st) (loop_view ''audit_queue'' st')"
    using worker_run_simulates [OF assms(4,3)] by (simp add: queue_names_def)
  then show ?thesis
    unfolding loop_view_def by (rule audit.at_least_once) (use assms(1,2) in \<open>auto simp: lawful_world_def\<close>)
qed

text \<open>A loop that is consuming a queue of one message.\<close>

definition sample_loop :: "string \<Rightarrow> message \<Rightarrow> loop" where
  "sample_loop q m = \<lparr>loop_phase = Consuming 0,
     loop_amqp = (NewSafeChannel steady_amqp)
       \<lparr>queue := [q \<mapsto> [m]]\<rparr>,
     loop_world = sample_world\<rparr>"

lemma sample_loop_simps: "loop_phase (sample_loop q m) = Consuming 0" "loop_world (sample_loop q m) = sample_world"
  "contents (loop_amqp (sample_loop q m)) q = [m]" "channel_ok (loop_amqp (sample_loop q m))"
  "steady (loop_amqp (sample_loop q m))"
  by (simp_all add: sample_loop_def NewSafeChannel_def contents_def channel_ok_def steady_def steady_amqp_def)

theorem audit_loop_at_least_once_witness:
  "\<exists>(m :: message) (st' :: loop). contents (loop_amqp st') ''audit_queue'' = [] \<and>
     add_mset (audit_content sample_lib m) (audit_records sample_world) \<subseteq># audit_records (loop_world st')"
proof -
  obtain m w' where m: "AuditWorker_delivery sample_lib m sample_world = (Inr Ack, w')"
    using CreateLog_sample by blast
  let ?st = "sample_loop ''audit_queue'' m"
  let ?st' = "AuditWorker_Start sample_lib [Delivered m] ?st"
  have gone: "contents (loop_amqp ?st') ''audit_queue'' = []"
    using m settle_at_steady [OF sample_loop_simps(5), of m "''audit_queue''" m "''audit_queue''"]
    by (simp add: AuditWorker_Start_def Start_def loop_step_def consume_message_def sample_loop_simps)
  have "world_ok sample_world" using sample_db_ok by (simp add: world_ok_def sample_world_def)
  then have "image_mset (audit_content sample_lib) ({#m#} - {#}) + audit_records sample_world \<subseteq>#
      audit_records (loop_world ?st')"
    using audit_loop_at_least_once [OF sample_decimal_laws, of ?st "\<lambda>_. True" ?st'] gone
      Start_runs [of "''audit_queue''" "AuditWorker_delivery sample_lib" "serves sample_lib (\<lambda>_. True)" ?st "[Delivered m]"]
    by (simp add: sample_loop_simps AuditWorker_Start_def)
  then show ?thesis using gone by (intro exI [of _ m] exI [of _ ?st']) simp
qed

text \<open>
  C32. Each worker stops when the context is done, in whatever phase it is: from then on it opens no
  channel, takes no message and touches no data, whatever else arrives.
\<close>

theorem workers_stop:
  "AuditWorker_Start L (evs @ CtxDone # evs') st = (AuditWorker_Start L evs st)\<lparr>loop_phase := Stopped\<rparr> \<and>
   NotificationWorker_Start L (evs @ CtxDone # evs') st = (NotificationWorker_Start L evs st)\<lparr>loop_phase := Stopped\<rparr> \<and>
   AnalyticsWorker_Start (evs @ CtxDone # evs') st = (AnalyticsWorker_Start evs st)\<lparr>loop_phase := Stopped\<rparr>"
proof -
  have "Start q d (evs @ CtxDone # evs') st = (Start q d evs st)\<lparr>loop_phase := Stopped\<rparr>" for q d
  proof -
    have "Start q d (CtxDone # evs') s = s\<lparr>loop_phase := Stopped\<rparr>" for s
      using loop_stopped [of "s\<lparr>loop_phase := Stopped\<rparr>" q d evs'] CtxDone_stops [of q d s] by (simp add: Start_def)
    then show ?thesis by (simp add: Start_append)
  qed
  then show ?thesis by (simp add: AuditWorker_Start_def NotificationWorker_Start_def AnalyticsWorker_Start_def)
qed

text \<open>
  C31. A worker catches up. From any phase but the last, when the channel has closed, the broker
  answers again and every waiting message can be processed, the next attempt connects and the
  messages of the queue are processed in their order until the queue is empty.
\<close>

theorem worker_catches_up:
  assumes "loop_phase st \<noteq> Stopped" and "steady (loop_amqp st)" and "channel_ok (loop_amqp st)"
    and "q \<in> set queue_names" and "I (loop_world st)"
    and "\<And>m w. m \<in> set (contents (loop_amqp st) q) \<Longrightarrow> I w \<Longrightarrow> \<exists>w'. delivery m w = (Inr Ack, w') \<and> I w'"
  shows "case Start q delivery ([MsgsClosed, Retry] @ map Delivered (contents (loop_amqp st) q)) st of st' \<Rightarrow>
    contents (loop_amqp st') q = [] \<and>
    loop_world st' = fold (\<lambda>m w. snd (delivery m w)) (contents (loop_amqp st) q) (loop_world st)"
proof -
  obtain ch s where run: "Start q delivery [MsgsClosed, Retry] st = st\<lparr>loop_phase := Consuming ch, loop_amqp := s\<rparr>"
    and s: "steady s" "contents s q = contents (loop_amqp st) q"
    using Start_recovers [OF assms(1-4)] by blast
  show ?thesis
    unfolding Start_append run
    using Start_consumes_all [where I = I and delivery = delivery and q = q and ch = ch
        and st = "st\<lparr>loop_phase := Consuming ch, loop_amqp := s\<rparr>" and ms = "contents (loop_amqp st) q"] assms(5,6) s
    by simp
qed

theorem worker_catches_up_witness:
  "\<forall>m :: message. contents (loop_amqp (AnalyticsWorker_Start [MsgsClosed, Retry, Delivered m]
     (sample_loop ''analytics_queue'' m))) ''analytics_queue'' = []"
proof
  fix m :: message
  show "contents (loop_amqp (AnalyticsWorker_Start [MsgsClosed, Retry, Delivered m]
     (sample_loop ''analytics_queue'' m))) ''analytics_queue'' = []"
    using worker_catches_up [where st = "sample_loop ''analytics_queue'' m" and q = "''analytics_queue''"
      and delivery = AnalyticsWorker_delivery and I = "\<lambda>_. True"]
    by (simp add: sample_loop_simps queue_names_def AnalyticsWorker_delivery_def returnE_def AnalyticsWorker_Start_def)
qed

end
