(* ===== verification/Concurrency.thy ===== *)
theory Concurrency
  imports Runs
begin

text \<open>
  Requests that run at the same time. A top-up, transfer or registration is a session: it begins a
  transaction, takes the locks of its wallets one after the other (\<open>SELECT ... FOR UPDATE\<close> waits for
  the session that holds the row and then reads its committed version) and, with all locks, writes
  and commits. Between any two of these points other sessions and all other operations of the
  service run. What follows the locks reads only the locked rows and inserts rows of its own, whose
  references lead to wallets the session has locked or to its own rows, so it is one step, taken at
  its commit (in the database an insert whose unique key an open session has inserted waits for the
  end of that session, and then fails or goes on). A registration takes no lock; its lookup of the address may be out of date when it inserts.
\<close>

section \<open>Sessions\<close>

datatype 'd call = TopUpCall uuid "'d TopUpRequest" | TransferCall uuid "'d TransferRequest"
  | RegisterCall RegisterRequest

datatype 'd job = TopUpJob "'d Wallet" 'd | TransferJob "'d Wallet" "'d Wallet" 'd
  | RegisterJob string string

text \<open>Do the amounts, if any, satisfy \<open>P\<close>?\<close>

fun call_amounts :: "('d \<Rightarrow> bool) \<Rightarrow> 'd call \<Rightarrow> bool" where
  "call_amounts P (TopUpCall _ req) = P (TopUpRequest_Amount req)"
| "call_amounts P (TransferCall _ req) = P (TransferRequest_Amount req)"
| "call_amounts P (RegisterCall _) = True"

fun job_amounts :: "('d \<Rightarrow> bool) \<Rightarrow> 'd job \<Rightarrow> bool" where
  "job_amounts P (TopUpJob _ a) = P a"
| "job_amounts P (TransferJob _ _ a) = P a"
| "job_amounts P (RegisterJob _ _) = True"

text \<open>Up to \<open>pool.Begin\<close>.\<close>

fun job_open :: "'d lib \<Rightarrow> 'd call \<Rightarrow> 'd job go" where
  "job_open L (TopUpCall userID req) =
     bindE (walletRepo_FindByUserID L userID) (\<lambda>found.
     case found of None \<Rightarrow> throwE ErrWalletNotFound | Some wallet \<Rightarrow>
     bindE (wrapE (Wrap ''failed to begin transaction'') tx_Begin) (\<lambda>_.
     returnE (TopUpJob wallet (TopUpRequest_Amount req))))"
| "job_open L (TransferCall userID req) =
     bindE (walletRepo_FindByUserID L userID) (\<lambda>source.
     case source of None \<Rightarrow> throwE ErrWalletNotFound | Some sourceWallet \<Rightarrow>
     if Wallet_ID sourceWallet = TransferRequest_TargetWalletID req then throwE ErrSelfTransfer else
     bindE (walletRepo_FindByID L (TransferRequest_TargetWalletID req)) (\<lambda>target.
     case target of None \<Rightarrow> throwE ErrTargetWalletNotFound | Some targetWallet \<Rightarrow>
     bindE (wrapE (Wrap ''failed to begin transaction'') tx_Begin) (\<lambda>_.
     returnE (TransferJob sourceWallet targetWallet (TransferRequest_Amount req)))))"
| "job_open L (RegisterCall req) =
     bindE (userRepo_FindByEmail (RegisterRequest_Email req)) (\<lambda>existingUser.
     if existingUser \<noteq> None then throwE ErrEmailConflict else
     bindE (wrapE (Wrap ''failed to hash password'') (HashPassword L (RegisterRequest_Password req))) (\<lambda>pwdHash.
     bindE (wrapE (Wrap ''failed to begin transaction'') tx_Begin) (\<lambda>_.
     returnE (RegisterJob (RegisterRequest_Email req) pwdHash))))"

text \<open>The wallets in the order they are locked; the rows come in that order.\<close>

fun job_locks :: "'d job \<Rightarrow> string list" where
  "job_locks (TopUpJob w _) = [Wallet_ID w]"
| "job_locks (TransferJob s t _) =
     (if Wallet_ID s < Wallet_ID t then [Wallet_ID s, Wallet_ID t] else [Wallet_ID t, Wallet_ID s])"
| "job_locks (RegisterJob _ _) = []"

fun lock_rows :: "'d lib \<Rightarrow> string list \<Rightarrow> 'd Wallet option list go" where
  "lock_rows L [] = returnE []"
| "lock_rows L (i # is) =
     bindE (walletRepo_FindByIDForUpdate L Tx i) (\<lambda>row.
     bindE (lock_rows L is) (\<lambda>rows. returnE (row # rows)))"

fun job_rest :: "'d lib \<Rightarrow> 'd job \<Rightarrow> 'd Wallet option list \<Rightarrow> unit go" where
  "job_rest L (TopUpJob w a) rows = bindE (topUp_rest L w a (hd rows)) (\<lambda>_. returnE ())"
| "job_rest L (TransferJob s t a) rows =
     bindE (transfer_rest L s a
       (if Wallet_ID s < Wallet_ID t then (rows ! 0, rows ! 1) else (rows ! 1, rows ! 0))) (\<lambda>_. returnE ())"
| "job_rest L (RegisterJob email pwdHash) rows = bindE (register_statements L email pwdHash) (\<lambda>_. returnE ())"

definition job_commit :: "'d lib \<Rightarrow> 'd job \<Rightarrow> 'd Wallet option list \<Rightarrow> unit go" where
  "job_commit L job rows =
     bindE (job_rest L job rows) (\<lambda>_. wrapE (Wrap ''failed to commit transaction'') tx_Commit)"

section \<open>Interleaving\<close>

record 'd session =
  s_job :: "'d job"
  s_rows :: "'d Wallet option list"
  s_start :: time

definition held :: "'d session \<Rightarrow> string list" where
  "held s = take (length (s_rows s)) (job_locks (s_job s))"

definition wanted :: "'d session \<Rightarrow> string option" where
  "wanted s = (if length (s_rows s) < length (job_locks (s_job s))
     then Some (job_locks (s_job s) ! length (s_rows s)) else None)"

text \<open>A statement of the session sees what is committed when it runs.\<close>

definition in_tx :: "'d session \<Rightarrow> world \<Rightarrow> world" where
  "in_tx s w = w\<lparr>work := Some (committed w, s_start s)\<rparr>"

definition outside_tx :: "world \<Rightarrow> world" where
  "outside_tx w = w\<lparr>work := None\<rparr>"

text \<open>What the open sessions do: take the next lock if it is free, or fail to, or commit.\<close>

inductive proceeds :: "'d lib \<Rightarrow> world \<times> 'd session list \<Rightarrow> world \<times> 'd session list \<Rightarrow> bool" for L where
  proceeds_lock: "wanted s = Some i \<Longrightarrow> \<forall>t \<in> set (xs @ ys). i \<notin> set (held t) \<Longrightarrow>
     walletRepo_FindByIDForUpdate L Tx i (in_tx s w) = (Inr row, w') \<Longrightarrow>
     proceeds L (w, xs @ s # ys) (outside_tx w', xs @ s\<lparr>s_rows := s_rows s @ [row]\<rparr> # ys)"
| proceeds_fail: "wanted s = Some i \<Longrightarrow>
     walletRepo_FindByIDForUpdate L Tx i (in_tx s w) = (Inl e, w') \<Longrightarrow>
     proceeds L (w, xs @ s # ys) (tx_Rollback w', xs @ ys)"
| proceeds_commit: "wanted s = None \<Longrightarrow> job_commit L (s_job s) (s_rows s) (in_tx s w) = (r, w') \<Longrightarrow>
     proceeds L (w, xs @ s # ys) (tx_Rollback w', xs @ ys)"

text \<open>
  With calls that arrive, sessions that are cancelled, and all other operations in between. Each
  request has a connection of its own, so \<open>work\<close> is empty between the steps.
\<close>

inductive interleave ::
  "'d lib \<Rightarrow> ('d \<Rightarrow> bool) \<Rightarrow> world \<times> 'd session list \<Rightarrow> world \<times> 'd session list \<Rightarrow> bool" for L P where
  interleave_proceeds: "proceeds L st st' \<Longrightarrow> interleave L P st st'"
| interleave_arrives: "job_open L c w = (Inr job, w') \<Longrightarrow> call_amounts P c \<Longrightarrow> work w' = Some (d, now) \<Longrightarrow>
     interleave L P (w, ss) (outside_tx w', \<lparr>s_job = job, s_rows = [], s_start = now\<rparr> # ss)"
| interleave_refused: "job_open L c w = (Inl e, w') \<Longrightarrow> interleave L P (w, ss) (outside_tx w', ss)"
| interleave_cancelled: "interleave L P (w, xs @ s # ys) (tx_Rollback w, xs @ ys)"
| interleave_other: "serves L (\<lambda>_. False) w w' \<Longrightarrow> interleave L P (w, ss) (outside_tx w', ss)"

section \<open>Locks taken in ascending order\<close>

text \<open>
  The discipline that rules out a deadlock: each client takes the locks of its plan one by one,
  and the plan ascends.
\<close>

locale ordered_locks =
  fixes plan :: "'s \<Rightarrow> 'l :: linorder list" and taken :: "'s \<Rightarrow> nat" and valid :: "'s \<Rightarrow> bool"
  assumes ascending: "valid s \<Longrightarrow> sorted_wrt (<) (plan s)"
begin

definition holds :: "'s \<Rightarrow> 'l list" where
  "holds s = take (taken s) (plan s)"

definition waits :: "'s \<Rightarrow> 'l option" where
  "waits s = (if taken s < length (plan s) then Some (plan s ! taken s) else None)"

lemma waits_above:
  assumes "valid s" and "waits s = Some k" and "l \<in> set (holds s)"
  shows "l < k"
proof -
  obtain n where n: "n < taken s" "n < length (plan s)" "l = plan s ! n"
    using assms(3) by (auto simp: holds_def in_set_conv_nth)
  then show ?thesis
    using assms(2) sorted_wrt_nth_less [OF ascending [OF assms(1)], of n "taken s"]
    by (auto simp: waits_def split: if_splits)
qed

text \<open>Of several clients one waits for nothing or for a lock that no other holds.\<close>

lemma no_circular_wait:
  assumes valid: "\<forall>s \<in> set ss. valid s" and "ss \<noteq> []"
  obtains xs s ys where "ss = xs @ s # ys"
    and "\<And>k. waits s = Some k \<Longrightarrow> \<forall>t \<in> set (xs @ ys). k \<notin> set (holds t)"
proof (cases "\<exists>s \<in> set ss. waits s = None")
  case True
  then show thesis using that by (metis split_list option.distinct(1))
next
  case False
  let ?ks = "(\<lambda>s. the (waits s)) ` set ss"
  have "finite ?ks" "?ks \<noteq> {}" using assms(2) by auto
  then have "Max ?ks \<in> ?ks" by (rule Max_in)
  then obtain s where s: "s \<in> set ss" "the (waits s) = Max ?ks" by auto
  then obtain xs ys where split: "ss = xs @ s # ys" by (metis split_list)
  have "k \<notin> set (holds t)" if k: "waits s = Some k" and t: "t \<in> set (xs @ ys)" for k t
  proof
    assume h: "k \<in> set (holds t)"
    have mem: "t \<in> set ss" using t split by auto
    then obtain l where l: "waits t = Some l" using False by fastforce
    then have "l \<le> Max ?ks" using mem \<open>finite ?ks\<close> by (metis Max_ge imageI option.sel)
    moreover have "k < l" using waits_above [OF _ l h] valid mem by blast
    ultimately show False using s(2) k by simp
  qed
  then show thesis using that split by blast
qed

end

lemma job_locks_ascending: "distinct (job_locks job) \<Longrightarrow> sorted_wrt (<) (job_locks job)"
  by (cases job) (simp_all add: linorder_neq_iff split: if_splits)

interpretation row_locks: ordered_locks "\<lambda>s. job_locks (s_job s)" "\<lambda>s. length (s_rows s)"
    "\<lambda>s. distinct (job_locks (s_job s))"
  by unfold_locales (rule job_locks_ascending)

lemma row_locks_held: "row_locks.holds = held" "row_locks.waits = wanted"
  by (rule ext, simp add: row_locks.holds_def held_def row_locks.waits_def wanted_def)+

section \<open>What a step does to the wallets\<close>

text \<open>The rows outside \<open>K\<close> are as before; no wallet disappears.\<close>

definition rows_kept :: "string set \<Rightarrow> db \<Rightarrow> db \<Rightarrow> bool" where
  "rows_kept K d d' \<longleftrightarrow> (\<forall>i \<in> wr_id ` set (wallets d).
     i \<in> wr_id ` set (wallets d') \<and> (i \<notin> K \<longrightarrow> wallet_with_id d' i = wallet_with_id d i))"

lemma rows_kept_same: "wallets d' = wallets d \<Longrightarrow> rows_kept K d d'"
  by (simp add: rows_kept_def wallet_with_id_def)

lemma find_post: "j \<noteq> i \<Longrightarrow> find (\<lambda>r. wr_id r = i) (post j c now ws) = find (\<lambda>r. wr_id r = i) ws"
  by (induction ws) (auto simp: post_def update_where_def)

lemma rows_kept_topup: "topup_effect v r a u ref now d d' \<Longrightarrow> rows_kept {wr_id r} d d'"
  by (auto simp: topup_effect_def topup_result_def rows_kept_def wallet_with_id_def find_post)

lemma rows_kept_transfer: "transfer_effect v rs rt a u ref now d d' \<Longrightarrow> rows_kept {wr_id rs, wr_id rt} d d'"
  by (auto simp: transfer_effect_def transfer_result_def rows_kept_def wallet_with_id_def find_post)

lemma rows_kept_register:
  assumes "wallets d' = wallets d @ ws"
  shows "rows_kept K d d'"
proof -
  have "find (\<lambda>r. wr_id r = i) (xs @ ws) = find (\<lambda>r. wr_id r = i) xs" if "i \<in> wr_id ` set xs" for i xs
    using that by (induction xs) auto
  then show ?thesis using assms by (auto simp: rows_kept_def wallet_with_id_def)
qed

lemma rows_kept_other: "change v (\<lambda>_. False) d d' \<Longrightarrow> rows_kept K d d'"
  by (erule change.cases) (auto simp: register_effect_def intro: rows_kept_same rows_kept_register)

section \<open>The invariant\<close>

text \<open>A session's rows are those of its locked wallets as they are committed now.\<close>

definition current :: "'d lib \<Rightarrow> db \<Rightarrow> 'd session \<Rightarrow> bool" where
  "current L d s \<longleftrightarrow> s_rows s = map (\<lambda>i. map_option (wallet_of L) (wallet_with_id d i)) (held s)"

definition job_ok :: "('d \<Rightarrow> bool) \<Rightarrow> db \<Rightarrow> 'd job \<Rightarrow> bool" where
  "job_ok P d job \<longleftrightarrow> job_amounts P job \<and> distinct (job_locks job) \<and>
     set (job_locks job) \<subseteq> wr_id ` set (wallets d)"

definition sessions_ok :: "'d lib \<Rightarrow> ('d \<Rightarrow> bool) \<Rightarrow> db \<Rightarrow> 'd session list \<Rightarrow> bool" where
  "sessions_ok L P d ss \<longleftrightarrow> (\<forall>s \<in> set ss. job_ok P d (s_job s) \<and> current L d s) \<and>
     distinct (concat (map held ss))"

definition interleave_ok :: "'d lib \<Rightarrow> ('d \<Rightarrow> bool) \<Rightarrow> world \<times> 'd session list \<Rightarrow> bool" where
  "interleave_ok L P st \<longleftrightarrow> world_ok (fst st) \<and> work (fst st) = None \<and>
     sessions_ok L P (committed (fst st)) (snd st)"

lemma sessions_ok_remove: "sessions_ok L P d (xs @ s # ys) \<Longrightarrow> sessions_ok L P d (xs @ ys)"
  by (auto simp: sessions_ok_def)

lemma held_locks: "set (held s) \<subseteq> set (job_locks (s_job s))"
  by (simp add: held_def set_take_subset)

lemma sessions_ok_kept:
  assumes "sessions_ok L P d ss" and "rows_kept K d d'" and "\<forall>s \<in> set ss. set (held s) \<inter> K = {}"
  shows "sessions_ok L P d' ss"
proof -
  have "job_ok P d' (s_job s) \<and> current L d' s" if s: "s \<in> set ss" for s
  proof -
    have ok: "job_ok P d (s_job s)" "current L d s" using assms(1) s by (auto simp: sessions_ok_def)
    have "wallet_with_id d' i = wallet_with_id d i" if i: "i \<in> set (held s)" for i
    proof -
      have "i \<in> wr_id ` set (wallets d)" using i held_locks [of s] ok(1) by (auto simp: job_ok_def)
      moreover have "i \<notin> K" using assms(3) s i by auto
      ultimately show ?thesis using assms(2) unfolding rows_kept_def by blast
    qed
    then show ?thesis using ok assms(2) by (auto simp: job_ok_def current_def rows_kept_def cong: map_cong)
  qed
  then show ?thesis using assms(1) by (simp add: sessions_ok_def)
qed

section \<open>Committing\<close>

lemma job_commit_cases:
  assumes "job_commit L job rows w = (r, w')"
  obtains (unchanged) "committed w' = committed w"
  | (commits) u d now where "job_rest L job rows w = (Inr (), u)" "work u = Some (d, now)" "committed w' = d"
proof -
  have "steps quiet (job_rest L job rows)"
    by (cases job) (auto intro: quiet_intros quiet_topUp_rest quiet_transfer_rest quiet_register_statements)
  then have quiet: "committed (snd (job_rest L job rows w)) = committed w" by (simp add: steps_def quiet_def)
  have "committed w' = committed w \<or>
      (\<exists>u d now. job_rest L job rows w = (Inr (), u) \<and> work u = Some (d, now) \<and> committed w' = d)"
    using assms quiet
    by (auto simp: job_commit_def bindE_def wrapE_def tx_Commit_def split: prod.splits sum.splits option.splits fault.splits)
  then show thesis
    using unchanged commits by blast
qed

lemma job_rest_change:
  assumes run: "job_rest L (s_job s) (s_rows s) w = (Inr (), u)" and work: "work w = Some (d, now)" "work u = Some (d', t)"
    and laws: "decimal_laws L v" and ok: "wallets_ok d" "job_ok P d (s_job s)" "current L d s" "wanted s = None"
  shows "change v P d d' \<and> rows_kept (set (held s)) d d'"
proof -
  have rows: "s_rows s = map (\<lambda>i. map_option (wallet_of L) (wallet_with_id d i)) (job_locks (s_job s))"
    and all: "held s = job_locks (s_job s)"
    using ok(3,4) by (auto simp: current_def wanted_def held_def split: if_splits)
  show ?thesis
  proof (cases "s_job s")
    case (TopUpJob w0 a)
    then obtain r where r: "wallet_with_id d (Wallet_ID w0) = Some r" "r \<in> set (wallets d)" "wr_id r = Wallet_ID w0"
      using ok(1,2) wallet_with_id_mem by (fastforce simp: job_ok_def)
    obtain txn nb where "topUp_rest L w0 a (Some (wallet_of L r)) w = (Inr (txn, nb), u)"
      using run rows TopUpJob r(1) by (auto simp: succ)
    from topUp_rest_effect [OF work(1) laws ok(1) r(1) this] obtain x ref where
      "topup_effect v r a x ref now d d'"
      using r(2,3) work(2) by (auto simp: topup_effect_def)
    then show ?thesis
      using ok(2) TopUpJob r(3) all by (auto simp: job_ok_def intro: change_topup dest: rows_kept_topup)
  next
    case (TransferJob s0 t0 a)
    then have ne: "Wallet_ID s0 \<noteq> Wallet_ID t0" using ok(2) by (auto simp: job_ok_def)
    have "transfer_rest L s0 a (map_option (wallet_of L) (wallet_with_id d (Wallet_ID s0)),
        map_option (wallet_of L) (wallet_with_id d (Wallet_ID t0))) w = (Inr y, u)" if
      "transfer_rest L s0 a (if Wallet_ID s0 < Wallet_ID t0 then (s_rows s ! 0, s_rows s ! 1)
         else (s_rows s ! 1, s_rows s ! 0)) w = (Inr y, u)" for y
      using that rows TransferJob by (simp split: if_splits)
    then obtain ls lt txn nb where
      "transfer_rest L s0 a (map_option (wallet_of L) (wallet_with_id d (Wallet_ID s0)),
        map_option (wallet_of L) (wallet_with_id d (Wallet_ID t0))) w = (Inr (ls, lt, txn, nb), u)"
      using run TransferJob by (auto simp: succ)
    from transfer_rest_effect [OF work(1) laws ok(1) ne this] obtain rs rt x ref debit credit where
      e: "wallet_with_id d (Wallet_ID s0) = Some rs" "wallet_with_id d (Wallet_ID t0) = Some rt"
        "v a \<le> of_int (wr_balance rs) / 100" "0 < cents v a" "wr_balance rt + cents v a < 10 ^ 18"
        "x \<notin> tr_id ` set (transactions d)" "ref \<notin> tr_reference_no ` set (transactions d)"
        "debit \<notin> lr_id ` set (ledger_entries d)" "credit \<notin> lr_id ` set (ledger_entries d)" "debit \<noteq> credit"
        "work u = Some (transfer_result (Wallet_ID s0) (Wallet_ID t0) (debit_cents v a)
          (cents v a) (cents v a) x ref debit credit now d, now)"
      by blast
    note ids = wallet_with_id_Some [OF e(1)] wallet_with_id_Some [OF e(2)]
    have e: "transfer_effect v rs rt a x ref now d d'"
      unfolding transfer_effect_def using e(3-11) ids ne work(2) by auto
    then show ?thesis
      using ok(2) TransferJob all ids rows_kept_transfer [OF e]
      by (auto simp: job_ok_def insert_commute intro: change_transfer)
  next
    case (RegisterJob email hash)
    then obtain user wallet where "register_statements L email hash w = (Inr (user, wallet), u)"
      using run by (auto simp: succ)
    then have "account_statements L UserRoleUser email hash w = (Inr (user, wallet), u)"
      by (simp add: register_statements_Inr)
    from account_statements_post [OF work(1) laws this] have
      "register_effect UserRoleUser email hash (User_ID user) wallet now d d'" "wallet \<noteq> []"
      using work(2) by auto
    then show ?thesis by (auto simp: register_effect_def intro: change_register rows_kept_register)
  qed
qed

section \<open>Every interleaving is a run of the books\<close>

lemma in_tx_simps [simp]: "committed (in_tx s w) = committed w" "work (in_tx s w) = Some (committed w, s_start s)"
  "env (in_tx s w) = env w" "tick (in_tx s w) = tick w"
  by (simp_all add: in_tx_def)

lemma outside_tx_simps [simp]: "committed (outside_tx w) = committed w" "work (outside_tx w) = None"
  by (simp_all add: outside_tx_def)

lemma world_ok_tx [simp]:
  "world_ok (in_tx s w) = db_ok (committed w)" "world_ok (outside_tx w) = db_ok (committed w)"
  "world_ok (tx_Rollback w) = db_ok (committed w)" "committed (tx_Rollback w) = committed w"
  "work (tx_Rollback w) = None"
  by (auto simp: world_ok_def in_tx_def outside_tx_def tx_Rollback_def)

lemma change_same: "d' = d \<Longrightarrow> change v P d d'"
  by (rule change_outside) simp_all

lemma ok_job_commit: "steps world_keeps (job_commit L job rows)"
proof -
  have "steps world_keeps (job_rest L job rows)"
    by (cases job)
      (auto simp: topUp_rest_def transfer_rest_def transfer_locked_def transfer_writes_def
        create_pending_def write_entry_def register_statements_def Let_def intro!: ok_parts)
  then show ?thesis unfolding job_commit_def by (intro ok_parts)
qed

lemma held_lock:
  assumes "wanted s = Some i"
  shows "held (s\<lparr>s_rows := s_rows s @ [row]\<rparr>) = held s @ [i]"
  using assms by (auto simp: wanted_def held_def take_Suc_conv_app_nth split: if_splits)

lemma wanted_fresh:
  assumes "wanted s = Some i" and "distinct (job_locks (s_job s))"
  shows "i \<notin> set (held s)"
proof
  assume "i \<in> set (held s)"
  then obtain n where "n < length (s_rows s)" "n < length (job_locks (s_job s))" "i = job_locks (s_job s) ! n"
    by (auto simp: held_def in_set_conv_nth)
  then show False using assms by (auto simp: wanted_def nth_eq_iff_index_eq split: if_splits)
qed

lemma sessions_ok_lock:
  assumes ok: "sessions_ok L P d (xs @ s # ys)" and i: "wanted s = Some i"
    and free: "\<forall>t \<in> set (xs @ ys). i \<notin> set (held t)"
    and row: "row = map_option (wallet_of L) (wallet_with_id d i)"
  shows "sessions_ok L P d (xs @ s\<lparr>s_rows := s_rows s @ [row]\<rparr> # ys)"
proof -
  have s: "job_ok P d (s_job s)" "current L d s" using ok by (auto simp: sessions_ok_def)
  then have "current L d (s\<lparr>s_rows := s_rows s @ [row]\<rparr>)"
    using held_lock [OF i, of row] row by (simp add: current_def)
  moreover have "i \<notin> set (held s)" using wanted_fresh [OF i] s(1) by (simp add: job_ok_def)
  ultimately show ?thesis
    using ok free s(1) by (auto simp: sessions_ok_def held_lock [OF i])
qed

lemma sessions_ok_others:
  assumes "sessions_ok L P d (xs @ s # ys)"
  shows "\<forall>t \<in> set (xs @ ys). set (held t) \<inter> set (held s) = {}"
  using assms by (fastforce simp: sessions_ok_def)

text \<open>What happens to the committed database while a session proceeds, and to the sessions.\<close>

definition refines_books :: "('d \<Rightarrow> rat) \<Rightarrow> 'd lib \<Rightarrow> ('d \<Rightarrow> bool) \<Rightarrow> world \<times> 'd session list \<Rightarrow>
    world \<times> 'd session list \<Rightarrow> bool" where
  "refines_books v L P st st' \<longleftrightarrow> interleave_ok L P st' \<and> change v P (committed (fst st)) (committed (fst st'))"

lemma refines_booksI:
  assumes "interleave_ok L P (w, ss)" and "committed w' = committed w" and "work w' = None"
    and "sessions_ok L P (committed w) ss'"
  shows "refines_books v L P (w, ss) (w', ss')"
  using assms by (auto simp: refines_books_def interleave_ok_def world_ok_def change_same)

lemma commit_refines:
  assumes ok: "interleave_ok L P (w, xs @ s # ys)" and laws: "decimal_laws L v" and full: "wanted s = None"
    and run: "job_commit L (s_job s) (s_rows s) (in_tx s w) = (r, w')"
  shows "refines_books v L P (w, xs @ s # ys) (tx_Rollback w', xs @ ys)"
proof -
  have w: "db_ok (committed w)" "sessions_ok L P (committed w) (xs @ s # ys)"
    using ok by (auto simp: interleave_ok_def world_ok_def)
  note rest = sessions_ok_remove [OF w(2)]
  from run show ?thesis
  proof (cases rule: job_commit_cases)
    case unchanged
    then show ?thesis using rest by (intro refines_booksI [OF ok]) simp_all
  next
    case (commits u d now)
    have s: "job_ok P (committed w) (s_job s)" "current L (committed w) s" using w(2) by (auto simp: sessions_ok_def)
    have wok: "wallets_ok (committed w)" using w(1) by (simp add: db_ok_def)
    have step: "change v P (committed w) d" "rows_kept (set (held s)) (committed w) d"
      using job_rest_change [OF commits(1) in_tx_simps(2) commits(2) laws wok s full] by simp_all
    have "world_ok w'" using stepsD [OF ok_job_commit run] w(1) by (simp add: world_keeps_def)
    then show ?thesis
      using step(1) commits(3) sessions_ok_kept [OF rest step(2) sessions_ok_others [OF w(2)]]
      by (simp add: refines_books_def interleave_ok_def world_ok_def)
  qed
qed

lemma proceeds_refines:
  assumes "proceeds L st st'" and "decimal_laws L v" and "interleave_ok L P st"
  shows "refines_books v L P st st'"
  using assms
proof (induction rule: proceeds.induct)
  case (proceeds_lock s i xs ys w row w')
  then have ok: "sessions_ok L P (committed w) (xs @ s # ys)" by (simp add: interleave_ok_def)
  have "w' = locking i row (next_tick (in_tx s w))" "row = map_option (wallet_of L) (wallet_with_id (committed w) i)"
    using proceeds_lock.hyps(3) by (auto simp: FindByIDForUpdate_Inr)
  then show ?case
    using sessions_ok_lock [OF ok proceeds_lock.hyps(1,2)]
    by (intro refines_booksI [OF proceeds_lock.prems(2)]) simp_all
next
  case (proceeds_fail s i w e w' xs ys)
  have "committed w' = committed w"
    using stepsD [OF quiet_FindByIDForUpdate proceeds_fail.hyps(2)] by (simp add: quiet_def)
  then show ?case
    using proceeds_fail.prems(2) sessions_ok_remove
    by (intro refines_booksI [OF proceeds_fail.prems(2)]) (auto simp: interleave_ok_def)
next
  case proceeds_commit
  then show ?case by (intro commit_refines)
qed

lemma quiet_HashPassword: "steps quiet (HashPassword L p)"
  by (simp add: steps_def HashPassword_state)

lemma HashPassword_run: "HashPassword L p w = (x, u) \<Longrightarrow> u = next_tick w"
  using HashPassword_state [of L p w] by simp

lemma job_open_Inr:
  assumes "job_open L c w = (Inr job, w')"
  shows "\<exists>now. committed w' = committed w \<and> work w' = Some (committed w, now) \<and> (call_amounts P c \<longrightarrow> job_amounts P job) \<and>
    distinct (job_locks job) \<and> set (job_locks job) \<subseteq> wr_id ` set (wallets (committed w))"
  using assms
  by (cases c) (auto simp: succ split: option.splits if_splits dest!: wallet_of_user_Some wallet_with_id_Some HashPassword_run)

lemma quiet_job_open: "steps quiet (job_open L c)"
  by (cases c) (auto intro!: quiet_intros quiet_HashPassword wallet_by_user.find_quiet wallet_by_id.find_quiet user_by_email.find_quiet)

lemma change_weaken: "change v (\<lambda>_. False) d d' \<Longrightarrow> change v P d d'"
  by (erule change.cases) (auto intro: change_register change_outside)

lemma interleave_refines:
  assumes "interleave L P st st'" and "decimal_laws L v" and "interleave_ok L P st"
  shows "refines_books v L P st st'"
  using assms
proof (induction rule: interleave.induct)
  case interleave_proceeds
  then show ?case by (intro proceeds_refines)
next
  case (interleave_arrives c w job w' d now ss)
  from job_open_Inr [OF interleave_arrives.hyps(1)] have
    "sessions_ok L P (committed w) (\<lparr>s_job = job, s_rows = [], s_start = now\<rparr> # ss)" "committed w' = committed w"
    using interleave_arrives.prems(2) interleave_arrives.hyps(2)
    by (auto simp: sessions_ok_def interleave_ok_def job_ok_def current_def held_def)
  then show ?case by (intro refines_booksI [OF interleave_arrives.prems(2)]) simp_all
next
  case (interleave_refused c w e w' ss)
  then show ?case
    using stepsD [OF quiet_job_open interleave_refused.hyps]
    by (intro refines_booksI [OF interleave_refused.prems(2)]) (simp_all add: quiet_def interleave_ok_def)
next
  case (interleave_cancelled w xs s ys)
  then show ?case using sessions_ok_remove
    by (intro refines_booksI [OF interleave_cancelled.prems(2)]) (auto simp: interleave_ok_def)
next
  case (interleave_other w w' ss)
  then have w: "db_ok (committed w)" "sessions_ok L P (committed w) ss"
    by (auto simp: interleave_ok_def world_ok_def)
  have step: "change v (\<lambda>_. False) (committed w) (committed w')"
    using serves_change [OF interleave_other.hyps interleave_other.prems(1) w(1)] .
  have "world_ok w'"
    using serves_keeps [OF interleave_other.hyps] interleave_other.prems(2)
    by (simp add: world_keeps_def interleave_ok_def)
  then show ?case
    using change_weaken [OF step] sessions_ok_kept [OF w(2) rows_kept_other [OF step, of "{}"]]
    by (simp add: refines_books_def interleave_ok_def world_ok_def)
qed

lemma interleave_run:
  assumes "(interleave L P)\<^sup>*\<^sup>* st st'" and "decimal_laws L v" and "interleave_ok L P st"
  shows "interleave_ok L P st' \<and> (change v P)\<^sup>*\<^sup>* (committed (fst st)) (committed (fst st'))"
  using assms(1)
proof (induction rule: rtranclp_induct)
  case base
  then show ?case using assms(3) by simp
next
  case (step y z)
  then have "refines_books v L P y z" using interleave_refines assms(2) by blast
  then show ?case using step.IH by (auto simp: refines_books_def intro: rtranclp.rtrancl_into_rtrancl)
qed

section \<open>No session waits for ever\<close>

lemma proceeds_enabled:
  assumes "interleave_ok L P (w, ss)" and "ss \<noteq> []"
  shows "\<exists>st'. proceeds L (w, ss) st'"
proof -
  have valid: "\<forall>s \<in> set ss. distinct (job_locks (s_job s))"
    using assms(1) by (auto simp: interleave_ok_def sessions_ok_def job_ok_def)
  obtain xs s ys where split: "ss = xs @ s # ys"
    and free: "\<And>k. wanted s = Some k \<Longrightarrow> \<forall>t \<in> set (xs @ ys). k \<notin> set (held t)"
    using row_locks.no_circular_wait [OF valid assms(2)] unfolding row_locks_held by blast
  show ?thesis
  proof (cases "wanted s")
    case None
    then show ?thesis
      unfolding split by (cases "job_commit L (s_job s) (s_rows s) (in_tx s w)") (auto intro: proceeds_commit)
  next
    case (Some i)
    show ?thesis
    proof (cases "walletRepo_FindByIDForUpdate L Tx i (in_tx s w)")
      case (Pair r w')
      then show ?thesis
        unfolding split using proceeds_lock [OF Some free [OF Some]] proceeds_fail [OF Some]
        by (cases r) blast+
    qed
  qed
qed

definition lock_work :: "'d session list \<Rightarrow> nat" where
  "lock_work ss = (\<Sum>s \<leftarrow> ss. Suc (length (job_locks (s_job s)) - length (s_rows s)))"

lemma proceeds_less: "proceeds L st st' \<Longrightarrow> lock_work (snd st') < lock_work (snd st)"
  by (induction rule: proceeds.induct) (auto simp: lock_work_def wanted_def split: if_splits)

lemma proceeds_interleave: "(proceeds L)\<^sup>*\<^sup>* st st' \<Longrightarrow> (interleave L P)\<^sup>*\<^sup>* st st'"
  by (induction rule: rtranclp_induct) (auto intro: rtranclp.rtrancl_into_rtrancl interleave_proceeds)

lemma sessions_end:
  assumes "interleave_ok L P st" and "decimal_laws L v" and "(proceeds L)\<^sup>*\<^sup>* st st'" and "\<nexists>st''. proceeds L st' st''"
  shows "snd st' = []"
proof -
  have "interleave_ok L P st'"
    using interleave_run [OF proceeds_interleave [OF assms(3)] assms(2,1)] by simp
  then show ?thesis using proceeds_enabled [of L P "fst st'" "snd st'"] assms(4) by auto
qed

end
