(* ===== verification/LockOrder.thy ===== *)
theory LockOrder
  imports Concurrency "HOL-Library.Sublist"
begin

text \<open>
  The order in which a session locks rows, read off the history \<open>row_locks\<close>: only
  \<open>FindByIDForUpdate\<close> extends it, so a session adds wallets of its plan, in the order of the plan.
\<close>

section \<open>What locks nothing\<close>

definition lockless :: "world \<Rightarrow> world \<Rightarrow> bool" where
  "lockless w w' \<longleftrightarrow> row_locks w' = row_locks w"

interpretation lockless_order: step_order lockless
  by unfold_locales (auto simp: lockless_def)

lemma lockless_run_stmt: "steps lockless (run_stmt cn q)"
  by (cases cn)
    (auto simp: steps_def run_stmt_def lockless_def split: option.splits fault.splits prod.splits sum.splits)

lemma lockless_primitives:
  "steps lockless time_Now" "steps lockless uuid_New" "steps lockless (rand_Int m)" "steps lockless tx_Begin"
  "steps lockless tx_Commit" "lockless s (tx_Rollback s)"
  by (auto simp: steps_def lockless_def time_Now_def uuid_New_def rand_Int_def tx_Begin_def tx_Commit_def tx_Rollback_def
      split: option.splits fault.splits)

lemmas lockless_intros = lockless_order.steps_intros lockless_run_stmt lockless_primitives

lemma lockless_randomAlphanumeric: "steps lockless (randomAlphanumeric n)"
  by (induction n) (auto intro!: lockless_intros)

lemma lockless_state: "steps lockless (\<lambda>w. (Inr (f w), w))"
  by (simp add: steps_def lockless_def)

lemma lockless_generators:
  "steps lockless GenerateWalletID" "steps lockless GenerateLedgerEntryID" "steps lockless GenerateTransactionRef"
  unfolding GenerateWalletID_def GenerateLedgerEntryID_def GenerateTransactionRef_def
  by (intro lockless_intros lockless_randomAlphanumeric lockless_state)+

lemma lockless_lookups:
  "steps lockless (walletRepo_FindByUserID L uid)" "steps lockless (walletRepo_FindByID L i)"
  "steps lockless (userRepo_FindByEmail email)" "steps lockless (HashPassword L p)"
proof -
  show "steps lockless (HashPassword L p)" by (simp add: steps_def lockless_def HashPassword_state)
qed (simp_all add: walletRepo_FindByUserID_def walletRepo_FindByID_def userRepo_FindByEmail_def find_or_nil_def lockless_intros)

lemmas lockless_parts = lockless_intros lockless_generators lockless_lookups

lemma lockless_job_open: "steps lockless (job_open L c)"
  by (cases c) (auto intro!: lockless_parts)

lemma lockless_job_commit: "steps lockless (job_commit L job rows)"
proof -
  have "steps lockless (job_rest L job rows)"
    by (cases job)
      (auto simp: topUp_rest_def transfer_rest_def transfer_locked_def transfer_writes_def create_pending_def
        write_entry_def register_statements_def Let_def transactionRepo_Create_def walletRepo_UpdateBalance_def
        ledgerRepo_Create_def transactionRepo_UpdateStatus_def userRepo_Create_def walletRepo_Create_def
        intro!: lockless_parts)
  then show ?thesis unfolding job_commit_def by (intro lockless_parts)
qed

section \<open>What a session locks\<close>

lemma FindByIDForUpdate_locks:
  assumes "walletRepo_FindByIDForUpdate L Tx i w = (x, w')"
  shows "\<exists>js. subseq js [i] \<and> row_locks w' = row_locks w @ js"
proof -
  have some: "subseq [] [i]" "subseq [i] [i]" by simp_all
  obtain y u where y: "find_or_nil ''find wallet by id for update query failed''
      (FindWalletByIDForUpdate i) (wallet_of L) Tx w = (y, u)" by fastforce
  have "steps lockless (find_or_nil m (FindWalletByIDForUpdate i) (wallet_of L) Tx)" for m
    unfolding find_or_nil_def by (intro lockless_intros)
  from stepsD [OF this y] have "row_locks u = row_locks w" by (simp add: lockless_def)
  then have "row_locks w' = row_locks w @ [] \<or> row_locks w' = row_locks w @ [i]"
    using assms y by (cases y) (auto simp: walletRepo_FindByIDForUpdate_def bindE_def note_lock_def
        split: if_splits)
  then show ?thesis using some by blast
qed

lemma lock_rows_locks:
  "lock_rows L ids w = (x, w') \<Longrightarrow> \<exists>js. subseq js ids \<and> row_locks w' = row_locks w @ js"
proof (induction ids arbitrary: w x w')
  case Nil
  then show ?case by (simp add: returnE_def)
next
  case (Cons i ids)
  obtain y u where y: "walletRepo_FindByIDForUpdate L Tx i w = (y, u)" by fastforce
  obtain ks where ks: "subseq ks [i]" "row_locks u = row_locks w @ ks" using FindByIDForUpdate_locks [OF y] by blast
  show ?case
  proof (cases y)
    case (Inl e)
    then have "lock_rows L (i # ids) w = (Inl e, u)" using y by (simp add: bindE_def)
    then have "w' = u" using Cons.prems by simp
    moreover have "subseq (ks @ []) ([i] @ ids)" using ks(1) by (rule list_emb_append_mono) simp
    ultimately show ?thesis using ks(2) by (intro exI [of _ ks]) simp
  next
    case (Inr row)
    obtain z v where z: "lock_rows L ids u = (z, v)" by fastforce
    from Cons.IH [OF z] obtain js where js: "subseq js ids" "row_locks v = row_locks u @ js" by auto
    have "w' = v" using Cons.prems y Inr z by (auto simp: bindE_def returnE_def split: sum.splits)
    moreover have "subseq (ks @ js) ([i] @ ids)" using ks(1) js(1) by (rule list_emb_append_mono)
    ultimately show ?thesis using ks(2) js(2) by (intro exI [of _ "ks @ js"]) simp
  qed
qed

lemma wallet_with_id_found: "i \<in> wr_id ` set (wallets d) \<Longrightarrow> wallet_with_id d i \<noteq> None"
  by (auto simp: wallet_with_id_def find_None_iff)

text \<open>Rows that exist are all locked, when locking them succeeds.\<close>

lemma lock_rows_all:
  "lock_rows L ids w = (Inr rows, w') \<Longrightarrow> work w = Some (d, now) \<Longrightarrow> set ids \<subseteq> wr_id ` set (wallets d) \<Longrightarrow>
    row_locks w' = row_locks w @ ids"
proof (induction ids arbitrary: w rows w')
  case Nil
  then show ?case by (simp add: returnE_def)
next
  case (Cons i ids)
  obtain row u rows' where row: "walletRepo_FindByIDForUpdate L Tx i w = (Inr row, u)"
    and rest: "lock_rows L ids u = (Inr rows', w')"
    using Cons.prems(1) by (auto simp: bindE_Inr returnE_Inr)
  have "wallet_with_id d i \<noteq> None" using Cons.prems(3) by (intro wallet_with_id_found) simp
  then have u: "row_locks u = row_locks w @ [i]" "work u = Some (d, now)"
    using row Cons.prems(2) by (auto simp: FindByIDForUpdate_Inr)
  then show ?case using Cons.IH [OF rest u(2)] Cons.prems(3) by simp
qed

text \<open>The wallets whose rows a call needs.\<close>

fun call_wallets :: "db \<Rightarrow> 'd call \<Rightarrow> string set" where
  "call_wallets d (TopUpCall uid _) = wr_id ` set_option (wallet_of_user d uid)"
| "call_wallets d (TransferCall uid req) =
     insert (TransferRequest_TargetWalletID req) (wr_id ` set_option (wallet_of_user d uid))"
| "call_wallets d (RegisterCall _) = {}"

lemma job_open_wallets:
  "job_open L c w = (Inr job, w') \<Longrightarrow> set (job_locks job) = call_wallets (committed w) c"
  by (cases c) (auto simp: succ split: option.splits if_splits dest!: wallet_of_user_Some wallet_with_id_Some
      HashPassword_run)

lemma subseq_ascending: "subseq js (ids :: string list) \<Longrightarrow> sorted_wrt (<) ids \<Longrightarrow> sorted_wrt (<) js"
  by (induction rule: list_emb.induct) (auto dest: list_emb_set)

end
