(* ===== verification/Schedules.thy ===== *)
theory Schedules
  imports LockOrder
begin

text \<open>
  The code is a session: a call of \<open>TopUp\<close>, \<open>Transfer\<close> or \<open>Register\<close> that runs alone is a schedule of the
  machine of interleaved sessions, step by step.
\<close>

section \<open>The code as a session\<close>

fun serve_call :: "'d lib \<Rightarrow> 'd call \<Rightarrow> unit go" where
  "serve_call L (TopUpCall userID req) = bindE (TopUp L userID req) (\<lambda>_. returnE ())"
| "serve_call L (TransferCall userID req) = bindE (Transfer L userID req) (\<lambda>_. returnE ())"
| "serve_call L (RegisterCall req) = bindE (Register L req) (\<lambda>_. returnE ())"

definition job_run :: "'d lib \<Rightarrow> 'd job \<Rightarrow> unit go" where
  "job_run L job = deferE tx_Rollback (bindE (lock_rows L (job_locks job)) (job_commit L job))"

lemma bindE_assoc: "bindE (bindE m f) g = bindE m (\<lambda>x. bindE (f x) g)"
  by (rule ext) (auto simp: bindE_def split: prod.splits sum.splits)

lemma bindE_return: "bindE (returnE x) f = f x"
  by (rule ext) (simp add: bindE_def returnE_def)

lemma lock_rows_topUp:
  "bindE (lock_rows L (job_locks (TopUpJob wallet a))) (job_rest L (TopUpJob wallet a)) =
     bindE (topUp_statements L wallet a) (\<lambda>_. returnE ())"
  by (simp add: topUp_statements_def bindE_assoc bindE_return)

lemma lock_rows_transfer:
  "bindE (lock_rows L (job_locks (TransferJob s t a))) (job_rest L (TransferJob s t a)) =
     bindE (transfer_statements L s t a) (\<lambda>_. returnE ())"
  by (simp add: transfer_statements_def transfer_lock_def bindE_assoc bindE_return)

lemma job_run_topUp: "job_run L (TopUpJob wallet a) = deferE tx_Rollback
    (bindE (bindE (topUp_statements L wallet a) (\<lambda>_. returnE ())) (\<lambda>_. wrapE (Wrap ''failed to commit transaction'') tx_Commit))"
  unfolding job_run_def job_commit_def [abs_def] lock_rows_topUp [symmetric] bindE_assoc ..

lemma job_run_transfer: "job_run L (TransferJob s t a) = deferE tx_Rollback
    (bindE (bindE (transfer_statements L s t a) (\<lambda>_. returnE ())) (\<lambda>_. wrapE (Wrap ''failed to commit transaction'') tx_Commit))"
  unfolding job_run_def job_commit_def [abs_def] lock_rows_transfer [symmetric] bindE_assoc ..

text \<open>What the caller does after its commit only starts a goroutine and builds the response.\<close>

lemma without_answer:
  assumes run: "bindE (wrapE m1 tx_Begin) (\<lambda>_. deferE tx_Rollback (bindE body (\<lambda>x.
      bindE (wrapE m2 tx_Commit) (\<lambda>_. k x)))) w = (r, w')"
    and quiet: "steps quiet body"
    and k: "\<And>x s. k x s = (Inr (f x), s\<lparr>spawned := spawned s @ g x\<rparr>)"
  shows "bindE (wrapE m1 tx_Begin) (\<lambda>_. deferE tx_Rollback (bindE (bindE body (\<lambda>_. returnE ()))
      (\<lambda>_. wrapE m2 tx_Commit))) w = (map_sum id (\<lambda>_. ()) r, w'\<lparr>spawned := spawned w\<rparr>)"
proof -
  let ?u = "(next_tick w)\<lparr>work := Some (committed w, clock (env w) (tick w))\<rparr>"
  obtain x t where x: "body ?u = (x, t)" by (cases "body ?u")
  then have t: "spawned t = spawned w" using stepsD [OF quiet x] by (simp add: quiet_def)
  then have same: "t\<lparr>spawned := spawned w\<rparr> = t" by (cases t) simp
  show ?thesis
    using run x t same
    by (auto simp: bindE_def wrapE_def deferE_def tx_Begin_def tx_Commit_def tx_Rollback_def returnE_def k next_tick_def
        split: fault.splits sum.splits option.splits)
qed

lemma spawned_keep: "quiet w w' \<Longrightarrow> w'\<lparr>spawned := spawned w\<rparr> = w'"
  by (cases w') (simp add: quiet_def)

lemma topUp_job:
  assumes "TopUp L uid req w = (r, w')"
  shows "bindE (job_open L (TopUpCall uid req)) (job_run L) w = (map_sum id (\<lambda>_. ()) r, w'\<lparr>spawned := spawned w\<rparr>)"
proof -
  obtain x u where x: "walletRepo_FindByUserID L uid w = (x, u)" by (cases "walletRepo_FindByUserID L uid w")
  have u: "u\<lparr>spawned := spawned w\<rparr> = u" "spawned u = spawned w"
    using spawned_keep stepsD [OF wallet_by_user.find_quiet x] by (auto simp: quiet_def)
  show ?thesis
  proof (cases "\<exists>wallet. x = Inr (Some wallet)")
    case True
    then obtain wallet where wallet: "x = Inr (Some wallet)" by blast
    note tx = assms [unfolded TopUp_def bindE_run [where m = "walletRepo_FindByUserID L uid", OF x [unfolded wallet]]
        option.case]
    show ?thesis
      using without_answer [OF tx quiet_topUp_statements topUp_answer_run] x wallet u(2)
      by (simp add: bindE_assoc bindE_return job_run_topUp bindE_run [where m = "walletRepo_FindByUserID L uid"])
  next
    case False
    then show ?thesis using assms x u
      by (cases x) (auto simp: TopUp_def bindE_def throwE_def split: option.splits)
  qed
qed

lemma transfer_job:
  assumes "Transfer L uid req w = (r, w')"
  shows "bindE (job_open L (TransferCall uid req)) (job_run L) w = (map_sum id (\<lambda>_. ()) r, w'\<lparr>spawned := spawned w\<rparr>)"
proof -
  let ?target = "walletRepo_FindByID L (TransferRequest_TargetWalletID req)"
  obtain x u where x: "walletRepo_FindByUserID L uid w = (x, u)" by (cases "walletRepo_FindByUserID L uid w")
  obtain y t where y: "?target u = (y, t)" by (cases "?target u")
  have u: "quiet w u" "quiet w t"
    using stepsD [OF wallet_by_user.find_quiet x] stepsD [OF wallet_by_id.find_quiet y] quiet_order.R_trans by blast+
  note keep = spawned_keep [OF u(1)] spawned_keep [OF u(2)]
  show ?thesis
  proof (cases "\<exists>source target. x = Inr (Some source) \<and> y = Inr (Some target) \<and>
      Wallet_ID source \<noteq> TransferRequest_TargetWalletID req")
    case True
    then obtain source target where rows: "x = Inr (Some source)" "y = Inr (Some target)"
      and ne: "Wallet_ID source \<noteq> TransferRequest_TargetWalletID req" by blast
    note tx = assms [unfolded Transfer_def bindE_run [where m = "walletRepo_FindByUserID L uid", OF x [unfolded rows]]
        option.case if_not_P [OF ne] bindE_run [where m = ?target, OF y [unfolded rows]]]
    show ?thesis
      using without_answer [OF tx quiet_transfer_statements transfer_answer_run] x y rows ne u(2)
      by (simp add: bindE_assoc bindE_return job_run_transfer quiet_def
          bindE_run [where m = "walletRepo_FindByUserID L uid"] bindE_run [where m = ?target])
  next
    case False
    then obtain e where "r = Inl e" "bindE (job_open L (TransferCall uid req)) (job_run L) w = (Inl e, w')"
      and "w' = u \<or> w' = t"
      using assms x y
      by (cases x; cases y) (auto simp: Transfer_def bindE_def throwE_def split: option.splits if_splits)
    then show ?thesis using keep by auto
  qed
qed

lemma job_run_register: "job_run L (RegisterJob email hash) = deferE tx_Rollback
    (bindE (bindE (register_statements L email hash) (\<lambda>_. returnE ())) (\<lambda>_. wrapE (Wrap ''failed to commit transaction'') tx_Commit))"
  by (simp add: job_run_def job_commit_def bindE_return)

lemma register_job:
  assumes "Register L req w = (r, w')"
  shows "bindE (job_open L (RegisterCall req)) (job_run L) w = (map_sum id (\<lambda>_. ()) r, w'\<lparr>spawned := spawned w\<rparr>)"
proof -
  let ?hash = "wrapE (Wrap ''failed to hash password'') (HashPassword L (RegisterRequest_Password req))"
  obtain x u where x: "userRepo_FindByEmail (RegisterRequest_Email req) w = (x, u)"
    by (cases "userRepo_FindByEmail (RegisterRequest_Email req) w")
  obtain y t where y: "?hash u = (y, t)" by (cases "?hash u")
  have "steps quiet ?hash" by (intro quiet_intros quiet_HashPassword)
  then have "quiet u t" by (rule stepsD [where m = ?hash, OF _ y])
  then have u: "quiet w u" "quiet w t"
    using stepsD [OF user_by_email.find_quiet x] quiet_order.R_trans by blast+
  note keep = spawned_keep [OF u(1)] spawned_keep [OF u(2)]
  show ?thesis
  proof (cases "\<exists>hash. x = Inr None \<and> y = Inr hash")
    case True
    then obtain hash where rows: "x = Inr None" "y = Inr hash" by blast
    note tx = assms [unfolded Register_def bindE_run [where m = "userRepo_FindByEmail (RegisterRequest_Email req)",
        OF x [unfolded rows]] simp_thms if_False bindE_run [where m = ?hash, OF y [unfolded rows]],
        folded register_response_def, unfolded case_prod_unfold]
    show ?thesis
      using without_answer [OF tx quiet_register_statements register_answer_run [unfolded case_prod_unfold]] x y rows u(2)
      by (simp add: bindE_assoc bindE_return job_run_register quiet_def
          bindE_run [where m = "userRepo_FindByEmail (RegisterRequest_Email req)"] bindE_run [where m = ?hash])
  next
    case False
    then obtain e where "r = Inl e" "bindE (job_open L (RegisterCall req)) (job_run L) w = (Inl e, w')"
      and "w' = u \<or> w' = t"
      using assms x y
      by (cases x; cases y) (auto simp: Register_def bindE_def throwE_def split: option.splits if_splits)
    then show ?thesis using keep by auto
  qed
qed

lemma serve_call_job:
  assumes "serve_call L c w = (r, w')"
  shows "bindE (job_open L c) (job_run L) w = (r, w'\<lparr>spawned := spawned w\<rparr>)"
proof -
  have ret: "fst (bindE m (\<lambda>_. returnE ()) w) = map_sum id (\<lambda>_. ()) (fst (m w))"
    "snd (bindE m (\<lambda>_. returnE ()) w) = snd (m w)" for m :: "'a go"
    by (auto simp: bindE_def returnE_def split: prod.splits sum.splits)
  show ?thesis
  proof (cases c)
    case (TopUpCall uid req)
    then show ?thesis using assms topUp_job [of L uid req w "fst (TopUp L uid req w)" "snd (TopUp L uid req w)"]
      by (auto simp: bindE_def returnE_def split: prod.splits sum.splits)
  next
    case (TransferCall uid req)
    then show ?thesis using assms transfer_job [of L uid req w "fst (Transfer L uid req w)" "snd (Transfer L uid req w)"]
      by (auto simp: bindE_def returnE_def split: prod.splits sum.splits)
  next
    case (RegisterCall req)
    then show ?thesis using assms register_job [of L req w "fst (Register L req w)" "snd (Register L req w)"]
      by (auto simp: bindE_def returnE_def split: prod.splits sum.splits)
  qed
qed

section \<open>A call alone is a schedule\<close>

lemma in_tx_outside [simp]: "in_tx s (outside_tx w) = in_tx s w"
  by (simp add: in_tx_def outside_tx_def)

lemma in_tx_next [simp]: "in_tx s (next_tick (in_tx s w)) = next_tick (in_tx s w)"
  by (cases w) (simp add: in_tx_def next_tick_def)

lemma proceeds_one:
  "wanted s = Some i \<Longrightarrow> walletRepo_FindByIDForUpdate L Tx i (in_tx s w) = (Inr row, w') \<Longrightarrow>
     proceeds L (w, [s]) (outside_tx w', [s\<lparr>s_rows := s_rows s @ [row]\<rparr>])"
  "wanted s = Some i \<Longrightarrow> walletRepo_FindByIDForUpdate L Tx i (in_tx s w) = (Inl e, w') \<Longrightarrow>
     proceeds L (w, [s]) (tx_Rollback w', [])"
  "wanted s = None \<Longrightarrow> job_commit L (s_job s) (s_rows s) (in_tx s w) = (r, w') \<Longrightarrow>
     proceeds L (w, [s]) (tx_Rollback w', [])"
  using proceeds_lock [of s i "[]" "[]" L w row w'] proceeds_fail [of s i L w e w' "[]" "[]"]
    proceeds_commit [of s L w r w' "[]" "[]"]
  by simp_all

lemma outside_in_tx: "work w = None \<Longrightarrow> outside_tx (in_tx s w) = w"
  by (simp add: in_tx_def outside_tx_def)

text \<open>Taking the locks that are left, one after the other.\<close>

lemma lock_phase:
  assumes "lock_rows L ids (in_tx s w) = (x, u)" and "ids = drop (length (s_rows s)) (job_locks (s_job s))"
    and "length (s_rows s) \<le> length (job_locks (s_job s))" and "work w = None"
  shows "(proceeds L)\<^sup>*\<^sup>* (w, [s]) (case x of
      Inl _ \<Rightarrow> (tx_Rollback u, [])
    | Inr rows \<Rightarrow> (outside_tx u, [s\<lparr>s_rows := s_rows s @ rows\<rparr>])) \<and>
    (\<forall>rows. x = Inr rows \<longrightarrow> in_tx s u = u \<and> length (s_rows s @ rows) = length (job_locks (s_job s)))"
  using assms
proof (induction ids arbitrary: s w x u)
  case Nil
  then have "x = Inr []" "u = in_tx s w" by (auto simp: returnE_def)
  then show ?case using Nil outside_in_tx [of w s] by (simp add: in_tx_def)
next
  case (Cons i ids)
  have lt: "length (s_rows s) < length (job_locks (s_job s))"
    using Cons.prems(2) by (metis drop_all linorder_not_le list.distinct(1))
  then have i: "wanted s = Some i" "drop (Suc (length (s_rows s))) (job_locks (s_job s)) = ids"
    using Cons.prems(2) [folded Cons_nth_drop_Suc [OF lt]] lt by (auto simp: wanted_def)
  obtain y t where y: "walletRepo_FindByIDForUpdate L Tx i (in_tx s w) = (y, t)"
    by (cases "walletRepo_FindByIDForUpdate L Tx i (in_tx s w)")
  show ?case
  proof (cases y)
    case (Inl e)
    then have "x = Inl e" "u = t" using Cons.prems(1) y by (simp_all add: bindE_def)
    then show ?thesis using proceeds_one(2) [OF i(1) y [unfolded Inl]] by auto
  next
    case (Inr row)
    let ?s = "s\<lparr>s_rows := s_rows s @ [row]\<rparr>" and ?w = "outside_tx t"
    have t: "t = locking i row (next_tick (in_tx s w))" using y Inr by (auto simp: FindByIDForUpdate_Inr)
    then have in_t: "in_tx ?s ?w = t" by (cases w) (simp add: in_tx_def outside_tx_def next_tick_def locking_def)
    obtain z v where z: "lock_rows L ids t = (z, v)" by (cases "lock_rows L ids t")
    have rest: "(proceeds L)\<^sup>*\<^sup>* (?w, [?s]) (case z of Inl _ \<Rightarrow> (tx_Rollback v, [])
        | Inr rows \<Rightarrow> (outside_tx v, [?s\<lparr>s_rows := s_rows ?s @ rows\<rparr>])) \<and>
      (\<forall>rows. z = Inr rows \<longrightarrow> in_tx ?s v = v \<and> length (s_rows ?s @ rows) = length (job_locks (s_job ?s)))"
    proof (rule Cons.IH)
      show "lock_rows L ids (in_tx ?s ?w) = (z, v)" unfolding in_t by (rule z)
    qed (use i(2) lt in simp_all)
    have x: "x = map_sum id (\<lambda>rows. row # rows) z" "u = v"
      using Cons.prems(1) y Inr z by (auto simp: bindE_def returnE_def split: sum.splits)
    have "proceeds L (w, [s]) (?w, [?s])" using proceeds_one(1) [OF i(1) y [unfolded Inr]] .
    then show ?thesis
      using rest x by (cases z) (auto simp: in_tx_def intro: converse_rtranclp_into_rtranclp)
  qed
qed

lemma job_run_schedule:
  assumes run: "job_run L job (in_tx s w) = (r, w')" and s: "s = \<lparr>s_job = job, s_rows = [], s_start = now\<rparr>"
    and w: "work w = None"
  shows "(proceeds L)\<^sup>*\<^sup>* (w, [s]) (w', [])"
proof -
  obtain x u where x: "lock_rows L (job_locks job) (in_tx s w) = (x, u)"
    by (cases "lock_rows L (job_locks job) (in_tx s w)")
  note locks = lock_phase [OF x, unfolded s session.select_convs list.size drop_0, OF refl le0 w]
  show ?thesis
  proof (cases x)
    case (Inl e)
    then show ?thesis using run x locks s by (auto simp: job_run_def deferE_def bindE_def)
  next
    case (Inr rows)
    let ?s = "s\<lparr>s_rows := rows\<rparr>"
    obtain y v where y: "job_commit L job rows u = (y, v)" by (cases "job_commit L job rows u")
    have "in_tx ?s (outside_tx u) = u" "wanted ?s = None"
      using locks Inr s by (auto simp: wanted_def in_tx_def outside_tx_def)
    then have "proceeds L (outside_tx u, [?s]) (tx_Rollback v, [])"
      using y s by (intro proceeds_one(3)) simp_all
    moreover have "w' = tx_Rollback v" using run x Inr y by (simp add: job_run_def deferE_def bindE_def)
    ultimately show ?thesis
      using locks Inr s by (auto intro: rtranclp.rtrancl_into_rtrancl)
  qed
qed

lemma call_schedule:
  assumes "serve_call L c w = (r, w')" and "call_amounts P c"
  shows "\<exists>u. (interleave L P)\<^sup>*\<^sup>* (w, []) (u, []) \<and> committed u = committed w' \<and> tick u = tick w' \<and>
    row_locks u = row_locks w'"
proof -
  note job = serve_call_job [OF assms(1)]
  obtain x t where x: "job_open L c w = (x, t)" by (cases "job_open L c w")
  show ?thesis
  proof (cases x)
    case (Inl e)
    then have "t = w'\<lparr>spawned := spawned w\<rparr>" using job x by (simp add: bindE_def)
    moreover have "interleave L P (w, []) (outside_tx t, [])"
      using interleave_refused x Inl by blast
    ultimately show ?thesis by (intro exI [of _ "outside_tx t"]) (auto simp: outside_tx_def)
  next
    case (Inr j)
    obtain now where t: "work t = Some (committed t, now)" using job_open_Inr x Inr by metis
    let ?s = "\<lparr>s_job = j, s_rows = [], s_start = now\<rparr>"
    have "in_tx ?s (outside_tx t) = t" using t by (cases t) (simp add: in_tx_def outside_tx_def)
    then have "job_run L j (in_tx ?s (outside_tx t)) = (r, w'\<lparr>spawned := spawned w\<rparr>)"
      using job x Inr by (simp add: bindE_def)
    then have "(interleave L P)\<^sup>*\<^sup>* (outside_tx t, [?s]) (w'\<lparr>spawned := spawned w\<rparr>, [])"
      using job_run_schedule proceeds_interleave by (metis outside_tx_simps(2))
    moreover have "interleave L P (w, []) (outside_tx t, [?s])"
      using interleave_arrives x Inr assms(2) t by metis
    ultimately show ?thesis
      by (intro exI [of _ "w'\<lparr>spawned := spawned w\<rparr>"]) (auto intro: converse_rtranclp_into_rtranclp)
  qed
qed

text \<open>What a call locks, it locks in ascending order.\<close>

lemma call_locks_ascend:
  assumes "serve_call L c w = (r, w')"
  shows "\<exists>ids. row_locks w' = row_locks w @ ids \<and> sorted_wrt (<) ids \<and>
    (r = Inr () \<longrightarrow> set ids = call_wallets (committed w) c)"
proof -
  note job = serve_call_job [OF assms]
  obtain x t where x: "job_open L c w = (x, t)" by (cases "job_open L c w")
  have t: "row_locks t = row_locks w" using stepsD [OF lockless_job_open x] by (simp add: lockless_def)
  show ?thesis
  proof (cases x)
    case (Inl e)
    then have "t = w'\<lparr>spawned := spawned w\<rparr>" using job x by (simp add: bindE_def)
    moreover have "r = Inl e" using job x Inl by (simp add: bindE_def)
    ultimately show ?thesis using t by (intro exI [of _ "[]"]) auto
  next
    case (Inr j)
    have asc: "sorted_wrt (<) (job_locks j)" using job_open_Inr job_locks_ascending x Inr by metis
    obtain y u where y: "lock_rows L (job_locks j) t = (y, u)" by fastforce
    from lock_rows_locks [OF y] obtain js where js: "subseq js (job_locks j)" "row_locks u = row_locks t @ js"
      by blast
    obtain z v where z: "(case y of Inl e \<Rightarrow> (Inl e, u) | Inr rows \<Rightarrow> job_commit L j rows u) = (z, v)"
      by fastforce
    then have "row_locks v = row_locks u"
      using stepsD [OF lockless_job_commit] by (cases y) (auto simp: lockless_def)
    moreover have "w'\<lparr>spawned := spawned w\<rparr> = tx_Rollback v"
      using job x Inr y z by (auto simp: bindE_def job_run_def deferE_def split: sum.splits)
    then have "row_locks (w'\<lparr>spawned := spawned w\<rparr>) = row_locks (tx_Rollback v)" by (rule arg_cong)
    then have "row_locks w' = row_locks v" by (simp add: tx_Rollback_def)
    ultimately have js': "row_locks w' = row_locks w @ js" using js(2) t by simp
    have "js = job_locks j" if good: "r = Inr ()"
    proof -
      obtain now where now: "work t = Some (committed w, now)" "set (job_locks j) \<subseteq> wr_id ` set (wallets (committed w))"
        using job_open_Inr x Inr by metis
      obtain rows where "y = Inr rows"
        using job x Inr y good by (cases y) (auto simp: bindE_def job_run_def deferE_def)
      then have "row_locks u = row_locks t @ job_locks j" using y now by (auto intro: lock_rows_all)
      then show ?thesis using js(2) by simp
    qed
    then show ?thesis
      using subseq_ascending [OF js(1) asc] js' job_open_wallets x Inr by metis
  qed
qed

end
