(* ===== verification/ConcurrencyProperties.thy ===== *)
theory ConcurrencyProperties
  imports Schedules MoneyProperties
begin

text \<open>
  The properties of requests that run at the same time: the books, the absence of deadlock, and
  that the code is one of the sessions.
\<close>

section \<open>The properties\<close>

text \<open>
  C3. Concurrent requests keep the books. However any number of top-ups, transfers and registrations
  interleave, with failing statements, cancelled requests and all other operations in
  between, the committed database moves only by whole steps of the abstract machine of the books,
  one per committed request; so it stays well formed, double entry and covered, and as long as no
  amount ends in half a hundredth, the ledger explains every balance: no update is lost.
\<close>

theorem concurrent_requests_keep_books:
  assumes "decimal_laws L v" and "db_ok (committed w)" and "work w = None" and "books_inv (committed w)"
    and "(interleave L P)\<^sup>*\<^sup>* (w, []) (w', ss)"
  shows "(change v P)\<^sup>*\<^sup>* (committed w) (committed w') \<and> db_ok (committed w') \<and> books_inv (committed w') \<and>
    ((\<forall>a. P a \<longrightarrow> \<not> half_cent v a) \<and> books_exact (committed w) \<longrightarrow> books_exact (committed w'))"
proof -
  have "interleave_ok L P (w, [])" using assms(2,3) by (simp add: interleave_ok_def world_ok_def sessions_ok_def)
  from interleave_run [OF assms(5,1) this] have
    run: "(change v P)\<^sup>*\<^sup>* (committed w) (committed w')" and "db_ok (committed w')"
    by (auto simp: interleave_ok_def world_ok_def)
  moreover from run have "books_inv (committed w')"
    using assms(4) by (induction rule: rtranclp_induct) (auto intro: books_inv_change)
  moreover have "books_exact (committed w')" if "\<forall>a. P a \<longrightarrow> \<not> half_cent v a" "books_exact (committed w)"
  proof -
    from run have "keys_ok (committed w') \<and> books_exact (committed w')"
    proof (induction rule: rtranclp_induct)
      case base
      then show ?case using that(2) assms(4) by (simp add: books_inv_def)
    next
      case (step d d')
      show ?case using books_exact_change [OF step.hyps(2) _ step.IH] that(1) by blast
    qed
    then show ?thesis ..
  qed
  ultimately show ?thesis by blast
qed

text \<open>
  C4. No deadlock. Row locks are taken in ascending order of the wallets' identifiers, so whatever
  has happened, some session can go on; every step takes a session closer to its end, so the
  sessions that are open all end without one of them being cancelled, in whatever order they go on.
\<close>

theorem sessions_never_deadlock:
  assumes "decimal_laws L v" and "db_ok (committed w)" and "work w = None"
    and "(interleave L P)\<^sup>*\<^sup>* (w, []) st"
  shows "(snd st \<noteq> [] \<longrightarrow> (\<exists>st'. proceeds L st st')) \<and>
    (\<forall>st'. (proceeds L)\<^sup>*\<^sup>* st st' \<and> (\<nexists>st''. proceeds L st' st'') \<longrightarrow> snd st' = []) \<and>
    wf {(st2, st1). proceeds L st1 st2}"
proof -
  have "interleave_ok L P (w, [])" using assms(2,3) by (simp add: interleave_ok_def world_ok_def sessions_ok_def)
  from interleave_run [OF assms(4,1) this] have ok: "interleave_ok L P st" by simp
  have "wf {(st2, st1). proceeds L st1 st2}"
    by (rule wf_subset [OF wf_measure [of "\<lambda>st. lock_work (snd st)"]]) (auto dest: proceeds_less)
  moreover have "snd st \<noteq> [] \<longrightarrow> (\<exists>st'. proceeds L st st')"
    using proceeds_enabled [of L P "fst st" "snd st"] ok by simp
  ultimately show ?thesis using sessions_end [OF ok assms(1)] by blast
qed

text \<open>
  C5. The code runs as a session. A call of \<open>TopUp\<close>, \<open>Transfer\<close> or
  \<open>Register\<close>, from any state and whatever fails on the way, has the outcome of one schedule of the
  machine of sessions: the same committed database after as many interactions, with the same
  wallets locked in the same order. And that order is ascending: the wallets a call locks
  (\<open>SELECT ... FOR UPDATE\<close>), it locks in strictly ascending order of their identifiers, and if it
  succeeds they are the wallets of the caller and, in a transfer, of the payee.
\<close>

theorem call_is_a_session:
  assumes "call_amounts P c" and "serve_call L c w = (r, w')"
  shows "(\<exists>u. (interleave L P)\<^sup>*\<^sup>* (w, []) (u, []) \<and> committed u = committed w' \<and> tick u = tick w' \<and>
      row_locks u = row_locks w') \<and>
    (\<exists>ids. row_locks w' = row_locks w @ ids \<and> sorted_wrt (<) ids \<and>
      (r = Inr () \<longrightarrow> set ids = call_wallets (committed w) c))"
  using call_schedule [OF assms(2,1)] call_locks_ascend [OF assms(2)] by blast

section \<open>Two transfers in opposite directions\<close>

lemma sample_books: "books_inv (committed sample_world)" "work sample_world = None"
  by (simp_all add: sample_world_def sample_db_def empty_db_def books_inv_def keys_ok_def double_entry_def
      books_cover_def topped_up_def total_balance_def ledger_balance_def credits_def debits_def wallet_entry_def)

theorem concurrent_requests_keep_books_witness:
  "\<exists>w' :: world. (interleave sample_lib (\<lambda>_. True))\<^sup>*\<^sup>* (sample_world, []) (w', []) \<and>
     transactions (committed w') \<noteq> [] \<and> books_inv (committed w')"
proof -
  obtain res w' where run: "TopUp sample_lib 1 \<lparr>TopUpRequest_Amount = (250, -2)\<rparr> sample_world = (Inr res, w')"
    using sample_topup by blast
  then have "serve_call sample_lib (TopUpCall 1 \<lparr>TopUpRequest_Amount = (250, -2)\<rparr>) sample_world = (Inr (), w')"
    by (simp add: bindE_def returnE_def)
  from call_schedule [where P = "\<lambda>_. True", OF this] obtain u where
    u: "(interleave sample_lib (\<lambda>_. True))\<^sup>*\<^sup>* (sample_world, []) (u, [])" "committed u = committed w'"
    by auto
  have "transactions (committed w') \<noteq> []"
    using run sample_decimal_laws sample_db_ok by (cases rule: TopUp_cases) (auto dest!: topup_rows)
  moreover have "books_inv (committed u)"
    using concurrent_requests_keep_books [OF sample_decimal_laws sample_db_ok sample_books(2,1) u(1)] by blast
  ultimately show ?thesis using u by auto
qed

lemma job_open_run:
  assumes "healthy (env w)" and "wallet_of_user (committed w) uid = Some rs"
    and "wallet_with_id (committed w) i = Some rt" and "wr_id rs \<noteq> i"
  shows "\<exists>w' now. job_open L (TransferCall uid \<lparr>TransferRequest_TargetWalletID = i, TransferRequest_Amount = a\<rparr>) w =
    (Inr (TransferJob (wallet_of L rs) (wallet_of L rt) a), w') \<and> committed w' = committed w \<and> env w' = env w \<and>
    work w' = Some (committed w, now)"
  using assms wallet_by_user.find_run [OF healthy_fault [OF assms(1)], of L uid]
    wallet_by_id.find_run [of "next_tick w" L i]
  by (simp add: bindE_def healthy_fault wrapE_def tx_Begin_def returnE_def)

text \<open>Ann pays Bob while Bob pays Ann: both sessions are open and neither has a lock yet.\<close>

lemma sample_two_sessions:
  "\<exists>w' s t. (interleave sample_lib (\<lambda>_. True))\<^sup>*\<^sup>* (sample_world, []) (w', [s, t]) \<and>
     job_locks (s_job s) = [''WLT-A'', ''WLT-B''] \<and> job_locks (s_job t) = [''WLT-A'', ''WLT-B''] \<and>
     s_job s \<noteq> s_job t"
proof -
  note w = sample_env_ok(1)
  obtain w1 now1 where one: "job_open sample_lib (TransferCall 1 \<lparr>TransferRequest_TargetWalletID = ''WLT-B'',
      TransferRequest_Amount = (250, -2)\<rparr>) sample_world =
      (Inr (TransferJob (wallet_of sample_lib ann_wallet) (wallet_of sample_lib bob_wallet) (250, -2)), w1)"
    "committed w1 = committed sample_world" "env w1 = env sample_world" "work w1 = Some (committed sample_world, now1)"
    using job_open_run [OF w sample_wallets(1,2)] by (fastforce simp: ann_wallet_def wallet_entry_def)
  let ?w = "outside_tx w1"
  have w': "healthy (env ?w)" "committed ?w = committed sample_world"
    using w one by (simp_all add: outside_tx_def)
  have "wallet_of_user (committed sample_world) 2 = Some bob_wallet"
    by (simp add: sample_world_def sample_db_def wallet_of_user_def wallet_entry_def bob_wallet_def)
  then obtain w2 now2 where two: "job_open sample_lib (TransferCall 2 \<lparr>TransferRequest_TargetWalletID = ''WLT-A'',
      TransferRequest_Amount = (5, -3)\<rparr>) ?w =
      (Inr (TransferJob (wallet_of sample_lib bob_wallet) (wallet_of sample_lib ann_wallet) (5, -3)), w2)"
    "work w2 = Some (committed sample_world, now2)"
    using job_open_run [OF w'(1), of 2 bob_wallet "''WLT-A''" ann_wallet sample_lib "(5, -3)"] w'(2) sample_wallets(3)
    by (auto simp: bob_wallet_def wallet_entry_def)
  let ?s = "\<lambda>x now. \<lparr>s_job = x, s_rows = [], s_start = now\<rparr>"
  have "interleave sample_lib (\<lambda>_. True) (sample_world, []) (?w, [?s
      (TransferJob (wallet_of sample_lib ann_wallet) (wallet_of sample_lib bob_wallet) (250, -2)) now1])"
    by (rule interleave_arrives [OF one(1) _ one(4)]) simp
  moreover have "interleave sample_lib (\<lambda>_. True) (?w, [?s
      (TransferJob (wallet_of sample_lib ann_wallet) (wallet_of sample_lib bob_wallet) (250, -2)) now1])
    (outside_tx w2, [?s (TransferJob (wallet_of sample_lib bob_wallet) (wallet_of sample_lib ann_wallet) (5, -3)) now2, ?s
      (TransferJob (wallet_of sample_lib ann_wallet) (wallet_of sample_lib bob_wallet) (250, -2)) now1])"
    by (rule interleave_arrives [OF two(1) _ two(2)]) simp
  ultimately have run: "(interleave sample_lib (\<lambda>_. True))\<^sup>*\<^sup>* (sample_world, []) (outside_tx w2,
      [?s (TransferJob (wallet_of sample_lib bob_wallet) (wallet_of sample_lib ann_wallet) (5, -3)) now2, ?s
      (TransferJob (wallet_of sample_lib ann_wallet) (wallet_of sample_lib bob_wallet) (250, -2)) now1])"
    by (meson converse_rtranclp_into_rtranclp rtranclp.rtrancl_refl)
  have "(''WLT-A'' :: string) < ''WLT-B''" by simp
  then show ?thesis using run
    by (intro exI conjI) (assumption, simp_all add: ann_wallet_def bob_wallet_def wallet_entry_def)
qed

theorem sessions_never_deadlock_witness:
  "\<exists>st. (interleave sample_lib (\<lambda>_. True))\<^sup>*\<^sup>* (sample_world, []) st \<and> length (snd st) = 2 \<and>
     (\<exists>st'. proceeds sample_lib st st')"
proof -
  obtain w' s t where run: "(interleave sample_lib (\<lambda>_. True))\<^sup>*\<^sup>* (sample_world, []) (w', [s, t])"
    using sample_two_sessions by blast
  then show ?thesis
    using sessions_never_deadlock [OF sample_decimal_laws sample_db_ok sample_books(2) run]
    by (intro exI [of _ "(w', [s, t])"]) simp
qed

text \<open>Bob has money too and pays Ann: her wallet has the smaller identifier, so it is locked first.\<close>

definition rich_world :: world where
  "rich_world = sample_world\<lparr>committed := sample_db\<lparr>wallets :=
     [wallet_entry ''WLT-A'' 1 1000 ''IDR'' 1, wallet_entry ''WLT-B'' 2 700 ''IDR'' 1]\<rparr>\<rparr>"

lemma rich_db_ok: "db_ok (committed rich_world)"
  using sample_db_ok by (simp add: rich_world_def sample_world_def sample_db_def db_ok_defs wallet_entry_def empty_db_def)

lemma rich_transfer:
  "\<exists>res w'. Transfer sample_lib 2 \<lparr>TransferRequest_TargetWalletID = ''WLT-A'', TransferRequest_Amount = (250, -2)\<rparr>
     rich_world = (Inr res, w')"
proof -
  have env: "healthy (env rich_world)" "calendar_ok (env rich_world)"
    using sample_env_ok by (simp_all add: rich_world_def)
  have rs: "wallet_of_user (committed rich_world) 2 = Some (wallet_entry ''WLT-B'' 2 700 ''IDR'' 1)"
    and rt: "wallet_with_id (committed rich_world) ''WLT-A'' = Some (wallet_entry ''WLT-A'' 1 1000 ''IDR'' 1)"
    by (simp_all add: rich_world_def wallet_of_user_def wallet_with_id_def wallet_entry_def)
  have fresh: "transfer_keys_fresh rich_world"
    using sample_fresh(2) by (simp add: transfer_keys_fresh_def rich_world_def sample_world_def sample_db_def empty_db_def)
  have "dec_value (250, -2) \<le> 7" by code_simp
  then show ?thesis
    using Transfer_run [OF env sample_decimal_laws rich_db_ok rs, where
        req = "\<lparr>TransferRequest_TargetWalletID = ''WLT-A'', TransferRequest_Amount = (250, -2)\<rparr>"] rt fresh
    by (auto simp: wallet_entry_def sample_amounts sample_short)
qed

theorem call_is_a_session_witness:
  "\<exists>res (w' :: world) u. Transfer sample_lib 2
     \<lparr>TransferRequest_TargetWalletID = ''WLT-A'', TransferRequest_Amount = (250, -2)\<rparr> rich_world = (Inr res, w') \<and>
     row_locks w' = [''WLT-A'', ''WLT-B''] \<and> committed u = committed w' \<and> row_locks u = [''WLT-A'', ''WLT-B''] \<and>
     (interleave sample_lib (\<lambda>_. True))\<^sup>*\<^sup>* (rich_world, []) (u, [])"
proof -
  let ?req = "\<lparr>TransferRequest_TargetWalletID = ''WLT-A'', TransferRequest_Amount = (250, -2)\<rparr> :: dec TransferRequest"
  obtain res w' where run: "Transfer sample_lib 2 ?req rich_world = (Inr res, w')"
    using rich_transfer by blast
  then have serve: "serve_call sample_lib (TransferCall 2 ?req) rich_world = (Inr (), w')"
    by (simp add: bindE_def returnE_def)
  note session = call_is_a_session [where P = "\<lambda>_. True" and c = "TransferCall 2 ?req", OF _ serve]
  obtain u where u: "(interleave sample_lib (\<lambda>_. True))\<^sup>*\<^sup>* (rich_world, []) (u, [])" "committed u = committed w'"
    "row_locks u = row_locks w'"
    using session by auto
  obtain ids where ids: "row_locks w' = row_locks rich_world @ ids" "sorted_wrt (<) ids"
    "set ids = call_wallets (committed rich_world) (TransferCall 2 ?req)"
    using session by auto
  have "row_locks rich_world = []" by (simp add: rich_world_def sample_world_def)
  moreover have "set ids = set [''WLT-A'', ''WLT-B'']"
    using ids(3) by (simp add: rich_world_def wallet_of_user_def wallet_entry_def)
  then have "ids = [''WLT-A'', ''WLT-B'']"
    using strict_sorted_equal [OF ids(2), of "[''WLT-A'', ''WLT-B'']"] by simp
  ultimately show ?thesis using run u ids(1) by auto
qed

end
