(* ===== verification/Spec2Isabelle.thy ===== *)
theory Spec2Isabelle
  imports MoneyProperties BooksProperties AuthProperties ReadProperties LogProperties EventProperties
    HttpProperties SystemProperties SeedProperties WorkerProperties Startup ConcurrencyProperties
begin

text \<open>
  The wallet ledger service: a Go server (gin, PostgreSQL through sqlc and pgx, Redis, RabbitMQ) in
  which users register, top up a wallet and transfer money to each other, every movement posted to
  a double-entry ledger, with an audit log, notifications and an administrator's view.

  \<^bold>\<open>How the parts interact.\<close> \<open>cmd/server/main.go\<close> opens the connections, starts three workers and
  serves HTTP. A request passes the middleware (CORS, rate limit, authentication, audit,
  idempotency, role guard) to a handler, which validates it and calls a service. A service calls
  repositories, which run the queries of \<open>database/queries\<close> on the pool or in a transaction, and
  after its commit starts a goroutine that publishes an event. RabbitMQ puts the event in three
  queues; the audit worker writes the audit log, the notification worker stores and pushes
  notifications, the analytics worker logs.

  \<^bold>\<open>State and effects.\<close> A Go function is a function from a state to an error or a result, and the
  state after it (\<open>prog\<close> in \<open>Prelude\<close>; \<open>bindE\<close>, \<open>tryE\<close>, \<open>wrapE\<close> and \<open>deferE\<close> are the error check,
  the inspected call, \<open>fmt.Errorf\<close> with \<open>%w\<close> and \<open>defer\<close>). For everything a request touches the
  state is \<open>world\<close> (\<open>World\<close>): the committed database, the copy its open transaction works on,
  the goroutines started, what was published to Redis and its keys, and the history of the row
  locks (\<open>row_locks\<close>, which nothing reads: it makes the order of \<open>SELECT ... FOR UPDATE\<close> observable). An environment inside it says
  how the n-th interaction ends: it succeeds, it is refused, or it is carried out and its answer is
  lost; it also has the clock, the random source, fresh UUIDs and the order of a scan. So a theorem
  for every \<open>world\<close> covers every combination of failures. The channel to RabbitMQ has a state of
  its own (\<open>SafeChannel\<close> in \<open>Broker\<close>), whose environment also says which published frames get lost
  without an error, because the code asks for no confirms; and so have a worker's loop (\<open>loop\<close> in \<open>WorkerLoop\<close>) and the
  process that starts (\<open>boot\<close> in \<open>Startup\<close>). Money is a decimal in the code and an integer of
  hundredths in the database; \<open>int\<close> of Go is a 64-bit word, durations too.

  \<^bold>\<open>Theories and code.\<close>
  \<^item> \<open>Prelude\<close>, \<open>Numeric\<close>: effects, machine integers, rounding; \<open>decimalToNumeric\<close> and
    \<open>numericToDecimal\<close>.
  \<^item> \<open>Database\<close>, \<open>Queries\<close>, \<open>AuditQueries\<close>, \<open>Constraints\<close>: the tables of \<open>database/migrations\<close> with
    their constraints, one definition per query, and the integrity \<open>db_ok\<close> that each keeps.
  \<^item> \<open>Model\<close>, \<open>Pagination\<close>, \<open>IdGenerator\<close>, \<open>Configuration\<close>: \<open>internal/model\<close>, \<open>internal/dto\<close>,
    \<open>internal/utils/id_generator.go\<close>, \<open>internal/config/config.go\<close> with \<open>time.ParseDuration\<close>.
  \<^item> \<open>WalletRepository\<close>, \<open>TransactionRepository\<close>, \<open>LedgerRepository\<close>, \<open>UserRepository\<close>,
    \<open>AuditRepository\<close>: \<open>internal/repository\<close>.
  \<^item> \<open>TransactionService\<close>, \<open>AuthService\<close>, \<open>AccountServices\<close>: \<open>internal/service\<close>, with
    \<open>internal/utils/password.go\<close> and \<open>jwt.go\<close>. A transaction's statements are split at the row locks
    (\<open>topUp_rest\<close>, \<open>transfer_lock\<close>, \<open>transfer_rest\<close>), where requests interleave.
  \<^item> \<open>Broker\<close>, \<open>Events\<close>, \<open>Workers\<close>, \<open>WorkerLoop\<close>: \<open>internal/utils/rabbitmq.go\<close>,
    \<open>internal/config/rabbitmq.go\<close>, \<open>publishEvent\<close>, and \<open>internal/worker\<close>: decoding, processing,
    settling, and the loops that connect, consume, reconnect and stop.
  \<^item> \<open>Http\<close>, \<open>Handlers\<close>, \<open>Middleware\<close>, \<open>Router\<close>: \<open>internal/handler\<close>, \<open>internal/middleware\<close>,
    \<open>internal/utils/response.go\<close>, \<open>internal/dto/validator.go\<close>, and the routes of \<open>main.go\<close>.
  \<^item> \<open>Seed\<close>, \<open>Startup\<close>: \<open>cmd/seed/main.go\<close>, and start-up and shutdown (\<open>cmd/server/main.go\<close>,
    \<open>internal/config/database.go\<close>, \<open>redis.go\<close>).

  \<^bold>\<open>Proofs.\<close>
  \<^item> \<open>Effects\<close>, \<open>TransactionProofs\<close>, \<open>AuthProofs\<close>, \<open>Notices\<close>: what the statements of a transaction do
    to its working copy, and the outcomes of each operation in any environment (rejected, answer
    of the commit lost, completed). \<open>Integrity\<close>: every operation keeps \<open>db_ok\<close>.
    \<open>Totality\<close>: when nothing fails, the operations succeed. \<open>Causality\<close>: a run depends on the
    environment only up to its end, so a run that succeeds is also the beginning of those that
    fail later.
  \<^item> \<open>Books\<close>: the abstract machine \<open>change\<close>, whose steps are whole top-ups, transfers and
    registrations, and its invariants: double entry, balances covered by the entries, and equality
    of both as long as no amount ends in half a hundredth. \<open>Runs\<close>: the service refines it, call
    after call. \<open>System\<close>: so does the process, whatever requests and messages arrive.
    \<open>Concurrency\<close>: so do any number of top-ups, transfers and registrations that interleave at
    their row locks, none of which waits for ever; \<open>Schedules\<close>: the code is one of these sessions,
    with the same locks in the same order; \<open>LockOrder\<close>: that order ascends.
  \<^item> \<open>History\<close>: what is only ever appended. \<open>PagedServices\<close>: what the lists show, page by page.
    \<open>HttpProofs\<close>: who passes the middleware. \<open>Steady\<close>: when connecting succeeds.
  \<^item> The properties, each with a witness that applies it, are in the theories named
    \<open>...Properties\<close> and in \<open>Startup\<close>; \<open>Sample\<close> has the functions and states of the witnesses.

  \<^bold>\<open>Interfaces.\<close> \<open>step_order\<close> (a preorder every primitive step respects is respected by every
  function composed of them), \<open>finder\<close> (a lookup of one row), \<open>pager\<close> (a paginated query),
  \<open>recorder\<close> (a consumer that records before it acknowledges), \<open>served\<close> (a relation on worlds that
  all services respect is respected by the whole process) and \<open>ordered_locks\<close> (clients that take
  locks in ascending order). Each is a locale, interpreted on the code's own definitions in the
  theory that provides them.

  \<^bold>\<open>Parameters and their laws.\<close> Third-party code is the record \<open>lib\<close>: decimals (\<open>decimal_laws\<close>:
  exact sums and comparisons, text that scans back), UUID text, bcrypt (\<open>bcrypt_laws\<close>: a password
  matches its own hash), JWT (\<open>jwt_laws\<close>: what was signed parses with the same key until it
  expires), the JSON of times and decimals (\<open>event_laws\<close>); the record \<open>web\<close> has the texts of
  library errors and the validator's e-mail rule, \<open>viper\<close> the lookup of a setting and its reading as a truth value (\<open>viper_laws\<close>).
  \<open>Sample\<close> and the theories of the properties show that the laws can hold together.

  \<^bold>\<open>Bounds.\<close> Balances and amounts are \<open>NUMERIC(18,2)\<close>, so below \<open>10 ^ 18\<close> hundredths; texts have the
  lengths of their columns; offsets are computed in 64 bits and passed to the database in 32. No
  definition uses fuel: every loop of the code runs over a
  list of statements, rows, pages or events, and the workers' endless loops are functions of the
  sequence of events they receive.

  \<^bold>\<open>Not modelled.\<close> The mocks are generated test doubles. In \<open>Concurrency\<close> what a request does after
  its locks is one step: its statements touch the locked rows and rows of its own only, but a
  conflict of two uncommitted inserts with the same key shows as an error at the later commit and
  not as a wait. A goroutine that publishes runs at any later time (\<open>Events\<close>), but the channel's
  mutex makes each publication one step, and a frame that is written reaches the queues at once or
  never. Response bodies are JSON values and not bytes; the frames
  of the notification stream are a function of the messages that arrive. Logging has no effect
  here. A signal that arrives while the server starts, and the timeout of the shutdown, only
  choose among the outcomes \<open>Startup\<close> has. In \<open>ParseDuration\<close> the product with a fraction is
  exact, where the library multiplies in floating point.
\<close>

end
